(* ===== verification/Rust_Prelude.thy ===== *)
theory Rust_Prelude
  imports Main "HOL-Library.Word"
begin

text \<open>
  What every component shares: the machine integers of the Rust sources, Rust's
  \<open>Result\<close> as a sum, panics as values, raw pointers with the slices built from them, and
  the numeric sentinels of a 64-bit target.

  Conventions.  \<open>usize\<close> is \<^typ>\<open>nat\<close> with the bound written out where a conversion
  depends on it; \<open>i32\<close>, \<open>i64\<close> and \<open>isize\<close> are \<^typ>\<open>int\<close>; bytes and flag words
  are \<open>w word\<close>.  A Rust \<open>str\<close> is \<^typ>\<open>string\<close>, its UTF-8 bytes.  A raw pointer to
  memory is an option: \<open>None\<close> is the null pointer, \<open>Some mem\<close> points at the readable or
  writable bytes \<open>mem\<close>.
\<close>

section \<open>Integers\<close>

type_synonym u8 = "8 word"
type_synonym u16 = "16 word"
type_synonym u32 = "32 word"
type_synonym u64 = "64 word"
type_synonym i32 = int
type_synonym i64 = int
type_synonym isize = int
type_synonym usize = nat

definition USIZE_MAX :: usize where
  "USIZE_MAX = 2 ^ 64 - 1"

definition ISIZE_MAX :: int where
  "ISIZE_MAX = 2 ^ 63 - 1"

definition I64_MAX :: int where
  "I64_MAX = 2 ^ 63 - 1"

definition U32_MAX :: u32 where
  "U32_MAX = -1"

definition bool_i32 :: "bool \<Rightarrow> i32" where
  "bool_i32 b = (if b then 1 else 0)"

lemma bool_i32_simps [simp]:
  "bool_i32 True = 1" "bool_i32 False = 0"
  by (simp_all add: bool_i32_def)

lemma bool_i32_nonzero [simp]: "bool_i32 b \<noteq> 0 \<longleftrightarrow> b"
  by (simp add: bool_i32_def)

lemma bool_i32_inj [simp]: "bool_i32 a = bool_i32 b \<longleftrightarrow> a = b"
  by (simp add: bool_i32_def)

section \<open>Results and panics\<close>

text \<open>\<open>Result<T, E>\<close> is \<open>'e + 't\<close>: \<open>Inl\<close> is \<open>Err\<close> and \<open>Inr\<close> is \<open>Ok\<close>.\<close>

type_synonym ('t, 'e) result = "'e + 't"

abbreviation Err :: "'e \<Rightarrow> ('t, 'e) result" where "Err \<equiv> Inl"
abbreviation Ok :: "'t \<Rightarrow> ('t, 'e) result" where "Ok \<equiv> Inr"

text \<open>The \<open>?\<close> operator.\<close>

fun and_then :: "('a, 'e) result \<Rightarrow> ('a \<Rightarrow> ('b, 'e) result) \<Rightarrow> ('b, 'e) result" where
  "and_then (Inl e) f = Inl e"
| "and_then (Inr a) f = f a"

lemma and_then_Ok_iff: "and_then m f = Inr b \<longleftrightarrow> (\<exists>a. m = Inr a \<and> f a = Inr b)"
  by (cases m) auto

lemma and_then_split:
  "P (and_then m f) \<longleftrightarrow> (\<forall>e. m = Inl e \<longrightarrow> P (Inl e)) \<and> (\<forall>a. m = Inr a \<longrightarrow> P (f a))"
  by (cases m) auto

lemma and_then_assoc: "and_then (and_then m f) g = and_then m (\<lambda>a. and_then (f a) g)"
  by (cases m) auto

text \<open>\<open>collect::<Result<Vec<_>, _>>\<close>: the first error wins.\<close>

fun collect_results :: "('a, 'e) result list \<Rightarrow> ('a list, 'e) result" where
  "collect_results [] = Ok []"
| "collect_results (Inl e # rs) = Err e"
| "collect_results (Inr a # rs) =
     (case collect_results rs of Inl e \<Rightarrow> Err e | Inr as \<Rightarrow> Ok (a # as))"

lemma collect_results_map_Inr [simp]: "collect_results (map Inr xs) = Ok xs"
  by (induction xs) auto

lemma collect_results_Ok_iff: "collect_results rs = Ok xs \<longleftrightarrow> rs = map Inr xs"
proof
  show "collect_results rs = Ok xs \<Longrightarrow> rs = map Inr xs"
    by (induction rs arbitrary: xs rule: collect_results.induct) (auto split: sum.splits)
qed simp

lemma collect_results_map_Ok [simp]: "collect_results (map (\<lambda>x. Inr (f x)) xs) = Ok (map f xs)"
  by (induction xs) auto

lemma collect_results_map_cong:
  "(\<And>x. x \<in> set xs \<Longrightarrow> g x = Inr (f x)) \<Longrightarrow> collect_results (map g xs) = Ok (map f xs)"
  by (induction xs) auto

lemma collect_results_Err:
  "collect_results rs = Err e \<Longrightarrow> Inl e \<in> set rs"
  by (induction rs rule: collect_results.induct) (auto split: sum.splits)

text \<open>
  A closure run under \<open>catch_unwind\<close> either returns or panics.  \<open>Panicked\<close> is the
  caught unwinding; nothing else of the panic payload is used by the sources.
\<close>

datatype 'a outcome = Returned 'a | Panicked

primrec bind_outcome :: "'a outcome \<Rightarrow> ('a \<Rightarrow> 'b outcome) \<Rightarrow> 'b outcome" where
  "bind_outcome (Returned a) f = f a"
| "bind_outcome Panicked f = Panicked"

section \<open>Pointers, slices and output buffers\<close>

type_synonym 'a ptr = "'a list option"

text \<open>
  \<open>slice::from_raw_parts(p, n)\<close> is defined only where \<open>p\<close> points at \<open>n\<close> elements; that
  is the caller's side of every FFI contract and is stated by \<open>readable\<close>.
\<close>

definition readable :: "'a ptr \<Rightarrow> usize \<Rightarrow> bool" where
  "readable p n \<longleftrightarrow> (case p of None \<Rightarrow> True | Some mem \<Rightarrow> n \<le> length mem)"

text \<open>\<open>buffer[..n].copy_from_slice(xs)\<close> where \<open>xs\<close> has \<open>n\<close> elements.\<close>

definition write_prefix :: "'a list \<Rightarrow> 'a list \<Rightarrow> 'a list" where
  "write_prefix xs mem = xs @ drop (length xs) mem"

lemma length_write_prefix [simp]:
  "length xs \<le> length mem \<Longrightarrow> length (write_prefix xs mem) = length mem"
  by (simp add: write_prefix_def)

lemma take_write_prefix [simp]: "take (length xs) (write_prefix xs mem) = xs"
  by (simp add: write_prefix_def)

lemma take_write_prefix_le:
  "n \<le> length xs \<Longrightarrow> take n (write_prefix xs mem) = take n xs"
  by (simp add: write_prefix_def)

lemma drop_write_prefix [simp]: "drop (length xs) (write_prefix xs mem) = drop (length xs) mem"
  by (simp add: write_prefix_def)

lemma write_prefix_Nil [simp]: "write_prefix [] mem = mem"
  by (simp add: write_prefix_def)

lemma write_prefix_overwrite [simp]:
  "length ys = length xs \<Longrightarrow> write_prefix ys (write_prefix xs mem) = write_prefix ys mem"
  by (simp add: write_prefix_def)

section \<open>Proof collections\<close>

named_theorems ffi_simps "unfolding of the FFI entry points and their helpers"
named_theorems lifecycle_simps "unfolding of the client operations"
named_theorems dispatch_simps "unfolding of the dispatch to the providers of the application"

end
