(* ===== verification/Rust_Text.thy ===== *)
theory Rust_Text
  imports Rust_Prelude
begin

text \<open>
  The part of Rust's \<open>str\<close>, \<open>String\<close> and integer parsing that the sources use.  A
  string is the list of its UTF-8 bytes (\<^typ>\<open>char\<close> is a byte), so \<open>len()\<close> is
  \<^const>\<open>length\<close>; where the code works with Unicode characters (\<open>chars\<close>, \<open>trim\<close>)
  the bytes are first cut into characters by \<open>utf8_chunks\<close>.
\<close>

section \<open>UTF-8\<close>

abbreviation byte_val :: "char \<Rightarrow> nat" where
  "byte_val \<equiv> of_char"

definition safe_get :: "string \<Rightarrow> nat \<Rightarrow> nat" where
  "safe_get s i = (if i < length s then byte_val (s ! i) else 0)"

definition is_cont :: "nat \<Rightarrow> bool" where
  "is_cont b \<longleftrightarrow> 128 \<le> b \<and> b < 192"

definition second_of_three :: "nat \<Rightarrow> nat \<Rightarrow> bool" where
  "second_of_three b c \<longleftrightarrow>
     (b = 0xE0 \<and> 0xA0 \<le> c \<and> c \<le> 0xBF) \<or>
     (0xE1 \<le> b \<and> b \<le> 0xEC \<and> 0x80 \<le> c \<and> c \<le> 0xBF) \<or>
     (b = 0xED \<and> 0x80 \<le> c \<and> c \<le> 0x9F) \<or>
     (0xEE \<le> b \<and> b \<le> 0xEF \<and> 0x80 \<le> c \<and> c \<le> 0xBF)"

definition second_of_four :: "nat \<Rightarrow> nat \<Rightarrow> bool" where
  "second_of_four b c \<longleftrightarrow>
     (b = 0xF0 \<and> 0x90 \<le> c \<and> c \<le> 0xBF) \<or>
     (0xF1 \<le> b \<and> b \<le> 0xF3 \<and> 0x80 \<le> c \<and> c \<le> 0xBF) \<or>
     (b = 0xF4 \<and> 0x80 \<le> c \<and> c \<le> 0x8F)"

text \<open>
  How many bytes the scanner takes from the front, and whether they are one well-formed
  character; an ill-formed sequence stops before its first offending byte.
\<close>

definition utf8_scan :: "string \<Rightarrow> nat \<times> bool" where
  "utf8_scan s =
     (let b = safe_get s 0 in
      if b < 128 then (1, True)
      else if 0xC2 \<le> b \<and> b \<le> 0xDF then
        (if is_cont (safe_get s 1) then (2, True) else (1, False))
      else if 0xE0 \<le> b \<and> b \<le> 0xEF then
        (if second_of_three b (safe_get s 1)
         then (if is_cont (safe_get s 2) then (3, True) else (2, False))
         else (1, False))
      else if 0xF0 \<le> b \<and> b \<le> 0xF4 then
        (if second_of_four b (safe_get s 1)
         then (if is_cont (safe_get s 2)
               then (if is_cont (safe_get s 3) then (4, True) else (3, False))
               else (2, False))
         else (1, False))
      else (1, False))"

lemma utf8_scan_pos: "0 < fst (utf8_scan s)"
  by (simp add: utf8_scan_def Let_def)

function utf8_chunks :: "string \<Rightarrow> (string \<times> bool) list" where
  "utf8_chunks [] = []"
| "utf8_chunks (c # s) =
     (let (n, ok) = utf8_scan (c # s)
      in (take n (c # s), ok) # utf8_chunks (drop n (c # s)))"
  by pat_completeness auto
termination
proof (relation "measure length")
  fix c s x n ok
  assume "x = utf8_scan (c # s)" "(n, ok) = x"
  then have "0 < n" using utf8_scan_pos [of "c # s"] by (metis fst_conv)
  then show "(drop n (c # s), c # s) \<in> measure length" by (cases n) auto
qed simp

definition utf8_valid :: "string \<Rightarrow> bool" where
  "utf8_valid s \<longleftrightarrow> list_all snd (utf8_chunks s)"

text \<open>The replacement character U+FFFD.\<close>

definition replacement :: string where
  "replacement = [CHR 0xEF, CHR 0xBF, CHR 0xBD]"

definition from_utf8_lossy :: "string \<Rightarrow> string" where
  "from_utf8_lossy s = concat (map (\<lambda>(c, ok). if ok then c else replacement) (utf8_chunks s))"

definition chars :: "string \<Rightarrow> string list" where
  "chars s = map fst (utf8_chunks s)"

lemma safe_get_append:
  "i < length s \<Longrightarrow> safe_get (s @ t) i = safe_get s i"
  by (simp add: safe_get_def nth_append)

lemma safe_get_take: "i < n \<Longrightarrow> safe_get (take n s) i = safe_get s i"
  by (simp add: safe_get_def)

lemma safe_get_inside: "is_cont (safe_get s i) \<Longrightarrow> i < length s"
  by (auto simp: safe_get_def is_cont_def split: if_splits)

lemma second_of_three_inside: "second_of_three b (safe_get s i) \<Longrightarrow> i < length s"
  by (auto simp: safe_get_def second_of_three_def split: if_splits)

lemma second_of_four_inside: "second_of_four b (safe_get s i) \<Longrightarrow> i < length s"
  by (auto simp: safe_get_def second_of_four_def split: if_splits)

lemmas inside_simps = safe_get_inside second_of_three_inside second_of_four_inside

lemma utf8_scan_inside:
  assumes "utf8_scan s = (n, True)" "s \<noteq> []"
  shows "n \<le> length s"
  using assms
  by (auto simp: utf8_scan_def Let_def Suc_le_eq dest!: inside_simps split: if_splits)

lemma utf8_scan_local:
  assumes "utf8_scan s = (n, True)" and eq: "\<And>i. i < n \<Longrightarrow> safe_get t i = safe_get s i"
  shows "utf8_scan t = (n, True)"
proof -
  have "0 < n" using utf8_scan_pos [of s] assms(1) by simp
  then have 0: "safe_get t 0 = safe_get s 0" by (rule eq)
  have 1: "1 < n \<Longrightarrow> safe_get t 1 = safe_get s 1" by (rule eq)
  have 2: "2 < n \<Longrightarrow> safe_get t 2 = safe_get s 2" by (rule eq)
  have 3: "3 < n \<Longrightarrow> safe_get t 3 = safe_get s 3" by (rule eq)
  show ?thesis using assms(1) 0 1 2 3
    by (auto simp: utf8_scan_def Let_def split: if_splits)
qed

lemma utf8_chunks_prepend:
  assumes scan: "utf8_scan s = (n, True)" and "s \<noteq> []"
  shows "utf8_chunks (take n s @ t) = (take n s, True) # utf8_chunks t"
proof -
  from assms have n: "n \<le> length s" "0 < n"
    using utf8_scan_inside [of s n] utf8_scan_pos [of s] by auto
  then obtain c r where c: "take n s @ t = c # r" by (cases s; cases n) auto
  have "utf8_scan (c # r) = (n, True)"
    unfolding c [symmetric]
    by (rule utf8_scan_local [OF scan]) (use n in \<open>simp add: safe_get_append safe_get_take\<close>)
  moreover have "take n (c # r) = take n s" "drop n (c # r) = t"
    unfolding c [symmetric] using n by simp_all
  ultimately show ?thesis unfolding c by simp
qed

lemma utf8_chunks_replacement [simp]:
  "utf8_chunks (replacement @ t) = (replacement, True) # utf8_chunks t"
proof -
  have "utf8_scan replacement = (3, True)"
    by (simp add: utf8_scan_def replacement_def safe_get_def second_of_three_def is_cont_def)
  from utf8_chunks_prepend [OF this, of t] show ?thesis
    by (simp add: replacement_def)
qed

lemma concat_utf8_chunks [simp]: "concat (map fst (utf8_chunks s)) = s"
proof (induction s rule: utf8_chunks.induct)
  case (2 c s)
  obtain n ok where "utf8_scan (c # s) = (n, ok)" by fastforce
  with 2 show ?case by simp
qed simp

lemma concat_chars [simp]: "concat (chars s) = s"
  by (simp add: chars_def)

lemma from_utf8_lossy_valid: "utf8_valid s \<Longrightarrow> from_utf8_lossy s = s"
proof -
  assume "utf8_valid s"
  then have "from_utf8_lossy s = concat (map fst (utf8_chunks s))"
    unfolding from_utf8_lossy_def utf8_valid_def
    by (intro arg_cong [where f = concat] map_cong refl) (auto simp: list_all_iff)
  then show ?thesis by simp
qed

lemma from_utf8_lossy_Nil [simp]: "from_utf8_lossy [] = []"
  by (simp add: from_utf8_lossy_def)

lemma utf8_chunks_lossy:
  "utf8_chunks (from_utf8_lossy s) =
     map (\<lambda>(c, ok). (if ok then c else replacement, True)) (utf8_chunks s)"
proof (induction s rule: utf8_chunks.induct)
  case (2 c s)
  obtain n ok where sc: "utf8_scan (c # s) = (n, ok)" by fastforce
  let ?rest = "from_utf8_lossy (drop n (c # s))"
  have step: "utf8_chunks ((if ok then take n (c # s) else replacement) @ ?rest) =
      (if ok then take n (c # s) else replacement, True) # utf8_chunks ?rest"
    using utf8_chunks_prepend [of "c # s" n] sc by (cases ok) auto
  have "from_utf8_lossy (c # s) = (if ok then take n (c # s) else replacement) @ ?rest"
    using sc by (simp add: from_utf8_lossy_def)
  with step 2 sc show ?case by simp
qed (simp add: from_utf8_lossy_def)

text \<open>Lossy decoding always yields well-formed text, and decoding twice changes nothing.\<close>

lemma utf8_valid_lossy [simp]: "utf8_valid (from_utf8_lossy s)"
  by (auto simp: utf8_valid_def utf8_chunks_lossy list_all_iff)

lemma from_utf8_lossy_idem [simp]: "from_utf8_lossy (from_utf8_lossy s) = from_utf8_lossy s"
  by (rule from_utf8_lossy_valid) simp

definition is_ascii :: "string \<Rightarrow> bool" where
  "is_ascii s \<longleftrightarrow> list_all (\<lambda>c. byte_val c < 128) s"

lemma utf8_chunks_ascii: "is_ascii s \<Longrightarrow> utf8_chunks s = map (\<lambda>c. ([c], True)) s"
  by (induction s) (auto simp: is_ascii_def utf8_scan_def safe_get_def)

lemma utf8_valid_ascii: "is_ascii s \<Longrightarrow> utf8_valid s"
  by (simp add: utf8_valid_def utf8_chunks_ascii list_all_iff)

lemma chars_ascii: "is_ascii s \<Longrightarrow> chars s = map (\<lambda>c. [c]) s"
  by (simp add: chars_def utf8_chunks_ascii)

text \<open>Decimal digits of a number, as \<open>{}\<close> formats it.\<close>

fun decimal :: "nat \<Rightarrow> string" where
  "decimal n = (if n < 10 then [char_of (n + 48)] else decimal (n div 10) @ [char_of (n mod 10 + 48)])"

declare decimal.simps [simp del]

text \<open>
  \<open>str::from_utf8\<close>: the text itself, or the decoding error.  The error names the index of
  the first ill-formed sequence, and its length unless the input ends inside it.
\<close>

definition utf8_error_text :: "string \<Rightarrow> string" where
  "utf8_error_text s =
     (let good = takeWhile snd (utf8_chunks s);
          at = length (concat (map fst good));
          rest = drop at s;
          n = fst (utf8_scan rest);
          lead = safe_get rest 0
      in if n = length rest \<and> 0xC2 \<le> lead \<and> lead \<le> 0xF4
         then ''incomplete utf-8 byte sequence from index '' @ decimal at
         else ''invalid utf-8 sequence of '' @ decimal n @ '' bytes from index '' @ decimal at)"

definition from_utf8 :: "string \<Rightarrow> (string, string) result" where
  "from_utf8 s = (if utf8_valid s then Ok s else Err (utf8_error_text s))"

lemma from_utf8_Ok_iff: "from_utf8 s = Ok t \<longleftrightarrow> t = s \<and> utf8_valid s"
  by (auto simp: from_utf8_def)

section \<open>Splitting, trimming, replacing\<close>

text \<open>\<open>char::is_whitespace\<close>, on the UTF-8 encoding of one character.\<close>

definition is_whitespace :: "string \<Rightarrow> bool" where
  "is_whitespace c \<longleftrightarrow> c \<in> set (
     map (\<lambda>n. [char_of (n::nat)]) [9, 10, 11, 12, 13, 32] @
     [[CHR 0xC2, CHR 0x85], [CHR 0xC2, CHR 0xA0], [CHR 0xE1, CHR 0x9A, CHR 0x80],
      [CHR 0xE2, CHR 0x80, CHR 0xA8], [CHR 0xE2, CHR 0x80, CHR 0xA9],
      [CHR 0xE2, CHR 0x80, CHR 0xAF], [CHR 0xE2, CHR 0x81, CHR 0x9F],
      [CHR 0xE3, CHR 0x80, CHR 0x80]] @
     map (\<lambda>n. [CHR 0xE2, CHR 0x80, char_of (n::nat)]) [0x80..<0x8B])"

definition trim :: "string \<Rightarrow> string" where
  "trim s = concat (rev (dropWhile is_whitespace (rev (dropWhile is_whitespace (chars s)))))"

fun split_on :: "char \<Rightarrow> string \<Rightarrow> string list" where
  "split_on d [] = [[]]"
| "split_on d (c # cs) =
     (if c = d then [] # split_on d cs
      else (case split_on d cs of [] \<Rightarrow> [[c]] | w # ws \<Rightarrow> (c # w) # ws))"

fun join_with :: "string \<Rightarrow> string list \<Rightarrow> string" where
  "join_with sep [] = []"
| "join_with sep [w] = w"
| "join_with sep (w # ws) = w @ sep @ join_with sep ws"

lemma split_on_not_Nil [simp]: "split_on d s \<noteq> []"
  by (induction s) (auto split: list.splits)

lemma split_on_no_sep: "d \<notin> set w \<Longrightarrow> split_on d w = [w]"
  by (induction w) auto

lemma split_on_append_sep:
  "d \<notin> set w \<Longrightarrow> split_on d (w @ d # s) = w # split_on d s"
  by (induction w) auto

lemma split_on_pieces: "w \<in> set (split_on d s) \<Longrightarrow> d \<notin> set w"
  by (induction s arbitrary: w) (auto split: if_splits list.splits)

text \<open>Joining without a separator inside the pieces, then splitting, gives the pieces back.\<close>

lemma split_on_join:
  "ws \<noteq> [] \<Longrightarrow> \<forall>w\<in>set ws. d \<notin> set w \<Longrightarrow> split_on d (join_with [d] ws) = ws"
  by (induction "[d]" ws rule: join_with.induct) (auto simp: split_on_no_sep split_on_append_sep)

lemma set_join_with: "set (join_with sep ws) \<subseteq> set sep \<union> \<Union> (set ` set ws)"
  by (induction sep ws rule: join_with.induct) auto

lemma join_with_Cons_not_Nil: "ws \<noteq> [] \<Longrightarrow> join_with sep (w # ws) = w @ sep @ join_with sep ws"
  by (cases ws) auto

lemma join_with_Cons_char: "join_with sep ((c # w) # ws) = c # join_with sep (w # ws)"
  by (cases ws) auto

lemma join_split_on: "join_with [d] (split_on d s) = s"
proof (induction s)
  case (Cons c s)
  then show ?case
    by (cases "split_on d s") (auto simp: join_with_Cons_not_Nil join_with_Cons_char)
qed simp

text \<open>\<open>str::lines\<close>: pieces ended by a line feed, one carriage return before it dropped.\<close>

abbreviation newline :: char where "newline \<equiv> CHR 0x0A"

definition strip_cr :: "string \<Rightarrow> string" where
  "strip_cr w = (if w \<noteq> [] \<and> last w = CHR 0x0D then butlast w else w)"

definition str_lines :: "string \<Rightarrow> string list" where
  "str_lines s =
     (let ps = split_on newline s
      in map strip_cr (butlast ps) @ (if last ps = [] then [] else [last ps]))"

text \<open>Trimming and line ends.\<close>

lemma is_whitespace_byte:
  "is_whitespace [c] \<longleftrightarrow> c \<in> {CHR 0x09, CHR 0x0A, CHR 0x0B, CHR 0x0C, CHR 0x0D, CHR 0x20}"
proof -
  have bytes: "map char_of [9::nat, 10, 11, 12, 13, 32] = [CHR 0x09, CHR 0x0A, CHR 0x0B, CHR 0x0C, CHR 0x0D, CHR 0x20]"
    by code_simp
  have "is_whitespace [c] \<longleftrightarrow> c \<in> set (map char_of [9::nat, 10, 11, 12, 13, 32])"
    unfolding is_whitespace_def set_append set_map Un_iff image_iff by simp
  then show ?thesis unfolding bytes by simp
qed

lemma trim_first_kept:
  assumes "chars s = c # cs" "\<not> is_whitespace c"
  shows "\<exists>rest. trim s = c @ rest"
proof -
  have "\<exists>ys. dropWhile is_whitespace (xs @ [c]) = ys @ [c]" for xs
    using assms(2) by (induction xs) auto
  then obtain ys where "dropWhile is_whitespace (rev cs @ [c]) = ys @ [c]" by blast
  with assms show ?thesis by (simp add: trim_def)
qed

lemma trim_id:
  assumes "is_ascii s" "list_all (\<lambda>c. \<not> is_whitespace [c]) s"
  shows "trim s = s"
proof -
  have plain: "\<not> is_whitespace w" if "w \<in> set (chars s)" for w
    using assms that by (auto simp: chars_ascii list_all_iff)
  have "dropWhile is_whitespace (rev (chars s)) = rev (chars s)"
    by (cases "rev (chars s)") (use plain in \<open>auto simp: rev_eq_Cons_iff\<close>)
  moreover have "dropWhile is_whitespace (chars s) = chars s"
    by (cases "chars s") (use plain in auto)
  ultimately show ?thesis by (simp add: trim_def)
qed

lemma strip_cr_id: "CHR 0x0D \<notin> set w \<Longrightarrow> strip_cr w = w"
  by (auto simp: strip_cr_def) (metis last_in_set)

definition starts_with :: "string \<Rightarrow> string \<Rightarrow> bool" where
  "starts_with s p \<longleftrightarrow> take (length p) s = p"

definition ends_with :: "string \<Rightarrow> string \<Rightarrow> bool" where
  "ends_with s p \<longleftrightarrow> length p \<le> length s \<and> drop (length s - length p) s = p"

definition strip_prefix :: "string \<Rightarrow> string \<Rightarrow> string option" where
  "strip_prefix s p = (if starts_with s p then Some (drop (length p) s) else None)"

lemma starts_with_append [simp]: "starts_with (p @ s) p"
  by (simp add: starts_with_def)

lemma strip_prefix_append [simp]: "strip_prefix (p @ s) p = Some s"
  by (simp add: strip_prefix_def)

lemma strip_prefix_Some: "strip_prefix s p = Some r \<longleftrightarrow> s = p @ r"
  by (auto simp: strip_prefix_def starts_with_def split: if_splits)
     (metis append_take_drop_id)

text \<open>\<open>str::split\<close> on a non-empty string pattern, leftmost and without overlap.\<close>

function split_str_acc :: "string \<Rightarrow> string \<Rightarrow> string \<Rightarrow> string list" where
  "split_str_acc p acc [] = [rev acc]"
| "split_str_acc p acc (c # s) =
     (if p \<noteq> [] \<and> starts_with (c # s) p
      then rev acc # split_str_acc p [] (drop (length p) (c # s))
      else split_str_acc p (c # acc) s)"
  by pat_completeness auto
termination
  by (relation "measure (\<lambda>(p, acc, s). length s)") (auto simp: neq_Nil_conv)

definition split_str :: "string \<Rightarrow> string \<Rightarrow> string list" where
  "split_str p s = split_str_acc p [] s"

lemma split_str_acc_not_Nil [simp]: "split_str_acc p acc s \<noteq> []"
  by (induction p acc s rule: split_str_acc.induct) auto

lemma join_split_str_acc: "join_with p (split_str_acc p acc s) = rev acc @ s"
proof (induction p acc s rule: split_str_acc.induct)
  case (2 p acc c s)
  then show ?case
    by (auto simp: join_with_Cons_not_Nil starts_with_def simp del: drop.simps take.simps)
       (metis append_take_drop_id)
qed simp

text \<open>\<open>str::replace\<close> on a string pattern.\<close>

definition str_replace :: "string \<Rightarrow> string \<Rightarrow> string \<Rightarrow> string" where
  "str_replace p r s = join_with r (split_str p s)"

lemma str_replace_self: "str_replace p p s = s"
  by (simp add: str_replace_def split_str_def join_split_str_acc)

definition str_contains :: "string \<Rightarrow> string \<Rightarrow> bool" where
  "str_contains s p \<longleftrightarrow> list_ex (\<lambda>i. starts_with (drop i s) p) [0..<Suc (length s)]"

definition is_ascii_digit :: "char \<Rightarrow> bool" where
  "is_ascii_digit c \<longleftrightarrow> 48 \<le> byte_val c \<and> byte_val c \<le> 57"

definition is_ascii_alphanumeric :: "char \<Rightarrow> bool" where
  "is_ascii_alphanumeric c \<longleftrightarrow>
     is_ascii_digit c \<or> (65 \<le> byte_val c \<and> byte_val c \<le> 90) \<or> (97 \<le> byte_val c \<and> byte_val c \<le> 122)"

definition to_upper :: "char \<Rightarrow> char" where
  "to_upper c = (if 97 \<le> byte_val c \<and> byte_val c \<le> 122 then char_of (byte_val c - 32) else c)"

definition to_lower :: "char \<Rightarrow> char" where
  "to_lower c = (if 65 \<le> byte_val c \<and> byte_val c \<le> 90 then char_of (byte_val c + 32) else c)"

definition to_ascii_uppercase :: "string \<Rightarrow> string" where
  "to_ascii_uppercase s = map to_upper s"

definition to_ascii_lowercase :: "string \<Rightarrow> string" where
  "to_ascii_lowercase s = map to_lower s"

lemma str_contains_Nil: "str_contains [] p \<longleftrightarrow> p = []"
  by (auto simp: str_contains_def starts_with_def)

lemma str_contains_Cons: "str_contains (c # s) p \<longleftrightarrow> starts_with (c # s) p \<or> str_contains s p"
  by (simp add: str_contains_def upt_rec [of 0] map_Suc_upt [symmetric] list_ex_iff del: upt_Suc)

lemma starts_with_Cons: "starts_with (c # s) (d # p) \<longleftrightarrow> c = d \<and> starts_with s p" "starts_with s []"
  by (auto simp: starts_with_def)

section \<open>Integer parsing and formatting\<close>

datatype int_error = Empty | InvalidDigit | PosOverflow

fun int_error_text :: "int_error \<Rightarrow> string" where
  "int_error_text Empty = ''cannot parse integer from empty string''"
| "int_error_text InvalidDigit = ''invalid digit found in string''"
| "int_error_text PosOverflow = ''number too large to fit in target type''"

definition to_digit :: "nat \<Rightarrow> char \<Rightarrow> nat option" where
  "to_digit radix c =
     (let b = byte_val c;
          d = (if 48 \<le> b \<and> b \<le> 57 then b - 48
               else if 65 \<le> b \<and> b \<le> 90 then b - 55
               else if 97 \<le> b \<and> b \<le> 122 then b - 87
               else radix)
      in if d < radix then Some d else None)"

fun parse_digits :: "nat \<Rightarrow> nat \<Rightarrow> nat \<Rightarrow> string \<Rightarrow> (nat, int_error) result" where
  "parse_digits maxv radix acc [] = Ok acc"
| "parse_digits maxv radix acc (c # cs) =
     (case to_digit radix c of
        None \<Rightarrow> Err InvalidDigit
      | Some d \<Rightarrow>
          if maxv < acc * radix \<or> maxv < acc * radix + d then Err PosOverflow
          else parse_digits maxv radix (acc * radix + d) cs)"

text \<open>\<open>from_str_radix\<close> for the unsigned types: one leading plus sign is accepted.\<close>

definition parse_unsigned :: "nat \<Rightarrow> nat \<Rightarrow> string \<Rightarrow> (nat, int_error) result" where
  "parse_unsigned maxv radix s =
     (if s = [] then Err Empty
      else if s = ''+'' \<or> s = ''-'' then Err InvalidDigit
      else if hd s = CHR ''+'' then parse_digits maxv radix 0 (tl s)
      else parse_digits maxv radix 0 s)"

lemma parse_digits_bound:
  "acc \<le> maxv \<Longrightarrow> parse_digits maxv radix acc s = Ok n \<Longrightarrow> n \<le> maxv"
  by (induction maxv radix acc s rule: parse_digits.induct) (auto split: option.splits if_splits)

lemma parse_unsigned_bound: "parse_unsigned maxv radix s = Ok n \<Longrightarrow> n \<le> maxv"
  by (auto simp: parse_unsigned_def split: if_splits intro: parse_digits_bound [of 0])

definition hex_digit :: "nat \<Rightarrow> char" where
  "hex_digit d = (if d < 10 then char_of (d + 48) else char_of (d + 87))"

fun lower_hex :: "nat \<Rightarrow> string" where
  "lower_hex n = (if n < 16 then [hex_digit n] else lower_hex (n div 16) @ [hex_digit (n mod 16)])"

declare lower_hex.simps [simp del]

text \<open>The format \<open>{:02x}\<close>.\<close>

definition hex02 :: "nat \<Rightarrow> string" where
  "hex02 n = (if n < 16 then CHR ''0'' # lower_hex n else lower_hex n)"

lemma byte_val_hex_digit: "d < 16 \<Longrightarrow> byte_val (hex_digit d) = (if d < 10 then d + 48 else d + 87)"
  by (simp add: hex_digit_def)

lemma to_digit_hex_digit: "d < 16 \<Longrightarrow> to_digit 16 (hex_digit d) = Some d"
  by (simp add: to_digit_def byte_val_hex_digit Let_def)

lemma char_of_48 [simp]: "char_of (48 :: nat) = CHR ''0''"
  by (simp add: char_of_def bit_0)

lemma hex02_byte: "n < 256 \<Longrightarrow> hex02 n = [hex_digit (n div 16), hex_digit (n mod 16)]"
  by (auto simp: hex02_def lower_hex.simps [of n] lower_hex.simps [of "n div 16"] hex_digit_def)

text \<open>Printing a byte as two hexadecimal digits and parsing it gives the byte back.\<close>

lemma parse_hex02: "n < 256 \<Longrightarrow> parse_unsigned 255 16 (hex02 n) = Ok n"
proof -
  assume n: "n < 256"
  then have d: "n div 16 < 16" "n mod 16 < 16" by auto
  have plus: "hex_digit (n div 16) \<noteq> CHR ''+''"
    using byte_val_hex_digit [OF d(1)] by (auto split: if_splits)
  have "n div 16 * 16 + n mod 16 = n" by simp
  with n plus d show ?thesis
    by (simp add: parse_unsigned_def hex02_byte to_digit_hex_digit)
qed

end
