(* ===== verification/Api_Types.thy ===== *)
theory Api_Types
  imports Rust_Text
begin

text \<open>
  The public data of the safe API: the errors of \<open>error.rs\<close>, the structures of
  \<open>types.rs\<close> and the data structures of \<open>external_transport.rs\<close> and \<open>external_tun.rs\<close>.
  A Rust struct is a record whose fields carry a short prefix (\<open>cfg_content\<close> is
  \<open>Config::content\<close>), because Isabelle's field names are global.
\<close>

section \<open>Errors (\<open>error.rs\<close>)\<close>

datatype error =
    Core string string
  | InvalidState string
  | UnsupportedCapability string string
  | Initialization string
  | Runtime string
  | SessionClosed

text \<open>\<open>impl Display for Error\<close>, its match arms in order.\<close>

fun error_display :: "error \<Rightarrow> string" where
  "error_display (Core status message) =
     (if status = [] then message
      else if message = [] then status
      else status @ '': '' @ message)"
| "error_display (InvalidState message) = message"
| "error_display (UnsupportedCapability capability detail) =
     ''OpenVPN Core capability `'' @ capability @ ''` is unavailable: '' @ detail"
| "error_display (Initialization message) = message"
| "error_display (Runtime message) = message"
| "error_display SessionClosed = ''the OpenVPN session is closed''"

type_synonym 'a res = "('a, error) result"

section \<open>Data structures (\<open>types.rs\<close>)\<close>

datatype dns_security = SecUnset | SecNo | SecYes | SecOptional
datatype dns_transport = TransUnset | TransPlain | TransHttps | TransTls

record capabilities =
  cap_tun_builder :: "bool"
  cap_dco :: "bool"
  cap_dco_tun_builder :: "bool"
  cap_gremlin :: "bool"
  cap_external_tun :: "bool"
  cap_external_transport :: "bool"
  cap_private_tunnel_proxy :: "bool"

record config =
  cfg_content :: "string"
  cfg_content_list :: "(string \<times> string) list"
  cfg_peer_info :: "(string \<times> string) list"
  cfg_gui_version :: "string"
  cfg_sso_methods :: "string"
  cfg_app_custom_protocols :: "string"
  cfg_hw_addr_override :: "string"
  cfg_platform_version :: "string"
  cfg_server_override :: "string"
  cfg_port_override :: "string"
  cfg_proto_override :: "string"
  cfg_allow_unused_addr_families :: "string"
  cfg_compression_mode :: "string"
  cfg_external_pki_alias :: "string"
  cfg_private_key_password :: "string"
  cfg_tls_version_min_override :: "string"
  cfg_tls_cert_profile_override :: "string"
  cfg_tls_cipher_list :: "string"
  cfg_tls_ciphersuites_list :: "string"
  cfg_proxy_host :: "string"
  cfg_proxy_port :: "string"
  cfg_proxy_username :: "string"
  cfg_proxy_password :: "string"
  cfg_alternative_proxy :: "bool"
  cfg_gremlin_config :: "string"
  cfg_connection_timeout_seconds :: "i32"
  cfg_ssl_debug_level :: "i32"
  cfg_default_key_direction :: "i32"
  cfg_protocol_version_override :: "i32"
  cfg_clock_tick_ms :: "u32"
  cfg_tun_persist :: "bool"
  cfg_google_dns_fallback :: "bool"
  cfg_dhcp_search_domains_as_split_domains :: "bool"
  cfg_synchronous_dns_lookup :: "bool"
  cfg_autologin_sessions :: "bool"
  cfg_retry_on_auth_failed :: "bool"
  cfg_disable_client_cert :: "bool"
  cfg_proxy_allow_cleartext_auth :: "bool"
  cfg_dco :: "bool"
  cfg_echo :: "bool"
  cfg_info :: "bool"
  cfg_allow_local_lan_access :: "bool"
  cfg_enable_route_emulation :: "bool"
  cfg_wintun :: "bool"
  cfg_allow_local_dns_resolvers :: "bool"
  cfg_enable_legacy_algorithms :: "bool"
  cfg_enable_non_preferred_data_channel_algorithms :: "bool"
  cfg_generate_tun_builder_capture_event :: "bool"

record credentials =
  cred_username :: "string"
  cred_password :: "string"
  cred_http_proxy_username :: "string"
  cred_http_proxy_password :: "string"
  cred_response :: "string"
  cred_dynamic_challenge_cookie :: "string"

record server_entry =
  srv_server :: "string"
  srv_friendly_name :: "string"

record evaluation =
  eval_userlocked_username :: "string"
  eval_profile_name :: "string"
  eval_friendly_name :: "string"
  eval_autologin :: "bool"
  eval_external_pki :: "bool"
  eval_vpn_ca :: "string"
  eval_static_challenge :: "string"
  eval_static_challenge_echo :: "bool"
  eval_private_key_password_required :: "bool"
  eval_allow_password_save :: "bool"
  eval_remote_host :: "string"
  eval_remote_port :: "string"
  eval_remote_proto :: "string"
  eval_servers :: "server_entry list"
  eval_windows_driver :: "string"
  eval_dco_compatible :: "bool"
  eval_dco_incompatibility_reason :: "string"

record status =
  st_status :: "string"
  st_message :: "string"

record merged_config =
  mc_status :: "string"
  mc_error_text :: "string"
  mc_basename :: "string"
  mc_profile_content :: "string"
  mc_referenced_paths :: "string list"

record event =
  evt_error :: "bool"
  evt_fatal :: "bool"
  evt_name :: "string"
  evt_info :: "string"

record app_control_message =
  acm_protocol :: "string"
  acm_payload :: "string"

record remote_override =
  ro_host :: "string"
  ro_ip :: "string"
  ro_port :: "string"
  ro_protocol :: "string"

record dns_address =
  da_address :: "string"
  da_port :: "u32"

record dns_server =
  ds_priority :: "i32"
  ds_addresses :: "dns_address list"
  ds_resolve_domains :: "string list"
  ds_security :: "dns_security"
  ds_transport :: "dns_transport"
  ds_sni :: "string"

record dns_options =
  dns_from_dhcp_options :: "bool"
  dns_search_domains :: "string list"
  dns_servers :: "dns_server list"

record dco_peer =
  dp_peer_id :: "u32"
  dp_transport_fd :: "u32"
  dp_remote_ip :: "string"
  dp_remote_port :: "u16"
  dp_vpn_ipv4 :: "string"
  dp_vpn_ipv6 :: "string"

record dco_key_direction_t =
  dkd_cipher_key :: "u8 list"
  dkd_nonce_tail :: "u8 list"

record dco_key_config =
  dkc_encrypt :: "dco_key_direction_t"
  dkc_decrypt :: "dco_key_direction_t"
  dkc_key_id :: "i32"
  dkc_remote_peer_id :: "i32"
  dkc_cipher_algorithm :: "u32"

record external_pki_certificate_request =
  epcr_alias :: "string"

record external_pki_certificate_t =
  epc_certificate :: "string"
  epc_supporting_chain :: "string"

record external_pki_sign_request =
  epsr_alias :: "string"
  epsr_data :: "string"
  epsr_algorithm :: "string"
  epsr_hash_algorithm :: "string"
  epsr_salt_length :: "string"

record external_pki_error =
  epe_message :: "string"
  epe_invalid_alias :: "bool"

record dynamic_challenge =
  dc_challenge :: "string"
  dc_echo :: "bool"
  dc_response_required :: "bool"
  dc_state_id :: "string"

record connection_info_t =
  ci_user :: "string"
  ci_server_host :: "string"
  ci_server_port :: "string"
  ci_server_proto :: "string"
  ci_server_ip :: "string"
  ci_vpn_ip4 :: "string"
  ci_vpn_ip6 :: "string"
  ci_vpn_mtu :: "string"
  ci_gateway_ip4 :: "string"
  ci_gateway_ip6 :: "string"
  ci_client_ip :: "string"
  ci_tun_name :: "string"

record session_token_t =
  tok_username :: "string"
  tok_session_id :: "string"

record statistic =
  stat_name :: "string"
  stat_value :: "i64"

record interface_stats_t =
  ifs_bytes_in :: "i64"
  ifs_packets_in :: "i64"
  ifs_errors_in :: "i64"
  ifs_bytes_out :: "i64"
  ifs_packets_out :: "i64"
  ifs_errors_out :: "i64"

record transport_stats_t =
  trs_bytes_in :: "i64"
  trs_bytes_out :: "i64"
  trs_packets_in :: "i64"
  trs_packets_out :: "i64"
  trs_last_packet_received :: "i32"

section \<open>External transport and tunnel data\<close>

record external_remote =
  er_host :: "string"
  er_port :: "string"
  er_protocol :: "string"

record external_transport_config =
  etc_host :: "string"
  etc_port :: "string"
  etc_protocol :: "string"
  etc_gremlin_config :: "string"
  etc_remotes :: "external_remote list"
  etc_server_address_float :: "bool"
  etc_synchronous_dns_lookup :: "bool"

record external_transport_endpoint =
  ete_host :: "string"
  ete_port :: "string"
  ete_protocol :: "string"
  ete_ip_address :: "string"

record external_tun_config =
  tunc_session_name :: "string"
  tunc_layer :: "i32"
  tunc_mtu :: "i32"
  tunc_mtu_max :: "i32"
  tunc_google_dns_fallback :: "bool"
  tunc_dhcp_search_domains_as_split_domains :: "bool"
  tunc_allow_local_lan_access :: "bool"
  tunc_remote_bypass :: "bool"
  tunc_tun_persist :: "bool"

record external_tun_start_config =
  tsc_options :: "string"
  tsc_cipher_algorithm :: "u32"
  tsc_digest_algorithm :: "u32"
  tsc_key_derivation :: "u32"
  tsc_use_epoch_keys :: "bool"

record external_tun_info_t =
  tui_name :: "string"
  tui_vpn_ipv4 :: "string"
  tui_vpn_ipv6 :: "string"
  tui_gateway_ipv4 :: "string"
  tui_gateway_ipv6 :: "string"
  tui_mtu :: "i32"
  tui_interface_index :: "u32 option"

section \<open>Configuration\<close>

text \<open>
  \<open>Config::default\<close>.  The two compile-time tests are arguments: the target operating
  system and whether the \<open>dco\<close> Cargo feature is enabled.
\<close>

definition config_default :: "string \<Rightarrow> bool \<Rightarrow> config" where
  "config_default target_os feature_dco = \<lparr>
     cfg_content = [],
     cfg_content_list = [],
     cfg_peer_info = [],
     cfg_gui_version = [],
     cfg_sso_methods = [],
     cfg_app_custom_protocols = [],
     cfg_hw_addr_override = [],
     cfg_platform_version = [],
     cfg_server_override = [],
     cfg_port_override = [],
     cfg_proto_override = [],
     cfg_allow_unused_addr_families = [],
     cfg_compression_mode = [],
     cfg_external_pki_alias = [],
     cfg_private_key_password = [],
     cfg_tls_version_min_override = [],
     cfg_tls_cert_profile_override = [],
     cfg_tls_cipher_list = [],
     cfg_tls_ciphersuites_list = [],
     cfg_proxy_host = [],
     cfg_proxy_port = [],
     cfg_proxy_username = [],
     cfg_proxy_password = [],
     cfg_alternative_proxy = False,
     cfg_gremlin_config = [],
     cfg_connection_timeout_seconds = 0,
     cfg_ssl_debug_level = 0,
     cfg_default_key_direction = - 1,
     cfg_protocol_version_override = 0,
     cfg_clock_tick_ms = 0,
     cfg_tun_persist = False,
     cfg_google_dns_fallback = False,
     cfg_dhcp_search_domains_as_split_domains = target_os \<in> {''windows'', ''macos'', ''linux'', ''ios''},
     cfg_synchronous_dns_lookup = False,
     cfg_autologin_sessions = True,
     cfg_retry_on_auth_failed = False,
     cfg_disable_client_cert = False,
     cfg_proxy_allow_cleartext_auth = False,
     cfg_dco = feature_dco,
     cfg_echo = False,
     cfg_info = False,
     cfg_allow_local_lan_access = False,
     cfg_enable_route_emulation = True,
     cfg_wintun = False,
     cfg_allow_local_dns_resolvers = False,
     cfg_enable_legacy_algorithms = False,
     cfg_enable_non_preferred_data_channel_algorithms = False,
     cfg_generate_tun_builder_capture_event = False\<rparr>"

definition config_new :: "string \<Rightarrow> bool \<Rightarrow> string \<Rightarrow> config" where
  "config_new target_os feature_dco content = (config_default target_os feature_dco)\<lparr>cfg_content := content\<rparr>"

definition with_gui_version :: "config \<Rightarrow> string \<Rightarrow> config" where
  "with_gui_version c value = c\<lparr>cfg_gui_version := value\<rparr>"

definition with_server_override :: "config \<Rightarrow> string \<Rightarrow> config" where
  "with_server_override c value = c\<lparr>cfg_server_override := value\<rparr>"

definition with_port_override :: "config \<Rightarrow> string \<Rightarrow> config" where
  "with_port_override c value = c\<lparr>cfg_port_override := value\<rparr>"

definition with_protocol_override :: "config \<Rightarrow> string \<Rightarrow> config" where
  "with_protocol_override c value = c\<lparr>cfg_proto_override := value\<rparr>"

text \<open>\<open>Config::validate_capabilities\<close>, with the linked capabilities as an argument.\<close>

definition validate_capabilities :: "capabilities \<Rightarrow> config \<Rightarrow> unit res" where
  "validate_capabilities caps c =
     (if cfg_dco c \<and> \<not> cap_dco caps then
        Err (UnsupportedCapability ''dco''
          ''enable the `dco` Cargo feature on Linux or Windows and install the platform DCO dependencies'')
      else if cfg_gremlin_config c \<noteq> [] \<and> \<not> cap_gremlin caps then
        Err (UnsupportedCapability ''gremlin''
          ''rebuild OpenVPN Core from source with OPENVPN_GREMLIN'')
      else if cfg_alternative_proxy c \<and> \<not> cap_private_tunnel_proxy caps then
        Err (UnsupportedCapability ''private-tunnel-proxy''
          ''the proprietary Private Tunnel proxy implementation is not present in the open-source OpenVPN 3 source tree'')
      else Ok ())"

text \<open>Which optional capabilities a configuration asks for that the artifact lacks.\<close>

definition missing_capabilities :: "capabilities \<Rightarrow> config \<Rightarrow> string set" where
  "missing_capabilities caps c =
     {n. n = ''dco'' \<and> cfg_dco c \<and> \<not> cap_dco caps
       \<or> n = ''gremlin'' \<and> cfg_gremlin_config c \<noteq> [] \<and> \<not> cap_gremlin caps
       \<or> n = ''private-tunnel-proxy'' \<and> cfg_alternative_proxy c \<and> \<not> cap_private_tunnel_proxy caps}"

lemma validate_capabilities_Ok_iff:
  "validate_capabilities caps c = Ok () \<longleftrightarrow> missing_capabilities caps c = {}"
  by (auto simp: validate_capabilities_def missing_capabilities_def)

lemma validate_capabilities_Err:
  "validate_capabilities caps c = Err e \<Longrightarrow>
     \<exists>n d. e = UnsupportedCapability n d \<and> n \<in> missing_capabilities caps c"
  by (auto simp: validate_capabilities_def missing_capabilities_def split: if_splits)

definition credentials_new :: "string \<Rightarrow> string \<Rightarrow> credentials" where
  "credentials_new username password = \<lparr>
     cred_username = username, cred_password = password,
     cred_http_proxy_username = [], cred_http_proxy_password = [],
     cred_response = [], cred_dynamic_challenge_cookie = []\<rparr>"

definition external_pki_error_new :: "string \<Rightarrow> external_pki_error" where
  "external_pki_error_new message = \<lparr>epe_message = message, epe_invalid_alias = False\<rparr>"

definition external_transport_endpoint_default :: external_transport_endpoint where
  "external_transport_endpoint_default = \<lparr>
     ete_host = [], ete_port = [], ete_protocol = [], ete_ip_address = []\<rparr>"

definition external_tun_info_default :: external_tun_info_t where
  "external_tun_info_default = \<lparr>
     tui_name = [], tui_vpn_ipv4 = [], tui_vpn_ipv6 = [], tui_gateway_ipv4 = [],
     tui_gateway_ipv6 = [], tui_mtu = 0, tui_interface_index = None\<rparr>"

end
