(* ===== verification/Native_Data.thy ===== *)
theory Native_Data
  imports Api_Types
begin

text \<open>
  The C ABI structures that \<open>native.rs\<close> exchanges with the adapter, and the pure
  conversions between them and the public types.  The structures are generated from
  \<open>wrapper.h\<close> at build time; their records keep the C field names behind a prefix.
\<close>

section \<open>Strings at the boundary\<close>

record c_string =
  cs_data :: "char ptr"
  cs_len :: usize

type_synonym ovpn_string_view = c_string
type_synonym ovpn_owned_string = c_string

definition view :: "string \<Rightarrow> ovpn_string_view" where
  "view value = \<lparr>cs_data = Some value, cs_len = length value\<rparr>"

definition string_from_view :: "ovpn_string_view \<Rightarrow> string" where
  "string_from_view v =
     (case cs_data v of
        None \<Rightarrow> []
      | Some mem \<Rightarrow> if cs_len v = 0 then [] else from_utf8_lossy (take (cs_len v) mem))"

definition string_from_owned :: "ovpn_owned_string \<Rightarrow> string" where
  "string_from_owned v =
     (case cs_data v of
        None \<Rightarrow> []
      | Some mem \<Rightarrow> if cs_len v = 0 then [] else from_utf8_lossy (take (cs_len v) mem))"

definition slice_pointer :: "'a list \<Rightarrow> 'a ptr" where
  "slice_pointer values = (if values = [] then None else Some values)"

definition raw_view_slice :: "'a ptr \<Rightarrow> usize \<Rightarrow> 'a list" where
  "raw_view_slice data len =
     (case data of None \<Rightarrow> [] | Some mem \<Rightarrow> if len = 0 then [] else take len mem)"

lemma string_from_view_view: "utf8_valid s \<Longrightarrow> string_from_view (view s) = s"
  by (simp add: string_from_view_def view_def from_utf8_lossy_valid)

lemma utf8_valid_Nil [simp]: "utf8_valid []"
  by (simp add: utf8_valid_def)

lemma utf8_valid_string_from_view [simp]: "utf8_valid (string_from_view v)"
  by (simp add: string_from_view_def split: option.splits)

lemma utf8_valid_string_from_owned [simp]: "utf8_valid (string_from_owned v)"
  by (simp add: string_from_owned_def split: option.splits)

lemma raw_view_slice_slice_pointer [simp]:
  "raw_view_slice (slice_pointer xs) (length xs) = xs"
  by (simp add: raw_view_slice_def slice_pointer_def)

section \<open>Structures of the C ABI\<close>

record ovpn_key_value_view =
  kv_key :: "ovpn_string_view"
  kv_value :: "ovpn_string_view"

record ovpn_config =
  rc_content :: "ovpn_string_view"
  rc_content_list :: "ovpn_key_value_view ptr"
  rc_content_list_len :: "usize"
  rc_peer_info :: "ovpn_key_value_view ptr"
  rc_peer_info_len :: "usize"
  rc_gui_version :: "ovpn_string_view"
  rc_sso_methods :: "ovpn_string_view"
  rc_app_custom_protocols :: "ovpn_string_view"
  rc_hw_addr_override :: "ovpn_string_view"
  rc_platform_version :: "ovpn_string_view"
  rc_server_override :: "ovpn_string_view"
  rc_port_override :: "ovpn_string_view"
  rc_proto_override :: "ovpn_string_view"
  rc_allow_unused_addr_families :: "ovpn_string_view"
  rc_compression_mode :: "ovpn_string_view"
  rc_external_pki_alias :: "ovpn_string_view"
  rc_private_key_password :: "ovpn_string_view"
  rc_tls_version_min_override :: "ovpn_string_view"
  rc_tls_cert_profile_override :: "ovpn_string_view"
  rc_tls_cipher_list :: "ovpn_string_view"
  rc_tls_ciphersuites_list :: "ovpn_string_view"
  rc_proxy_host :: "ovpn_string_view"
  rc_proxy_port :: "ovpn_string_view"
  rc_proxy_username :: "ovpn_string_view"
  rc_proxy_password :: "ovpn_string_view"
  rc_gremlin_config :: "ovpn_string_view"
  rc_conn_timeout :: "i32"
  rc_ssl_debug_level :: "i32"
  rc_default_key_direction :: "i32"
  rc_proto_version_override :: "i32"
  rc_clock_tick_ms :: "u32"
  rc_tun_persist :: "i32"
  rc_google_dns_fallback :: "i32"
  rc_dhcp_search_domains_as_split_domains :: "i32"
  rc_synchronous_dns_lookup :: "i32"
  rc_autologin_sessions :: "i32"
  rc_retry_on_auth_failed :: "i32"
  rc_disable_client_cert :: "i32"
  rc_proxy_allow_cleartext_auth :: "i32"
  rc_alt_proxy :: "i32"
  rc_dco :: "i32"
  rc_echo :: "i32"
  rc_info :: "i32"
  rc_allow_local_lan_access :: "i32"
  rc_enable_route_emulation :: "i32"
  rc_wintun :: "i32"
  rc_allow_local_dns_resolvers :: "i32"
  rc_enable_legacy_algorithms :: "i32"
  rc_enable_non_preferred_dc_algorithms :: "i32"
  rc_generate_tun_builder_capture_event :: "i32"

record ovpn_status =
  rs_error :: "i32"
  rs_status :: "ovpn_owned_string"
  rs_message :: "ovpn_owned_string"

record ovpn_server_entry =
  rse_server :: "ovpn_owned_string"
  rse_friendly_name :: "ovpn_owned_string"

record ovpn_eval_config =
  re_error :: "i32"
  re_message :: "ovpn_owned_string"
  re_userlocked_username :: "ovpn_owned_string"
  re_profile_name :: "ovpn_owned_string"
  re_friendly_name :: "ovpn_owned_string"
  re_autologin :: "i32"
  re_external_pki :: "i32"
  re_vpn_ca :: "ovpn_owned_string"
  re_static_challenge :: "ovpn_owned_string"
  re_static_challenge_echo :: "i32"
  re_private_key_password_required :: "i32"
  re_allow_password_save :: "i32"
  re_remote_host :: "ovpn_owned_string"
  re_remote_port :: "ovpn_owned_string"
  re_remote_proto :: "ovpn_owned_string"
  re_server_list :: "ovpn_server_entry ptr"
  re_server_list_len :: "usize"
  re_windows_driver :: "ovpn_owned_string"
  re_dco_compatible :: "i32"
  re_dco_incompatibility_reason :: "ovpn_owned_string"

record ovpn_merge_config =
  rm_status :: "ovpn_owned_string"
  rm_error_text :: "ovpn_owned_string"
  rm_basename :: "ovpn_owned_string"
  rm_profile_content :: "ovpn_owned_string"
  rm_ref_path_list :: "ovpn_owned_string ptr"
  rm_ref_path_list_len :: "usize"

record ovpn_credentials =
  rcr_username :: "ovpn_string_view"
  rcr_password :: "ovpn_string_view"
  rcr_http_proxy_username :: "ovpn_string_view"
  rcr_http_proxy_password :: "ovpn_string_view"
  rcr_response :: "ovpn_string_view"
  rcr_dynamic_challenge_cookie :: "ovpn_string_view"

record ovpn_connection_info =
  rci_defined :: "i32"
  rci_user :: "ovpn_owned_string"
  rci_server_host :: "ovpn_owned_string"
  rci_server_port :: "ovpn_owned_string"
  rci_server_proto :: "ovpn_owned_string"
  rci_server_ip :: "ovpn_owned_string"
  rci_vpn_ip4 :: "ovpn_owned_string"
  rci_vpn_ip6 :: "ovpn_owned_string"
  rci_vpn_mtu :: "ovpn_owned_string"
  rci_gateway_ip4 :: "ovpn_owned_string"
  rci_gateway_ip6 :: "ovpn_owned_string"
  rci_client_ip :: "ovpn_owned_string"
  rci_tun_name :: "ovpn_owned_string"

record ovpn_session_token =
  rt_defined :: "i32"
  rt_username :: "ovpn_owned_string"
  rt_session_id :: "ovpn_owned_string"

record ovpn_i64_array =
  ra_data :: "i64 ptr"
  ra_len :: "usize"

record ovpn_interface_stats =
  ri_bytes_in :: "i64"
  ri_packets_in :: "i64"
  ri_errors_in :: "i64"
  ri_bytes_out :: "i64"
  ri_packets_out :: "i64"
  ri_errors_out :: "i64"

record ovpn_transport_stats =
  rts_bytes_in :: "i64"
  rts_bytes_out :: "i64"
  rts_packets_in :: "i64"
  rts_packets_out :: "i64"
  rts_last_packet_received :: "i32"

record ovpn_capabilities =
  rcap_tun_builder :: "i32"
  rcap_dco :: "i32"
  rcap_dco_tun_builder :: "i32"
  rcap_gremlin :: "i32"
  rcap_external_tun :: "i32"
  rcap_external_transport :: "i32"
  rcap_private_tunnel_proxy :: "i32"

record ovpn_dynamic_challenge =
  rdc_defined :: "i32"
  rdc_challenge :: "ovpn_owned_string"
  rdc_echo :: "i32"
  rdc_response_required :: "i32"
  rdc_state_id :: "ovpn_owned_string"

record ovpn_dns_address_view =
  rda_address :: "ovpn_string_view"
  rda_port :: "u32"

record ovpn_dns_server_view =
  rds_priority :: "i32"
  rds_addresses :: "ovpn_dns_address_view ptr"
  rds_addresses_len :: "usize"
  rds_domains :: "ovpn_string_view ptr"
  rds_domains_len :: "usize"
  rds_dnssec :: "i32"
  rds_transport :: "i32"
  rds_sni :: "ovpn_string_view"

record ovpn_dns_options_view =
  rdo_from_dhcp_options :: "i32"
  rdo_search_domains :: "ovpn_string_view ptr"
  rdo_search_domains_len :: "usize"
  rdo_servers :: "ovpn_dns_server_view ptr"
  rdo_servers_len :: "usize"

record ovpn_dco_peer_view =
  rdp_peer_id :: "u32"
  rdp_transport_fd :: "u32"
  rdp_remote_ip :: "ovpn_string_view"
  rdp_remote_port :: "u16"
  rdp_vpn_ipv4 :: "ovpn_string_view"
  rdp_vpn_ipv6 :: "ovpn_string_view"

record ovpn_dco_key_direction_view =
  rdk_cipher_key :: "u8 ptr"
  rdk_cipher_key_len :: "usize"
  rdk_nonce_tail :: "u8 ptr"
  rdk_nonce_tail_len :: "usize"

record ovpn_dco_key_config_view =
  rkc_encrypt :: "ovpn_dco_key_direction_view"
  rkc_decrypt :: "ovpn_dco_key_direction_view"
  rkc_key_id :: "i32"
  rkc_remote_peer_id :: "i32"
  rkc_cipher_algorithm :: "u32"

section \<open>\<open>RawConfig::new\<close>\<close>

definition key_value_view :: "string \<times> string \<Rightarrow> ovpn_key_value_view" where
  "key_value_view kv = \<lparr>kv_key = view (fst kv), kv_value = view (snd kv)\<rparr>"

definition raw_config_new :: "config \<Rightarrow> ovpn_config" where
  "raw_config_new c =
     (let content_list = map key_value_view (cfg_content_list c);
          peer_info = map key_value_view (cfg_peer_info c)
      in \<lparr>
     rc_content = view (cfg_content c),
     rc_content_list = slice_pointer content_list,
     rc_content_list_len = length content_list,
     rc_peer_info = slice_pointer peer_info,
     rc_peer_info_len = length peer_info,
     rc_gui_version = view (cfg_gui_version c),
     rc_sso_methods = view (cfg_sso_methods c),
     rc_app_custom_protocols = view (cfg_app_custom_protocols c),
     rc_hw_addr_override = view (cfg_hw_addr_override c),
     rc_platform_version = view (cfg_platform_version c),
     rc_server_override = view (cfg_server_override c),
     rc_port_override = view (cfg_port_override c),
     rc_proto_override = view (cfg_proto_override c),
     rc_allow_unused_addr_families = view (cfg_allow_unused_addr_families c),
     rc_compression_mode = view (cfg_compression_mode c),
     rc_external_pki_alias = view (cfg_external_pki_alias c),
     rc_private_key_password = view (cfg_private_key_password c),
     rc_tls_version_min_override = view (cfg_tls_version_min_override c),
     rc_tls_cert_profile_override = view (cfg_tls_cert_profile_override c),
     rc_tls_cipher_list = view (cfg_tls_cipher_list c),
     rc_tls_ciphersuites_list = view (cfg_tls_ciphersuites_list c),
     rc_proxy_host = view (cfg_proxy_host c),
     rc_proxy_port = view (cfg_proxy_port c),
     rc_proxy_username = view (cfg_proxy_username c),
     rc_proxy_password = view (cfg_proxy_password c),
     rc_gremlin_config = view (cfg_gremlin_config c),
     rc_conn_timeout = cfg_connection_timeout_seconds c,
     rc_ssl_debug_level = cfg_ssl_debug_level c,
     rc_default_key_direction = cfg_default_key_direction c,
     rc_proto_version_override = cfg_protocol_version_override c,
     rc_clock_tick_ms = cfg_clock_tick_ms c,
     rc_tun_persist = bool_i32 (cfg_tun_persist c),
     rc_google_dns_fallback = bool_i32 (cfg_google_dns_fallback c),
     rc_dhcp_search_domains_as_split_domains = bool_i32 (cfg_dhcp_search_domains_as_split_domains c),
     rc_synchronous_dns_lookup = bool_i32 (cfg_synchronous_dns_lookup c),
     rc_autologin_sessions = bool_i32 (cfg_autologin_sessions c),
     rc_retry_on_auth_failed = bool_i32 (cfg_retry_on_auth_failed c),
     rc_disable_client_cert = bool_i32 (cfg_disable_client_cert c),
     rc_proxy_allow_cleartext_auth = bool_i32 (cfg_proxy_allow_cleartext_auth c),
     rc_alt_proxy = bool_i32 (cfg_alternative_proxy c),
     rc_dco = bool_i32 (cfg_dco c),
     rc_echo = bool_i32 (cfg_echo c),
     rc_info = bool_i32 (cfg_info c),
     rc_allow_local_lan_access = bool_i32 (cfg_allow_local_lan_access c),
     rc_enable_route_emulation = bool_i32 (cfg_enable_route_emulation c),
     rc_wintun = bool_i32 (cfg_wintun c),
     rc_allow_local_dns_resolvers = bool_i32 (cfg_allow_local_dns_resolvers c),
     rc_enable_legacy_algorithms = bool_i32 (cfg_enable_legacy_algorithms c),
     rc_enable_non_preferred_dc_algorithms = bool_i32 (cfg_enable_non_preferred_data_channel_algorithms c),
     rc_generate_tun_builder_capture_event = bool_i32 (cfg_generate_tun_builder_capture_event c)\<rparr>)"

text \<open>
  What a reader of the C structure sees, field by field: the specification of
  \<open>raw_config_new\<close>.
\<close>

definition key_value_of :: "ovpn_key_value_view \<Rightarrow> string \<times> string" where
  "key_value_of kv = (string_from_view (kv_key kv), string_from_view (kv_value kv))"

definition config_of_raw :: "ovpn_config \<Rightarrow> config" where
  "config_of_raw r = \<lparr>
     cfg_content = string_from_view (rc_content r),
     cfg_content_list = map key_value_of (raw_view_slice (rc_content_list r) (rc_content_list_len r)),
     cfg_peer_info = map key_value_of (raw_view_slice (rc_peer_info r) (rc_peer_info_len r)),
     cfg_gui_version = string_from_view (rc_gui_version r),
     cfg_sso_methods = string_from_view (rc_sso_methods r),
     cfg_app_custom_protocols = string_from_view (rc_app_custom_protocols r),
     cfg_hw_addr_override = string_from_view (rc_hw_addr_override r),
     cfg_platform_version = string_from_view (rc_platform_version r),
     cfg_server_override = string_from_view (rc_server_override r),
     cfg_port_override = string_from_view (rc_port_override r),
     cfg_proto_override = string_from_view (rc_proto_override r),
     cfg_allow_unused_addr_families = string_from_view (rc_allow_unused_addr_families r),
     cfg_compression_mode = string_from_view (rc_compression_mode r),
     cfg_external_pki_alias = string_from_view (rc_external_pki_alias r),
     cfg_private_key_password = string_from_view (rc_private_key_password r),
     cfg_tls_version_min_override = string_from_view (rc_tls_version_min_override r),
     cfg_tls_cert_profile_override = string_from_view (rc_tls_cert_profile_override r),
     cfg_tls_cipher_list = string_from_view (rc_tls_cipher_list r),
     cfg_tls_ciphersuites_list = string_from_view (rc_tls_ciphersuites_list r),
     cfg_proxy_host = string_from_view (rc_proxy_host r),
     cfg_proxy_port = string_from_view (rc_proxy_port r),
     cfg_proxy_username = string_from_view (rc_proxy_username r),
     cfg_proxy_password = string_from_view (rc_proxy_password r),
     cfg_alternative_proxy = (rc_alt_proxy r \<noteq> 0),
     cfg_gremlin_config = string_from_view (rc_gremlin_config r),
     cfg_connection_timeout_seconds = rc_conn_timeout r,
     cfg_ssl_debug_level = rc_ssl_debug_level r,
     cfg_default_key_direction = rc_default_key_direction r,
     cfg_protocol_version_override = rc_proto_version_override r,
     cfg_clock_tick_ms = rc_clock_tick_ms r,
     cfg_tun_persist = (rc_tun_persist r \<noteq> 0),
     cfg_google_dns_fallback = (rc_google_dns_fallback r \<noteq> 0),
     cfg_dhcp_search_domains_as_split_domains = (rc_dhcp_search_domains_as_split_domains r \<noteq> 0),
     cfg_synchronous_dns_lookup = (rc_synchronous_dns_lookup r \<noteq> 0),
     cfg_autologin_sessions = (rc_autologin_sessions r \<noteq> 0),
     cfg_retry_on_auth_failed = (rc_retry_on_auth_failed r \<noteq> 0),
     cfg_disable_client_cert = (rc_disable_client_cert r \<noteq> 0),
     cfg_proxy_allow_cleartext_auth = (rc_proxy_allow_cleartext_auth r \<noteq> 0),
     cfg_dco = (rc_dco r \<noteq> 0),
     cfg_echo = (rc_echo r \<noteq> 0),
     cfg_info = (rc_info r \<noteq> 0),
     cfg_allow_local_lan_access = (rc_allow_local_lan_access r \<noteq> 0),
     cfg_enable_route_emulation = (rc_enable_route_emulation r \<noteq> 0),
     cfg_wintun = (rc_wintun r \<noteq> 0),
     cfg_allow_local_dns_resolvers = (rc_allow_local_dns_resolvers r \<noteq> 0),
     cfg_enable_legacy_algorithms = (rc_enable_legacy_algorithms r \<noteq> 0),
     cfg_enable_non_preferred_data_channel_algorithms = (rc_enable_non_preferred_dc_algorithms r \<noteq> 0),
     cfg_generate_tun_builder_capture_event = (rc_generate_tun_builder_capture_event r \<noteq> 0)\<rparr>"

text \<open>Every \<open>String\<close> of a configuration is UTF-8, as Rust's type guarantees.\<close>

definition config_utf8 :: "config \<Rightarrow> bool" where
  "config_utf8 c \<longleftrightarrow>
     list_all utf8_valid [cfg_content c, cfg_gui_version c, cfg_sso_methods c, cfg_app_custom_protocols c, cfg_hw_addr_override c, cfg_platform_version c, cfg_server_override c, cfg_port_override c, cfg_proto_override c, cfg_allow_unused_addr_families c, cfg_compression_mode c, cfg_external_pki_alias c, cfg_private_key_password c, cfg_tls_version_min_override c, cfg_tls_cert_profile_override c, cfg_tls_cipher_list c, cfg_tls_ciphersuites_list c, cfg_proxy_host c, cfg_proxy_port c, cfg_proxy_username c, cfg_proxy_password c, cfg_gremlin_config c] \<and>
     list_all (\<lambda>kv. utf8_valid (fst kv) \<and> utf8_valid (snd kv)) (cfg_content_list c @ cfg_peer_info c)"

lemma key_value_of_view:
  "utf8_valid (fst kv) \<Longrightarrow> utf8_valid (snd kv) \<Longrightarrow> key_value_of (key_value_view kv) = kv"
  by (simp add: key_value_of_def key_value_view_def string_from_view_view)

lemma key_values_of_view:
  "list_all (\<lambda>kv. utf8_valid (fst kv) \<and> utf8_valid (snd kv)) kvs \<Longrightarrow>
     map key_value_of (raw_view_slice (slice_pointer (map key_value_view kvs)) (length kvs)) = kvs"
  using raw_view_slice_slice_pointer [of "map key_value_view kvs"]
  by (simp add: list_all_iff key_value_of_view map_idI)

section \<open>Results of native calls\<close>

definition server_entries :: "ovpn_eval_config \<Rightarrow> server_entry list" where
  "server_entries raw =
     (case re_server_list raw of
        None \<Rightarrow> []
      | Some mem \<Rightarrow> map (\<lambda>server. \<lparr>srv_server = string_from_owned (rse_server server),
                          srv_friendly_name = string_from_owned (rse_friendly_name server)\<rparr>)
                    (take (re_server_list_len raw) mem))"

text \<open>The aggregate conversion of \<open>evaluation_result\<close>.\<close>

definition evaluation_of :: "ovpn_eval_config \<Rightarrow> evaluation" where
  "evaluation_of raw = \<lparr>
     eval_userlocked_username = string_from_owned (re_userlocked_username raw),
     eval_profile_name = string_from_owned (re_profile_name raw),
     eval_friendly_name = string_from_owned (re_friendly_name raw),
     eval_autologin = (re_autologin raw \<noteq> 0),
     eval_external_pki = (re_external_pki raw \<noteq> 0),
     eval_vpn_ca = string_from_owned (re_vpn_ca raw),
     eval_static_challenge = string_from_owned (re_static_challenge raw),
     eval_static_challenge_echo = (re_static_challenge_echo raw \<noteq> 0),
     eval_private_key_password_required = (re_private_key_password_required raw \<noteq> 0),
     eval_allow_password_save = (re_allow_password_save raw \<noteq> 0),
     eval_remote_host = string_from_owned (re_remote_host raw),
     eval_remote_port = string_from_owned (re_remote_port raw),
     eval_remote_proto = string_from_owned (re_remote_proto raw),
     eval_servers = server_entries raw,
     eval_windows_driver = string_from_owned (re_windows_driver raw),
     eval_dco_compatible = (re_dco_compatible raw \<noteq> 0),
     eval_dco_incompatibility_reason = string_from_owned (re_dco_incompatibility_reason raw)\<rparr>"

definition evaluation_value :: "ovpn_eval_config \<Rightarrow> evaluation res" where
  "evaluation_value raw =
     (if re_error raw \<noteq> 0 then Err (Core ''CONFIG_ERROR'' (string_from_owned (re_message raw)))
      else Ok (evaluation_of raw))"

text \<open>The second copy of the same conversion, written out inside \<open>native::evaluate\<close>.\<close>

definition evaluate_value :: "ovpn_eval_config \<Rightarrow> evaluation res" where
  "evaluate_value raw =
     (if re_error raw \<noteq> 0 then Err (Core ''CONFIG_ERROR'' (string_from_owned (re_message raw)))
      else Ok \<lparr>
     eval_userlocked_username = string_from_owned (re_userlocked_username raw),
     eval_profile_name = string_from_owned (re_profile_name raw),
     eval_friendly_name = string_from_owned (re_friendly_name raw),
     eval_autologin = (re_autologin raw \<noteq> 0),
     eval_external_pki = (re_external_pki raw \<noteq> 0),
     eval_vpn_ca = string_from_owned (re_vpn_ca raw),
     eval_static_challenge = string_from_owned (re_static_challenge raw),
     eval_static_challenge_echo = (re_static_challenge_echo raw \<noteq> 0),
     eval_private_key_password_required = (re_private_key_password_required raw \<noteq> 0),
     eval_allow_password_save = (re_allow_password_save raw \<noteq> 0),
     eval_remote_host = string_from_owned (re_remote_host raw),
     eval_remote_port = string_from_owned (re_remote_port raw),
     eval_remote_proto = string_from_owned (re_remote_proto raw),
     eval_servers = (case re_server_list raw of
          None \<Rightarrow> []
        | Some mem \<Rightarrow> map (\<lambda>server. \<lparr>srv_server = string_from_owned (rse_server server),
                            srv_friendly_name = string_from_owned (rse_friendly_name server)\<rparr>)
                      (take (re_server_list_len raw) mem)),
     eval_windows_driver = string_from_owned (re_windows_driver raw),
     eval_dco_compatible = (re_dco_compatible raw \<noteq> 0),
     eval_dco_incompatibility_reason = string_from_owned (re_dco_incompatibility_reason raw)\<rparr>)"

lemma evaluate_value_eq: "evaluate_value raw = evaluation_value raw"
  by (simp add: evaluate_value_def evaluation_value_def evaluation_of_def server_entries_def)

definition status_error :: "ovpn_status \<Rightarrow> error" where
  "status_error raw = Core (string_from_owned (rs_status raw)) (string_from_owned (rs_message raw))"

definition status_value :: "ovpn_status \<Rightarrow> status res" where
  "status_value raw =
     (if rs_error raw \<noteq> 0 then Err (status_error raw)
      else Ok \<lparr>st_status = string_from_owned (rs_status raw), st_message = string_from_owned (rs_message raw)\<rparr>)"

definition merged_config_of :: "ovpn_merge_config \<Rightarrow> merged_config" where
  "merged_config_of raw = \<lparr>
     mc_status = string_from_owned (rm_status raw),
     mc_error_text = string_from_owned (rm_error_text raw),
     mc_basename = string_from_owned (rm_basename raw),
     mc_profile_content = string_from_owned (rm_profile_content raw),
     mc_referenced_paths =
       (case rm_ref_path_list raw of
          None \<Rightarrow> []
        | Some mem \<Rightarrow> map string_from_owned (take (rm_ref_path_list_len raw) mem))\<rparr>"

definition raw_credentials_of :: "credentials \<Rightarrow> ovpn_credentials" where
  "raw_credentials_of c = \<lparr>
     rcr_username = view (cred_username c),
     rcr_password = view (cred_password c),
     rcr_http_proxy_username = view (cred_http_proxy_username c),
     rcr_http_proxy_password = view (cred_http_proxy_password c),
     rcr_response = view (cred_response c),
     rcr_dynamic_challenge_cookie = view (cred_dynamic_challenge_cookie c)\<rparr>"

definition connection_info_of :: "ovpn_connection_info \<Rightarrow> connection_info_t option" where
  "connection_info_of raw =
     (if rci_defined raw \<noteq> 0 then Some \<lparr>
     ci_user = string_from_owned (rci_user raw),
     ci_server_host = string_from_owned (rci_server_host raw),
     ci_server_port = string_from_owned (rci_server_port raw),
     ci_server_proto = string_from_owned (rci_server_proto raw),
     ci_server_ip = string_from_owned (rci_server_ip raw),
     ci_vpn_ip4 = string_from_owned (rci_vpn_ip4 raw),
     ci_vpn_ip6 = string_from_owned (rci_vpn_ip6 raw),
     ci_vpn_mtu = string_from_owned (rci_vpn_mtu raw),
     ci_gateway_ip4 = string_from_owned (rci_gateway_ip4 raw),
     ci_gateway_ip6 = string_from_owned (rci_gateway_ip6 raw),
     ci_client_ip = string_from_owned (rci_client_ip raw),
     ci_tun_name = string_from_owned (rci_tun_name raw)\<rparr> else None)"

definition session_token_of :: "ovpn_session_token \<Rightarrow> session_token_t option" where
  "session_token_of raw =
     (if rt_defined raw \<noteq> 0 then Some \<lparr>
     tok_username = string_from_owned (rt_username raw),
     tok_session_id = string_from_owned (rt_session_id raw)\<rparr> else None)"

definition dynamic_challenge_of :: "ovpn_dynamic_challenge \<Rightarrow> dynamic_challenge option" where
  "dynamic_challenge_of raw =
     (if rdc_defined raw \<noteq> 0 then Some \<lparr>
     dc_challenge = string_from_owned (rdc_challenge raw),
     dc_echo = (rdc_echo raw \<noteq> 0),
     dc_response_required = (rdc_response_required raw \<noteq> 0),
     dc_state_id = string_from_owned (rdc_state_id raw)\<rparr> else None)"

definition interface_stats_of :: "ovpn_interface_stats \<Rightarrow> interface_stats_t" where
  "interface_stats_of raw = \<lparr>
     ifs_bytes_in = ri_bytes_in raw,
     ifs_packets_in = ri_packets_in raw,
     ifs_errors_in = ri_errors_in raw,
     ifs_bytes_out = ri_bytes_out raw,
     ifs_packets_out = ri_packets_out raw,
     ifs_errors_out = ri_errors_out raw\<rparr>"

definition transport_stats_of :: "ovpn_transport_stats \<Rightarrow> transport_stats_t" where
  "transport_stats_of raw = \<lparr>
     trs_bytes_in = rts_bytes_in raw,
     trs_bytes_out = rts_bytes_out raw,
     trs_packets_in = rts_packets_in raw,
     trs_packets_out = rts_packets_out raw,
     trs_last_packet_received = rts_last_packet_received raw\<rparr>"

definition capabilities_of :: "ovpn_capabilities \<Rightarrow> capabilities" where
  "capabilities_of raw = \<lparr>
     cap_tun_builder = (rcap_tun_builder raw \<noteq> 0),
     cap_dco = (rcap_dco raw \<noteq> 0),
     cap_dco_tun_builder = (rcap_dco_tun_builder raw \<noteq> 0),
     cap_gremlin = (rcap_gremlin raw \<noteq> 0),
     cap_external_tun = (rcap_external_tun raw \<noteq> 0),
     cap_external_transport = (rcap_external_transport raw \<noteq> 0),
     cap_private_tunnel_proxy = (rcap_private_tunnel_proxy raw \<noteq> 0)\<rparr>"

section \<open>DNS and DCO views\<close>

definition dns_security_of :: "i32 \<Rightarrow> dns_security" where
  "dns_security_of n =
     (if n = 1 then SecNo else if n = 2 then SecYes else if n = 3 then SecOptional else SecUnset)"

definition dns_transport_of :: "i32 \<Rightarrow> dns_transport" where
  "dns_transport_of n =
     (if n = 1 then TransPlain else if n = 2 then TransHttps else if n = 3 then TransTls else TransUnset)"

definition dns_address_of :: "ovpn_dns_address_view \<Rightarrow> dns_address" where
  "dns_address_of a = \<lparr>da_address = string_from_view (rda_address a), da_port = rda_port a\<rparr>"

definition dns_server_of :: "ovpn_dns_server_view \<Rightarrow> dns_server" where
  "dns_server_of server = \<lparr>
     ds_priority = rds_priority server,
     ds_addresses = map dns_address_of (raw_view_slice (rds_addresses server) (rds_addresses_len server)),
     ds_resolve_domains = map string_from_view (raw_view_slice (rds_domains server) (rds_domains_len server)),
     ds_security = dns_security_of (rds_dnssec server),
     ds_transport = dns_transport_of (rds_transport server),
     ds_sni = string_from_view (rds_sni server)\<rparr>"

definition dns_options_of :: "ovpn_dns_options_view \<Rightarrow> dns_options" where
  "dns_options_of raw = \<lparr>
     dns_from_dhcp_options = (rdo_from_dhcp_options raw \<noteq> 0),
     dns_search_domains = map string_from_view (raw_view_slice (rdo_search_domains raw) (rdo_search_domains_len raw)),
     dns_servers = map dns_server_of (raw_view_slice (rdo_servers raw) (rdo_servers_len raw))\<rparr>"

definition dco_peer_of :: "ovpn_dco_peer_view \<Rightarrow> dco_peer" where
  "dco_peer_of peer = \<lparr>
     dp_peer_id = rdp_peer_id peer, dp_transport_fd = rdp_transport_fd peer,
     dp_remote_ip = string_from_view (rdp_remote_ip peer), dp_remote_port = rdp_remote_port peer,
     dp_vpn_ipv4 = string_from_view (rdp_vpn_ipv4 peer), dp_vpn_ipv6 = string_from_view (rdp_vpn_ipv6 peer)\<rparr>"

text \<open>\<open>nonce_tail[..copied].copy_from_slice(..)\<close> into eight zero bytes.\<close>

definition dco_key_direction :: "ovpn_dco_key_direction_view \<Rightarrow> dco_key_direction_t" where
  "dco_key_direction direction =
     (let cipher_key = raw_view_slice (rdk_cipher_key direction) (rdk_cipher_key_len direction);
          native_nonce = raw_view_slice (rdk_nonce_tail direction) (rdk_nonce_tail_len direction);
          copied = min (length native_nonce) 8
      in \<lparr>dkd_cipher_key = cipher_key,
           dkd_nonce_tail = write_prefix (take copied native_nonce) (replicate 8 0)\<rparr>)"

definition dco_key_config_of :: "ovpn_dco_key_config_view \<Rightarrow> dco_key_config" where
  "dco_key_config_of key = \<lparr>
     dkc_encrypt = dco_key_direction (rkc_encrypt key),
     dkc_decrypt = dco_key_direction (rkc_decrypt key),
     dkc_key_id = rkc_key_id key, dkc_remote_peer_id = rkc_remote_peer_id key,
     dkc_cipher_algorithm = rkc_cipher_algorithm key\<rparr>"

lemma length_dco_nonce: "length (dkd_nonce_tail (dco_key_direction d)) = 8"
  by (simp add: dco_key_direction_def Let_def)

section \<open>Properties\<close>

text \<open>
  C17: handing a configuration to the adapter loses and mixes up nothing: reading the C
  structure built by \<open>RawConfig::new\<close> field by field gives the configuration back, for
  every configuration whose strings are UTF-8 (as Rust's \<open>String\<close> guarantees).
\<close>

theorem raw_config_roundtrip:
  assumes "config_utf8 c"
  shows "config_of_raw (raw_config_new c) = c"
  using assms unfolding config_utf8_def
  by (simp add: config_of_raw_def raw_config_new_def Let_def string_from_view_view key_values_of_view)

theorem raw_config_roundtrip_witness:
  "config_utf8 (config_new ''linux'' True ''client'') \<and>
   config_of_raw (raw_config_new (config_new ''linux'' True ''client'')) = config_new ''linux'' True ''client''"
proof -
  have v: "utf8_valid ''client''"
    by (rule utf8_valid_ascii) (simp add: is_ascii_def)
  have u: "config_utf8 (config_new ''linux'' True ''client'')"
    by (simp add: config_utf8_def config_new_def config_default_def v)
  show ?thesis using u raw_config_roundtrip [OF u] by simp
qed

text \<open>
  The two copies of the evaluation conversion in \<open>native.rs\<close> agree on every
  aggregate, a reported error wins over every other field, and a successful evaluation
  carries only well-formed text, whatever bytes the adapter returned.
\<close>

theorem evaluation_conversions_agree:
  "evaluate_value raw = evaluation_value raw
   \<and> (re_error raw \<noteq> 0 \<longrightarrow> (\<exists>m. evaluate_value raw = Err (Core ''CONFIG_ERROR'' m) \<and> utf8_valid m))
   \<and> (re_error raw = 0 \<longrightarrow> (\<exists>e. evaluate_value raw = Ok e \<and> utf8_valid (eval_profile_name e) \<and>
        (\<forall>s\<in>set (eval_servers e). utf8_valid (srv_server s) \<and> utf8_valid (srv_friendly_name s))))"
  unfolding evaluate_value_eq
  by (auto simp: evaluation_value_def evaluation_of_def server_entries_def split: option.splits)

definition sample_eval :: "i32 \<Rightarrow> ovpn_eval_config" where
  "sample_eval err = \<lparr>
     re_error = err, re_message = view ''bad'', re_userlocked_username = view [],
     re_profile_name = \<lparr>cs_data = Some [CHR 0xFF, CHR ''a''], cs_len = 2\<rparr>, re_friendly_name = view [],
     re_autologin = 1, re_external_pki = 0, re_vpn_ca = view [], re_static_challenge = view [],
     re_static_challenge_echo = 0, re_private_key_password_required = 0, re_allow_password_save = 0,
     re_remote_host = view [], re_remote_port = view [], re_remote_proto = view [],
     re_server_list = Some [\<lparr>rse_server = view ''s'', rse_friendly_name = view ''t''\<rparr>], re_server_list_len = 1,
     re_windows_driver = view [], re_dco_compatible = 0, re_dco_incompatibility_reason = view []\<rparr>"

theorem evaluation_conversions_agree_witness:
  "(\<exists>e. evaluate_value (sample_eval 0) = Ok e \<and> utf8_valid (eval_profile_name e) \<and> eval_servers e \<noteq> [])
   \<and> (\<exists>m. evaluate_value (sample_eval 1) = Err (Core ''CONFIG_ERROR'' m))"
  using evaluation_conversions_agree [of "sample_eval 0"] evaluation_conversions_agree [of "sample_eval 1"]
  by (auto simp: sample_eval_def evaluation_value_def evaluation_of_def server_entries_def)

text \<open>
  A DCO key keeps its cipher key untouched and always yields eight nonce bytes: the
  adapter's bytes in order, cut at eight, padded with zeros when there are fewer.
\<close>

theorem dco_key_direction_nonce:
  assumes "readable (rdk_nonce_tail d) (rdk_nonce_tail_len d)" "rdk_nonce_tail d = Some mem"
  shows "dkd_nonce_tail (dco_key_direction d) =
           take 8 (take (rdk_nonce_tail_len d) mem) @ replicate (8 - rdk_nonce_tail_len d) 0
         \<and> length (dkd_nonce_tail (dco_key_direction d)) = 8
         \<and> dkd_cipher_key (dco_key_direction d) = raw_view_slice (rdk_cipher_key d) (rdk_cipher_key_len d)"
  using assms
  by (auto simp: dco_key_direction_def Let_def write_prefix_def raw_view_slice_def readable_def min_def)

theorem dco_key_direction_nonce_witness:
  "dkd_nonce_tail (dco_key_direction
     \<lparr>rdk_cipher_key = Some [1, 2], rdk_cipher_key_len = 2, rdk_nonce_tail = Some [7, 8, 9], rdk_nonce_tail_len = 3\<rparr>)
   = [7, 8, 9, 0, 0, 0, 0, 0]"
  using dco_key_direction_nonce [of "\<lparr>rdk_cipher_key = Some [1, 2], rdk_cipher_key_len = 2,
      rdk_nonce_tail = Some [7, 8, 9], rdk_nonce_tail_len = 3\<rparr>" "[7, 8, 9]"]
  by (simp add: readable_def numeral_eq_Suc)

end
