(* ===== verification/Native_Calls.thy ===== *)
theory Native_Calls
  imports Native_Data
begin

text \<open>
  The safe wrappers of \<open>native.rs\<close> around the C ABI.  The adapter's functions are a
  parameter (\<open>sys_api\<close>, one field per function); its state is opaque.  Next to it the
  wrappers keep a log of what they asked the adapter to do, in which every call that
  returns an owned value is an \<open>Acquire\<close> and every matching free function a \<open>Release\<close>.
\<close>

section \<open>The adapter as a parameter\<close>

datatype aggregate =
    AClient | AStatus | AEvalConfig | AMergeConfig | AConnectionInfo | ASessionToken
  | AI64Array | ADynamicChallenge | AOwnedString

datatype sys_call =
    InstallBackend
  | Acquire aggregate
  | Release aggregate
  | CallStop
  | CallPause string
  | CallResume
  | CallReconnect i32
  | CallPostCc string
  | CallSendAcc string string
  | CallTunStats
  | CallTransportStats

record 'n sys_api =
  ovpn_client_new :: "ovpn_status \<times> 'n option"
  ovpn_client_eval_config :: "'n \<Rightarrow> ovpn_config \<Rightarrow> ovpn_eval_config \<times> 'n"
  ovpn_eval_config_static :: "ovpn_config \<Rightarrow> ovpn_eval_config"
  ovpn_client_provide_creds :: "'n \<Rightarrow> ovpn_credentials \<Rightarrow> ovpn_status \<times> 'n"
  ovpn_client_connect :: "'n \<Rightarrow> ovpn_status \<times> 'n"
  ovpn_client_connect_started :: "'n \<Rightarrow> (ovpn_status \<times> 'n) \<times> nat"
  ovpn_client_callback_self_test :: "'n \<Rightarrow> ovpn_status \<times> 'n"
  ovpn_client_start_cert_check ::
    "'n \<Rightarrow> ovpn_string_view \<Rightarrow> ovpn_string_view \<Rightarrow> ovpn_string_view \<Rightarrow> i32 \<Rightarrow> ovpn_status \<times> 'n"
  ovpn_client_start_cert_check_epki ::
    "'n \<Rightarrow> ovpn_string_view \<Rightarrow> ovpn_string_view \<Rightarrow> i32 \<Rightarrow> ovpn_status \<times> 'n"
  ovpn_client_stop :: "'n \<Rightarrow> 'n"
  ovpn_client_pause :: "'n \<Rightarrow> ovpn_string_view \<Rightarrow> 'n"
  ovpn_client_resume :: "'n \<Rightarrow> 'n"
  ovpn_client_reconnect :: "'n \<Rightarrow> i32 \<Rightarrow> 'n"
  ovpn_client_post_cc_msg :: "'n \<Rightarrow> ovpn_string_view \<Rightarrow> 'n"
  ovpn_client_send_app_control_channel_msg :: "'n \<Rightarrow> ovpn_string_view \<Rightarrow> ovpn_string_view \<Rightarrow> 'n"
  ovpn_client_connection_info :: "'n \<Rightarrow> ovpn_connection_info"
  ovpn_client_session_token :: "'n \<Rightarrow> ovpn_session_token"
  ovpn_client_stats_count :: i32
  ovpn_client_stats_bundle :: "'n \<Rightarrow> ovpn_i64_array"
  ovpn_client_stats_name :: "i32 \<Rightarrow> ovpn_owned_string"
  ovpn_client_tun_stats :: "'n \<Rightarrow> ovpn_interface_stats"
  ovpn_client_transport_stats :: "'n \<Rightarrow> ovpn_transport_stats"
  ovpn_merge_config_path :: "ovpn_string_view \<Rightarrow> i32 \<Rightarrow> ovpn_merge_config"
  ovpn_merge_config_string :: "ovpn_string_view \<Rightarrow> ovpn_merge_config"
  ovpn_get_capabilities :: ovpn_capabilities
  ovpn_platform :: ovpn_owned_string
  ovpn_copyright :: ovpn_owned_string
  ovpn_crypto_self_test :: ovpn_owned_string
  ovpn_max_profile_size :: i32
  ovpn_parse_dynamic_challenge :: "ovpn_string_view \<Rightarrow> ovpn_dynamic_challenge"

record 'n sys =
  sys_core :: 'n
  sys_log :: "sys_call list"

definition log_calls :: "sys_call list \<Rightarrow> 'n sys \<Rightarrow> 'n sys" where
  "log_calls cs s = s\<lparr>sys_log := sys_log s @ cs\<rparr>"

definition set_core :: "'n \<Rightarrow> 'n sys \<Rightarrow> 'n sys" where
  "set_core n s = s\<lparr>sys_core := n\<rparr>"

lemma log_calls_simps [simp]:
  "sys_log (log_calls cs s) = sys_log s @ cs" "sys_core (log_calls cs s) = sys_core s"
  "sys_log (set_core n s) = sys_log s" "sys_core (set_core n s) = n"
  by (simp_all add: log_calls_def set_core_def)

section \<open>Creating and freeing a client\<close>

text \<open>\<open>new_client\<close>: the log it leaves and the client it returns.\<close>

definition new_client :: "'n sys_api \<Rightarrow> ('n res \<times> sys_call list)" where
  "new_client api =
     (let (status, native) = ovpn_client_new api;
          made = InstallBackend # Acquire AStatus # (if native = None then [] else [Acquire AClient])
      in if rs_error status \<noteq> 0 then
           (Err (status_error status),
            made @ [Release AStatus] @ (if native = None then [] else [Release AClient]))
         else
           (case native of
              None \<Rightarrow> (Err (Initialization ''OpenVPN Core returned a null client''), made @ [Release AStatus])
            | Some n \<Rightarrow> (Ok n, made @ [Release AStatus])))"

definition free_client :: "'n sys \<Rightarrow> 'n sys" where
  "free_client s = log_calls [Release AClient] s"

definition stop :: "'n sys_api \<Rightarrow> 'n sys \<Rightarrow> 'n sys" where
  "stop api s = log_calls [CallStop] (set_core (ovpn_client_stop api (sys_core s)) s)"

section \<open>Operations that return an owned aggregate\<close>

definition status_result :: "ovpn_status \<times> 'n \<Rightarrow> 'n sys \<Rightarrow> status res \<times> 'n sys" where
  "status_result call s =
     (case call of (raw, n) \<Rightarrow>
        (status_value raw, log_calls [Acquire AStatus, Release AStatus] (set_core n s)))"

definition evaluate :: "'n sys_api \<Rightarrow> 'n sys \<Rightarrow> config \<Rightarrow> evaluation res \<times> 'n sys" where
  "evaluate api s config =
     (case ovpn_client_eval_config api (sys_core s) (raw_config_new config) of (raw, n) \<Rightarrow>
        (evaluate_value raw, log_calls [Acquire AEvalConfig, Release AEvalConfig] (set_core n s)))"

definition evaluate_static :: "'n sys_api \<Rightarrow> config \<Rightarrow> evaluation res \<times> sys_call list" where
  "evaluate_static api config =
     (evaluation_value (ovpn_eval_config_static api (raw_config_new config)),
      [Acquire AEvalConfig, Release AEvalConfig])"

definition provide_credentials :: "'n sys_api \<Rightarrow> 'n sys \<Rightarrow> credentials \<Rightarrow> status res \<times> 'n sys" where
  "provide_credentials api s credentials =
     status_result (ovpn_client_provide_creds api (sys_core s) (raw_credentials_of credentials)) s"

definition connect :: "'n sys_api \<Rightarrow> 'n sys \<Rightarrow> status res \<times> 'n sys" where
  "connect api s = status_result (ovpn_client_connect api (sys_core s)) s"

text \<open>
  \<open>connect_with_started\<close>.  The closure sits in an \<open>Option\<close> that the callback takes; the
  adapter reports how often it invoked the callback.  The second component of the result
  lists the closures that ran.
\<close>

fun started_callback :: "'f option \<Rightarrow> 'f option \<times> 'f list" where
  "started_callback (Some started) = (None, [started])"
| "started_callback None = (None, [])"

fun started_calls :: "nat \<Rightarrow> 'f option \<Rightarrow> 'f list" where
  "started_calls 0 slot = []"
| "started_calls (Suc k) slot =
     (case started_callback slot of (slot', ran_now) \<Rightarrow> ran_now @ started_calls k slot')"

definition connect_with_started ::
  "'n sys_api \<Rightarrow> 'n sys \<Rightarrow> 'f \<Rightarrow> (status res \<times> 'n sys) \<times> 'f list" where
  "connect_with_started api s started =
     (case ovpn_client_connect_started api (sys_core s) of (call, k) \<Rightarrow>
        (status_result call s, started_calls k (Some started)))"

lemma started_calls_None [simp]: "started_calls k None = []"
  by (induction k) auto

lemma started_calls_at_most_once: "started_calls k (Some f) = (if k = 0 then [] else [f])"
  by (cases k) auto

definition callback_self_test :: "'n sys_api \<Rightarrow> 'n sys \<Rightarrow> status res \<times> 'n sys" where
  "callback_self_test api s = status_result (ovpn_client_callback_self_test api (sys_core s)) s"

definition start_cert_check ::
  "'n sys_api \<Rightarrow> 'n sys \<Rightarrow> string \<Rightarrow> string \<Rightarrow> string option \<Rightarrow> status res \<times> 'n sys" where
  "start_cert_check api s client_certificate client_key ca =
     (let (ca, has_ca) = (case ca of None \<Rightarrow> ([], False) | Some value \<Rightarrow> (value, True))
      in status_result (ovpn_client_start_cert_check api (sys_core s)
           (view client_certificate) (view client_key) (view ca) (bool_i32 has_ca)) s)"

definition start_cert_check_epki ::
  "'n sys_api \<Rightarrow> 'n sys \<Rightarrow> string \<Rightarrow> string option \<Rightarrow> status res \<times> 'n sys" where
  "start_cert_check_epki api s alias ca =
     (let (ca, has_ca) = (case ca of None \<Rightarrow> ([], False) | Some value \<Rightarrow> (value, True))
      in status_result (ovpn_client_start_cert_check_epki api (sys_core s)
           (view alias) (view ca) (bool_i32 has_ca)) s)"

definition connection_info :: "'n sys_api \<Rightarrow> 'n sys \<Rightarrow> connection_info_t option \<times> 'n sys" where
  "connection_info api s =
     (connection_info_of (ovpn_client_connection_info api (sys_core s)),
      log_calls [Acquire AConnectionInfo, Release AConnectionInfo] s)"

definition session_token :: "'n sys_api \<Rightarrow> 'n sys \<Rightarrow> session_token_t option \<times> 'n sys" where
  "session_token api s =
     (session_token_of (ovpn_client_session_token api (sys_core s)),
      log_calls [Acquire ASessionToken, Release ASessionToken] s)"

text \<open>
  \<open>statistics\<close>: the counter names are asked for one by one while the bundle is held; the
  pairs stop at the shorter of the reported count and the bundle.
\<close>

definition statistics :: "'n sys_api \<Rightarrow> 'n sys \<Rightarrow> statistic list \<times> 'n sys" where
  "statistics api s =
     (let count = max (ovpn_client_stats_count api) 0;
          bundle = ovpn_client_stats_bundle api (sys_core s);
          values = (case ra_data bundle of None \<Rightarrow> [] | Some mem \<Rightarrow> take (ra_len bundle) mem);
          pairs = zip (map int [0..<nat count]) values;
          result = map (\<lambda>(index, value). \<lparr>stat_name = string_from_owned (ovpn_client_stats_name api index),
                                          stat_value = value\<rparr>) pairs
      in (result, log_calls ([Acquire AI64Array]
            @ concat (map (\<lambda>_. [Acquire AOwnedString, Release AOwnedString]) pairs)
            @ [Release AI64Array]) s))"

definition merge_config_path :: "'n sys_api \<Rightarrow> string \<Rightarrow> bool \<Rightarrow> merged_config \<times> sys_call list" where
  "merge_config_path api path follow_references =
     (merged_config_of (ovpn_merge_config_path api (view path) (bool_i32 follow_references)),
      [Acquire AMergeConfig, Release AMergeConfig])"

definition merge_config_string :: "'n sys_api \<Rightarrow> string \<Rightarrow> merged_config \<times> sys_call list" where
  "merge_config_string api content =
     (merged_config_of (ovpn_merge_config_string api (view content)),
      [Acquire AMergeConfig, Release AMergeConfig])"

definition take_owned :: "ovpn_owned_string \<Rightarrow> string \<times> sys_call list" where
  "take_owned value = (string_from_owned value, [Acquire AOwnedString, Release AOwnedString])"

definition platform :: "'n sys_api \<Rightarrow> string \<times> sys_call list" where
  "platform api = take_owned (ovpn_platform api)"

definition copyright :: "'n sys_api \<Rightarrow> string \<times> sys_call list" where
  "copyright api = take_owned (ovpn_copyright api)"

definition crypto_self_test :: "'n sys_api \<Rightarrow> string \<times> sys_call list" where
  "crypto_self_test api = take_owned (ovpn_crypto_self_test api)"

definition parse_dynamic_challenge :: "'n sys_api \<Rightarrow> string \<Rightarrow> dynamic_challenge option \<times> sys_call list" where
  "parse_dynamic_challenge api cookie =
     (dynamic_challenge_of (ovpn_parse_dynamic_challenge api (view cookie)),
      [Acquire ADynamicChallenge, Release ADynamicChallenge])"

section \<open>Operations without an owned result\<close>

definition pause :: "'n sys_api \<Rightarrow> 'n sys \<Rightarrow> string \<Rightarrow> 'n sys" where
  "pause api s reason =
     log_calls [CallPause reason] (set_core (ovpn_client_pause api (sys_core s) (view reason)) s)"

definition resume :: "'n sys_api \<Rightarrow> 'n sys \<Rightarrow> 'n sys" where
  "resume api s = log_calls [CallResume] (set_core (ovpn_client_resume api (sys_core s)) s)"

definition reconnect :: "'n sys_api \<Rightarrow> 'n sys \<Rightarrow> i32 \<Rightarrow> 'n sys" where
  "reconnect api s seconds =
     log_calls [CallReconnect seconds] (set_core (ovpn_client_reconnect api (sys_core s) seconds) s)"

definition post_control_message :: "'n sys_api \<Rightarrow> 'n sys \<Rightarrow> string \<Rightarrow> 'n sys" where
  "post_control_message api s message =
     log_calls [CallPostCc message] (set_core (ovpn_client_post_cc_msg api (sys_core s) (view message)) s)"

definition send_app_control_message :: "'n sys_api \<Rightarrow> 'n sys \<Rightarrow> string \<Rightarrow> string \<Rightarrow> 'n sys" where
  "send_app_control_message api s protocol message =
     log_calls [CallSendAcc protocol message]
       (set_core (ovpn_client_send_app_control_channel_msg api (sys_core s) (view protocol) (view message)) s)"

definition interface_stats :: "'n sys_api \<Rightarrow> 'n sys \<Rightarrow> interface_stats_t \<times> 'n sys" where
  "interface_stats api s =
     (interface_stats_of (ovpn_client_tun_stats api (sys_core s)), log_calls [CallTunStats] s)"

definition transport_stats :: "'n sys_api \<Rightarrow> 'n sys \<Rightarrow> transport_stats_t \<times> 'n sys" where
  "transport_stats api s =
     (transport_stats_of (ovpn_client_transport_stats api (sys_core s)), log_calls [CallTransportStats] s)"

definition capabilities :: "'n sys_api \<Rightarrow> capabilities" where
  "capabilities api = capabilities_of (ovpn_get_capabilities api)"

text \<open>\<open>usize::try_from(..).unwrap_or_default()\<close>.\<close>

definition max_profile_size :: "'n sys_api \<Rightarrow> usize" where
  "max_profile_size api =
     (let n = ovpn_max_profile_size api in if n < 0 then 0 else nat n)"

section \<open>The resource ledger\<close>

text \<open>
  Replaying a log: \<open>None\<close> when something is freed that is not held, otherwise how many of
  each aggregate are held at the end.
\<close>

fun run_ledger :: "sys_call list \<Rightarrow> (aggregate \<Rightarrow> nat) \<Rightarrow> (aggregate \<Rightarrow> nat) option" where
  "run_ledger [] held = Some held"
| "run_ledger (Acquire a # cs) held = run_ledger cs (held(a := Suc (held a)))"
| "run_ledger (Release a # cs) held =
     (if held a = 0 then None else run_ledger cs (held(a := held a - 1)))"
| "run_ledger (c # cs) held = run_ledger cs held"

text \<open>A log that frees exactly what it acquired, whatever was held before.\<close>

definition neutral :: "sys_call list \<Rightarrow> bool" where
  "neutral cs \<longleftrightarrow> (\<forall>held. run_ledger cs held = Some held)"

lemma run_ledger_append:
  "run_ledger (cs @ ds) held = Option.bind (run_ledger cs held) (run_ledger ds)"
proof (induction cs arbitrary: held)
  case (Cons c cs)
  then show ?case by (cases c) (auto simp: fun_upd_def)
qed simp

lemma neutral_Nil [simp]: "neutral []"
  by (simp add: neutral_def)

lemma neutral_append: "neutral cs \<Longrightarrow> neutral ds \<Longrightarrow> neutral (cs @ ds)"
  by (simp add: neutral_def run_ledger_append)

lemma neutral_pair [simp]: "neutral [Acquire a, Release a]"
  by (simp add: neutral_def)

lemma neutral_concat_pairs: "neutral (concat (map (\<lambda>_. [Acquire a, Release a]) xs))"
proof (induction xs)
  case (Cons x xs)
  then show ?case using neutral_append [OF neutral_pair] by simp
qed simp

lemma neutral_wrapped:
  assumes "neutral cs"
  shows "neutral ([Acquire a] @ cs @ [Release a])"
  using assms by (simp add: neutral_def run_ledger_append)

text \<open>A wrapper is leak-free when what it appends to the log is neutral.\<close>

definition leak_free :: "'n sys \<Rightarrow> 'n sys \<Rightarrow> bool" where
  "leak_free s s' \<longleftrightarrow> (\<exists>cs. sys_log s' = sys_log s @ cs \<and> neutral cs)"

lemma leak_free_log: "neutral cs \<Longrightarrow> sys_log s' = sys_log s @ cs \<Longrightarrow> leak_free s s'"
  by (auto simp: leak_free_def)

lemma leak_free_trans: "leak_free s t \<Longrightarrow> leak_free t u \<Longrightarrow> leak_free s u"
  unfolding leak_free_def by (metis append.assoc neutral_append)

lemma leak_free_refl [simp]: "leak_free s s"
  by (auto simp: leak_free_def)

lemma leak_free_status_result: "leak_free s (snd (status_result call s))"
  by (rule leak_free_log [OF neutral_pair [of AStatus]]) (simp add: status_result_def split: prod.splits)

lemma leak_free_evaluate: "leak_free s (snd (evaluate api s config))"
  by (rule leak_free_log [OF neutral_pair [of AEvalConfig]]) (simp add: evaluate_def split: prod.splits)

lemma leak_free_statistics: "leak_free s (snd (statistics api s))"
  by (rule leak_free_log [OF neutral_wrapped [OF neutral_concat_pairs]])
     (simp add: statistics_def Let_def split: prod.splits)

lemma statistics_length:
  assumes "readable (ra_data (ovpn_client_stats_bundle api (sys_core s)))
             (ra_len (ovpn_client_stats_bundle api (sys_core s)))"
  shows "length (fst (statistics api s)) \<le> nat (ovpn_client_stats_count api)"
  by (simp add: statistics_def Let_def)

section \<open>Properties\<close>


text \<open>
  Creating a client either returns a client and leaves exactly that client held, or
  returns an error and leaves nothing held; the error branch frees a client the adapter
  may have returned next to a failure status.
\<close>

theorem new_client_ownership:
  "(case new_client api of
      (Ok n, cs) \<Rightarrow> run_ledger cs held = Some (held(AClient := Suc (held AClient))) \<and> snd (ovpn_client_new api) = Some n
    | (Err e, cs) \<Rightarrow> run_ledger cs held = Some held)"
  by (auto simp: new_client_def Let_def fun_upd_twist split: prod.splits option.splits)

text \<open>
  The statistics pair each reported counter with its own name: entry \<open>i\<close> carries the
  name the adapter gives for index \<open>i\<close> and the \<open>i\<close>-th value of the bundle, and there are
  as many entries as the shorter of the reported count and the bundle.
\<close>

theorem statistics_pairing:
  assumes "ra_data (ovpn_client_stats_bundle api (sys_core s)) = Some mem"
    and "ra_len (ovpn_client_stats_bundle api (sys_core s)) = length mem"
  shows "length (fst (statistics api s)) = min (nat (ovpn_client_stats_count api)) (length mem)
     \<and> (\<forall>i < length (fst (statistics api s)). fst (statistics api s) ! i =
          \<lparr>stat_name = string_from_owned (ovpn_client_stats_name api (int i)), stat_value = mem ! i\<rparr>)"
  using assms by (auto simp: statistics_def Let_def split_beta)

definition sample_api :: "unit sys_api" where
  "sample_api = \<lparr>
     ovpn_client_new = (\<lparr>rs_error = 0, rs_status = view [], rs_message = view []\<rparr>, Some ()),
     ovpn_client_eval_config = (\<lambda>n c. (sample_eval 0, n)),
     ovpn_eval_config_static = (\<lambda>c. sample_eval 0),
     ovpn_client_provide_creds = (\<lambda>n c. (\<lparr>rs_error = 0, rs_status = view [], rs_message = view []\<rparr>, n)),
     ovpn_client_connect = (\<lambda>n. (\<lparr>rs_error = 0, rs_status = view [], rs_message = view []\<rparr>, n)),
     ovpn_client_connect_started = (\<lambda>n. ((\<lparr>rs_error = 0, rs_status = view [], rs_message = view []\<rparr>, n), 1)),
     ovpn_client_callback_self_test = (\<lambda>n. (\<lparr>rs_error = 0, rs_status = view [], rs_message = view []\<rparr>, n)),
     ovpn_client_start_cert_check = (\<lambda>n a b c d. (\<lparr>rs_error = 0, rs_status = view [], rs_message = view []\<rparr>, n)),
     ovpn_client_start_cert_check_epki = (\<lambda>n a b c. (\<lparr>rs_error = 0, rs_status = view [], rs_message = view []\<rparr>, n)),
     ovpn_client_stop = id, ovpn_client_pause = (\<lambda>n v. n), ovpn_client_resume = id,
     ovpn_client_reconnect = (\<lambda>n i. n), ovpn_client_post_cc_msg = (\<lambda>n v. n),
     ovpn_client_send_app_control_channel_msg = (\<lambda>n v w. n),
     ovpn_client_connection_info = (\<lambda>n. \<lparr>rci_defined = 0, rci_user = view [], rci_server_host = view [],
        rci_server_port = view [], rci_server_proto = view [], rci_server_ip = view [], rci_vpn_ip4 = view [],
        rci_vpn_ip6 = view [], rci_vpn_mtu = view [], rci_gateway_ip4 = view [], rci_gateway_ip6 = view [],
        rci_client_ip = view [], rci_tun_name = view []\<rparr>),
     ovpn_client_session_token = (\<lambda>n. \<lparr>rt_defined = 0, rt_username = view [], rt_session_id = view []\<rparr>),
     ovpn_client_stats_count = 2,
     ovpn_client_stats_bundle = (\<lambda>n. \<lparr>ra_data = Some [10, 20, 30], ra_len = 3\<rparr>),
     ovpn_client_stats_name = (\<lambda>i. view (if i = 0 then ''a'' else ''b'')),
     ovpn_client_tun_stats = (\<lambda>n. \<lparr>ri_bytes_in = 0, ri_packets_in = 0, ri_errors_in = 0, ri_bytes_out = 0,
        ri_packets_out = 0, ri_errors_out = 0\<rparr>),
     ovpn_client_transport_stats = (\<lambda>n. \<lparr>rts_bytes_in = 0, rts_bytes_out = 0, rts_packets_in = 0,
        rts_packets_out = 0, rts_last_packet_received = - 1\<rparr>),
     ovpn_merge_config_path = (\<lambda>p f. \<lparr>rm_status = view [], rm_error_text = view [], rm_basename = view [],
        rm_profile_content = view [], rm_ref_path_list = None, rm_ref_path_list_len = 0\<rparr>),
     ovpn_merge_config_string = (\<lambda>p. \<lparr>rm_status = view [], rm_error_text = view [], rm_basename = view [],
        rm_profile_content = view [], rm_ref_path_list = None, rm_ref_path_list_len = 0\<rparr>),
     ovpn_get_capabilities = \<lparr>rcap_tun_builder = 0, rcap_dco = 0, rcap_dco_tun_builder = 0, rcap_gremlin = 0,
        rcap_external_tun = 0, rcap_external_transport = 0, rcap_private_tunnel_proxy = 0\<rparr>,
     ovpn_platform = view [], ovpn_copyright = view [], ovpn_crypto_self_test = view [],
     ovpn_max_profile_size = 262144,
     ovpn_parse_dynamic_challenge = (\<lambda>v. \<lparr>rdc_defined = 0, rdc_challenge = view [], rdc_echo = 0,
        rdc_response_required = 0, rdc_state_id = view []\<rparr>)\<rparr>"

definition sample_sys :: "unit sys" where
  "sample_sys = \<lparr>sys_core = (), sys_log = []\<rparr>"

theorem statistics_pairing_witness:
  "length (fst (statistics sample_api sample_sys)) = 2 \<and> stat_value (fst (statistics sample_api sample_sys) ! 1) = 20"
proof -
  have h: "ra_data (ovpn_client_stats_bundle sample_api (sys_core sample_sys)) = Some [10, 20, 30]"
    "ra_len (ovpn_client_stats_bundle sample_api (sys_core sample_sys)) = length [10, 20, 30 :: int]"
    by (simp_all add: sample_api_def)
  have n: "ovpn_client_stats_count sample_api = 2" by (simp add: sample_api_def)
  show ?thesis using statistics_pairing [OF h] n by simp
qed

end
