(* ===== verification/Client_Lifecycle.thy ===== *)
theory Client_Lifecycle
  imports Native_Calls
begin

text \<open>
  The synchronous client of \<open>client.rs\<close>: its shared state, its operations as functions
  over that state, and the interleaving semantics of clones of one client used from
  several threads, where every lock acquisition, atomic access and native call is a step
  of its own.
\<close>

section \<open>State and operations\<close>

datatype lifecycle = New | Ready | Connecting | Finished

text \<open>The order in which a client passes through its states.\<close>

fun lifecycle_rank :: "lifecycle \<Rightarrow> nat" where
  "lifecycle_rank New = 0"
| "lifecycle_rank Ready = 1"
| "lifecycle_rank Connecting = 2"
| "lifecycle_rank Finished = 3"

lemma lifecycle_rank_inject [simp]: "lifecycle_rank a = lifecycle_rank b \<longleftrightarrow> a = b"
  by (cases a; cases b) simp_all

instantiation lifecycle :: linorder
begin

definition less_eq_lifecycle :: "lifecycle \<Rightarrow> lifecycle \<Rightarrow> bool" where
  "a \<le> b \<longleftrightarrow> lifecycle_rank a \<le> lifecycle_rank b"

definition less_lifecycle :: "lifecycle \<Rightarrow> lifecycle \<Rightarrow> bool" where
  "a < b \<longleftrightarrow> lifecycle_rank a < lifecycle_rank b"

instance
  by standard (auto simp: less_eq_lifecycle_def less_lifecycle_def)

end

lemma lifecycle_le [simp]:
  "New \<le> l" "l \<le> Finished" "Finished \<le> l \<longleftrightarrow> l = Finished" "Ready \<le> l \<longleftrightarrow> l \<noteq> New"
  "Connecting \<le> l \<longleftrightarrow> l = Connecting \<or> l = Finished"
  by (cases l; simp add: less_eq_lifecycle_def)+

record 'n inner =
  in_native :: "'n sys"
  in_lifecycle :: lifecycle
  in_stop_requested :: bool

abbreviation one_session_error :: error where
  "one_session_error \<equiv> InvalidState ''an OpenVPN client supports one session; create a new client''"

text \<open>\<open>Client::new\<close>: a failed native allocation leaves only the log of the freed parts.\<close>

definition client_new :: "'n sys_api \<Rightarrow> 'n inner res \<times> sys_call list" where
  "client_new api =
     (case new_client api of
        (Inl e, cs) \<Rightarrow> (Err e, cs)
      | (Inr n, cs) \<Rightarrow> (Ok \<lparr>in_native = \<lparr>sys_core = n, sys_log = cs\<rparr>, in_lifecycle = New,
                             in_stop_requested = False\<rparr>, cs))"

text \<open>The \<open>match *lifecycle\<close> of each operation: the error it returns, if any.\<close>

fun evaluate_guard :: "lifecycle \<Rightarrow> error option" where
  "evaluate_guard Connecting = Some (InvalidState ''cannot evaluate a profile while the client is connecting'')"
| "evaluate_guard Finished = Some one_session_error"
| "evaluate_guard New = None"
| "evaluate_guard Ready = None"

fun credentials_guard :: "lifecycle \<Rightarrow> error option" where
  "credentials_guard New = Some (InvalidState ''evaluate a profile before providing credentials'')"
| "credentials_guard Connecting = Some (InvalidState ''cannot replace credentials while the client is connecting'')"
| "credentials_guard Finished = Some one_session_error"
| "credentials_guard Ready = None"

fun connect_guard :: "lifecycle \<Rightarrow> error option" where
  "connect_guard New = Some (InvalidState ''evaluate a profile before connecting'')"
| "connect_guard Connecting = Some (InvalidState ''the client is already connecting'')"
| "connect_guard Finished = Some one_session_error"
| "connect_guard Ready = None"

definition client_evaluate :: "'n sys_api \<Rightarrow> 'n inner \<Rightarrow> config \<Rightarrow> evaluation res \<times> 'n inner" where
  "client_evaluate api i config =
     (case validate_capabilities (capabilities api) config of
        Inl e \<Rightarrow> (Err e, i)
      | Inr _ \<Rightarrow>
          (case evaluate_guard (in_lifecycle i) of
             Some e \<Rightarrow> (Err e, i)
           | None \<Rightarrow>
               (case evaluate api (in_native i) config of
                  (Inl e, s) \<Rightarrow> (Err e, i\<lparr>in_native := s\<rparr>)
                | (Inr evaluation, s) \<Rightarrow> (Ok evaluation, i\<lparr>in_native := s, in_lifecycle := Ready\<rparr>))))"

definition client_provide_credentials ::
  "'n sys_api \<Rightarrow> 'n inner \<Rightarrow> credentials \<Rightarrow> status res \<times> 'n inner" where
  "client_provide_credentials api i credentials =
     (case credentials_guard (in_lifecycle i) of
        Some e \<Rightarrow> (Err e, i)
      | None \<Rightarrow>
          (case provide_credentials api (in_native i) credentials of
             (r, s) \<Rightarrow> (r, i\<lparr>in_native := s\<rparr>)))"

definition prepare_connect :: "'n inner \<Rightarrow> unit res \<times> 'n inner" where
  "prepare_connect i =
     (case connect_guard (in_lifecycle i) of
        Some e \<Rightarrow> (Err e, i)
      | None \<Rightarrow> (Ok (), i\<lparr>in_lifecycle := Connecting, in_stop_requested := False\<rparr>))"

text \<open>\<open>impl Drop for ConnectLifecycleReset\<close>.\<close>

definition connect_lifecycle_reset :: "'n inner \<Rightarrow> 'n inner" where
  "connect_lifecycle_reset i = i\<lparr>in_lifecycle := Finished\<rparr>"

definition client_connect :: "'n sys_api \<Rightarrow> 'n inner \<Rightarrow> status res \<times> 'n inner" where
  "client_connect api i =
     (case prepare_connect i of
        (Inl e, i) \<Rightarrow> (Err e, i)
      | (Inr _, i) \<Rightarrow>
          (case connect api (in_native i) of
             (r, s) \<Rightarrow> (r, connect_lifecycle_reset (i\<lparr>in_native := s\<rparr>))))"

text \<open>\<open>connect_with_started\<close>: the closure runs here when the preparation fails.\<close>

definition client_connect_with_started ::
  "'n sys_api \<Rightarrow> 'n inner \<Rightarrow> 'f \<Rightarrow> (status res \<times> 'n inner) \<times> 'f list" where
  "client_connect_with_started api i started =
     (case prepare_connect i of
        (Inl e, i) \<Rightarrow> ((Err e, i), [started])
      | (Inr _, i) \<Rightarrow>
          (case connect_with_started api (in_native i) started of
             ((r, s), calls) \<Rightarrow> ((r, connect_lifecycle_reset (i\<lparr>in_native := s\<rparr>)), calls)))"

definition ensure_connectable :: "'n inner \<Rightarrow> unit res" where
  "ensure_connectable i =
     (case connect_guard (in_lifecycle i) of Some e \<Rightarrow> Err e | None \<Rightarrow> Ok ())"

definition client_stop :: "'n sys_api \<Rightarrow> 'n inner \<Rightarrow> 'n inner" where
  "client_stop api i =
     (if in_stop_requested i then i
      else i\<lparr>in_stop_requested := True, in_native := stop api (in_native i)\<rparr>)"

text \<open>\<open>impl Drop for Inner\<close>, run when the last handle is gone.\<close>

definition inner_drop :: "'n sys_api \<Rightarrow> 'n inner \<Rightarrow> 'n inner" where
  "inner_drop api i =
     (let i = (if in_stop_requested i then i
               else i\<lparr>in_stop_requested := True, in_native := stop api (in_native i)\<rparr>)
      in i\<lparr>in_native := free_client (in_native i)\<rparr>)"

text \<open>The remaining methods forward to \<open>native.rs\<close> without touching the lifecycle.\<close>

definition on_native :: "('n sys \<Rightarrow> 'r \<times> 'n sys) \<Rightarrow> 'n inner \<Rightarrow> 'r \<times> 'n inner" where
  "on_native f i = (case f (in_native i) of (r, s) \<Rightarrow> (r, i\<lparr>in_native := s\<rparr>))"

definition client_pause :: "'n sys_api \<Rightarrow> 'n inner \<Rightarrow> string \<Rightarrow> 'n inner" where
  "client_pause api i reason = i\<lparr>in_native := pause api (in_native i) reason\<rparr>"

definition client_resume :: "'n sys_api \<Rightarrow> 'n inner \<Rightarrow> 'n inner" where
  "client_resume api i = i\<lparr>in_native := resume api (in_native i)\<rparr>"

definition client_reconnect :: "'n sys_api \<Rightarrow> 'n inner \<Rightarrow> i32 \<Rightarrow> 'n inner" where
  "client_reconnect api i seconds = i\<lparr>in_native := reconnect api (in_native i) seconds\<rparr>"

definition client_post_control_message :: "'n sys_api \<Rightarrow> 'n inner \<Rightarrow> string \<Rightarrow> 'n inner" where
  "client_post_control_message api i message =
     i\<lparr>in_native := post_control_message api (in_native i) message\<rparr>"

definition client_send_app_control_message ::
  "'n sys_api \<Rightarrow> 'n inner \<Rightarrow> string \<Rightarrow> string \<Rightarrow> 'n inner" where
  "client_send_app_control_message api i protocol message =
     i\<lparr>in_native := send_app_control_message api (in_native i) protocol message\<rparr>"

definition client_start_certificate_check ::
  "'n sys_api \<Rightarrow> 'n inner \<Rightarrow> string \<Rightarrow> string \<Rightarrow> string option \<Rightarrow> status res \<times> 'n inner" where
  "client_start_certificate_check api i cert key ca = on_native (\<lambda>s. start_cert_check api s cert key ca) i"

definition client_start_external_pki_certificate_check ::
  "'n sys_api \<Rightarrow> 'n inner \<Rightarrow> string \<Rightarrow> string option \<Rightarrow> status res \<times> 'n inner" where
  "client_start_external_pki_certificate_check api i alias ca = on_native (\<lambda>s. start_cert_check_epki api s alias ca) i"

definition client_connection_info :: "'n sys_api \<Rightarrow> 'n inner \<Rightarrow> connection_info_t option \<times> 'n inner" where
  "client_connection_info api i = on_native (connection_info api) i"

definition client_session_token :: "'n sys_api \<Rightarrow> 'n inner \<Rightarrow> session_token_t option \<times> 'n inner" where
  "client_session_token api i = on_native (session_token api) i"

definition client_statistics :: "'n sys_api \<Rightarrow> 'n inner \<Rightarrow> statistic list \<times> 'n inner" where
  "client_statistics api i = on_native (statistics api) i"

definition client_interface_stats :: "'n sys_api \<Rightarrow> 'n inner \<Rightarrow> interface_stats_t \<times> 'n inner" where
  "client_interface_stats api i = on_native (interface_stats api) i"

definition client_transport_stats :: "'n sys_api \<Rightarrow> 'n inner \<Rightarrow> transport_stats_t \<times> 'n inner" where
  "client_transport_stats api i = on_native (transport_stats api) i"

definition client_callback_self_test :: "'n sys_api \<Rightarrow> 'n inner \<Rightarrow> status res \<times> 'n inner" where
  "client_callback_self_test api i = on_native (callback_self_test api) i"

text \<open>\<open>evaluate_config\<close> of \<open>lib.rs\<close>.\<close>

definition evaluate_config :: "'n sys_api \<Rightarrow> config \<Rightarrow> evaluation res \<times> sys_call list" where
  "evaluate_config api config =
     (case validate_capabilities (capabilities api) config of
        Inl e \<Rightarrow> (Err e, [])
      | Inr _ \<Rightarrow> evaluate_static api config)"

lemmas client_defs [lifecycle_simps] =
  client_evaluate_def client_provide_credentials_def prepare_connect_def client_connect_def
  connect_lifecycle_reset_def client_stop_def

section \<open>Interleaved use from several threads\<close>

text \<open>
  Where a thread is inside an operation.  \<open>ConnectLocked\<close> is the point of
  \<open>prepare_connect\<close> after \<open>*lifecycle = Connecting\<close> and before the store that clears
  \<open>stop_requested\<close> (the mutex is held, but \<open>stop\<close> does not take it); \<open>ConnectReady\<close> is
  after \<open>prepare_connect\<close> and before \<open>ovpn_client_connect\<close> is entered; \<open>StopSwapped\<close> is
  between the swap that returned \<open>false\<close> and the native stop call.
\<close>

datatype pc =
    Idle | Evaluating | Providing
  | ConnectLocked | ConnectReady | ConnectRunning | ConnectReturned
  | StopSwapped

datatype native_event =
    EvalCall | CredsCall | StopCleared | ConnectBegin | ConnectEnd | StopWon | StopCall

record machine =
  m_lifecycle :: lifecycle
  m_stop_requested :: bool
  m_lock :: "nat option"
  m_pc :: "nat \<Rightarrow> pc"
  m_trace :: "native_event list"

definition machine_init :: machine where
  "machine_init = \<lparr>m_lifecycle = New, m_stop_requested = False, m_lock = None, m_pc = (\<lambda>_. Idle), m_trace = []\<rparr>"

definition at_pc :: "machine \<Rightarrow> nat \<Rightarrow> pc \<Rightarrow> machine" where
  "at_pc m t p = m\<lparr>m_pc := (m_pc m)(t := p)\<rparr>"

definition emit :: "native_event \<Rightarrow> machine \<Rightarrow> machine" where
  "emit e m = m\<lparr>m_trace := m_trace m @ [e]\<rparr>"

inductive client_step :: "machine \<Rightarrow> machine \<Rightarrow> bool" where
  evaluate_enter:
    "m_pc m t = Idle \<Longrightarrow> m_lock m = None \<Longrightarrow> evaluate_guard (m_lifecycle m) = None \<Longrightarrow>
     client_step m (emit EvalCall (at_pc (m\<lparr>m_lock := Some t\<rparr>) t Evaluating))"
| evaluate_ok:
    "m_pc m t = Evaluating \<Longrightarrow>
     client_step m (at_pc (m\<lparr>m_lock := None, m_lifecycle := Ready\<rparr>) t Idle)"
| evaluate_err:
    "m_pc m t = Evaluating \<Longrightarrow> client_step m (at_pc (m\<lparr>m_lock := None\<rparr>) t Idle)"
| credentials_enter:
    "m_pc m t = Idle \<Longrightarrow> m_lock m = None \<Longrightarrow> credentials_guard (m_lifecycle m) = None \<Longrightarrow>
     client_step m (emit CredsCall (at_pc (m\<lparr>m_lock := Some t\<rparr>) t Providing))"
| credentials_return:
    "m_pc m t = Providing \<Longrightarrow> client_step m (at_pc (m\<lparr>m_lock := None\<rparr>) t Idle)"
| connect_enter:
    "m_pc m t = Idle \<Longrightarrow> m_lock m = None \<Longrightarrow> connect_guard (m_lifecycle m) = None \<Longrightarrow>
     client_step m (at_pc (m\<lparr>m_lock := Some t, m_lifecycle := Connecting\<rparr>) t ConnectLocked)"
| connect_clear:
    "m_pc m t = ConnectLocked \<Longrightarrow>
     client_step m (emit StopCleared (at_pc (m\<lparr>m_stop_requested := False, m_lock := None\<rparr>) t ConnectReady))"
| connect_call:
    "m_pc m t = ConnectReady \<Longrightarrow> client_step m (emit ConnectBegin (at_pc m t ConnectRunning))"
| connect_return:
    "m_pc m t = ConnectRunning \<Longrightarrow> client_step m (emit ConnectEnd (at_pc m t ConnectReturned))"
| connect_reset:
    "m_pc m t = ConnectReturned \<Longrightarrow> m_lock m = None \<Longrightarrow>
     client_step m (at_pc (m\<lparr>m_lifecycle := Finished\<rparr>) t Idle)"
| stop_win:
    "m_pc m t = Idle \<Longrightarrow> \<not> m_stop_requested m \<Longrightarrow>
     client_step m (emit StopWon (at_pc (m\<lparr>m_stop_requested := True\<rparr>) t StopSwapped))"
| stop_skip:
    "m_pc m t = Idle \<Longrightarrow> m_stop_requested m \<Longrightarrow> client_step m m"
| stop_call:
    "m_pc m t = StopSwapped \<Longrightarrow> client_step m (emit StopCall (at_pc m t Idle))"

definition reachable :: "machine \<Rightarrow> bool" where
  "reachable m \<longleftrightarrow> client_step\<^sup>*\<^sup>* machine_init m"

lemma reachable_init: "reachable machine_init"
  by (simp add: reachable_def)

lemma reachable_step: "reachable m \<Longrightarrow> client_step m m' \<Longrightarrow> reachable m'"
  by (simp add: reachable_def)

abbreviation occurrences :: "native_event \<Rightarrow> machine \<Rightarrow> nat" where
  "occurrences e m \<equiv> count_list (m_trace m) e"

definition in_connect :: "pc \<Rightarrow> bool" where
  "in_connect p \<longleftrightarrow> p \<in> {ConnectLocked, ConnectReady, ConnectRunning, ConnectReturned}"

definition holds_lock :: "pc \<Rightarrow> bool" where
  "holds_lock p \<longleftrightarrow> p \<in> {Evaluating, Providing, ConnectLocked}"

text \<open>How often the native connect was entered, as the lifecycle and the connecting thread say.\<close>

definition connects_expected :: "lifecycle \<Rightarrow> pc \<Rightarrow> nat" where
  "connects_expected l p =
     (case l of New \<Rightarrow> 0 | Ready \<Rightarrow> 0 | Finished \<Rightarrow> 1
      | Connecting \<Rightarrow> (if p \<in> {ConnectRunning, ConnectReturned} then 1 else 0))"

definition clears_expected :: "lifecycle \<Rightarrow> pc \<Rightarrow> nat" where
  "clears_expected l p =
     (case l of New \<Rightarrow> 0 | Ready \<Rightarrow> 0 | Finished \<Rightarrow> 1
      | Connecting \<Rightarrow> (if p = ConnectLocked then 0 else 1))"

text \<open>Threads inside a critical section, inside \<open>connect\<close>, and about to call the native stop.\<close>

definition holders :: "machine \<Rightarrow> nat set" where
  "holders m = {t. holds_lock (m_pc m t)}"

definition connecting :: "machine \<Rightarrow> nat set" where
  "connecting m = {t. in_connect (m_pc m t)}"

definition pending :: "machine \<Rightarrow> nat set" where
  "pending m = {t. m_pc m t = StopSwapped}"

text \<open>The mutex is held exactly by the thread inside a critical section.\<close>

definition lock_inv :: "machine \<Rightarrow> bool" where
  "lock_inv m \<longleftrightarrow>
     holders m = set_option (m_lock m) \<and>
     (\<forall>t. m_pc m t \<in> {Evaluating, Providing} \<longrightarrow> m_lifecycle m \<in> {New, Ready})"

text \<open>The lifecycle says whether a thread is connecting, and there is at most one.\<close>

definition connect_inv :: "machine \<Rightarrow> bool" where
  "connect_inv m \<longleftrightarrow>
     (if m_lifecycle m = Connecting
      then \<exists>t. connecting m = {t} \<and> occurrences ConnectBegin m = connects_expected Connecting (m_pc m t) \<and>
               occurrences StopCleared m = clears_expected Connecting (m_pc m t)
      else connecting m = {} \<and> occurrences ConnectBegin m = connects_expected (m_lifecycle m) Idle \<and>
           occurrences StopCleared m = clears_expected (m_lifecycle m) Idle)"

text \<open>Every native stop call belongs to one swap that found the flag clear.\<close>

definition stop_inv :: "machine \<Rightarrow> bool" where
  "stop_inv m \<longleftrightarrow>
     occurrences StopWon m \<le> occurrences StopCleared m + (if m_stop_requested m then 1 else 0) \<and>
     finite (pending m) \<and> occurrences StopWon m = occurrences StopCall m + card (pending m)"

definition client_inv :: "machine \<Rightarrow> bool" where
  "client_inv m \<longleftrightarrow> lock_inv m \<and> connect_inv m \<and> stop_inv m"

lemma at_pc_simps [simp]:
  "m_lifecycle (at_pc m t p) = m_lifecycle m" "m_stop_requested (at_pc m t p) = m_stop_requested m"
  "m_lock (at_pc m t p) = m_lock m" "m_trace (at_pc m t p) = m_trace m"
  "m_pc (at_pc m t p) u = (if u = t then p else m_pc m u)"
  by (simp_all add: at_pc_def)

lemma emit_simps [simp]:
  "m_lifecycle (emit e m) = m_lifecycle m" "m_stop_requested (emit e m) = m_stop_requested m"
  "m_lock (emit e m) = m_lock m" "m_trace (emit e m) = m_trace m @ [e]" "m_pc (emit e m) = m_pc m"
  by (simp_all add: emit_def)

lemma thread_sets_at_pc [simp]:
  "holders (at_pc m t p) = (if holds_lock p then insert t (holders m) else holders m - {t})"
  "connecting (at_pc m t p) = (if in_connect p then insert t (connecting m) else connecting m - {t})"
  "pending (at_pc m t p) = (if p = StopSwapped then insert t (pending m) else pending m - {t})"
  by (auto simp: holders_def connecting_def pending_def)

lemma thread_sets_frame [simp]:
  "holders (emit e m) = holders m" "connecting (emit e m) = connecting m" "pending (emit e m) = pending m"
  "holders (m\<lparr>m_lock := l\<rparr>) = holders m" "connecting (m\<lparr>m_lock := l\<rparr>) = connecting m"
  "pending (m\<lparr>m_lock := l\<rparr>) = pending m"
  "holders (m\<lparr>m_lifecycle := c\<rparr>) = holders m" "connecting (m\<lparr>m_lifecycle := c\<rparr>) = connecting m"
  "pending (m\<lparr>m_lifecycle := c\<rparr>) = pending m"
  "holders (m\<lparr>m_stop_requested := b\<rparr>) = holders m" "connecting (m\<lparr>m_stop_requested := b\<rparr>) = connecting m"
  "pending (m\<lparr>m_stop_requested := b\<rparr>) = pending m"
  by (simp_all add: holders_def connecting_def pending_def emit_def)

lemma connect_guard_None [simp]: "connect_guard l = None \<longleftrightarrow> l = Ready"
  by (cases l) auto

lemma credentials_guard_None [simp]: "credentials_guard l = None \<longleftrightarrow> l = Ready"
  by (cases l) auto

lemma evaluate_guard_None [simp]: "evaluate_guard l = None \<longleftrightarrow> l = New \<or> l = Ready"
  by (cases l) auto

lemma pc_in_sets:
  "m_pc m t \<in> {Evaluating, Providing, ConnectLocked} \<Longrightarrow> t \<in> holders m"
  "m_pc m t \<in> {ConnectLocked, ConnectReady, ConnectRunning, ConnectReturned} \<Longrightarrow> t \<in> connecting m"
  "m_pc m t = StopSwapped \<Longrightarrow> t \<in> pending m"
  "m_pc m t = Idle \<Longrightarrow> t \<notin> holders m \<and> t \<notin> connecting m \<and> t \<notin> pending m"
  by (auto simp: holders_def connecting_def pending_def holds_lock_def in_connect_def)

lemma connecting_lifecycle:
  "connect_inv m \<Longrightarrow> t \<in> connecting m \<Longrightarrow> m_lifecycle m = Connecting \<and> connecting m = {t}"
  by (auto simp: connect_inv_def split: if_splits)

lemma connect_inv_at:
  "connect_inv m \<Longrightarrow> t \<in> connecting m \<Longrightarrow>
     occurrences ConnectBegin m = connects_expected Connecting (m_pc m t) \<and>
     occurrences StopCleared m = clears_expected Connecting (m_pc m t)"
  by (auto simp: connect_inv_def split: if_splits)

lemma lock_holder: "lock_inv m \<Longrightarrow> t \<in> holders m \<Longrightarrow> m_lock m = Some t \<and> holders m = {t}"
  by (cases "m_lock m") (auto simp: lock_inv_def)

lemma lock_free: "lock_inv m \<Longrightarrow> m_lock m = None \<Longrightarrow> holders m = {} \<and> m_pc m u \<notin> {Evaluating, Providing}"
  using pc_in_sets(1) [of m u] by (auto simp: lock_inv_def)

lemma lock_inv_critical:
  "lock_inv m \<Longrightarrow> m_pc m t \<in> {Evaluating, Providing} \<Longrightarrow> m_lifecycle m = New \<or> m_lifecycle m = Ready"
  by (auto simp: lock_inv_def)

lemma lock_inv_step:
  assumes step: "client_step m m'" and inv: "lock_inv m"
  shows "lock_inv m'"
  using step
proof (cases rule: client_step.cases)
  case (evaluate_ok t)
  with inv have "holders m = {t}" by (intro lock_holder [THEN conjunct2] pc_in_sets) auto
  with evaluate_ok inv show ?thesis by (auto simp: lock_inv_def holds_lock_def)
next
  case (evaluate_err t)
  with inv have "holders m = {t}" by (intro lock_holder [THEN conjunct2] pc_in_sets) auto
  with evaluate_err inv show ?thesis by (auto simp: lock_inv_def holds_lock_def)
next
  case (credentials_return t)
  with inv have "holders m = {t}" by (intro lock_holder [THEN conjunct2] pc_in_sets) auto
  with credentials_return inv show ?thesis by (auto simp: lock_inv_def holds_lock_def)
next
  case (connect_clear t)
  with inv have "holders m = {t}" by (intro lock_holder [THEN conjunct2] pc_in_sets) auto
  with connect_clear inv show ?thesis by (auto simp: lock_inv_def holds_lock_def)
next
  case (connect_call t)
  then have "t \<notin> holders m" by (simp add: holders_def holds_lock_def)
  with connect_call inv show ?thesis by (auto simp: lock_inv_def holds_lock_def)
next
  case (connect_return t)
  then have "t \<notin> holders m" by (simp add: holders_def holds_lock_def)
  with connect_return inv show ?thesis by (auto simp: lock_inv_def holds_lock_def)
next
  case (stop_call t)
  then have "t \<notin> holders m" by (simp add: holders_def holds_lock_def)
  with stop_call inv show ?thesis by (auto simp: lock_inv_def holds_lock_def)
next
  case (stop_win t)
  with inv show ?thesis by (auto simp: lock_inv_def holds_lock_def dest: pc_in_sets(4))
next
  case (connect_enter t)
  with inv show ?thesis using lock_free [OF inv] by (auto simp: lock_inv_def holds_lock_def)
next
  case (connect_reset t)
  with inv show ?thesis using lock_free [OF inv] by (auto simp: lock_inv_def holds_lock_def)
qed (use inv in \<open>auto simp: lock_inv_def holds_lock_def\<close>)

lemma connect_inv_frame:
  "connect_inv m \<Longrightarrow> m_lifecycle m' = m_lifecycle m \<Longrightarrow> connecting m' = connecting m \<Longrightarrow>
   (\<And>t. t \<in> connecting m \<Longrightarrow> m_pc m' t = m_pc m t) \<Longrightarrow>
   occurrences ConnectBegin m' = occurrences ConnectBegin m \<Longrightarrow>
   occurrences StopCleared m' = occurrences StopCleared m \<Longrightarrow> connect_inv m'"
  by (auto simp: connect_inv_def)

lemma connect_inv_connecting:
  "connecting m' = {t} \<Longrightarrow> m_lifecycle m' = Connecting \<Longrightarrow>
   occurrences ConnectBegin m' = connects_expected Connecting (m_pc m' t) \<Longrightarrow>
   occurrences StopCleared m' = clears_expected Connecting (m_pc m' t) \<Longrightarrow> connect_inv m'"
  by (auto simp: connect_inv_def)

lemma connect_inv_step:
  assumes step: "client_step m m'" and lock: "lock_inv m" and inv: "connect_inv m"
  shows "connect_inv m'"
  using step
proof (cases rule: client_step.cases)
  case (evaluate_enter t)
  then show ?thesis
    by (intro connect_inv_frame [OF inv]) (auto simp: in_connect_def dest: pc_in_sets(4))
next
  case (evaluate_ok t)
  then have "m_lifecycle m = New \<or> m_lifecycle m = Ready" by (intro lock_inv_critical [OF lock]) auto
  with evaluate_ok inv show ?thesis
    by (auto simp: connect_inv_def connects_expected_def clears_expected_def in_connect_def)
next
  case (evaluate_err t)
  then show ?thesis
    by (intro connect_inv_frame [OF inv]) (auto simp: in_connect_def connecting_def)
next
  case (credentials_enter t)
  then show ?thesis
    by (intro connect_inv_frame [OF inv]) (auto simp: in_connect_def dest: pc_in_sets(4))
next
  case (credentials_return t)
  then show ?thesis
    by (intro connect_inv_frame [OF inv]) (auto simp: in_connect_def connecting_def)
next
  case (connect_enter t)
  with inv show ?thesis
    by (intro connect_inv_connecting [where t = t])
       (auto simp: connect_inv_def connects_expected_def clears_expected_def in_connect_def)
next
  case (connect_clear t)
  have "t \<in> connecting m" by (rule pc_in_sets(2)) (simp add: connect_clear)
  note at = connecting_lifecycle [OF inv this] connect_inv_at [OF inv this]
  with connect_clear show ?thesis
    by (intro connect_inv_connecting [where t = t])
       (auto simp: connects_expected_def clears_expected_def in_connect_def)
next
  case (connect_call t)
  have "t \<in> connecting m" by (rule pc_in_sets(2)) (simp add: connect_call)
  note at = connecting_lifecycle [OF inv this] connect_inv_at [OF inv this]
  with connect_call show ?thesis
    by (intro connect_inv_connecting [where t = t])
       (auto simp: connects_expected_def clears_expected_def in_connect_def)
next
  case (connect_return t)
  have "t \<in> connecting m" by (rule pc_in_sets(2)) (simp add: connect_return)
  note at = connecting_lifecycle [OF inv this] connect_inv_at [OF inv this]
  with connect_return show ?thesis
    by (intro connect_inv_connecting [where t = t])
       (auto simp: connects_expected_def clears_expected_def in_connect_def)
next
  case (connect_reset t)
  have "t \<in> connecting m" by (rule pc_in_sets(2)) (simp add: connect_reset)
  note at = connecting_lifecycle [OF inv this] connect_inv_at [OF inv this]
  with connect_reset show ?thesis
    by (auto simp: connect_inv_def connects_expected_def clears_expected_def in_connect_def)
next
  case (stop_win t)
  then show ?thesis
    by (intro connect_inv_frame [OF inv]) (auto simp: in_connect_def dest: pc_in_sets(4))
next
  case (stop_call t)
  then show ?thesis
    by (intro connect_inv_frame [OF inv]) (auto simp: in_connect_def connecting_def)
qed (use inv in auto)

lemma stop_inv_frame:
  "stop_inv m \<Longrightarrow> m_stop_requested m' = m_stop_requested m \<Longrightarrow> pending m' = pending m \<Longrightarrow>
   occurrences StopWon m' = occurrences StopWon m \<Longrightarrow> occurrences StopCall m' = occurrences StopCall m \<Longrightarrow>
   occurrences StopCleared m' = occurrences StopCleared m \<Longrightarrow> stop_inv m'"
  by (auto simp: stop_inv_def)

lemma stop_inv_step:
  assumes step: "client_step m m'" and inv: "stop_inv m"
  shows "stop_inv m'"
  using step
proof (cases rule: client_step.cases)
  case (connect_clear t)
  then have "t \<notin> pending m" by (simp add: pending_def)
  with connect_clear inv show ?thesis by (auto simp: stop_inv_def split: if_splits)
next
  case (stop_win t)
  with inv show ?thesis by (auto simp: stop_inv_def dest: pc_in_sets(4))
next
  case (stop_call t)
  then have t: "t \<in> pending m" by (simp add: pending_def)
  with inv have "card (pending m) = Suc (card (pending m - {t}))"
    by (metis card_Suc_Diff1 stop_inv_def)
  with stop_call inv show ?thesis by (auto simp: stop_inv_def split: if_splits)
qed (rule stop_inv_frame [OF inv], auto simp: pending_def)+

lemma client_inv_init: "client_inv machine_init"
  by (simp add: client_inv_def lock_inv_def connect_inv_def stop_inv_def machine_init_def holders_def
      connecting_def pending_def holds_lock_def in_connect_def connects_expected_def clears_expected_def)

lemma client_inv_step: "client_step m m' \<Longrightarrow> client_inv m \<Longrightarrow> client_inv m'"
  by (auto simp: client_inv_def intro: lock_inv_step connect_inv_step stop_inv_step)

lemma reachable_inv: "reachable m \<Longrightarrow> client_inv m"
  unfolding reachable_def
  by (induction rule: rtranclp_induct) (auto intro: client_inv_init client_inv_step)

section \<open>Sequential use is a run of the machine\<close>

text \<open>The machine between two operations of a single thread.\<close>

definition machine_of :: "'n inner \<Rightarrow> native_event list \<Rightarrow> machine" where
  "machine_of i tr = \<lparr>m_lifecycle = in_lifecycle i, m_stop_requested = in_stop_requested i, m_lock = None,
                      m_pc = (\<lambda>_. Idle), m_trace = tr\<rparr>"

datatype client_op = OpEvaluate config | OpProvideCredentials credentials | OpConnect | OpStop

fun run_op :: "'n sys_api \<Rightarrow> client_op \<Rightarrow> 'n inner \<Rightarrow> 'n inner" where
  "run_op api (OpEvaluate config) i = snd (client_evaluate api i config)"
| "run_op api (OpProvideCredentials credentials) i = snd (client_provide_credentials api i credentials)"
| "run_op api OpConnect i = snd (client_connect api i)"
| "run_op api OpStop i = client_stop api i"

definition native_stops :: "'n inner \<Rightarrow> nat" where
  "native_stops i = count_list (sys_log (in_native i)) CallStop"

lemma native_stops_simps [simp]:
  "native_stops (i\<lparr>in_lifecycle := l\<rparr>) = native_stops i"
  "native_stops (i\<lparr>in_stop_requested := b\<rparr>) = native_stops i"
  "native_stops (i\<lparr>in_native := stop api (in_native i)\<rparr>) = Suc (native_stops i)"
  by (simp_all add: native_stops_def stop_def)

lemma native_stops_status_result [simp]:
  "native_stops (i\<lparr>in_native := snd (status_result call (in_native i))\<rparr>) = native_stops i"
  by (simp add: native_stops_def status_result_def split: prod.splits)

lemma native_stops_evaluate [simp]:
  "native_stops (i\<lparr>in_native := snd (evaluate api (in_native i) config)\<rparr>) = native_stops i"
  by (simp add: native_stops_def evaluate_def split: prod.splits)

lemma machine_of_idle [simp]: "(m_pc (machine_of i tr))(t := Idle) = m_pc (machine_of i tr)"
  by (auto simp: machine_of_def)

lemma evaluate_run:
  assumes "in_lifecycle i = New \<or> in_lifecycle i = Ready" and "in_stop_requested i' = in_stop_requested i"
    and "in_lifecycle i' = in_lifecycle i \<or> in_lifecycle i' = Ready"
  shows "client_step\<^sup>*\<^sup>* (machine_of i tr) (machine_of i' (tr @ [EvalCall]))"
proof -
  let ?m = "emit EvalCall (at_pc ((machine_of i tr)\<lparr>m_lock := Some 0\<rparr>) 0 Evaluating)"
  have enter: "client_step (machine_of i tr) ?m"
    using assms(1) by (intro evaluate_enter) (auto simp: machine_of_def)
  have at: "m_pc ?m 0 = Evaluating" by simp
  have "client_step ?m (machine_of i' (tr @ [EvalCall]))"
    using assms(3)
  proof
    assume "in_lifecycle i' = Ready"
    with evaluate_ok [OF at] assms(2) show ?thesis by (simp add: machine_of_def at_pc_def emit_def fun_upd_idem)
  next
    assume "in_lifecycle i' = in_lifecycle i"
    with evaluate_err [OF at] assms(2) show ?thesis by (simp add: machine_of_def at_pc_def emit_def fun_upd_idem)
  qed
  with enter show ?thesis by (meson r_into_rtranclp rtranclp.rtrancl_into_rtrancl)
qed

lemma credentials_run:
  assumes "in_lifecycle i = Ready" and "in_stop_requested i' = in_stop_requested i" and "in_lifecycle i' = Ready"
  shows "client_step\<^sup>*\<^sup>* (machine_of i tr) (machine_of i' (tr @ [CredsCall]))"
proof -
  let ?m = "emit CredsCall (at_pc ((machine_of i tr)\<lparr>m_lock := Some 0\<rparr>) 0 Providing)"
  have enter: "client_step (machine_of i tr) ?m"
    using assms(1) by (intro credentials_enter) (auto simp: machine_of_def)
  have at: "m_pc ?m 0 = Providing" by simp
  have "client_step ?m (machine_of i' (tr @ [CredsCall]))"
    using credentials_return [OF at] assms by (simp add: machine_of_def at_pc_def emit_def fun_upd_idem)
  with enter show ?thesis by (meson r_into_rtranclp rtranclp.rtrancl_into_rtrancl)
qed

lemma connect_run:
  assumes "in_lifecycle i = Ready" and "\<not> in_stop_requested i'" and "in_lifecycle i' = Finished"
  shows "client_step\<^sup>*\<^sup>* (machine_of i tr) (machine_of i' (tr @ [StopCleared, ConnectBegin, ConnectEnd]))"
proof -
  let ?a = "at_pc ((machine_of i tr)\<lparr>m_lock := Some 0, m_lifecycle := Connecting\<rparr>) 0 ConnectLocked"
  let ?b = "emit StopCleared (at_pc (?a\<lparr>m_stop_requested := False, m_lock := None\<rparr>) 0 ConnectReady)"
  let ?c = "emit ConnectBegin (at_pc ?b 0 ConnectRunning)"
  let ?d = "emit ConnectEnd (at_pc ?c 0 ConnectReturned)"
  let ?e = "at_pc (?d\<lparr>m_lifecycle := Finished\<rparr>) 0 Idle"
  have "client_step (machine_of i tr) ?a"
    using assms(1) by (intro connect_enter) (auto simp: machine_of_def)
  moreover have "client_step ?a ?b" by (rule connect_clear) simp
  moreover have "client_step ?b ?c" by (rule connect_call) simp
  moreover have "client_step ?c ?d" by (rule connect_return) simp
  moreover have "client_step ?d ?e" by (rule connect_reset) simp_all
  moreover have "?e = machine_of i' (tr @ [StopCleared, ConnectBegin, ConnectEnd])"
    using assms by (simp add: machine_of_def at_pc_def emit_def fun_upd_idem)
  ultimately show ?thesis by (auto intro: converse_rtranclp_into_rtranclp)
qed

lemma stop_run:
  assumes "\<not> in_stop_requested i" and "in_stop_requested i'" and "in_lifecycle i' = in_lifecycle i"
  shows "client_step\<^sup>*\<^sup>* (machine_of i tr) (machine_of i' (tr @ [StopWon, StopCall]))"
proof -
  let ?m = "emit StopWon (at_pc ((machine_of i tr)\<lparr>m_stop_requested := True\<rparr>) 0 StopSwapped)"
  have enter: "client_step (machine_of i tr) ?m"
    using assms(1) by (intro stop_win) (auto simp: machine_of_def)
  have at: "m_pc ?m 0 = StopSwapped" by simp
  have "client_step ?m (machine_of i' (tr @ [StopWon, StopCall]))"
    using stop_call [OF at] assms by (simp add: machine_of_def at_pc_def emit_def fun_upd_idem)
  with enter show ?thesis by (meson r_into_rtranclp rtranclp.rtrancl_into_rtrancl)
qed

text \<open>One operation: the machine can make the same transition, with the native stop calls of the log.\<close>

definition simulated :: "'n inner \<Rightarrow> 'n inner \<Rightarrow> bool" where
  "simulated i i' \<longleftrightarrow>
     (\<forall>tr. \<exists>evs. client_step\<^sup>*\<^sup>* (machine_of i tr) (machine_of i' (tr @ evs))
              \<and> native_stops i' = native_stops i + count_list evs StopCall)"

lemma simulatedI:
  "(\<And>tr. client_step\<^sup>*\<^sup>* (machine_of i tr) (machine_of i' (tr @ evs))) \<Longrightarrow>
   native_stops i' = native_stops i + count_list evs StopCall \<Longrightarrow> simulated i i'"
  by (auto simp: simulated_def)

lemma simulated_refl [simp]: "simulated i i"
  by (rule simulatedI [of _ _ "[]"]) auto

lemma simulated_trans: "simulated i j \<Longrightarrow> simulated j k \<Longrightarrow> simulated i k"
  unfolding simulated_def by (metis (no_types, lifting) add.assoc append.assoc count_list_append rtranclp_trans)

lemma on_native_snd: "snd (case p of (r, s) \<Rightarrow> (r, f s)) = f (snd p)"
  by (simp split: prod.splits)

lemma client_evaluate_cases:
  "snd (client_evaluate api i config) = i \<or>
   (in_lifecycle i = New \<or> in_lifecycle i = Ready) \<and>
     snd (client_evaluate api i config)
       \<in> {i\<lparr>in_native := snd (evaluate api (in_native i) config)\<rparr>,
          i\<lparr>in_native := snd (evaluate api (in_native i) config), in_lifecycle := Ready\<rparr>}"
proof (cases "validate_capabilities (capabilities api) config")
  case (Inr _)
  then show ?thesis
    by (cases "in_lifecycle i"; cases "fst (evaluate api (in_native i) config)")
       (auto simp: client_evaluate_def split: prod.splits)
qed (simp add: client_evaluate_def)

lemma run_op_simulated: "simulated i (run_op api op i)"
proof (cases op)
  case (OpEvaluate config)
  let ?p = "evaluate api (in_native i) config"
  consider "run_op api op i = i"
    | "in_lifecycle i = New \<or> in_lifecycle i = Ready" "run_op api op i = i\<lparr>in_native := snd ?p\<rparr>"
    | "in_lifecycle i = New \<or> in_lifecycle i = Ready"
      "run_op api op i = i\<lparr>in_native := snd ?p, in_lifecycle := Ready\<rparr>"
    using client_evaluate_cases [of api i config] OpEvaluate by auto
  then show ?thesis
    by cases (simp, (rule simulatedI [of _ _ "[EvalCall]"], rule evaluate_run, auto)+)
next
  case (OpProvideCredentials credentials)
  let ?p = "provide_credentials api (in_native i) credentials"
  consider "run_op api op i = i" | "in_lifecycle i = Ready" "run_op api op i = i\<lparr>in_native := snd ?p\<rparr>"
    using OpProvideCredentials by (cases "credentials_guard (in_lifecycle i)")
      (auto simp: client_provide_credentials_def on_native_snd)
  then show ?thesis
    by cases (simp, rule simulatedI [of _ _ "[CredsCall]"], rule credentials_run,
        auto simp: provide_credentials_def)
next
  case OpConnect
  let ?p = "connect api (in_native i)"
  consider "run_op api op i = i"
    | "in_lifecycle i = Ready"
      "run_op api op i = i\<lparr>in_native := snd ?p, in_lifecycle := Finished, in_stop_requested := False\<rparr>"
    using OpConnect by (cases "connect_guard (in_lifecycle i)"; cases ?p)
      (auto simp: client_connect_def prepare_connect_def connect_lifecycle_reset_def)
  then show ?thesis
    by cases (simp, rule simulatedI [of _ _ "[StopCleared, ConnectBegin, ConnectEnd]"], rule connect_run,
        auto simp: connect_def)
next
  case OpStop
  consider "run_op api op i = i"
    | "\<not> in_stop_requested i"
      "run_op api op i = i\<lparr>in_native := stop api (in_native i), in_stop_requested := True\<rparr>"
    using OpStop by (cases "in_stop_requested i") (auto simp: client_stop_def)
  then show ?thesis
    by cases (simp, rule simulatedI [of _ _ "[StopWon, StopCall]"], rule stop_run, auto)
qed

lemma run_ops_simulated: "simulated i (fold (run_op api) ops i)"
  by (induction ops arbitrary: i) (auto intro: simulated_trans run_op_simulated)

lemma simulated_reachable: "simulated i i' \<Longrightarrow> reachable (machine_of i tr) \<Longrightarrow>
   \<exists>evs. reachable (machine_of i' (tr @ evs)) \<and> native_stops i' = native_stops i + count_list evs StopCall"
  unfolding simulated_def reachable_def by (meson rtranclp_trans)

lemma machine_of_init: "in_lifecycle i = New \<Longrightarrow> \<not> in_stop_requested i \<Longrightarrow> machine_of i [] = machine_init"
  by (simp add: machine_of_def machine_init_def)

lemma connect_count_bounds: "connect_inv m \<Longrightarrow> occurrences ConnectBegin m \<le> 1 \<and> occurrences StopCleared m \<le> 1"
  by (auto simp: connect_inv_def connects_expected_def clears_expected_def split: lifecycle.splits if_splits)

lemma connecting_pc_eq:
  "connect_inv m \<Longrightarrow> in_connect (m_pc m t) \<Longrightarrow> in_connect (m_pc m u) \<Longrightarrow> t = u"
  using connecting_lifecycle [of m t] by (auto simp: connecting_def)

lemma holders_pc_eq: "lock_inv m \<Longrightarrow> holds_lock (m_pc m t) \<Longrightarrow> holds_lock (m_pc m u) \<Longrightarrow> t = u"
  using lock_holder [of m t] by (auto simp: holders_def)

lemma no_config_call_while_connecting:
  assumes "client_inv m" and "in_connect (m_pc m t)"
  shows "m_pc m u \<noteq> Evaluating \<and> m_pc m u \<noteq> Providing"
proof -
  have "m_lifecycle m = Connecting"
    using assms connecting_lifecycle [of m t] by (simp add: client_inv_def connecting_def)
  then show ?thesis using assms(1) lock_inv_critical [of m u] by (auto simp: client_inv_def)
qed

lemma native_stop_bound: "client_inv m \<Longrightarrow> occurrences StopCall m \<le> 2"
  using connect_count_bounds [of m] by (auto simp: client_inv_def stop_inv_def split: if_splits)

section \<open>Properties of interleaved use\<close>

text \<open>A run in which a second thread stops the client between \<open>prepare_connect\<close> and the native call.\<close>

definition early_stop_ready :: machine where
  "early_stop_ready =
     emit StopCleared (at_pc ((at_pc ((at_pc ((emit EvalCall (at_pc (machine_init\<lparr>m_lock := Some 0\<rparr>) 0 Evaluating))
       \<lparr>m_lock := None, m_lifecycle := Ready\<rparr>) 0 Idle)
       \<lparr>m_lock := Some 0, m_lifecycle := Connecting\<rparr>) 0 ConnectLocked)
       \<lparr>m_stop_requested := False, m_lock := None\<rparr>) 0 ConnectReady)"

definition early_stop_machine :: machine where
  "early_stop_machine =
     emit ConnectBegin (at_pc (emit StopCall (at_pc (emit StopWon
       (at_pc (early_stop_ready\<lparr>m_stop_requested := True\<rparr>) 1 StopSwapped)) 1 Idle)) 0 ConnectRunning)"

lemma early_stop_ready_reachable: "reachable early_stop_ready"
  unfolding early_stop_ready_def
  by (intro reachable_init reachable_step [OF _ evaluate_enter] reachable_step [OF _ evaluate_ok]
      reachable_step [OF _ connect_enter] reachable_step [OF _ connect_clear])
     (simp_all add: machine_init_def)

lemma early_stop_reachable: "reachable early_stop_machine"
proof -
  have "m_pc early_stop_ready 1 = Idle" "\<not> m_stop_requested early_stop_ready"
    "m_pc early_stop_ready 0 = ConnectReady"
    by (simp_all add: early_stop_ready_def machine_init_def)
  then show ?thesis
    unfolding early_stop_machine_def
    by (intro early_stop_ready_reachable reachable_step [OF _ stop_win] reachable_step [OF _ stop_call]
        reachable_step [OF _ connect_call]) simp_all
qed

text \<open>Once the flag is set and nobody can clear it any more, no stop reaches the core again.\<close>

definition sealed :: "machine \<Rightarrow> bool" where
  "sealed m \<longleftrightarrow> m_stop_requested m \<and> m_lifecycle m \<in> {Connecting, Finished} \<and>
     (\<forall>t. m_pc m t \<notin> {ConnectLocked, StopSwapped, Evaluating})"

lemma sealed_step: "client_step m m' \<Longrightarrow> sealed m \<Longrightarrow> sealed m' \<and> occurrences StopCall m' = occurrences StopCall m"
  by (cases rule: client_step.cases) (auto simp: sealed_def split: if_splits)

lemma sealed_steps:
  "client_step\<^sup>*\<^sup>* m m' \<Longrightarrow> sealed m \<Longrightarrow> sealed m' \<and> occurrences StopCall m' = occurrences StopCall m"
  by (induction rule: rtranclp_induct) (auto dest: sealed_step)

lemma early_stop_sealed: "sealed early_stop_machine"
  by (auto simp: sealed_def early_stop_machine_def early_stop_ready_def machine_init_def)

text \<open>
  C1: with any number of threads using clones of one client, at most one thread is inside
  \<open>connect\<close>, the native connect is entered at most once in the lifetime of the client, the
  calls that change the configuration never overlap each other nor a connect, and the
  native stop is called at most twice.
\<close>

theorem client_serialised:
  assumes "reachable m"
  shows "(in_connect (m_pc m t) \<and> in_connect (m_pc m u) \<longrightarrow> t = u)
     \<and> (holds_lock (m_pc m t) \<and> holds_lock (m_pc m u) \<longrightarrow> t = u)
     \<and> (in_connect (m_pc m t) \<longrightarrow> m_pc m u \<noteq> Evaluating \<and> m_pc m u \<noteq> Providing)
     \<and> occurrences ConnectBegin m \<le> 1 \<and> occurrences StopCall m \<le> 2"
  using reachable_inv [OF assms] connecting_pc_eq [of m t u] holders_pc_eq [of m t u]
    no_config_call_while_connecting [of m t u] connect_count_bounds [of m] native_stop_bound [of m]
  by (auto simp: client_inv_def)

theorem client_serialised_witness:
  "occurrences ConnectBegin early_stop_machine = 1 \<and> m_pc early_stop_machine 0 = ConnectRunning
   \<and> m_pc early_stop_machine 1 \<noteq> Evaluating"
proof -
  have "occurrences ConnectBegin early_stop_machine = 1" "m_pc early_stop_machine 0 = ConnectRunning"
    by (simp_all add: early_stop_machine_def early_stop_ready_def machine_init_def)
  moreover have "in_connect (m_pc early_stop_machine 0)"
    by (simp add: in_connect_def early_stop_machine_def)
  ultimately show ?thesis using client_serialised [OF early_stop_reachable, of 0 1] by simp
qed

text \<open>
  C27: a stop that arrives after \<open>prepare_connect\<close> and before the native connect is entered
  is the last one the core ever sees.  There is a run in which the connect is entered after
  that stop and in which, whatever the threads do next, no further native stop is made:
  later calls to \<open>stop\<close> only find the flag set.
\<close>

theorem early_stop_is_final:
  "reachable early_stop_machine
   \<and> m_trace early_stop_machine = [EvalCall, StopCleared, StopWon, StopCall, ConnectBegin]
   \<and> m_pc early_stop_machine 0 = ConnectRunning
   \<and> Collect (client_step\<^sup>*\<^sup>* early_stop_machine)
       \<subseteq> {m. m_stop_requested m \<and> occurrences StopCall m = occurrences StopCall early_stop_machine}"
proof (intro conjI subsetI)
  show "m_trace early_stop_machine = [EvalCall, StopCleared, StopWon, StopCall, ConnectBegin]"
    "m_pc early_stop_machine 0 = ConnectRunning"
    by (simp_all add: early_stop_machine_def early_stop_ready_def machine_init_def)
next
  fix m
  assume "m \<in> Collect (client_step\<^sup>*\<^sup>* early_stop_machine)"
  then show "m \<in> {m. m_stop_requested m \<and> occurrences StopCall m = occurrences StopCall early_stop_machine}"
    using sealed_steps early_stop_sealed by (auto simp: sealed_def)
qed (rule early_stop_reachable)

section \<open>Properties of sequential use\<close>

text \<open>
  C12: any sequence of \<open>evaluate\<close>, \<open>provide_credentials\<close>, \<open>connect\<close> and \<open>stop\<close> on a new
  client refines the interleaving machine: its state is one the machine reaches, with the
  same number of native stop calls, so that at most two stops are made, the one of the
  final drop included.
\<close>

theorem sequential_use_refines:
  assumes "in_lifecycle i = New" and "\<not> in_stop_requested i" and "native_stops i = 0"
    and "j = fold (run_op api) ops i"
  shows "\<exists>tr. reachable (machine_of j tr) \<and> native_stops j = count_list tr StopCall
             \<and> native_stops (inner_drop api j) \<le> 2"
proof -
  have "reachable (machine_of i [])" by (simp add: assms machine_of_init reachable_def)
  then obtain evs where evs: "reachable (machine_of j evs)" "native_stops j = count_list evs StopCall"
    using simulated_reachable [OF run_ops_simulated, of i "[]"] assms(3,4) by fastforce
  have "stop_inv (machine_of j evs)" "connect_inv (machine_of j evs)"
    using reachable_inv [OF evs(1)] by (auto simp: client_inv_def)
  moreover have "pending (machine_of j evs) = {}" by (simp add: pending_def machine_of_def)
  moreover have "native_stops (inner_drop api j) = native_stops j + (if in_stop_requested j then 0 else 1)"
    by (simp add: inner_drop_def free_client_def native_stops_def stop_def)
  ultimately have "native_stops (inner_drop api j) \<le> 2"
    using connect_count_bounds [of "machine_of j evs"] evs(2)
    by (auto simp: stop_inv_def machine_of_def split: if_splits)
  with evs show ?thesis by blast
qed

definition sample_inner :: "unit inner" where
  "sample_inner = \<lparr>in_native = sample_sys, in_lifecycle = New, in_stop_requested = False\<rparr>"

theorem sequential_use_refines_witness:
  "native_stops (inner_drop sample_api (fold (run_op sample_api) [OpStop, OpStop] sample_inner)) \<le> 2"
proof -
  have "in_lifecycle sample_inner = New" "\<not> in_stop_requested sample_inner" "native_stops sample_inner = 0"
    by (simp_all add: sample_inner_def sample_sys_def native_stops_def)
  from sequential_use_refines [OF this refl] show ?thesis by blast
qed

text \<open>
  A client runs one session.  After \<open>connect\<close> went past its guard, whatever the core
  returned, \<open>evaluate\<close>, \<open>provide_credentials\<close> and \<open>connect\<close> all fail (the first possibly
  because of an unsupported capability), the failing calls leave the client and the core
  untouched, and \<open>ensure_connectable\<close> agrees.
\<close>

theorem one_session_per_client:
  assumes "in_lifecycle i = Ready" and "client_connect api i = (r, j)"
  shows "r = fst (connect api (in_native i)) \<and> in_lifecycle j = Finished \<and> \<not> in_stop_requested j
     \<and> client_connect api j = (Err one_session_error, j)
     \<and> client_provide_credentials api j creds = (Err one_session_error, j)
     \<and> ensure_connectable j = Err one_session_error
     \<and> client_evaluate api j config =
         (Err (case validate_capabilities (capabilities api) config of Inl e \<Rightarrow> e | Inr _ \<Rightarrow> one_session_error), j)"
  using assms by (auto simp: lifecycle_simps ensure_connectable_def split: prod.splits sum.splits)

theorem one_session_per_client_witness:
  "client_connect sample_api (snd (client_connect sample_api (sample_inner\<lparr>in_lifecycle := Ready\<rparr>)))
     = (Err one_session_error, snd (client_connect sample_api (sample_inner\<lparr>in_lifecycle := Ready\<rparr>)))"
  using one_session_per_client [of "sample_inner\<lparr>in_lifecycle := Ready\<rparr>" sample_api, OF _ prod.collapse [symmetric]]
  by (simp add: sample_inner_def)

lemma lifecycle_step:
  assumes "client_step m m'" "client_inv m"
  shows "m_lifecycle m \<le> m_lifecycle m'"
  using assms(1)
proof cases
  case (evaluate_ok t)
  then show ?thesis using lock_inv_critical [of m t] assms(2) by (auto simp: client_inv_def)
next
  case (connect_enter t)
  then show ?thesis by (auto simp: less_eq_lifecycle_def)
qed auto

text \<open>
  C39: the lifecycle never goes back.  Whatever the threads do from a reachable state on, the
  state of the client only advances in the order new, ready, connecting, finished; once a
  connect was entered, \<open>evaluate\<close>, \<open>provide_credentials\<close> and a further \<open>connect\<close> are refused for
  good, and a finished client stays finished.
\<close>

theorem lifecycle_monotone:
  assumes "reachable m" "client_step\<^sup>*\<^sup>* m m'"
  shows "m_lifecycle m \<le> m_lifecycle m'
     \<and> (Connecting \<le> m_lifecycle m \<longrightarrow>
          evaluate_guard (m_lifecycle m') \<noteq> None \<and> credentials_guard (m_lifecycle m') \<noteq> None
          \<and> connect_guard (m_lifecycle m') \<noteq> None)
     \<and> (m_lifecycle m = Finished \<longrightarrow> m_lifecycle m' = Finished)"
proof -
  from assms(2,1) have "m_lifecycle m \<le> m_lifecycle m' \<and> reachable m'"
  proof (induction rule: rtranclp_induct)
    case (step u v)
    then show ?case using lifecycle_step [OF step.hyps(2) reachable_inv] reachable_step [OF _ step.hyps(2)] order_trans by blast
  qed simp
  then have le: "m_lifecycle m \<le> m_lifecycle m'" by blast
  moreover have "m_lifecycle m' \<in> {Connecting, Finished}" if "Connecting \<le> m_lifecycle m"
    using order_trans [OF that le] by simp
  ultimately show ?thesis by auto
qed

theorem lifecycle_monotone_witness:
  "evaluate_guard (m_lifecycle early_stop_machine) \<noteq> None \<and> connect_guard (m_lifecycle early_stop_machine) \<noteq> None"
  using lifecycle_monotone [OF early_stop_reachable rtranclp.rtrancl_refl]
  by (simp add: early_stop_machine_def early_stop_ready_def)

text \<open>
  C: \<open>connect_with_started\<close> runs its closure at most once: exactly once without entering
  the core when the lifecycle refuses the connect, and otherwise once if and only if the
  core reported the start at least once.
\<close>

theorem started_runs_at_most_once:
  "snd (client_connect_with_started api i started) =
     (if in_lifecycle i = Ready \<and> snd (ovpn_client_connect_started api (sys_core (in_native i))) = 0
      then [] else [started])
   \<and> (connect_guard (in_lifecycle i) = Some e \<longrightarrow>
        fst (client_connect_with_started api i started) = (Err e, i))"
  by (cases "in_lifecycle i")
     (auto simp: client_connect_with_started_def prepare_connect_def connect_with_started_def
       started_calls_at_most_once split: prod.splits)

theorem started_runs_at_most_once_witness:
  "client_connect_with_started sample_api sample_inner (7 :: nat)
     = ((Err (InvalidState ''evaluate a profile before connecting''), sample_inner), [7])"
  using started_runs_at_most_once [of sample_api sample_inner "7 :: nat" "InvalidState ''evaluate a profile before connecting''"]
  by (simp add: sample_inner_def prod_eq_iff)

text \<open>
  From creation to drop the native client is released exactly once, as the last call, and
  a stop is made first unless one was requested since the last \<open>prepare_connect\<close>.
\<close>

theorem drop_stops_then_frees:
  "sys_log (in_native (inner_drop api i)) =
     sys_log (in_native i) @ (if in_stop_requested i then [] else [CallStop]) @ [Release AClient]
   \<and> in_stop_requested (inner_drop api i)
   \<and> in_stop_requested (client_stop api i) \<and> client_stop api (client_stop api i) = client_stop api i"
  by (auto simp: inner_drop_def client_stop_def free_client_def stop_def Let_def)

end
