(* ===== verification/Tokio_Session.thy ===== *)
theory Tokio_Session
  imports Client_Lifecycle
begin

text \<open>
  The asynchronous client of \<open>tokio.rs\<close>: the builder, the guards of the client's
  operations, the session future, the commands of a session handle, and the session itself
  as a step relation in which the blocking worker, the driver task and the users of the
  handle interleave.  Tokio's channels appear with their documented behaviour: an mpsc
  channel is a bounded queue, a oneshot channel carries at most one value and reports when
  its sender is gone.
\<close>

section \<open>Builder and client\<close>

definition DEFAULT_BROADCAST_CAPACITY :: usize where
  "DEFAULT_BROADCAST_CAPACITY = 256"

definition DEFAULT_COMMAND_CAPACITY :: usize where
  "DEFAULT_COMMAND_CAPACITY = 32"

datatype ('s, 'a) builder_handler = SyncHandler 's | AsyncHandler 'a

record ('s, 'a) client_builder =
  cb_handler :: "('s, 'a) builder_handler"
  cb_event_capacity :: usize
  cb_log_capacity :: usize
  cb_app_control_capacity :: usize
  cb_command_capacity :: usize

definition client_builder_default :: "(unit, 'a) client_builder" where
  "client_builder_default = \<lparr>cb_handler = SyncHandler (), cb_event_capacity = DEFAULT_BROADCAST_CAPACITY,
     cb_log_capacity = DEFAULT_BROADCAST_CAPACITY, cb_app_control_capacity = DEFAULT_BROADCAST_CAPACITY,
     cb_command_capacity = DEFAULT_COMMAND_CAPACITY\<rparr>"

definition event_capacity :: "('s, 'a) client_builder \<Rightarrow> usize \<Rightarrow> ('s, 'a) client_builder" where
  "event_capacity b capacity = b\<lparr>cb_event_capacity := max capacity 1\<rparr>"

definition log_capacity :: "('s, 'a) client_builder \<Rightarrow> usize \<Rightarrow> ('s, 'a) client_builder" where
  "log_capacity b capacity = b\<lparr>cb_log_capacity := max capacity 1\<rparr>"

definition app_control_capacity :: "('s, 'a) client_builder \<Rightarrow> usize \<Rightarrow> ('s, 'a) client_builder" where
  "app_control_capacity b capacity = b\<lparr>cb_app_control_capacity := max capacity 1\<rparr>"

definition command_capacity :: "('s, 'a) client_builder \<Rightarrow> usize \<Rightarrow> ('s, 'a) client_builder" where
  "command_capacity b capacity = b\<lparr>cb_command_capacity := max capacity 1\<rparr>"

text \<open>The setters of the handler: the other fields stay.\<close>

definition builder_handler_sync :: "('s, 'a) client_builder \<Rightarrow> 't \<Rightarrow> ('t, 'a) client_builder" where
  "builder_handler_sync b handler = \<lparr>cb_handler = SyncHandler handler, cb_event_capacity = cb_event_capacity b,
     cb_log_capacity = cb_log_capacity b, cb_app_control_capacity = cb_app_control_capacity b,
     cb_command_capacity = cb_command_capacity b\<rparr>"

definition builder_handler_async :: "('s, 'a) client_builder \<Rightarrow> 'b \<Rightarrow> ('s, 'b) client_builder" where
  "builder_handler_async b handler = \<lparr>cb_handler = AsyncHandler handler, cb_event_capacity = cb_event_capacity b,
     cb_log_capacity = cb_log_capacity b, cb_app_control_capacity = cb_app_control_capacity b,
     cb_command_capacity = cb_command_capacity b\<rparr>"

text \<open>Tokio's channel constructors panic on a capacity of zero.\<close>

definition channel :: "usize \<Rightarrow> usize outcome" where
  "channel capacity = (if capacity = 0 then Panicked else Returned capacity)"

record ('n, 'h) tokio_client =
  tc_core :: "'n inner"
  tc_delegate :: 'h
  tc_events :: usize
  tc_logs :: usize
  tc_app_control :: usize
  tc_session_active :: bool
  tc_command_capacity :: usize

text \<open>
  \<open>ClientBuilder::build\<close>.  The runtime lookup is \<open>Handle::try_current\<close>: a runtime or the
  text of its error.  The three broadcast channels are made before the handler is looked at.
\<close>

definition build ::
  "'n sys_api \<Rightarrow> (string + 'rt) \<Rightarrow> ('s, 'a) client_builder \<Rightarrow> ('n, 's + 'a \<times> 'rt) tokio_client res outcome" where
  "build api try_current b =
     bind_outcome (channel (cb_event_capacity b)) (\<lambda>events.
     bind_outcome (channel (cb_log_capacity b)) (\<lambda>logs.
     bind_outcome (channel (cb_app_control_capacity b)) (\<lambda>app_control.
       Returned (
         and_then
           (case cb_handler b of
              SyncHandler handler \<Rightarrow> Ok (Inl handler)
            | AsyncHandler handler \<Rightarrow>
                (case try_current of
                   Inl error \<Rightarrow> Err (Runtime (''an active Tokio runtime is required for async callbacks: '' @ error))
                 | Inr runtime \<Rightarrow> Ok (Inr (handler, runtime))))
           (\<lambda>delegate.
              case fst (client_new api) of
                Inl e \<Rightarrow> Err e
              | Inr core \<Rightarrow> Ok \<lparr>tc_core = core, tc_delegate = delegate, tc_events = events, tc_logs = logs,
                                tc_app_control = app_control, tc_session_active = False,
                                tc_command_capacity = cb_command_capacity b\<rparr>)))))"

definition tokio_new :: "'n sys_api \<Rightarrow> (string + 'rt) \<Rightarrow> 's \<Rightarrow> ('n, 's + 'a \<times> 'rt) tokio_client res outcome" where
  "tokio_new api try_current handler = build api try_current (builder_handler_sync client_builder_default handler)"

definition tokio_new_async :: "'n sys_api \<Rightarrow> (string + 'rt) \<Rightarrow> 'a \<Rightarrow> ('n, unit + 'a \<times> 'rt) tokio_client res outcome" where
  "tokio_new_async api try_current handler =
     build api try_current (builder_handler_async (client_builder_default :: (unit, unit) client_builder) handler)"

definition tokio_without_callbacks :: "'n sys_api \<Rightarrow> (string + 'rt) \<Rightarrow> ('n, unit + 'a \<times> 'rt) tokio_client res outcome" where
  "tokio_without_callbacks api try_current = build api try_current client_builder_default"

definition ensure_idle :: "('n, 'h) tokio_client \<Rightarrow> unit res" where
  "ensure_idle c =
     (if tc_session_active c
      then Err (InvalidState ''cannot mutate configuration while the client is connecting'')
      else Ok ())"

text \<open>\<open>flatten_join\<close>: a join error carries its display text.\<close>

definition flatten_join :: "string + 'r res \<Rightarrow> 'r res" where
  "flatten_join result =
     (case result of Inl error \<Rightarrow> Err (Runtime (''OpenVPN worker failed: '' @ error)) | Inr r \<Rightarrow> r)"

text \<open>
  A blocking task either runs its closure or fails to join without having run it (the
  runtime shut down); \<open>join_error\<close> says which.
\<close>

definition run_blocking :: "string option \<Rightarrow> ('c \<Rightarrow> 'r res \<times> 'c) \<Rightarrow> 'c \<Rightarrow> 'r res \<times> 'c" where
  "run_blocking join_error operation core =
     (case join_error of
        Some error \<Rightarrow> (flatten_join (Inl error), core)
      | None \<Rightarrow> (case operation core of (r, core') \<Rightarrow> (flatten_join (Inr r), core')))"

definition run_blocking_value :: "string option \<Rightarrow> (unit \<Rightarrow> 'r) \<Rightarrow> 'r res" where
  "run_blocking_value join_error operation =
     (case join_error of
        Some error \<Rightarrow> Err (Runtime (''OpenVPN worker failed: '' @ error))
      | None \<Rightarrow> Ok (operation ()))"

definition tokio_merge_config_path :: "'n sys_api \<Rightarrow> string option \<Rightarrow> string \<Rightarrow> bool \<Rightarrow> merged_config res" where
  "tokio_merge_config_path api join_error path follow_references =
     run_blocking_value join_error (\<lambda>_. fst (merge_config_path api path follow_references))"

definition tokio_merge_config_string :: "'n sys_api \<Rightarrow> string option \<Rightarrow> string \<Rightarrow> merged_config res" where
  "tokio_merge_config_string api join_error content =
     run_blocking_value join_error (\<lambda>_. fst (merge_config_string api content))"

definition tokio_evaluate_config :: "'n sys_api \<Rightarrow> string option \<Rightarrow> config \<Rightarrow> evaluation res" where
  "tokio_evaluate_config api join_error config =
     fst (run_blocking join_error (\<lambda>u. (fst (evaluate_config api config), u)) ())"

definition tokio_crypto_self_test :: "'n sys_api \<Rightarrow> string option \<Rightarrow> string res" where
  "tokio_crypto_self_test api join_error = run_blocking_value join_error (\<lambda>_. fst (crypto_self_test api))"

text \<open>The operations that take the setup lock: \<open>evaluate\<close>, \<open>provide_credentials\<close>, \<open>callback_self_test\<close>.\<close>

definition with_setup ::
  "('n, 'h) tokio_client \<Rightarrow> string option \<Rightarrow> ('n inner \<Rightarrow> 'r res \<times> 'n inner) \<Rightarrow> 'r res \<times> ('n, 'h) tokio_client" where
  "with_setup c join_error operation =
     (case ensure_idle c of
        Inl e \<Rightarrow> (Err e, c)
      | Inr _ \<Rightarrow> (case run_blocking join_error operation (tc_core c) of (r, core) \<Rightarrow> (r, c\<lparr>tc_core := core\<rparr>)))"

definition tokio_evaluate ::
  "'n sys_api \<Rightarrow> ('n, 'h) tokio_client \<Rightarrow> string option \<Rightarrow> config \<Rightarrow> evaluation res \<times> ('n, 'h) tokio_client" where
  "tokio_evaluate api c join_error config = with_setup c join_error (\<lambda>core. client_evaluate api core config)"

definition tokio_provide_credentials ::
  "'n sys_api \<Rightarrow> ('n, 'h) tokio_client \<Rightarrow> string option \<Rightarrow> credentials \<Rightarrow> status res \<times> ('n, 'h) tokio_client" where
  "tokio_provide_credentials api c join_error credentials =
     with_setup c join_error (\<lambda>core. client_provide_credentials api core credentials)"

definition tokio_callback_self_test ::
  "'n sys_api \<Rightarrow> ('n, 'h) tokio_client \<Rightarrow> string option \<Rightarrow> status res \<times> ('n, 'h) tokio_client" where
  "tokio_callback_self_test api c join_error = with_setup c join_error (client_callback_self_test api)"

text \<open>The guards at the start of \<open>Client::connect\<close>; on success the session flag is taken.\<close>

definition connect_claim :: "('n, 'h) tokio_client \<Rightarrow> unit res \<times> ('n, 'h) tokio_client" where
  "connect_claim c =
     (case ensure_connectable (tc_core c) of
        Inl e \<Rightarrow> (Err e, c)
      | Inr _ \<Rightarrow>
          if tc_session_active c then (Err (InvalidState ''the client is already connecting''), c)
          else (Ok (), c\<lparr>tc_session_active := True\<rparr>))"

section \<open>Commands\<close>

datatype command =
    Stop
  | Pause string
  | Resume
  | Reconnect i32
  | PostControl string
  | SendAppControl string string
  | StartCertCheck string string "string option"
  | StartEpkiCertCheck string "string option"
  | ConnectionInfo
  | SessionToken
  | Statistics
  | InterfaceStats
  | TransportStats

datatype reply =
    UnitReply
  | StatusReply "status res"
  | ConnectionInfoReply "connection_info_t option"
  | SessionTokenReply "session_token_t option"
  | StatisticsReply "statistic list"
  | InterfaceStatsReply interface_stats_t
  | TransportStatsReply transport_stats_t

fun run_command :: "'n sys_api \<Rightarrow> string option \<Rightarrow> command \<Rightarrow> 'n inner \<Rightarrow> reply \<times> 'n inner" where
  "run_command api join_error Stop core = (UnitReply, client_stop api core)"
| "run_command api join_error (Pause reason) core = (UnitReply, client_pause api core reason)"
| "run_command api join_error Resume core = (UnitReply, client_resume api core)"
| "run_command api join_error (Reconnect seconds) core = (UnitReply, client_reconnect api core seconds)"
| "run_command api join_error (PostControl message) core = (UnitReply, client_post_control_message api core message)"
| "run_command api join_error (SendAppControl protocol message) core =
     (UnitReply, client_send_app_control_message api core protocol message)"
| "run_command api join_error (StartCertCheck client_certificate client_key ca) core =
     apfst StatusReply (run_blocking join_error
       (\<lambda>core. client_start_certificate_check api core client_certificate client_key ca) core)"
| "run_command api join_error (StartEpkiCertCheck alias ca) core =
     apfst StatusReply (run_blocking join_error
       (\<lambda>core. client_start_external_pki_certificate_check api core alias ca) core)"
| "run_command api join_error ConnectionInfo core = apfst ConnectionInfoReply (client_connection_info api core)"
| "run_command api join_error SessionToken core = apfst SessionTokenReply (client_session_token api core)"
| "run_command api join_error Statistics core = apfst StatisticsReply (client_statistics api core)"
| "run_command api join_error InterfaceStats core = apfst InterfaceStatsReply (client_interface_stats api core)"
| "run_command api join_error TransportStats core = apfst TransportStatsReply (client_transport_stats api core)"

section \<open>The session future\<close>

datatype 'r oneshot = Empty | Sent 'r | Closed

datatype 'r poll = Pending | Ready_poll 'r

record session =
  se_completion :: "status res oneshot option"
  se_completed :: bool

definition session_poll :: "session \<Rightarrow> status res poll \<times> session" where
  "session_poll s =
     (case se_completion s of
        None \<Rightarrow> (Ready_poll (Err SessionClosed), s)
      | Some (Sent result) \<Rightarrow> (Ready_poll result, s\<lparr>se_completed := True, se_completion := None\<rparr>)
      | Some Closed \<Rightarrow>
          (Ready_poll (Err (Runtime ''OpenVPN session driver exited without a result'')),
           s\<lparr>se_completed := True, se_completion := None\<rparr>)
      | Some Empty \<Rightarrow> (Pending, s))"

text \<open>The handle's \<open>cancel\<close>, and \<open>Drop for Session\<close>: the token and the core afterwards.\<close>

definition handle_cancel :: "'n sys_api \<Rightarrow> bool \<times> 'n inner \<Rightarrow> bool \<times> 'n inner" where
  "handle_cancel api h = (True, client_stop api (snd h))"

definition session_drop :: "'n sys_api \<Rightarrow> session \<Rightarrow> bool \<times> 'n inner \<Rightarrow> bool \<times> 'n inner" where
  "session_drop api s h = (if se_completed s then h else handle_cancel api h)"

text \<open>
  \<open>query\<close>: what a caller gets from the channel's state after its command was offered.
  \<open>accepted\<close> is the result of the mpsc send, \<open>response\<close> the final state of the oneshot.
\<close>

definition query :: "bool \<Rightarrow> 'r oneshot \<Rightarrow> 'r res poll" where
  "query accepted response =
     (if \<not> accepted then Ready_poll (Err SessionClosed)
      else (case response of
              Sent r \<Rightarrow> Ready_poll (Ok r) | Closed \<Rightarrow> Ready_poll (Err SessionClosed) | Empty \<Rightarrow> Pending))"

section \<open>A running session\<close>

text \<open>The blocking task: not started yet, inside the core, or joined with its outcome.\<close>

datatype worker = Spawned | InCore | Joined "string + status res"

text \<open>
  The driver task: in the select loop, awaiting the worker after a cancellation, left the
  loop with a result, after dropping the active guard, and finished.
\<close>

datatype driver = Selecting | Awaiting | Broke "status res" | Unguarded "status res" | Exited

text \<open>The caller of \<open>connect\<close>: awaiting the start, holding a session, refused, or its future dropped.\<close>

datatype caller = Connecting_caller | Holding | Refused | Abandoned

record 'n running =
  ru_core :: "'n inner"
  ru_session_active :: bool
  ru_cancelled :: bool
  ru_worker :: worker
  ru_driver :: driver
  ru_caller :: caller
  ru_started :: "unit oneshot"
  ru_completion :: "status res oneshot"
  ru_capacity :: nat
  ru_senders :: bool
  ru_commands_open :: bool
  ru_queue :: "(nat \<times> command) list"
  ru_next :: nat
  ru_replies :: "(nat \<times> reply) list"
  ru_dropped :: "nat list"
  ru_base :: nat

text \<open>The state when \<open>spawn_driver\<close> returns.\<close>

definition session_start :: "('n, 'h) tokio_client \<Rightarrow> 'n running" where
  "session_start c = \<lparr>ru_core = tc_core c, ru_session_active = tc_session_active c, ru_cancelled = False,
     ru_worker = Spawned, ru_driver = Selecting, ru_caller = Connecting_caller, ru_started = Empty,
     ru_completion = Empty, ru_capacity = tc_command_capacity c, ru_senders = True, ru_commands_open = True,
     ru_queue = [], ru_next = 0, ru_replies = [], ru_dropped = [], ru_base = 0\<rparr>"

text \<open>A sender that is dropped closes its channel unless a value was sent.\<close>

fun drop_sender :: "'r oneshot \<Rightarrow> 'r oneshot" where
  "drop_sender Empty = Closed"
| "drop_sender (Sent r) = Sent r"
| "drop_sender Closed = Closed"

fun send_once :: "'r \<Rightarrow> 'r oneshot \<Rightarrow> 'r oneshot" where
  "send_once r Empty = Sent r"
| "send_once r (Sent r') = Sent r'"
| "send_once r Closed = Closed"

text \<open>The worker's closure: \<open>connect_with_started\<close>, cut where other tasks can interleave.\<close>

inductive worker_step :: "'n sys_api \<Rightarrow> 'n running \<Rightarrow> 'n running \<Rightarrow> bool" for api where
  prepare_failed:
    "ru_worker s = Spawned \<Longrightarrow> prepare_connect (ru_core s) = (Inl e, core) \<Longrightarrow>
     worker_step api s (s\<lparr>ru_core := core, ru_started := send_once () (ru_started s),
                          ru_worker := Joined (Inr (Err e))\<rparr>)"
| prepared:
    "ru_worker s = Spawned \<Longrightarrow> prepare_connect (ru_core s) = (Inr u, core) \<Longrightarrow>
     worker_step api s (s\<lparr>ru_core := core, ru_worker := InCore, ru_base := native_stops core\<rparr>)"
| started:
    "ru_worker s = InCore \<Longrightarrow>
     worker_step api s (s\<lparr>ru_started := send_once () (ru_started s)\<rparr>)"
| returned:
    "ru_worker s = InCore \<Longrightarrow>
     status_result (fst (ovpn_client_connect_started api (sys_core (in_native (ru_core s))))) (in_native (ru_core s))
       = (r, sys') \<Longrightarrow>
     worker_step api s (s\<lparr>ru_core := connect_lifecycle_reset ((ru_core s)\<lparr>in_native := sys'\<rparr>),
                          ru_started := drop_sender (ru_started s), ru_worker := Joined (Inr r)\<rparr>)"
| not_run:
    "ru_worker s = Spawned \<Longrightarrow>
     worker_step api s (s\<lparr>ru_started := drop_sender (ru_started s), ru_worker := Joined (Inl error)\<rparr>)"

text \<open>\<open>Drop for ActiveSessionGuard\<close>.\<close>

definition active_guard_drop :: "'n sys_api \<Rightarrow> 'n running \<Rightarrow> 'n running" where
  "active_guard_drop api s = s\<lparr>ru_core := client_stop api (ru_core s), ru_session_active := False\<rparr>"

text \<open>The driver task.  The receiver and the queued commands are dropped when it ends.\<close>

inductive driver_step :: "'n sys_api \<Rightarrow> 'n running \<Rightarrow> 'n running \<Rightarrow> bool" for api where
  select_joined:
    "ru_driver s = Selecting \<Longrightarrow> ru_worker s = Joined joined \<Longrightarrow>
     driver_step api s (s\<lparr>ru_driver := Broke (flatten_join joined)\<rparr>)"
| select_cancelled:
    "ru_driver s = Selecting \<Longrightarrow> ru_cancelled s \<Longrightarrow>
     driver_step api s (s\<lparr>ru_core := client_stop api (ru_core s), ru_driver := Awaiting\<rparr>)"
| await_joined:
    "ru_driver s = Awaiting \<Longrightarrow> ru_worker s = Joined joined \<Longrightarrow>
     driver_step api s (s\<lparr>ru_driver := Broke (flatten_join joined)\<rparr>)"
| select_command:
    "ru_driver s = Selecting \<Longrightarrow> ru_commands_open s \<Longrightarrow> ru_queue s = (i, c) # q \<Longrightarrow>
     run_command api join_error c (ru_core s) = (r, core) \<Longrightarrow>
     driver_step api s (s\<lparr>ru_core := core, ru_queue := q, ru_replies := ru_replies s @ [(i, r)]\<rparr>)"
| select_closed:
    "ru_driver s = Selecting \<Longrightarrow> ru_commands_open s \<Longrightarrow> ru_queue s = [] \<Longrightarrow> \<not> ru_senders s \<Longrightarrow>
     driver_step api s (s\<lparr>ru_commands_open := False\<rparr>)"
| drop_guard:
    "ru_driver s = Broke r \<Longrightarrow>
     driver_step api s ((active_guard_drop api s)\<lparr>ru_driver := Unguarded r\<rparr>)"
| send_completion:
    "ru_driver s = Unguarded r \<Longrightarrow>
     driver_step api s (s\<lparr>ru_completion := send_once r (ru_completion s), ru_driver := Exited,
                          ru_queue := [], ru_dropped := map fst (ru_queue s)\<rparr>)"

text \<open>
  The users: the caller of \<open>connect\<close>, then everybody who has the handle or the token.
  \<open>SessionHandle::cancel\<close> is \<open>cancel_token\<close> followed by \<open>cancel_core\<close>.
\<close>

inductive user_step :: "'n sys_api \<Rightarrow> 'n running \<Rightarrow> 'n running \<Rightarrow> bool" for api where
  connected:
    "ru_caller s = Connecting_caller \<Longrightarrow> ru_started s = Sent () \<Longrightarrow>
     user_step api s (s\<lparr>ru_caller := Holding\<rparr>)"
| refused:
    "ru_caller s = Connecting_caller \<Longrightarrow> ru_started s = Closed \<Longrightarrow>
     user_step api s (s\<lparr>ru_caller := Refused, ru_session_active := False, ru_senders := False\<rparr>)"
| abandoned:
    "ru_caller s = Connecting_caller \<Longrightarrow>
     user_step api s (s\<lparr>ru_caller := Abandoned, ru_senders := False\<rparr>)"
| submit:
    "ru_caller s = Holding \<Longrightarrow> ru_senders s \<Longrightarrow> ru_driver s \<noteq> Exited \<Longrightarrow> length (ru_queue s) < ru_capacity s \<Longrightarrow>
     user_step api s (s\<lparr>ru_queue := ru_queue s @ [(ru_next s, c)], ru_next := Suc (ru_next s)\<rparr>)"
| cancel_token:
    "ru_caller s = Holding \<Longrightarrow> user_step api s (s\<lparr>ru_cancelled := True\<rparr>)"
| cancel_core:
    "ru_caller s = Holding \<Longrightarrow> ru_senders s \<Longrightarrow> user_step api s (s\<lparr>ru_core := client_stop api (ru_core s)\<rparr>)"
| release:
    "ru_caller s = Holding \<Longrightarrow> user_step api s (s\<lparr>ru_senders := False\<rparr>)"

definition session_step :: "'n sys_api \<Rightarrow> 'n running \<Rightarrow> 'n running \<Rightarrow> bool" where
  "session_step api s s' \<longleftrightarrow> worker_step api s s' \<or> driver_step api s s' \<or> user_step api s s'"

definition session_reachable :: "'n sys_api \<Rightarrow> 'n running \<Rightarrow> bool" where
  "session_reachable api s \<longleftrightarrow>
     (\<exists>c :: ('n, unit) tokio_client. \<exists>c'. connect_claim c = (Ok (), c') \<and> (session_step api)\<^sup>*\<^sup>* (session_start c') s)"

inductive_cases driver_stepE: "driver_step api s s'"
inductive_cases worker_stepE: "worker_step api s s'"
inductive_cases user_stepE: "user_step api s s'"

section \<open>Invariants of a running session\<close>

text \<open>Every accepted command is in exactly one place, and they are handled in the order they came.\<close>

definition queue_inv :: "'n running \<Rightarrow> bool" where
  "queue_inv s \<longleftrightarrow>
     map fst (ru_replies s) @ ru_dropped s @ map fst (ru_queue s) = [0..<ru_next s] \<and>
     (if ru_driver s = Exited then ru_queue s = [] else ru_dropped s = [])"

text \<open>What the driver's position says about the worker, the session flag and the completion.\<close>

fun driver_inv :: "'n running \<Rightarrow> driver \<Rightarrow> bool" where
  "driver_inv s Selecting \<longleftrightarrow> ru_completion s = Empty"
| "driver_inv s Awaiting \<longleftrightarrow> ru_completion s = Empty \<and> ru_cancelled s"
| "driver_inv s (Broke r) \<longleftrightarrow>
     ru_completion s = Empty \<and> (\<exists>j. ru_worker s = Joined j \<and> r = flatten_join j)"
| "driver_inv s (Unguarded r) \<longleftrightarrow>
     ru_completion s = Empty \<and> (\<exists>j. ru_worker s = Joined j \<and> r = flatten_join j) \<and>
     \<not> ru_session_active s \<and> in_stop_requested (ru_core s)"
| "driver_inv s Exited \<longleftrightarrow>
     (\<exists>j. ru_worker s = Joined j \<and> ru_completion s = Sent (flatten_join j)) \<and>
     \<not> ru_session_active s \<and> in_stop_requested (ru_core s)"

text \<open>
  What the worker's position says about the start signal, the lifecycle and the stop flag.
  \<open>ru_base\<close> is the number of native stops when the connect was prepared.
\<close>

fun worker_inv :: "'n running \<Rightarrow> worker \<Rightarrow> bool" where
  "worker_inv s Spawned \<longleftrightarrow> ru_started s = Empty \<and> in_lifecycle (ru_core s) = Ready"
| "worker_inv s InCore \<longleftrightarrow>
     ru_started s \<noteq> Closed \<and> in_lifecycle (ru_core s) = Connecting \<and>
     native_stops (ru_core s) = ru_base s + (if in_stop_requested (ru_core s) then 1 else 0)"
| "worker_inv s (Joined j) \<longleftrightarrow>
     ru_started s \<noteq> Empty \<and> in_lifecycle (ru_core s) = (case j of Inl _ \<Rightarrow> Ready | Inr _ \<Rightarrow> Finished)"

definition start_inv :: "'n running \<Rightarrow> bool" where
  "start_inv s \<longleftrightarrow>
     (ru_cancelled s \<or> ru_queue s \<noteq> [] \<longrightarrow> ru_caller s = Holding) \<and>
     (ru_caller s = Holding \<longrightarrow> ru_started s = Sent ()) \<and>
     (ru_caller s = Refused \<longrightarrow> ru_started s = Closed) \<and>
     (ru_driver s = Awaiting \<longrightarrow> in_stop_requested (ru_core s))"

definition session_inv :: "'n running \<Rightarrow> bool" where
  "session_inv s \<longleftrightarrow> queue_inv s \<and> driver_inv s (ru_driver s) \<and> worker_inv s (ru_worker s) \<and> start_inv s"

lemma client_stop_simps [simp]:
  "in_stop_requested (client_stop api i)" "in_lifecycle (client_stop api i) = in_lifecycle i"
  "native_stops (client_stop api i) = native_stops i + (if in_stop_requested i then 0 else 1)"
  by (simp_all add: client_stop_def native_stops_def stop_def)

text \<open>An operation is quiet when it touches neither the lifecycle, the stop flag nor the native stop count.\<close>

definition quiet :: "'n inner \<Rightarrow> 'n inner \<Rightarrow> bool" where
  "quiet i i' \<longleftrightarrow> in_lifecycle i' = in_lifecycle i \<and> in_stop_requested i' = in_stop_requested i \<and>
     native_stops i' = native_stops i"

lemma count_list_pairs [simp]:
  "count_list (concat (map (\<lambda>_. [Acquire a, Release a]) xs)) CallStop = 0"
  by (induction xs) auto

lemma quiet_native:
  "sys_log s' = sys_log (in_native i) @ cs \<Longrightarrow> count_list cs CallStop = 0 \<Longrightarrow> quiet i (i\<lparr>in_native := s'\<rparr>)"
  by (simp add: quiet_def native_stops_def)

lemma quiet_on_native:
  "sys_log (snd (f (in_native i))) = sys_log (in_native i) @ cs \<Longrightarrow> count_list cs CallStop = 0 \<Longrightarrow>
   quiet i (snd (on_native f i))"
  using quiet_native [of "snd (f (in_native i))" i cs] by (simp add: on_native_def split_beta)

lemma quiet_status_result: "quiet i (snd (on_native (\<lambda>s. status_result (g s) s) i))"
  by (rule quiet_on_native [of _ _ "[Acquire AStatus, Release AStatus]"])
     (simp_all add: status_result_def split: prod.splits)

lemma quiet_controls:
  "quiet i (client_pause api i reason)" "quiet i (client_resume api i)" "quiet i (client_reconnect api i seconds)"
  "quiet i (client_post_control_message api i message)"
  "quiet i (client_send_app_control_message api i protocol message)"
  by (simp_all add: quiet_def native_stops_def client_pause_def pause_def client_resume_def resume_def
      client_reconnect_def reconnect_def client_post_control_message_def post_control_message_def
      client_send_app_control_message_def send_app_control_message_def)

lemma quiet_checks:
  "quiet i (snd (client_start_certificate_check api i cert key ca))"
  "quiet i (snd (client_start_external_pki_certificate_check api i alias ca))"
  by (simp_all add: client_start_certificate_check_def start_cert_check_def quiet_status_result
      client_start_external_pki_certificate_check_def start_cert_check_epki_def Let_def split_beta)

lemma quiet_queries:
  "quiet i (snd (client_connection_info api i))" "quiet i (snd (client_session_token api i))"
  "quiet i (snd (client_statistics api i))" "quiet i (snd (client_interface_stats api i))"
  "quiet i (snd (client_transport_stats api i))"
  unfolding client_connection_info_def client_session_token_def client_statistics_def
    client_interface_stats_def client_transport_stats_def
  by (rule quiet_on_native, simp add: connection_info_def session_token_def statistics_def
        interface_stats_def transport_stats_def Let_def split_beta, simp)+

lemma quiet_blocking:
  "quiet core (snd (operation core)) \<Longrightarrow> quiet core (snd (run_blocking join_error operation core))"
  by (simp add: run_blocking_def quiet_def split_beta split: option.splits)

lemma run_command_core:
  "run_command api join_error c core = (r, core') \<Longrightarrow>
   (if c = Stop then r = UnitReply \<and> core' = client_stop api core else quiet core core')"
  by (cases c) (auto simp: apfst_def map_prod_def split_beta quiet_controls quiet_queries
      intro: quiet_blocking quiet_checks)

section \<open>Every step keeps the invariant\<close>

lemma prepare_connect_Ok:
  "prepare_connect i = (Inr u, i') \<longleftrightarrow>
     in_lifecycle i = Ready \<and> i' = i\<lparr>in_lifecycle := Connecting, in_stop_requested := False\<rparr>"
  by (cases "in_lifecycle i") (auto simp: prepare_connect_def)

lemma prepare_connect_Err: "prepare_connect i = (Inl e, i') \<Longrightarrow> in_lifecycle i \<noteq> Ready \<and> i' = i"
  by (cases "in_lifecycle i") (auto simp: prepare_connect_def)

lemma reset_simps [simp]:
  "in_lifecycle (connect_lifecycle_reset i) = Finished"
  "in_stop_requested (connect_lifecycle_reset i) = in_stop_requested i"
  by (simp_all add: connect_lifecycle_reset_def)

lemma oneshot_simps [simp]:
  "drop_sender ch = Closed \<longleftrightarrow> ch \<noteq> Sent ()" "drop_sender ch \<noteq> Empty" "drop_sender ch = Sent () \<longleftrightarrow> ch = Sent ()"
  "send_once () ch \<noteq> Empty" "send_once () ch = Closed \<longleftrightarrow> ch = Closed" "send_once () ch = Sent () \<longleftrightarrow> ch \<noteq> Closed"
  by (cases ch; simp)+

lemma driver_inv_frame:
  "driver_inv s d \<Longrightarrow> ru_completion s' = ru_completion s \<Longrightarrow> (ru_cancelled s \<longrightarrow> ru_cancelled s') \<Longrightarrow>
   (\<And>j. ru_worker s = Joined j \<Longrightarrow> ru_worker s' = Joined j) \<Longrightarrow> (ru_session_active s' \<longrightarrow> ru_session_active s) \<Longrightarrow>
   (\<And>j. ru_worker s = Joined j \<Longrightarrow> in_stop_requested (ru_core s) \<Longrightarrow> in_stop_requested (ru_core s')) \<Longrightarrow> driver_inv s' d"
  by (cases d) auto

lemma session_inv_parts:
  "session_inv s \<Longrightarrow> queue_inv s" "session_inv s \<Longrightarrow> driver_inv s (ru_driver s)"
  "session_inv s \<Longrightarrow> worker_inv s (ru_worker s)" "session_inv s \<Longrightarrow> start_inv s"
  by (simp_all add: session_inv_def)

lemma session_invI:
  "queue_inv s \<Longrightarrow> driver_inv s (ru_driver s) \<Longrightarrow> worker_inv s (ru_worker s) \<Longrightarrow> start_inv s \<Longrightarrow> session_inv s"
  by (simp add: session_inv_def)

lemma queue_inv_frame:
  "queue_inv s \<Longrightarrow> ru_replies s' = ru_replies s \<Longrightarrow> ru_dropped s' = ru_dropped s \<Longrightarrow> ru_queue s' = ru_queue s \<Longrightarrow>
   ru_next s' = ru_next s \<Longrightarrow> (ru_driver s' = Exited \<longleftrightarrow> ru_driver s = Exited) \<Longrightarrow> queue_inv s'"
  by (simp add: queue_inv_def)

lemma worker_step_inv:
  assumes "worker_step api s s'" and inv: "session_inv s"
  shows "session_inv s'"
proof (rule session_invI)
  note parts = session_inv_parts [OF inv]
  show "queue_inv s'" using assms(1) by cases (rule queue_inv_frame [OF parts(1)]; simp)+
  show "driver_inv s' (ru_driver s')"
    using assms(1)
  proof cases
    case (prepare_failed e core)
    with parts(3) show ?thesis by (auto dest: prepare_connect_Err)
  qed (simp, rule driver_inv_frame [OF parts(2)]; simp)+
  show "worker_inv s' (ru_worker s')"
    using assms(1) parts(3) by cases (auto simp: prepare_connect_Ok dest: prepare_connect_Err)
  show "start_inv s'"
    using assms(1)
  proof cases
    case (prepare_failed e core)
    with parts(3) show ?thesis by (auto dest: prepare_connect_Err)
  next
    case (prepared u core)
    with parts(2-4) show ?thesis by (auto simp: start_inv_def prepare_connect_Ok)
  qed (use parts(3,4) in \<open>auto simp: start_inv_def\<close>)
qed

lemma worker_inv_core:
  "worker_inv s w \<Longrightarrow> ru_started s' = ru_started s \<Longrightarrow> in_lifecycle (ru_core s') = in_lifecycle (ru_core s) \<Longrightarrow>
   ru_base s' = ru_base s \<Longrightarrow>
   native_stops (ru_core s') + (if in_stop_requested (ru_core s) then 1 else 0)
     = native_stops (ru_core s) + (if in_stop_requested (ru_core s') then 1 else 0) \<Longrightarrow> worker_inv s' w"
  by (cases w) (auto split: if_splits)

text \<open>What a step of the driver or of a user may do to the core: nothing visible, or a stop.\<close>

definition only_stops :: "'n inner \<Rightarrow> 'n inner \<Rightarrow> bool" where
  "only_stops i i' \<longleftrightarrow> in_lifecycle i' = in_lifecycle i \<and> (in_stop_requested i \<longrightarrow> in_stop_requested i') \<and>
     native_stops i' + (if in_stop_requested i then 1 else 0) = native_stops i + (if in_stop_requested i' then 1 else 0)"

lemma only_stops_refl [simp]: "only_stops i i"
  by (simp add: only_stops_def)

lemma only_stops_stop [simp]: "only_stops i (client_stop api i)"
  by (simp add: only_stops_def)

lemma only_stops_command: "run_command api join_error c i = (r, i') \<Longrightarrow> only_stops i i'"
  by (drule run_command_core) (auto simp: quiet_def only_stops_def split: if_splits)

lemma driver_step_frame:
  assumes "driver_step api s s'"
  shows "ru_worker s' = ru_worker s \<and> ru_started s' = ru_started s \<and> ru_base s' = ru_base s \<and>
    ru_cancelled s' = ru_cancelled s \<and> ru_caller s' = ru_caller s \<and> only_stops (ru_core s) (ru_core s')"
  using assms by cases (auto simp: active_guard_drop_def intro: only_stops_command)

lemma user_step_frame:
  assumes "user_step api s s'"
  shows "ru_worker s' = ru_worker s \<and> ru_started s' = ru_started s \<and> ru_base s' = ru_base s \<and>
    ru_driver s' = ru_driver s \<and> ru_completion s' = ru_completion s \<and> only_stops (ru_core s) (ru_core s')"
  using assms by cases auto

lemma worker_inv_only_stops:
  "worker_inv s (ru_worker s) \<Longrightarrow> ru_worker s' = ru_worker s \<Longrightarrow> ru_started s' = ru_started s \<Longrightarrow>
   ru_base s' = ru_base s \<Longrightarrow> only_stops (ru_core s) (ru_core s') \<Longrightarrow> worker_inv s' (ru_worker s')"
  using worker_inv_core [of s "ru_worker s" s'] by (simp add: only_stops_def)

lemma driver_step_inv:
  assumes step: "driver_step api s s'" and inv: "session_inv s"
  shows "session_inv s'"
proof (rule session_invI)
  note parts = session_inv_parts [OF inv] and frame = driver_step_frame [OF step]
  show "queue_inv s'"
    using step parts(1) by cases (auto simp: queue_inv_def active_guard_drop_def)
  show "worker_inv s' (ru_worker s')" using worker_inv_only_stops parts(3) frame by blast
  show "driver_inv s' (ru_driver s')" using step parts(2) by cases (auto simp: active_guard_drop_def)
  have "ru_queue s' \<noteq> [] \<longrightarrow> ru_queue s \<noteq> []" using step by cases (auto simp: active_guard_drop_def)
  moreover have "ru_driver s' = Awaiting \<longrightarrow> in_stop_requested (ru_core s')" using step by cases auto
  ultimately show "start_inv s'" using parts(4) frame by (auto simp: start_inv_def)
qed

lemma user_step_inv:
  assumes step: "user_step api s s'" and inv: "session_inv s"
  shows "session_inv s'"
proof (rule session_invI)
  note parts = session_inv_parts [OF inv] and frame = user_step_frame [OF step]
  show "queue_inv s'" using step parts(1) by cases (auto simp: queue_inv_def)
  show "worker_inv s' (ru_worker s')" using worker_inv_only_stops parts(3) frame by blast
  have "ru_cancelled s \<longrightarrow> ru_cancelled s'" "ru_session_active s' \<longrightarrow> ru_session_active s"
    using step by (cases; auto)+
  then have "driver_inv s' (ru_driver s)"
    using frame by (intro driver_inv_frame [OF parts(2)]) (auto simp: only_stops_def)
  then show "driver_inv s' (ru_driver s')" using frame by simp
  show "start_inv s'" using step parts(4) by cases (auto simp: start_inv_def)
qed

lemma session_start_inv:
  "connect_claim c = (Ok (), c') \<Longrightarrow> session_inv (session_start c')"
  by (cases "in_lifecycle (tc_core c)")
     (auto simp: session_inv_def session_start_def connect_claim_def ensure_connectable_def queue_inv_def
       start_inv_def split: if_splits)

lemma session_reachable_inv:
  assumes "session_reachable api s"
  shows "session_inv s"
proof -
  obtain c c' where c: "connect_claim (c :: ('a, unit) tokio_client) = (Ok (), c')"
    and steps: "(session_step api)\<^sup>*\<^sup>* (session_start c') s"
    using assms by (auto simp: session_reachable_def)
  from steps show ?thesis
    by (induction rule: rtranclp_induct)
       (auto simp: session_step_def intro: session_start_inv [OF c] worker_step_inv driver_step_inv user_step_inv)
qed

section \<open>Progress of the driver\<close>

fun driver_phase :: "driver \<Rightarrow> nat" where
  "driver_phase Selecting = 4"
| "driver_phase Awaiting = 3"
| "driver_phase (Broke r) = 2"
| "driver_phase (Unguarded r) = 1"
| "driver_phase Exited = 0"

definition driver_measure :: "'n running \<Rightarrow> nat" where
  "driver_measure s = driver_phase (ru_driver s) + length (ru_queue s) + (if ru_commands_open s then 1 else 0)"

lemma driver_step_decreases: "driver_step api s s' \<Longrightarrow> driver_measure s' < driver_measure s"
  by (cases rule: driver_step.cases) (auto simp: driver_measure_def active_guard_drop_def)

lemma driver_step_wf: "wfP (\<lambda>s' s. driver_step api s s')"
  by (rule wfp_if_convertible_to_nat [of _ driver_measure]) (rule driver_step_decreases)

lemma driver_progress:
  "ru_worker s = Joined j \<Longrightarrow> ru_driver s \<noteq> Exited \<Longrightarrow> \<exists>s'. driver_step api s s'"
  by (cases "ru_driver s") (blast intro: driver_step.intros)+

lemma driver_steps_inv:
  "(driver_step api)\<^sup>*\<^sup>* s s' \<Longrightarrow> session_inv s \<Longrightarrow> session_inv s' \<and> ru_worker s' = ru_worker s"
  by (induction rule: rtranclp_induct) (auto dest: driver_step_inv driver_step_frame)

lemma driver_completes:
  assumes "session_inv s" and "ru_worker s = Joined j"
  shows "\<exists>s'. (driver_step api)\<^sup>*\<^sup>* s s' \<and> ru_driver s' = Exited \<and> ru_completion s' = Sent (flatten_join j)"
  using assms
proof (induction "driver_measure s" arbitrary: s rule: less_induct)
  case less
  show ?case
  proof (cases "ru_driver s = Exited")
    case True
    with less.prems show ?thesis by (auto simp: session_inv_def)
  next
    case False
    then obtain t where t: "driver_step api s t" using driver_progress less.prems(2) by blast
    then have "session_inv t" "ru_worker t = Joined j"
      using less.prems driver_step_inv driver_step_frame by metis+
    with less.hyps [OF driver_step_decreases [OF t]] t show ?thesis
      by (meson converse_rtranclp_into_rtranclp)
  qed
qed

section \<open>Properties\<close>

text \<open>A concrete client and session for the witnesses: evaluated, idle, started with the sample adapter.\<close>

definition sample_tokio :: "(unit, unit) tokio_client" where
  "sample_tokio = \<lparr>tc_core = sample_inner\<lparr>in_lifecycle := Ready\<rparr>, tc_delegate = (), tc_events = 256, tc_logs = 256,
     tc_app_control = 256, tc_session_active = False, tc_command_capacity = 32\<rparr>"

definition sample_started :: "unit running" where
  "sample_started =
     (let s = session_start (sample_tokio\<lparr>tc_session_active := True\<rparr>);
          core = snd (prepare_connect (ru_core s))
      in s\<lparr>ru_core := core, ru_worker := InCore, ru_base := native_stops core, ru_started := Sent (),
           ru_caller := Holding\<rparr>)"

lemma session_reachable_start:
  "connect_claim c = (Ok (), c') \<Longrightarrow> session_reachable api (session_start (c' :: ('n, unit) tokio_client))"
  by (auto simp: session_reachable_def)

lemma session_reachable_step: "session_reachable api s \<Longrightarrow> session_step api s s' \<Longrightarrow> session_reachable api s'"
  unfolding session_reachable_def by (meson rtranclp.rtrancl_into_rtrancl)

lemma sample_claim: "connect_claim sample_tokio = (Ok (), sample_tokio\<lparr>tc_session_active := True\<rparr>)"
  by (simp add: connect_claim_def ensure_connectable_def sample_tokio_def)

lemma session_step_intros:
  "worker_step api s s' \<Longrightarrow> session_step api s s'" "driver_step api s s' \<Longrightarrow> session_step api s s'"
  "user_step api s s' \<Longrightarrow> session_step api s s'"
  by (simp_all add: session_step_def)

definition sample_incore :: "unit running" where
  "sample_incore =
     (let s = session_start (sample_tokio\<lparr>tc_session_active := True\<rparr>);
          core = snd (prepare_connect (ru_core s))
      in s\<lparr>ru_core := core, ru_worker := InCore, ru_base := native_stops core\<rparr>)"

lemma sample_incore_reachable: "session_reachable sample_api sample_incore"
  unfolding sample_incore_def Let_def
  by (rule session_reachable_step [OF session_reachable_start [OF sample_claim] session_step_intros(1) [OF prepared]])
     (simp_all add: prepare_connect_def session_start_def sample_tokio_def)

lemma sample_started_reachable: "session_reachable sample_api sample_started"
proof -
  have "session_step sample_api sample_incore (sample_incore\<lparr>ru_started := Sent ()\<rparr>)"
    using started [of sample_incore sample_api]
    by (simp add: session_step_def sample_incore_def session_start_def Let_def)
  moreover have "session_step sample_api (sample_incore\<lparr>ru_started := Sent ()\<rparr>) sample_started"
    using connected [of "sample_incore\<lparr>ru_started := Sent ()\<rparr>" sample_api]
    by (simp add: session_step_def sample_incore_def sample_started_def session_start_def Let_def)
  ultimately show ?thesis by (meson sample_incore_reachable session_reachable_step)
qed


text \<open>
  C10: commands are answered in the order in which they were accepted and each at most once.
  The answered ones, the ones dropped by the exiting driver (whose callers get
  \<open>SessionClosed\<close>) and the ones still queued are together exactly the accepted ones, in order.
\<close>

theorem commands_answered_in_order:
  assumes "session_reachable api s"
  shows "map fst (ru_replies s) @ ru_dropped s @ map fst (ru_queue s) = [0..<ru_next s]
     \<and> distinct (map fst (ru_replies s)) \<and> (ru_driver s \<noteq> Exited \<longrightarrow> ru_dropped s = [])
     \<and> (ru_driver s = Exited \<longrightarrow> ru_queue s = [])"
proof -
  have eq: "map fst (ru_replies s) @ ru_dropped s @ map fst (ru_queue s) = [0..<ru_next s]"
    and rest: "(ru_driver s \<noteq> Exited \<longrightarrow> ru_dropped s = []) \<and> (ru_driver s = Exited \<longrightarrow> ru_queue s = [])"
    using session_reachable_inv [OF assms] by (auto simp: session_inv_def queue_inv_def split: if_splits)
  have "distinct (map fst (ru_replies s))" by (metis eq distinct_append distinct_upt)
  with eq rest show ?thesis by blast
qed

theorem commands_answered_in_order_witness:
  "map fst (ru_replies sample_started) @ ru_dropped sample_started @ map fst (ru_queue sample_started)
     = [0..<ru_next sample_started] \<and> ru_dropped sample_started = []"
proof -
  have "ru_driver sample_started \<noteq> Exited" by (simp add: sample_started_def session_start_def Let_def)
  with commands_answered_in_order [OF sample_started_reachable] show ?thesis by blast
qed


lemma sample_cancelled_reachable: "session_reachable sample_api (sample_started\<lparr>ru_cancelled := True\<rparr>)"
  by (rule session_reachable_step [OF sample_started_reachable session_step_intros(3) [OF cancel_token]])
     (simp add: sample_started_def Let_def)


text \<open>
  C9: once the worker is joined the driver always finishes and delivers the worker's
  outcome: from every state its own steps lead to, it can go on to send the completion, and
  it has no infinite run, whatever is in the queue.
\<close>

theorem driver_finishes:
  assumes "session_reachable api s" and "ru_worker s = Joined j" and "(driver_step api)\<^sup>*\<^sup>* s t"
  shows "wfP (\<lambda>x y. driver_step api y x)
     \<and> (\<exists>u. (driver_step api)\<^sup>*\<^sup>* t u \<and> ru_driver u = Exited \<and> ru_completion u = Sent (flatten_join j))"
  using driver_steps_inv [OF assms(3) session_reachable_inv [OF assms(1)]] driver_completes [of t j] assms(2)
  by (simp add: driver_step_wf)

definition sample_joined :: "unit running" where
  "sample_joined = sample_started\<lparr>
     ru_core := connect_lifecycle_reset ((ru_core sample_started)\<lparr>in_native :=
       snd (status_result (fst (ovpn_client_connect_started sample_api ())) (in_native (ru_core sample_started)))\<rparr>),
     ru_started := Sent (),
     ru_worker := Joined (Inr (fst (status_result (fst (ovpn_client_connect_started sample_api ()))
       (in_native (ru_core sample_started)))))\<rparr>"

lemma sample_joined_reachable: "session_reachable sample_api sample_joined"
proof (rule session_reachable_step [OF sample_started_reachable session_step_intros(1)])
  have "ru_worker sample_started = InCore" "ru_started sample_started = Sent ()"
    by (simp_all add: sample_started_def Let_def)
  then show "worker_step sample_api sample_started sample_joined"
    using returned [of sample_started sample_api, OF _ prod.collapse [symmetric]]
    by (simp add: sample_joined_def)
qed

theorem driver_finishes_witness:
  "\<exists>u. (driver_step sample_api)\<^sup>*\<^sup>* sample_joined u \<and> ru_driver u = Exited"
proof -
  obtain j where "ru_worker sample_joined = Joined j" by (simp add: sample_joined_def)
  from driver_finishes [OF sample_joined_reachable this rtranclp.rtrancl_refl] show ?thesis by blast
qed


text \<open>Nobody can reach the core any more: the caller of \<open>connect\<close> is gone and nothing was cancelled.\<close>

definition unattended :: "'n running \<Rightarrow> bool" where
  "unattended s \<longleftrightarrow> ru_caller s = Abandoned \<and> \<not> ru_cancelled s \<and> ru_queue s = [] \<and> ru_driver s = Selecting \<and>
     ru_worker s = InCore \<and> ru_session_active s"

lemma unattended_step:
  assumes "session_step api s s'" and "ru_worker s' = InCore" and "unattended s"
  shows "unattended s' \<and> native_stops (ru_core s') = native_stops (ru_core s)"
  using assms unfolding session_step_def
proof (elim disjE)
  assume "worker_step api s s'"
  then show ?thesis using assms(2,3) by cases (auto simp: unattended_def)
next
  assume "driver_step api s s'"
  then show ?thesis using assms(2,3) by cases (auto simp: unattended_def)
next
  assume "user_step api s s'"
  then show ?thesis using assms(2,3) by cases (auto simp: unattended_def)
qed

text \<open>
  C28: a \<open>connect\<close> future that is dropped before the start signal arrives leaves a session
  nobody can stop.  There is a reachable state, with the client marked as connecting and
  the worker in the core, from which no run makes a native stop before the core returns on
  its own.
\<close>

theorem dropped_connect_is_unattended:
  "session_reachable sample_api (sample_incore\<lparr>ru_caller := Abandoned, ru_senders := False\<rparr>)
   \<and> {s. (\<lambda>s s'. session_step sample_api s s' \<and> ru_worker s' = InCore)\<^sup>*\<^sup>*
          (sample_incore\<lparr>ru_caller := Abandoned, ru_senders := False\<rparr>) s}
     \<subseteq> {s. ru_session_active s \<and> ru_driver s = Selecting \<and> native_stops (ru_core s) = 0}"
proof (intro conjI subsetI CollectI)
  let ?s = "sample_incore\<lparr>ru_caller := Abandoned, ru_senders := False\<rparr>"
  show "session_reachable sample_api ?s"
    by (rule session_reachable_step [OF sample_incore_reachable session_step_intros(3) [OF abandoned]])
       (simp add: sample_incore_def session_start_def Let_def)
  fix s
  assume "s \<in> {s. (\<lambda>s s'. session_step sample_api s s' \<and> ru_worker s' = InCore)\<^sup>*\<^sup>* ?s s}"
  then have "(\<lambda>s s'. session_step sample_api s s' \<and> ru_worker s' = InCore)\<^sup>*\<^sup>* ?s s" by simp
  moreover have "unattended ?s \<and> native_stops (ru_core ?s) = 0"
    by (simp add: unattended_def sample_incore_def session_start_def sample_tokio_def sample_inner_def
        sample_sys_def prepare_connect_def native_stops_def Let_def)
  ultimately have "unattended s \<and> native_stops (ru_core s) = 0"
    by (induction rule: rtranclp_induct) (auto dest: unattended_step)
  then show "ru_session_active s" "ru_driver s = Selecting" "native_stops (ru_core s) = 0"
    by (auto simp: unattended_def)
qed

text \<open>
  While a session is active the client refuses to change its configuration and to start
  another session, and nothing of it changes; the claim of \<open>connect\<close> succeeds exactly for
  an evaluated client without a session, and excludes a second claim.
\<close>

theorem session_claim_exclusive:
  "(fst (connect_claim c) = Ok () \<longleftrightarrow> in_lifecycle (tc_core c) = Ready \<and> \<not> tc_session_active c)
   \<and> tc_core (snd (connect_claim c)) = tc_core c
   \<and> (fst (connect_claim c) = Ok () \<longrightarrow>
        connect_claim (snd (connect_claim c)) = (Err (InvalidState ''the client is already connecting''), snd (connect_claim c)))
   \<and> (tc_session_active c \<longrightarrow>
        snd (tokio_evaluate api c je config) = c \<and> snd (tokio_provide_credentials api c je creds) = c \<and>
        snd (tokio_callback_self_test api c je) = c \<and>
        fst (tokio_evaluate api c je config) = Err (InvalidState ''cannot mutate configuration while the client is connecting''))"
proof -
  have "ensure_connectable (tc_core c) = Ok () \<longleftrightarrow> in_lifecycle (tc_core c) = Ready"
    by (cases "in_lifecycle (tc_core c)") (simp_all add: ensure_connectable_def)
  then show ?thesis
    by (auto simp: connect_claim_def tokio_evaluate_def tokio_provide_credentials_def tokio_callback_self_test_def
        with_setup_def ensure_idle_def split: sum.splits)
qed

theorem session_claim_exclusive_witness:
  "fst (connect_claim (snd (connect_claim sample_tokio))) = Err (InvalidState ''the client is already connecting'')"
  using session_claim_exclusive [of sample_tokio] by (simp add: sample_claim)

text \<open>
  The session future yields its result once: after a poll returned the result, or the
  error of a driver that vanished, every further poll returns \<open>SessionClosed\<close> and dropping
  the session does nothing; a session dropped before that cancels its token and stops the core.
\<close>

theorem session_future_contract:
  "(case session_poll s of
      (Ready_poll r, s') \<Rightarrow>
        session_poll s' = (Ready_poll (Err SessionClosed), s') \<and>
        (se_completion s \<noteq> None \<longrightarrow> session_drop api s' h = h) \<and>
        (\<forall>v. se_completion s = Some (Sent v) \<longrightarrow> r = v)
    | (Pending, s') \<Rightarrow> s' = s \<and> se_completion s = Some Empty)
   \<and> (\<not> se_completed s \<longrightarrow> fst (session_drop api s h) \<and> in_stop_requested (snd (session_drop api s h)))"
  by (cases h) (auto simp: session_poll_def session_drop_def handle_cancel_def split: option.splits oneshot.splits)

theorem session_future_contract_witness:
  "session_poll (snd (session_poll \<lparr>se_completion = Some (Sent (Err SessionClosed)), se_completed = False\<rparr>))
     = (Ready_poll (Err SessionClosed), \<lparr>se_completion = None, se_completed = True\<rparr>)"
  using session_future_contract [of "\<lparr>se_completion = Some (Sent (Err SessionClosed)), se_completed = False\<rparr>"
      sample_api "(False, sample_inner)"]
  by (simp add: session_poll_def)

text \<open>The setters of the builder, as data.\<close>

datatype builder_op = EventCapacity usize | LogCapacity usize | AppControlCapacity usize | CommandCapacity usize

fun apply_builder_op :: "builder_op \<Rightarrow> ('s, 'a) client_builder \<Rightarrow> ('s, 'a) client_builder" where
  "apply_builder_op (EventCapacity n) b = event_capacity b n"
| "apply_builder_op (LogCapacity n) b = log_capacity b n"
| "apply_builder_op (AppControlCapacity n) b = app_control_capacity b n"
| "apply_builder_op (CommandCapacity n) b = command_capacity b n"

definition builder_ok :: "('s, 'a) client_builder \<Rightarrow> bool" where
  "builder_ok b \<longleftrightarrow> 0 < cb_event_capacity b \<and> 0 < cb_log_capacity b \<and> 0 < cb_app_control_capacity b \<and>
     0 < cb_command_capacity b"

lemma builder_ok_default: "builder_ok client_builder_default"
  by (simp add: builder_ok_def client_builder_default_def DEFAULT_BROADCAST_CAPACITY_def DEFAULT_COMMAND_CAPACITY_def)

lemma builder_ok_op: "builder_ok b \<Longrightarrow> builder_ok (apply_builder_op op b)"
  by (cases op) (auto simp: builder_ok_def event_capacity_def log_capacity_def app_control_capacity_def
      command_capacity_def)

lemma builder_ok_ops: "builder_ok b \<Longrightarrow> builder_ok (fold apply_builder_op ops b)"
  by (induction ops arbitrary: b) (auto simp: builder_ok_op)

text \<open>
  No sequence of capacity settings, zero included, makes a channel constructor panic:
  \<open>build\<close> returns for every builder made from the default one, and the client it returns has
  a command capacity for which the command channel can be made.
\<close>

theorem builder_never_panics:
  "(case build api rt (fold apply_builder_op ops client_builder_default) of
      Panicked \<Rightarrow> False
    | Returned r \<Rightarrow> (case r of Inl e \<Rightarrow> True | Inr c \<Rightarrow> channel (tc_command_capacity c) = Returned (tc_command_capacity c)))"
  using builder_ok_ops [OF builder_ok_default, of ops]
  by (auto simp: build_def channel_def builder_ok_def split: sum.splits builder_handler.splits)

end
