(* ===== verification/Session_Handle.thy ===== *)
theory Session_Handle
  imports Tokio_Session
begin

text \<open>
  The methods of \<open>SessionHandle\<close> in \<open>tokio.rs\<close>.  A method sends one command to the driver and
  waits for its reply; here it is a request with its command and the reading of its reply, and
  what the caller sees is a function of the state of the session.  The history \<open>logged\<close> records
  which command was accepted under which number.
\<close>

section \<open>Requests\<close>

text \<open>
  \<open>rq_reply\<close> reads a reply; \<open>None\<close> is a reply of another type, which the channels of the source
  cannot carry.
\<close>

record 'r request =
  rq_command :: command
  rq_reply :: "reply \<Rightarrow> 'r res option"

fun unit_reply :: "reply \<Rightarrow> unit res option" where
  "unit_reply UnitReply = Some (Ok ())"
| "unit_reply r = None"

fun status_reply :: "reply \<Rightarrow> status res option" where
  "status_reply (StatusReply r) = Some r"
| "status_reply r = None"

fun connection_info_reply :: "reply \<Rightarrow> connection_info_t option res option" where
  "connection_info_reply (ConnectionInfoReply v) = Some (Ok v)"
| "connection_info_reply r = None"

fun session_token_reply :: "reply \<Rightarrow> session_token_t option res option" where
  "session_token_reply (SessionTokenReply v) = Some (Ok v)"
| "session_token_reply r = None"

fun statistics_reply :: "reply \<Rightarrow> statistic list res option" where
  "statistics_reply (StatisticsReply v) = Some (Ok v)"
| "statistics_reply r = None"

fun interface_stats_reply :: "reply \<Rightarrow> interface_stats_t res option" where
  "interface_stats_reply (InterfaceStatsReply v) = Some (Ok v)"
| "interface_stats_reply r = None"

fun transport_stats_reply :: "reply \<Rightarrow> transport_stats_t res option" where
  "transport_stats_reply (TransportStatsReply v) = Some (Ok v)"
| "transport_stats_reply r = None"

definition request :: "command \<Rightarrow> unit request" where
  "request c = \<lparr>rq_command = c, rq_reply = unit_reply\<rparr>"

definition handle_pause :: "string \<Rightarrow> unit request" where
  "handle_pause reason = request (Pause reason)"

definition handle_resume :: "unit request" where
  "handle_resume = request Resume"

definition handle_reconnect :: "i32 \<Rightarrow> unit request" where
  "handle_reconnect seconds = request (Reconnect seconds)"

definition handle_post_control_message :: "string \<Rightarrow> unit request" where
  "handle_post_control_message message = request (PostControl message)"

definition handle_send_app_control_message :: "string \<Rightarrow> string \<Rightarrow> unit request" where
  "handle_send_app_control_message protocol message = request (SendAppControl protocol message)"

definition handle_start_certificate_check :: "string \<Rightarrow> string \<Rightarrow> string option \<Rightarrow> status request" where
  "handle_start_certificate_check client_certificate client_key ca =
     \<lparr>rq_command = StartCertCheck client_certificate client_key ca, rq_reply = status_reply\<rparr>"

definition handle_start_external_pki_certificate_check :: "string \<Rightarrow> string option \<Rightarrow> status request" where
  "handle_start_external_pki_certificate_check certificate_alias ca =
     \<lparr>rq_command = StartEpkiCertCheck certificate_alias ca, rq_reply = status_reply\<rparr>"

definition handle_connection_info :: "connection_info_t option request" where
  "handle_connection_info = \<lparr>rq_command = ConnectionInfo, rq_reply = connection_info_reply\<rparr>"

definition handle_session_token :: "session_token_t option request" where
  "handle_session_token = \<lparr>rq_command = SessionToken, rq_reply = session_token_reply\<rparr>"

definition handle_statistics :: "statistic list request" where
  "handle_statistics = \<lparr>rq_command = Statistics, rq_reply = statistics_reply\<rparr>"

definition handle_interface_stats :: "interface_stats_t request" where
  "handle_interface_stats = \<lparr>rq_command = InterfaceStats, rq_reply = interface_stats_reply\<rparr>"

definition handle_transport_stats :: "transport_stats_t request" where
  "handle_transport_stats = \<lparr>rq_command = TransportStats, rq_reply = transport_stats_reply\<rparr>"

section \<open>Sending and waiting\<close>

text \<open>
  The mpsc send: refused when the driver is gone, waiting while the queue is full, otherwise
  accepted under the next number.
\<close>

definition handle_send :: "command \<Rightarrow> 'n running \<Rightarrow> nat option poll \<times> 'n running" where
  "handle_send c s =
     (if ru_driver s = Exited then (Ready_poll None, s)
      else if length (ru_queue s) < ru_capacity s
      then (Ready_poll (Some (ru_next s)), s\<lparr>ru_queue := ru_queue s @ [(ru_next s, c)], ru_next := Suc (ru_next s)\<rparr>)
      else (Pending, s))"

text \<open>The reply channel of an accepted command.\<close>

definition response :: "'n running \<Rightarrow> nat \<Rightarrow> reply oneshot" where
  "response s i =
     (case map_of (ru_replies s) i of
        Some r \<Rightarrow> Sent r
      | None \<Rightarrow> if i \<in> set (ru_dropped s) then Closed else Empty)"

text \<open>What the caller of a method sees, from the number of its command on.\<close>

definition request_outcome :: "'r request \<Rightarrow> nat option \<Rightarrow> 'n running \<Rightarrow> 'r res poll" where
  "request_outcome m accepted s =
     (case query (accepted \<noteq> None) (case accepted of None \<Rightarrow> Closed | Some i \<Rightarrow> response s i) of
        Pending \<Rightarrow> Pending
      | Ready_poll (Inl e) \<Rightarrow> Ready_poll (Err e)
      | Ready_poll (Inr r) \<Rightarrow> (case rq_reply m r of None \<Rightarrow> Pending | Some result \<Rightarrow> Ready_poll result))"

text \<open>\<open>stop\<close> cancels the token after its command was answered.\<close>

definition handle_stop :: "nat option \<Rightarrow> 'n running \<Rightarrow> unit res poll \<times> 'n running" where
  "handle_stop accepted s =
     (case request_outcome (request Stop) accepted s of
        Ready_poll (Inr _) \<Rightarrow> (Ready_poll (Ok ()), s\<lparr>ru_cancelled := True\<rparr>)
      | result \<Rightarrow> (result, s))"

section \<open>Accepted commands\<close>

inductive logged :: "'n sys_api \<Rightarrow> 'n running \<Rightarrow> (nat \<Rightarrow> command option) \<Rightarrow> bool" for api where
  begun: "connect_claim (c :: ('n, unit) tokio_client) = (Ok (), c') \<Longrightarrow> logged api (session_start c') Map.empty"
| stepped: "logged api s log \<Longrightarrow> session_step api s t \<Longrightarrow>
     logged api t (if ru_next t = ru_next s then log else log(ru_next s \<mapsto> snd (last (ru_queue t))))"

definition log_inv :: "'n sys_api \<Rightarrow> 'n running \<Rightarrow> (nat \<Rightarrow> command option) \<Rightarrow> bool" where
  "log_inv api s log \<longleftrightarrow>
     dom log = {0..<ru_next s}
     \<and> (\<forall>i c. (i, c) \<in> set (ru_queue s) \<longrightarrow> log i = Some c)
     \<and> (\<forall>i r. (i, r) \<in> set (ru_replies s) \<longrightarrow> (\<exists>c join_error core. log i = Some c \<and> r = fst (run_command api join_error c core)))"

lemma logged_reachable: "logged api s log \<Longrightarrow> session_reachable api s"
proof (induction rule: logged.induct)
  case (begun c c')
  then show ?case unfolding session_reachable_def by blast
next
  case (stepped s log t)
  then show ?case by (blast intro: session_reachable_step)
qed

lemma log_inv_frame:
  "log_inv api s log \<Longrightarrow> ru_queue t = ru_queue s \<Longrightarrow> ru_replies t = ru_replies s \<Longrightarrow> ru_next t = ru_next s \<Longrightarrow> log_inv api t log"
  by (simp add: log_inv_def)

lemma log_inv_answer:
  assumes "log_inv api s log" "ru_queue s = (i, c) # q" "ru_queue t = q" "ru_next t = ru_next s"
    and "ru_replies t = ru_replies s @ [(i, fst (run_command api join_error c core))]"
  shows "log_inv api t log"
proof -
  have "log i = Some c" using assms(1,2) by (auto simp: log_inv_def)
  then show ?thesis using assms unfolding log_inv_def by auto
qed

lemma log_inv_step:
  assumes "log_inv api s log" "session_step api s t" "queue_inv s"
  shows "log_inv api t (if ru_next t = ru_next s then log else log(ru_next s \<mapsto> snd (last (ru_queue t))))"
proof -
  have "log_inv api t log \<and> ru_next t = ru_next s" if "worker_step api s t"
    using that by cases (intro conjI log_inv_frame [OF assms(1)]; simp)+
  moreover have "log_inv api t log \<and> ru_next t = ru_next s" if "driver_step api s t"
    using that
  proof cases
    case (select_command i c q join_error r core)
    have "fst (run_command api join_error c (ru_core s)) = r" by (simp add: select_command)
    with log_inv_answer [OF assms(1), of i c q t join_error "ru_core s"] select_command show ?thesis by simp
  next
    case (send_completion r)
    with assms(1) show ?thesis by (simp add: log_inv_def)
  qed (intro conjI log_inv_frame [OF assms(1)]; simp add: active_guard_drop_def)+
  moreover have "log_inv api t (if ru_next t = ru_next s then log else log(ru_next s \<mapsto> snd (last (ru_queue t))))"
    if "user_step api s t"
    using that
  proof cases
    case (submit c)
    have fresh: "i < ru_next s" if "(i, x) \<in> set (ru_queue s)" for i x
      using assms(3) that unfolding queue_inv_def
      by (metis Un_iff atLeastLessThan_iff fst_conv image_eqI set_append set_map set_upt)
    have fresh': "i < ru_next s" if "(i, x) \<in> set (ru_replies s)" for i x
      using assms(3) that unfolding queue_inv_def
      by (metis Un_iff atLeastLessThan_iff fst_conv image_eqI set_append set_map set_upt)
    from submit assms(1) show ?thesis
      by (auto simp: log_inv_def dest: fresh fresh')
  qed (simp_all, (rule log_inv_frame [OF assms(1)]; simp)+)
  ultimately show ?thesis using assms(2) by (auto simp: session_step_def)
qed

lemma logged_inv: "logged api s log \<Longrightarrow> log_inv api s log"
proof (induction rule: logged.induct)
  case (begun c c')
  then show ?case by (simp add: log_inv_def session_start_def)
next
  case (stepped s log t)
  have "queue_inv s" using session_reachable_inv [OF logged_reachable [OF stepped.hyps(1)]] by (simp add: session_inv_def)
  with stepped show ?case by (intro log_inv_step)
qed

section \<open>Properties\<close>

text \<open>A request reads every reply that its own command can get.\<close>

definition typed_request :: "'n sys_api \<Rightarrow> 'r request \<Rightarrow> bool" where
  "typed_request api m \<longleftrightarrow> (\<forall>join_error core. rq_reply m (fst (run_command api join_error (rq_command m) core)) \<noteq> None)"

lemma response_cases:
  assumes "logged api s log" "log i = Some c"
  shows "case response s i of
      Sent r \<Rightarrow> \<exists>join_error core. r = fst (run_command api join_error c core)
    | Closed \<Rightarrow> ru_driver s = Exited \<and> i \<in> set (ru_dropped s)
    | Empty \<Rightarrow> ru_driver s \<noteq> Exited \<and> (i, c) \<in> set (ru_queue s)"
proof -
  note inv = logged_inv [OF assms(1)]
  have q: "map fst (ru_replies s) @ ru_dropped s @ map fst (ru_queue s) = [0..<ru_next s]"
    "if ru_driver s = Exited then ru_queue s = [] else ru_dropped s = []"
    using session_reachable_inv [OF logged_reachable [OF assms(1)]] by (simp_all add: session_inv_def queue_inv_def)
  show ?thesis
  proof (cases "map_of (ru_replies s) i")
    case (Some r)
    then have "(i, r) \<in> set (ru_replies s)" by (rule map_of_SomeD)
    then obtain c' je core where "log i = Some c'" and r: "r = fst (run_command api je c' core)"
      using inv unfolding log_inv_def by blast
    with assms(2) have "\<exists>je core. r = fst (run_command api je c core)" by auto
    moreover have "response s i = Sent r" using Some by (simp add: response_def)
    ultimately show ?thesis by simp
  next
    case None
    have "dom log = {0..<ru_next s}" using inv unfolding log_inv_def by blast
    then have "i \<in> set [0..<ru_next s]" using assms(2) by auto
    then have place: "i \<in> fst ` set (ru_replies s) \<or> i \<in> set (ru_dropped s) \<or> i \<in> fst ` set (ru_queue s)"
      unfolding q(1) [symmetric] by simp
    show ?thesis
    proof (cases "i \<in> set (ru_dropped s)")
      case True
      with q(2) have "ru_driver s = Exited" by (auto split: if_splits)
      with None True show ?thesis by (simp add: response_def)
    next
      case False
      with place None obtain c' where c': "(i, c') \<in> set (ru_queue s)" by (auto simp: map_of_eq_None_iff)
      then have "log i = Some c'" using inv unfolding log_inv_def by blast
      with assms(2) have "c' = c" by simp
      with None False c' q(2) show ?thesis by (auto simp: response_def split: if_splits)
    qed
  qed
qed


lemma reachable_logged:
  assumes "session_reachable api s"
  shows "\<exists>log. logged api s log"
proof -
  from assms obtain c c' where c: "connect_claim (c :: ('a, unit) tokio_client) = (Ok (), c')"
    and path: "(session_step api)\<^sup>*\<^sup>* (session_start c') s" unfolding session_reachable_def by blast
  from path show ?thesis
    by (induction rule: rtranclp_induct) (use begun [OF c] stepped in blast)+
qed



text \<open>A stop that returns success has cancelled the token; otherwise nothing changed.\<close>

lemma handle_stop_cases:
  "case handle_stop accepted s of
     (Ready_poll (Inr _), t) \<Rightarrow> ru_cancelled t \<and> (\<exists>i. accepted = Some i \<and> response s i = Sent UnitReply)
   | (_, t) \<Rightarrow> t = s"
  by (auto simp: handle_stop_def request_outcome_def request_def query_def
      split: poll.splits sum.splits option.splits oneshot.splits elim: unit_reply.elims)

end
