(* ===== verification/External_Io.thy ===== *)
theory External_Io
  imports Native_Data
begin

text \<open>
  The handles through which an application transport (\<open>external_transport.rs\<close>) and an
  application tunnel (\<open>external_tun.rs\<close>) talk back to the core.  The native functions behind
  a handle are a parameter; next to the adapter's state the operations log every reference
  they take and give back.  A native handle is an address; \<open>None\<close> is the null pointer.
\<close>

section \<open>Reference log\<close>

datatype handle_call = HandleRetain nat | HandleFree nat

record 'w hsys =
  hs_core :: 'w
  hs_log :: "handle_call list"

text \<open>References taken minus references given back.\<close>

fun handle_balance :: "nat \<Rightarrow> handle_call list \<Rightarrow> int" where
  "handle_balance a [] = 0"
| "handle_balance a (HandleRetain b # cs) = (if a = b then 1 else 0) + handle_balance a cs"
| "handle_balance a (HandleFree b # cs) = (if a = b then -1 else 0) + handle_balance a cs"

lemma handle_balance_append [simp]: "handle_balance a (cs @ ds) = handle_balance a cs + handle_balance a ds"
  by (induction cs rule: handle_balance.induct [where P = "\<lambda>_ cs. handle_balance a (cs @ ds) = handle_balance a cs + handle_balance a ds" and ?a0.0 = a]) auto

definition held :: "nat \<Rightarrow> 'w hsys \<Rightarrow> int" where
  "held a w = handle_balance a (hs_log w)"

definition active_result :: "i32 \<Rightarrow> unit res" where
  "active_result active = (if active \<noteq> 0 then Ok () else Err SessionClosed)"

lemma active_result_Ok [simp]: "active_result n = Ok () \<longleftrightarrow> n \<noteq> 0"
  by (simp add: active_result_def)

text \<open>A native call that answers with a flag.\<close>

definition flagged :: "('w \<Rightarrow> i32 \<times> 'w) \<Rightarrow> 'w hsys \<Rightarrow> unit res \<times> 'w hsys" where
  "flagged call w = (case call (hs_core w) of (accepted, c) \<Rightarrow> (active_result accepted, w\<lparr>hs_core := c\<rparr>))"

lemma flagged_held [simp]: "held a (snd (flagged call w)) = held a w"
  by (simp add: flagged_def held_def split: prod.splits)

record 'w transport_api =
  ovpn_external_transport_handle_retain :: "nat \<Rightarrow> 'w \<Rightarrow> nat option \<times> 'w"
  ovpn_external_transport_handle_free :: "nat \<Rightarrow> 'w \<Rightarrow> 'w"
  ovpn_external_transport_receive :: "nat \<Rightarrow> u8 list \<Rightarrow> 'w \<Rightarrow> i32 \<times> 'w"
  ovpn_external_transport_needs_send :: "nat \<Rightarrow> 'w \<Rightarrow> i32 \<times> 'w"
  ovpn_external_transport_error :: "nat \<Rightarrow> i32 \<Rightarrow> ovpn_string_view \<Rightarrow> 'w \<Rightarrow> i32 \<times> 'w"
  ovpn_external_transport_proxy_error :: "nat \<Rightarrow> i32 \<Rightarrow> ovpn_string_view \<Rightarrow> 'w \<Rightarrow> i32 \<times> 'w"
  ovpn_external_transport_pre_resolve :: "nat \<Rightarrow> 'w \<Rightarrow> i32 \<times> 'w"
  ovpn_external_transport_wait_proxy :: "nat \<Rightarrow> 'w \<Rightarrow> i32 \<times> 'w"
  ovpn_external_transport_wait :: "nat \<Rightarrow> 'w \<Rightarrow> i32 \<times> 'w"
  ovpn_external_transport_connecting :: "nat \<Rightarrow> 'w \<Rightarrow> i32 \<times> 'w"
  ovpn_external_transport_is_openvpn_protocol :: "nat \<Rightarrow> 'w \<Rightarrow> i32"
  ovpn_external_transport_is_keepalive_enabled :: "nat \<Rightarrow> 'w \<Rightarrow> i32"
  ovpn_external_transport_disable_keepalive :: "nat \<Rightarrow> 'w \<Rightarrow> (i32 \<times> u32 \<times> u32) \<times> 'w"
  ovpn_error_code_transport :: "i32"
  ovpn_error_code_proxy :: "i32"

section \<open>\<open>ExternalTransportIo\<close>\<close>

definition transport_io_retain :: "'w transport_api \<Rightarrow> nat option \<Rightarrow> 'w hsys \<Rightarrow> nat option \<times> 'w hsys" where
  "transport_io_retain api raw w =
     (case raw of
        None \<Rightarrow> (None, w)
      | Some a \<Rightarrow>
          (case ovpn_external_transport_handle_retain api a (hs_core w) of
             (None, c) \<Rightarrow> (None, w\<lparr>hs_core := c\<rparr>)
           | (Some b, c) \<Rightarrow> (Some b, w\<lparr>hs_core := c, hs_log := hs_log w @ [HandleRetain b]\<rparr>)))"

text \<open>\<open>clone\<close> expects the retained handle.\<close>

definition transport_io_clone :: "'w transport_api \<Rightarrow> nat \<Rightarrow> 'w hsys \<Rightarrow> nat outcome \<times> 'w hsys" where
  "transport_io_clone api raw w =
     (case transport_io_retain api (Some raw) w of
        (None, w) \<Rightarrow> (Panicked, w) | (Some io, w) \<Rightarrow> (Returned io, w))"

definition transport_io_drop :: "'w transport_api \<Rightarrow> nat \<Rightarrow> 'w hsys \<Rightarrow> 'w hsys" where
  "transport_io_drop api raw w = w\<lparr>hs_core := ovpn_external_transport_handle_free api raw (hs_core w), hs_log := hs_log w @ [HandleFree raw]\<rparr>"

definition transport_io_receive :: "'w transport_api \<Rightarrow> nat \<Rightarrow> u8 list \<Rightarrow> 'w hsys \<Rightarrow> unit res \<times> 'w hsys" where
  "transport_io_receive api raw packet w = flagged (ovpn_external_transport_receive api raw packet) w"

definition transport_io_error_with_code ::
  "'w transport_api \<Rightarrow> nat \<Rightarrow> i32 \<Rightarrow> string \<Rightarrow> 'w hsys \<Rightarrow> unit res \<times> 'w hsys" where
  "transport_io_error_with_code api raw error_code message w = flagged (ovpn_external_transport_error api raw error_code (view message)) w"


definition transport_io_error :: "'w transport_api \<Rightarrow> nat \<Rightarrow> string \<Rightarrow> 'w hsys \<Rightarrow> unit res \<times> 'w hsys" where
  "transport_io_error api raw message w = transport_io_error_with_code api raw (ovpn_error_code_transport api) message w"


definition transport_io_proxy_error_with_code ::
  "'w transport_api \<Rightarrow> nat \<Rightarrow> i32 \<Rightarrow> string \<Rightarrow> 'w hsys \<Rightarrow> unit res \<times> 'w hsys" where
  "transport_io_proxy_error_with_code api raw error_code message w =
     flagged (ovpn_external_transport_proxy_error api raw error_code (view message)) w"

definition transport_io_proxy_error :: "'w transport_api \<Rightarrow> nat \<Rightarrow> string \<Rightarrow> 'w hsys \<Rightarrow> unit res \<times> 'w hsys" where
  "transport_io_proxy_error api raw message w = transport_io_proxy_error_with_code api raw (ovpn_error_code_proxy api) message w"


definition transport_io_needs_send :: "'w transport_api \<Rightarrow> nat \<Rightarrow> 'w hsys \<Rightarrow> unit res \<times> 'w hsys" where
  "transport_io_needs_send api raw w = flagged (ovpn_external_transport_needs_send api raw) w"

definition transport_io_pre_resolve :: "'w transport_api \<Rightarrow> nat \<Rightarrow> 'w hsys \<Rightarrow> unit res \<times> 'w hsys" where
  "transport_io_pre_resolve api raw w = flagged (ovpn_external_transport_pre_resolve api raw) w"

definition transport_io_wait_proxy :: "'w transport_api \<Rightarrow> nat \<Rightarrow> 'w hsys \<Rightarrow> unit res \<times> 'w hsys" where
  "transport_io_wait_proxy api raw w = flagged (ovpn_external_transport_wait_proxy api raw) w"

definition transport_io_wait :: "'w transport_api \<Rightarrow> nat \<Rightarrow> 'w hsys \<Rightarrow> unit res \<times> 'w hsys" where
  "transport_io_wait api raw w = flagged (ovpn_external_transport_wait api raw) w"

definition transport_io_connecting :: "'w transport_api \<Rightarrow> nat \<Rightarrow> 'w hsys \<Rightarrow> unit res \<times> 'w hsys" where
  "transport_io_connecting api raw w = flagged (ovpn_external_transport_connecting api raw) w"


definition transport_io_is_openvpn_protocol :: "'w transport_api \<Rightarrow> nat \<Rightarrow> 'w hsys \<Rightarrow> bool" where
  "transport_io_is_openvpn_protocol api raw w \<longleftrightarrow> ovpn_external_transport_is_openvpn_protocol api raw (hs_core w) \<noteq> 0"

definition transport_io_is_keepalive_enabled :: "'w transport_api \<Rightarrow> nat \<Rightarrow> 'w hsys \<Rightarrow> bool" where
  "transport_io_is_keepalive_enabled api raw w \<longleftrightarrow> ovpn_external_transport_is_keepalive_enabled api raw (hs_core w) \<noteq> 0"

definition transport_io_disable_keepalive ::
  "'w transport_api \<Rightarrow> nat \<Rightarrow> 'w hsys \<Rightarrow> (u32 \<times> u32) res \<times> 'w hsys" where
  "transport_io_disable_keepalive api raw w =
     (case ovpn_external_transport_disable_keepalive api raw (hs_core w) of
        ((accepted, ping, timeout), c) \<Rightarrow>
          (and_then (active_result accepted) (\<lambda>_. Ok (ping, timeout)), w\<lparr>hs_core := c\<rparr>))"

record 'w tun_api =
  ovpn_external_tun_handle_retain :: "nat \<Rightarrow> 'w \<Rightarrow> nat option \<times> 'w"
  ovpn_external_tun_handle_free :: "nat \<Rightarrow> 'w \<Rightarrow> 'w"
  ovpn_external_tun_receive :: "nat \<Rightarrow> u8 list \<Rightarrow> 'w \<Rightarrow> i32 \<times> 'w"
  ovpn_external_tun_error :: "nat \<Rightarrow> i32 \<Rightarrow> ovpn_string_view \<Rightarrow> 'w \<Rightarrow> i32 \<times> 'w"
  ovpn_external_tun_pre_tun_config :: "nat \<Rightarrow> 'w \<Rightarrow> i32 \<times> 'w"
  ovpn_external_tun_pre_route_config :: "nat \<Rightarrow> 'w \<Rightarrow> i32 \<times> 'w"
  ovpn_external_tun_connected :: "nat \<Rightarrow> 'w \<Rightarrow> i32 \<times> 'w"
  ovpn_error_code_tun :: "i32"

section \<open>\<open>ExternalTunIo\<close>\<close>

definition tun_io_retain :: "'w tun_api \<Rightarrow> nat option \<Rightarrow> 'w hsys \<Rightarrow> nat option \<times> 'w hsys" where
  "tun_io_retain api raw w =
     (case raw of
        None \<Rightarrow> (None, w)
      | Some a \<Rightarrow>
          (case ovpn_external_tun_handle_retain api a (hs_core w) of
             (None, c) \<Rightarrow> (None, w\<lparr>hs_core := c\<rparr>)
           | (Some b, c) \<Rightarrow> (Some b, w\<lparr>hs_core := c, hs_log := hs_log w @ [HandleRetain b]\<rparr>)))"

text \<open>\<open>clone\<close> expects the retained handle.\<close>

definition tun_io_clone :: "'w tun_api \<Rightarrow> nat \<Rightarrow> 'w hsys \<Rightarrow> nat outcome \<times> 'w hsys" where
  "tun_io_clone api raw w =
     (case tun_io_retain api (Some raw) w of
        (None, w) \<Rightarrow> (Panicked, w) | (Some io, w) \<Rightarrow> (Returned io, w))"

definition tun_io_drop :: "'w tun_api \<Rightarrow> nat \<Rightarrow> 'w hsys \<Rightarrow> 'w hsys" where
  "tun_io_drop api raw w = w\<lparr>hs_core := ovpn_external_tun_handle_free api raw (hs_core w), hs_log := hs_log w @ [HandleFree raw]\<rparr>"

definition tun_io_receive :: "'w tun_api \<Rightarrow> nat \<Rightarrow> u8 list \<Rightarrow> 'w hsys \<Rightarrow> unit res \<times> 'w hsys" where
  "tun_io_receive api raw packet w = flagged (ovpn_external_tun_receive api raw packet) w"

definition tun_io_error_with_code ::
  "'w tun_api \<Rightarrow> nat \<Rightarrow> i32 \<Rightarrow> string \<Rightarrow> 'w hsys \<Rightarrow> unit res \<times> 'w hsys" where
  "tun_io_error_with_code api raw error_code message w = flagged (ovpn_external_tun_error api raw error_code (view message)) w"


definition tun_io_error :: "'w tun_api \<Rightarrow> nat \<Rightarrow> string \<Rightarrow> 'w hsys \<Rightarrow> unit res \<times> 'w hsys" where
  "tun_io_error api raw message w = tun_io_error_with_code api raw (ovpn_error_code_tun api) message w"


definition tun_io_pre_tun_config :: "'w tun_api \<Rightarrow> nat \<Rightarrow> 'w hsys \<Rightarrow> unit res \<times> 'w hsys" where
  "tun_io_pre_tun_config api raw w = flagged (ovpn_external_tun_pre_tun_config api raw) w"

definition tun_io_pre_route_config :: "'w tun_api \<Rightarrow> nat \<Rightarrow> 'w hsys \<Rightarrow> unit res \<times> 'w hsys" where
  "tun_io_pre_route_config api raw w = flagged (ovpn_external_tun_pre_route_config api raw) w"

definition tun_io_connected :: "'w tun_api \<Rightarrow> nat \<Rightarrow> 'w hsys \<Rightarrow> unit res \<times> 'w hsys" where
  "tun_io_connected api raw w = flagged (ovpn_external_tun_connected api raw) w"


section \<open>The contract of a counted handle\<close>

text \<open>
  \<open>retain\<close> returns a handle exactly when it took a reference to it, \<open>clone\<close> either takes
  one or panics without taking any, and \<open>drop\<close> gives exactly one back.
\<close>

text \<open>Cloning one handle several times, keeping what was made before a panic.\<close>

primrec clones ::
  "(nat \<Rightarrow> 'w hsys \<Rightarrow> nat outcome \<times> 'w hsys) \<Rightarrow> nat \<Rightarrow> nat \<Rightarrow> 'w hsys \<Rightarrow> nat list \<times> 'w hsys" where
  "clones clone 0 raw w = ([], w)"
| "clones clone (Suc k) raw w =
     (case clone raw w of
        (Panicked, w) \<Rightarrow> ([], w)
      | (Returned io, w) \<Rightarrow> (case clones clone k raw w of (ios, w) \<Rightarrow> (io # ios, w)))"

locale counted_handle =
  fixes retain :: "nat option \<Rightarrow> 'w hsys \<Rightarrow> nat option \<times> 'w hsys"
    and clone :: "nat \<Rightarrow> 'w hsys \<Rightarrow> nat outcome \<times> 'w hsys"
    and dropped :: "nat \<Rightarrow> 'w hsys \<Rightarrow> 'w hsys"
  assumes retain_null: "retain None w = (None, w)"
    and retain_held: "held a (snd (retain p w)) = held a w + (if fst (retain p w) = Some a then 1 else 0)"
    and clone_held: "held a (snd (clone raw w)) = held a w + (if fst (clone raw w) = Returned a then 1 else 0)"
    and dropped_held: "held a (dropped raw w) = held a w - (if raw = a then 1 else 0)"
begin

lemma clones_held:
  "held a (snd (clones clone k raw w)) = held a w + int (count_list (fst (clones clone k raw w)) a)"
proof (induction k arbitrary: w)
  case (Suc k)
  show ?case
  proof (cases "clone raw w")
    case (Pair r w')
    then show ?thesis using clone_held [of a raw w] Suc [of w'] by (cases r) (auto split: prod.splits)
  qed
qed simp

lemma drops_held: "held a (fold dropped ios w) = held a w - int (count_list ios a)"
  by (induction ios arbitrary: w) (auto simp: dropped_held)

text \<open>A handle that is retained, cloned any number of times and dropped everywhere leaves no reference.\<close>

lemma balanced:
  assumes "retain raw w = (Some io, w')" and "clones clone k io w' = (ios, w'')"
  shows "held a (fold dropped (io # ios) w'') = held a w"
  using retain_held [of a raw w] clones_held [of a k io w'] drops_held [of a "io # ios" w''] assms
  by (auto simp: dropped_held split: if_splits)

end

interpretation transport: counted_handle "transport_io_retain api" "transport_io_clone api" "transport_io_drop api" for api
  by unfold_locales (auto simp: transport_io_retain_def transport_io_clone_def transport_io_drop_def held_def
      split: option.splits prod.splits)

interpretation tun: counted_handle "tun_io_retain api" "tun_io_clone api" "tun_io_drop api" for api
  by unfold_locales (auto simp: tun_io_retain_def tun_io_clone_def tun_io_drop_def held_def
      split: option.splits prod.splits)

section \<open>Properties\<close>

text \<open>
  References to a native transport or tunnel handle are balanced: retaining a handle,
  cloning it any number of times (also when a clone panics) and dropping every handle that
  was made leaves exactly the references held before.
\<close>

theorem io_handles_balanced:
  "(case transport_io_retain api raw w of
      (None, w') \<Rightarrow> held a w' = held a w
    | (Some io, w') \<Rightarrow>
        (case clones (transport_io_clone api) k io w' of (ios, w'') \<Rightarrow>
           held a (fold (transport_io_drop api) (io # ios) w'') = held a w))
   \<and> (case tun_io_retain tapi raw w of
        (None, w') \<Rightarrow> held a w' = held a w
      | (Some io, w') \<Rightarrow>
          (case clones (tun_io_clone tapi) k io w' of (ios, w'') \<Rightarrow>
             held a (fold (tun_io_drop tapi) (io # ios) w'') = held a w))"
proof (intro conjI)
  obtain r v where r: "transport_io_retain api raw w = (r, v)" by fastforce
  show "case transport_io_retain api raw w of
      (None, w') \<Rightarrow> held a w' = held a w
    | (Some io, w') \<Rightarrow>
        (case clones (transport_io_clone api) k io w' of (ios, w'') \<Rightarrow>
           held a (fold (transport_io_drop api) (io # ios) w'') = held a w)"
  proof (cases r)
    case None
    with r transport.retain_held [of a api raw w] show ?thesis by simp
  next
    case (Some io)
    obtain ios x where "clones (transport_io_clone api) k io v = (ios, x)" by fastforce
    with r Some transport.balanced [of api raw w io v k ios x a] show ?thesis by simp
  qed
next
  obtain r v where r: "tun_io_retain tapi raw w = (r, v)" by fastforce
  show "case tun_io_retain tapi raw w of
      (None, w') \<Rightarrow> held a w' = held a w
    | (Some io, w') \<Rightarrow>
        (case clones (tun_io_clone tapi) k io w' of (ios, w'') \<Rightarrow>
           held a (fold (tun_io_drop tapi) (io # ios) w'') = held a w)"
  proof (cases r)
    case None
    with r tun.retain_held [of a tapi raw w] show ?thesis by simp
  next
    case (Some io)
    obtain ios x where "clones (tun_io_clone tapi) k io v = (ios, x)" by fastforce
    with r Some tun.balanced [of tapi raw w io v k ios x a] show ?thesis by simp
  qed
qed

text \<open>
  Every operation of a handle reports a closed session exactly when the native side
  refused it, passes its arguments through unchanged, and takes or gives back no reference;
  the general error reports use the core's own code for their kind.
\<close>

theorem io_operations:
  "fst (transport_io_receive api raw packet w)
     = (if fst (ovpn_external_transport_receive api raw packet (hs_core w)) = 0 then Err SessionClosed else Ok ())
   \<and> fst (tun_io_receive tapi raw packet w)
     = (if fst (ovpn_external_tun_receive tapi raw packet (hs_core w)) = 0 then Err SessionClosed else Ok ())
   \<and> transport_io_error api raw message w
       = flagged (ovpn_external_transport_error api raw (ovpn_error_code_transport api) (view message)) w
   \<and> transport_io_proxy_error api raw message w
       = flagged (ovpn_external_transport_proxy_error api raw (ovpn_error_code_proxy api) (view message)) w
   \<and> tun_io_error tapi raw message w
       = flagged (ovpn_external_tun_error tapi raw (ovpn_error_code_tun tapi) (view message)) w
   \<and> held a (snd (transport_io_receive api raw packet w)) = held a w
   \<and> held a (snd (transport_io_disable_keepalive api raw w)) = held a w
   \<and> held a (snd (tun_io_receive tapi raw packet w)) = held a w
   \<and> (case ovpn_external_transport_disable_keepalive api raw (hs_core w) of ((accepted, ping, timeout), c) \<Rightarrow>
        fst (transport_io_disable_keepalive api raw w) = (if accepted = 0 then Err SessionClosed else Ok (ping, timeout)))"
  by (auto simp: transport_io_receive_def transport_io_error_def transport_io_error_with_code_def
      transport_io_proxy_error_def transport_io_proxy_error_with_code_def tun_io_error_def tun_io_error_with_code_def
      transport_io_disable_keepalive_def tun_io_receive_def flagged_def active_result_def held_def
      split: prod.splits if_splits)

end
