(* ===== verification/Callbacks.thy ===== *)
theory Callbacks
  imports External_Io
begin

text \<open>
  The callbacks that \<open>native.rs\<close> installs in the core and the application traits they reach:
  \<open>EventHandler\<close> and \<open>TunBuilder\<close> of \<open>types.rs\<close>, \<open>ExternalTransport\<close> and \<open>ExternalTun\<close>.
  A trait object is a record of its methods; a method acts on the application's state and
  returns or panics.  A callback context is an option (\<open>None\<close> is the null context).
  Completion functions are modelled by the list of the calls made to them.
\<close>

section \<open>The application traits\<close>

type_synonym ('u, 'r) meth = "'u \<Rightarrow> 'r outcome \<times> 'u"

definition returns :: "'r \<Rightarrow> ('u, 'r) meth" where
  "returns r u = (Returned r, u)"

text \<open>A method that does not use the native handles.\<close>

definition on_state :: "('u, 'r) meth \<Rightarrow> ('u \<times> 'w, 'r) meth" where
  "on_state m s = apsnd (\<lambda>u. (u, snd s)) (m (fst s))"

record 'u tun_builder =
  tb_new_tunnel :: "('u, bool) meth"
  tb_set_layer :: "i32 \<Rightarrow> ('u, bool) meth"
  tb_set_remote_address :: "string \<Rightarrow> bool \<Rightarrow> ('u, bool) meth"
  tb_add_address :: "string \<Rightarrow> i32 \<Rightarrow> string \<Rightarrow> bool \<Rightarrow> bool \<Rightarrow> ('u, bool) meth"
  tb_set_route_metric_default :: "i32 \<Rightarrow> ('u, bool) meth"
  tb_reroute_gateway :: "bool \<Rightarrow> bool \<Rightarrow> u32 \<Rightarrow> ('u, bool) meth"
  tb_add_route :: "string \<Rightarrow> i32 \<Rightarrow> i32 \<Rightarrow> bool \<Rightarrow> ('u, bool) meth"
  tb_exclude_route :: "string \<Rightarrow> i32 \<Rightarrow> i32 \<Rightarrow> bool \<Rightarrow> ('u, bool) meth"
  tb_set_dns_options :: "dns_options \<Rightarrow> ('u, bool) meth"
  tb_set_mtu :: "i32 \<Rightarrow> ('u, bool) meth"
  tb_set_session_name :: "string \<Rightarrow> ('u, bool) meth"
  tb_add_proxy_bypass :: "string \<Rightarrow> ('u, bool) meth"
  tb_set_proxy_auto_config_url :: "string \<Rightarrow> ('u, bool) meth"
  tb_set_proxy_http :: "string \<Rightarrow> i32 \<Rightarrow> ('u, bool) meth"
  tb_set_proxy_https :: "string \<Rightarrow> i32 \<Rightarrow> ('u, bool) meth"
  tb_add_wins_server :: "string \<Rightarrow> ('u, bool) meth"
  tb_set_allow_family :: "i32 \<Rightarrow> bool \<Rightarrow> ('u, bool) meth"
  tb_set_allow_local_dns :: "bool \<Rightarrow> ('u, bool) meth"
  tb_establish :: "('u, i32) meth"
  tb_persist :: "('u, bool) meth"
  tb_local_networks :: "bool \<Rightarrow> ('u, string list) meth"
  tb_establish_lite :: "('u, unit) meth"
  tb_teardown :: "bool \<Rightarrow> ('u, unit) meth"
  tb_dco_available :: "('u, bool) meth"
  tb_dco_enable :: "string \<Rightarrow> ('u, i32) meth"
  tb_dco_new_peer :: "dco_peer \<Rightarrow> ('u, unit) meth"
  tb_dco_set_peer :: "u32 \<Rightarrow> i32 \<Rightarrow> i32 \<Rightarrow> ('u, unit) meth"
  tb_dco_delete_peer :: "u32 \<Rightarrow> ('u, unit) meth"
  tb_dco_get_peer :: "u32 \<Rightarrow> bool \<Rightarrow> ('u, unit) meth"
  tb_dco_new_key :: "u32 \<Rightarrow> dco_key_config \<Rightarrow> ('u, unit) meth"
  tb_dco_swap_keys :: "u32 \<Rightarrow> ('u, unit) meth"
  tb_dco_delete_key :: "u32 \<Rightarrow> u32 \<Rightarrow> ('u, unit) meth"
  tb_dco_establish :: "('u, unit) meth"

text \<open>The default methods of the trait.\<close>

definition tun_builder_default :: "'u tun_builder" where
  "tun_builder_default = \<lparr>
     tb_new_tunnel = returns False,
     tb_set_layer = (\<lambda>_. returns True),
     tb_set_remote_address = (\<lambda>_ _. returns False),
     tb_add_address = (\<lambda>_ _ _ _ _. returns False),
     tb_set_route_metric_default = (\<lambda>_. returns True),
     tb_reroute_gateway = (\<lambda>_ _ _. returns False),
     tb_add_route = (\<lambda>_ _ _ _. returns False),
     tb_exclude_route = (\<lambda>_ _ _ _. returns False),
     tb_set_dns_options = (\<lambda>_. returns False),
     tb_set_mtu = (\<lambda>_. returns False),
     tb_set_session_name = (\<lambda>_. returns False),
     tb_add_proxy_bypass = (\<lambda>_. returns False),
     tb_set_proxy_auto_config_url = (\<lambda>_. returns False),
     tb_set_proxy_http = (\<lambda>_ _. returns False),
     tb_set_proxy_https = (\<lambda>_ _. returns False),
     tb_add_wins_server = (\<lambda>_. returns False),
     tb_set_allow_family = (\<lambda>_ _. returns True),
     tb_set_allow_local_dns = (\<lambda>_. returns True),
     tb_establish = returns (- 1),
     tb_persist = returns True,
     tb_local_networks = (\<lambda>_. returns []),
     tb_establish_lite = returns (),
     tb_teardown = (\<lambda>_. returns ()),
     tb_dco_available = returns False,
     tb_dco_enable = (\<lambda>_. returns (- 1)),
     tb_dco_new_peer = (\<lambda>_. returns ()),
     tb_dco_set_peer = (\<lambda>_ _ _. returns ()),
     tb_dco_delete_peer = (\<lambda>_. returns ()),
     tb_dco_get_peer = (\<lambda>_ _. returns ()),
     tb_dco_new_key = (\<lambda>_ _. returns ()),
     tb_dco_swap_keys = (\<lambda>_. returns ()),
     tb_dco_delete_key = (\<lambda>_ _. returns ()),
     tb_dco_establish = returns ()\<rparr>"

record 'u external_transport =
  xt_configure :: "external_transport_config \<Rightarrow> ('u, bool) meth"
  xt_start :: "nat \<Rightarrow> ('u, unit) meth"
  xt_stop :: "('u, unit) meth"
  xt_send :: "u8 list \<Rightarrow> ('u, bool) meth"
  xt_send_queue_empty :: "('u, bool) meth"
  xt_has_send_queue :: "('u, bool) meth"
  xt_stop_requeueing :: "('u, unit) meth"
  xt_send_queue_size :: "('u, usize) meth"
  xt_reset_align_adjust :: "usize \<Rightarrow> ('u, unit) meth"
  xt_endpoint :: "('u, external_transport_endpoint) meth"
  xt_native_handle :: "('u, isize option) meth"
  xt_is_relay :: "('u, bool) meth"
  xt_process_push :: "string \<Rightarrow> ('u, unit) meth"

definition external_transport_default :: "'u external_transport" where
  "external_transport_default = \<lparr>
     xt_configure = (\<lambda>_. returns False),
     xt_start = (\<lambda>_. returns ()),
     xt_stop = returns (),
     xt_send = (\<lambda>_. returns False),
     xt_send_queue_empty = returns True,
     xt_has_send_queue = returns False,
     xt_stop_requeueing = returns (),
     xt_send_queue_size = returns 0,
     xt_reset_align_adjust = (\<lambda>_. returns ()),
     xt_endpoint = returns external_transport_endpoint_default,
     xt_native_handle = returns None,
     xt_is_relay = returns False,
     xt_process_push = (\<lambda>_. returns ())\<rparr>"

record 'u external_tun =
  xn_configure :: "external_tun_config \<Rightarrow> ('u, bool) meth"
  xn_start :: "external_tun_start_config \<Rightarrow> nat \<Rightarrow> ('u, unit) meth"
  xn_stop :: "('u, unit) meth"
  xn_set_disconnect :: "('u, unit) meth"
  xn_send :: "u8 list \<Rightarrow> ('u, bool) meth"
  xn_info :: "('u, external_tun_info_t) meth"
  xn_adjust_mss :: "i32 \<Rightarrow> ('u, unit) meth"
  xn_apply_push_update :: "string \<Rightarrow> ('u, unit) meth"
  xn_layer_2_supported :: "('u, bool) meth"
  xn_supports_epoch_data :: "('u, bool) meth"
  xn_finalize :: "bool \<Rightarrow> ('u, unit) meth"

definition external_tun_default :: "'u external_tun" where
  "external_tun_default = \<lparr>
     xn_configure = (\<lambda>_. returns False),
     xn_start = (\<lambda>_ _. returns ()),
     xn_stop = returns (),
     xn_set_disconnect = returns (),
     xn_send = (\<lambda>_. returns False),
     xn_info = returns external_tun_info_default,
     xn_adjust_mss = (\<lambda>_. returns ()),
     xn_apply_push_update = (\<lambda>_. returns ()),
     xn_layer_2_supported = returns False,
     xn_supports_epoch_data = returns False,
     xn_finalize = (\<lambda>_. returns ())\<rparr>"

record 'u event_handler =
  eh_event :: "event \<Rightarrow> ('u, unit) meth"
  eh_log :: "string \<Rightarrow> ('u, unit) meth"
  eh_app_control_message :: "app_control_message \<Rightarrow> ('u, unit) meth"
  eh_socket_protect :: "isize \<Rightarrow> string \<Rightarrow> bool \<Rightarrow> ('u, bool) meth"
  eh_pause_on_connection_timeout :: "('u, bool) meth"
  eh_clock_tick :: "('u, unit) meth"
  eh_remote_override_enabled :: "('u, bool) meth"
  eh_remote_override :: "('u, (remote_override, string) result) meth"
  eh_tun_builder :: "('u, 'u tun_builder option) meth"
  eh_external_transport :: "('u, 'u external_transport option) meth"
  eh_external_tun :: "('u, 'u external_tun option) meth"
  eh_external_pki_certificate ::
    "external_pki_certificate_request \<Rightarrow> ('u, (external_pki_certificate_t, external_pki_error) result) meth"
  eh_external_pki_sign :: "external_pki_sign_request \<Rightarrow> ('u, (string, external_pki_error) result) meth"

text \<open>\<open>impl EventHandler for ()\<close>: every method is the default one.\<close>

definition event_handler_default :: "'u event_handler" where
  "event_handler_default = \<lparr>
     eh_event = (\<lambda>_. returns ()),
     eh_log = (\<lambda>_. returns ()),
     eh_app_control_message = (\<lambda>_. returns ()),
     eh_socket_protect = (\<lambda>_ _ _. returns True),
     eh_pause_on_connection_timeout = returns False,
     eh_clock_tick = returns (),
     eh_remote_override_enabled = returns False,
     eh_remote_override = returns (Err ''remote override callback is not implemented''),
     eh_tun_builder = returns None,
     eh_external_transport = returns None,
     eh_external_tun = returns None,
     eh_external_pki_certificate = (\<lambda>_. returns (Err (external_pki_error_new
       ''external PKI certificate callback is not implemented''))),
     eh_external_pki_sign = (\<lambda>_. returns (Err (external_pki_error_new
       ''external PKI signing callback is not implemented'')))\<rparr>"

section \<open>Event callbacks\<close>

text \<open>\<open>catch_unwind(..).map_or(default, f)\<close> and \<open>let _ = catch_unwind(..)\<close>.\<close>

definition caught :: "'r \<Rightarrow> ('a \<Rightarrow> 'r) \<Rightarrow> 'a outcome \<times> 'u \<Rightarrow> 'r \<times> 'u" where
  "caught fallback f run = (case run of (Returned a, u) \<Rightarrow> (f a, u) | (Panicked, u) \<Rightarrow> (fallback, u))"

definition event_callback ::
  "'u event_handler option \<Rightarrow> i32 \<Rightarrow> i32 \<Rightarrow> ovpn_string_view \<Rightarrow> ovpn_string_view \<Rightarrow> 'u \<Rightarrow> 'u" where
  "event_callback context error fatal name info u =
     (case context of
        None \<Rightarrow> u
      | Some handler \<Rightarrow>
          snd (eh_event handler \<lparr>evt_error = (error \<noteq> 0), evt_fatal = (fatal \<noteq> 0),
                 evt_name = string_from_view name, evt_info = string_from_view info\<rparr> u))"

definition log_callback :: "'u event_handler option \<Rightarrow> ovpn_string_view \<Rightarrow> 'u \<Rightarrow> 'u" where
  "log_callback context text u =
     (case context of None \<Rightarrow> u | Some handler \<Rightarrow> snd (eh_log handler (string_from_view text) u))"

definition app_control_callback ::
  "'u event_handler option \<Rightarrow> ovpn_string_view \<Rightarrow> ovpn_string_view \<Rightarrow> 'u \<Rightarrow> 'u" where
  "app_control_callback context protocol payload u =
     (case context of
        None \<Rightarrow> u
      | Some handler \<Rightarrow>
          snd (eh_app_control_message handler \<lparr>acm_protocol = string_from_view protocol,
                 acm_payload = string_from_view payload\<rparr> u))"

definition socket_protect_callback ::
  "'u event_handler option \<Rightarrow> isize \<Rightarrow> ovpn_string_view \<Rightarrow> i32 \<Rightarrow> 'u \<Rightarrow> i32 \<times> 'u" where
  "socket_protect_callback context socket remote ipv6 u =
     (case context of
        None \<Rightarrow> (0, u)
      | Some handler \<Rightarrow>
          caught 0 bool_i32 (eh_socket_protect handler socket (string_from_view remote) (ipv6 \<noteq> 0) u))"

definition pause_on_timeout_callback :: "'u event_handler option \<Rightarrow> 'u \<Rightarrow> i32 \<times> 'u" where
  "pause_on_timeout_callback context u =
     (case context of
        None \<Rightarrow> (0, u) | Some handler \<Rightarrow> caught 0 bool_i32 (eh_pause_on_connection_timeout handler u))"

definition clock_tick_callback :: "'u event_handler option \<Rightarrow> 'u \<Rightarrow> 'u" where
  "clock_tick_callback context u =
     (case context of None \<Rightarrow> u | Some handler \<Rightarrow> snd (eh_clock_tick handler u))"

definition remote_override_enabled_callback :: "'u event_handler option \<Rightarrow> 'u \<Rightarrow> i32 \<times> 'u" where
  "remote_override_enabled_callback context u =
     (case context of
        None \<Rightarrow> (0, u) | Some handler \<Rightarrow> caught 0 bool_i32 (eh_remote_override_enabled handler u))"

text \<open>The arguments of the completion functions after the response context.\<close>

datatype pki_cert_completion =
  PkiCertCompletion i32 i32 ovpn_string_view ovpn_string_view ovpn_string_view

datatype pki_sign_completion = PkiSignCompletion i32 i32 ovpn_string_view ovpn_string_view

datatype remote_override_completion =
  RemoteOverrideCompletion ovpn_string_view ovpn_string_view ovpn_string_view ovpn_string_view ovpn_string_view

text \<open>\<open>complete\<close> tells whether the core passed a completion function at all.\<close>

definition external_pki_certificate_callback ::
  "'u event_handler option \<Rightarrow> ovpn_string_view \<Rightarrow> bool \<Rightarrow> 'u \<Rightarrow> pki_cert_completion list \<times> 'u" where
  "external_pki_certificate_callback context alias complete u =
     (if \<not> complete then ([], u)
      else
        let (result, u) =
          (case context of
             None \<Rightarrow> (Err (external_pki_error_new ''external PKI callback context is null''), u)
           | Some handler \<Rightarrow>
               caught (Err (external_pki_error_new ''external PKI callback panicked'')) id
                 (eh_external_pki_certificate handler \<lparr>epcr_alias = string_from_view alias\<rparr> u))
        in (case result of
              Inr c \<Rightarrow> ([PkiCertCompletion 0 0 (view []) (view (epc_certificate c)) (view (epc_supporting_chain c))], u)
            | Inl error \<Rightarrow>
                ([PkiCertCompletion 1 (bool_i32 (epe_invalid_alias error)) (view (epe_message error)) (view []) (view [])], u)))"

definition external_pki_sign_callback ::
  "'u event_handler option \<Rightarrow> ovpn_string_view \<Rightarrow> ovpn_string_view \<Rightarrow> ovpn_string_view \<Rightarrow> ovpn_string_view \<Rightarrow>
   ovpn_string_view \<Rightarrow> bool \<Rightarrow> 'u \<Rightarrow> pki_sign_completion list \<times> 'u" where
  "external_pki_sign_callback context alias data algorithm hash_algorithm salt_length complete u =
     (if \<not> complete then ([], u)
      else
        let (result, u) =
          (case context of
             None \<Rightarrow> (Err (external_pki_error_new ''external PKI callback context is null''), u)
           | Some handler \<Rightarrow>
               caught (Err (external_pki_error_new ''external PKI callback panicked'')) id
                 (eh_external_pki_sign handler \<lparr>epsr_alias = string_from_view alias, epsr_data = string_from_view data,
                    epsr_algorithm = string_from_view algorithm, epsr_hash_algorithm = string_from_view hash_algorithm,
                    epsr_salt_length = string_from_view salt_length\<rparr> u))
        in (case result of
              Inr signature \<Rightarrow> ([PkiSignCompletion 0 0 (view []) (view signature)], u)
            | Inl error \<Rightarrow>
                ([PkiSignCompletion 1 (bool_i32 (epe_invalid_alias error)) (view (epe_message error)) (view [])], u)))"

definition remote_override_callback ::
  "'u event_handler option \<Rightarrow> bool \<Rightarrow> 'u \<Rightarrow> remote_override_completion list \<times> 'u" where
  "remote_override_callback context complete u =
     (if \<not> complete then ([], u)
      else
        let (result, u) =
          (case context of
             None \<Rightarrow> (Err ''remote override callback context is null'', u)
           | Some handler \<Rightarrow> caught (Err ''remote override callback panicked'') id (eh_remote_override handler u))
        in (case result of
              Inr r \<Rightarrow> ([RemoteOverrideCompletion (view (ro_host r)) (view (ro_ip r)) (view (ro_port r))
                          (view (ro_protocol r)) (view [])], u)
            | Inl error \<Rightarrow> ([RemoteOverrideCompletion (view []) (view []) (view []) (view []) (view error)], u)))"

section \<open>Dispatch to the optional providers\<close>

text \<open>The closure passed to \<open>catch_unwind\<close>: look the provider up, then run the action on it.\<close>

definition with_provider :: "('u, 'p option) meth \<Rightarrow> 'r \<Rightarrow> ('p \<Rightarrow> ('u, 'r) meth) \<Rightarrow> ('u, 'r) meth" where
  "with_provider provider fallback action u =
     (case provider u of
        (Panicked, u) \<Rightarrow> (Panicked, u)
      | (Returned None, u) \<Rightarrow> (Returned fallback, u)
      | (Returned (Some p), u) \<Rightarrow> action p u)"

definition call_tun ::
  "'u event_handler option \<Rightarrow> 'r \<Rightarrow> ('u tun_builder \<Rightarrow> ('u, 'r) meth) \<Rightarrow> 'u \<Rightarrow> 'r \<times> 'u" where
  "call_tun context fallback action u =
     (case context of
        None \<Rightarrow> (fallback, u)
      | Some handler \<Rightarrow> caught fallback id (with_provider (eh_tun_builder handler) fallback action u))"

definition call_tun_void ::
  "'u event_handler option \<Rightarrow> ('u tun_builder \<Rightarrow> ('u, unit) meth) \<Rightarrow> 'u \<Rightarrow> 'u" where
  "call_tun_void context action u =
     (case context of
        None \<Rightarrow> u
      | Some handler \<Rightarrow> snd (caught () id (with_provider (eh_tun_builder handler) () action u)))"

definition call_external_transport ::
  "'u event_handler option \<Rightarrow> 'r \<Rightarrow> ('u external_transport \<Rightarrow> ('u, 'r) meth) \<Rightarrow> 'u \<Rightarrow> 'r \<times> 'u" where
  "call_external_transport context fallback action u =
     (case context of
        None \<Rightarrow> (fallback, u)
      | Some handler \<Rightarrow> caught fallback id (with_provider (eh_external_transport handler) fallback action u))"

definition call_external_transport_void ::
  "'u event_handler option \<Rightarrow> ('u external_transport \<Rightarrow> ('u, unit) meth) \<Rightarrow> 'u \<Rightarrow> 'u" where
  "call_external_transport_void context action u =
     (case context of
        None \<Rightarrow> u
      | Some handler \<Rightarrow> snd (caught () id (with_provider (eh_external_transport handler) () action u)))"

definition call_external_tun ::
  "'u event_handler option \<Rightarrow> 'r \<Rightarrow> ('u external_tun \<Rightarrow> ('u, 'r) meth) \<Rightarrow> 'u \<Rightarrow> 'r \<times> 'u" where
  "call_external_tun context fallback action u =
     (case context of
        None \<Rightarrow> (fallback, u)
      | Some handler \<Rightarrow> caught fallback id (with_provider (eh_external_tun handler) fallback action u))"

definition call_external_tun_void ::
  "'u event_handler option \<Rightarrow> ('u external_tun \<Rightarrow> ('u, unit) meth) \<Rightarrow> 'u \<Rightarrow> 'u" where
  "call_external_tun_void context action u =
     (case context of
        None \<Rightarrow> u
      | Some handler \<Rightarrow> snd (caught () id (with_provider (eh_external_tun handler) () action u)))"


section \<open>External transport callbacks\<close>

record ovpn_external_remote_view =
  rxr_host :: ovpn_string_view
  rxr_port :: ovpn_string_view
  rxr_protocol :: ovpn_string_view

record ovpn_external_transport_config_view =
  rxt_host :: ovpn_string_view
  rxt_port :: ovpn_string_view
  rxt_protocol :: ovpn_string_view
  rxt_gremlin_config :: ovpn_string_view
  rxt_remotes :: "ovpn_external_remote_view ptr"
  rxt_remotes_len :: usize
  rxt_server_address_float :: i32
  rxt_synchronous_dns_lookup :: i32

record ovpn_external_transport_endpoint_view =
  rxe_host :: ovpn_string_view
  rxe_port :: ovpn_string_view
  rxe_protocol :: ovpn_string_view
  rxe_ip_address :: ovpn_string_view

definition external_transport_config_of :: "ovpn_external_transport_config_view \<Rightarrow> external_transport_config" where
  "external_transport_config_of config = \<lparr>
     etc_host = string_from_view (rxt_host config),
     etc_port = string_from_view (rxt_port config),
     etc_protocol = string_from_view (rxt_protocol config),
     etc_gremlin_config = string_from_view (rxt_gremlin_config config),
     etc_remotes = map (\<lambda>remote. \<lparr>er_host = string_from_view (rxr_host remote),
        er_port = string_from_view (rxr_port remote), er_protocol = string_from_view (rxr_protocol remote)\<rparr>)
        (raw_view_slice (rxt_remotes config) (rxt_remotes_len config)),
     etc_server_address_float = (rxt_server_address_float config \<noteq> 0),
     etc_synchronous_dns_lookup = (rxt_synchronous_dns_lookup config \<noteq> 0)\<rparr>"

definition external_transport_configure_callback ::
  "'u event_handler option \<Rightarrow> ovpn_external_transport_config_view option \<Rightarrow> 'u \<Rightarrow> i32 \<times> 'u" where
  "external_transport_configure_callback context config u =
     (case config of
        None \<Rightarrow> (0, u)
      | Some config \<Rightarrow>
          apfst bool_i32 (call_external_transport context False
            (\<lambda>transport. xt_configure transport (external_transport_config_of config)) u))"

text \<open>
  The start callbacks.  The handler acts on the application's state and on the state of the native
  handles.  The retained handle moves into the action; when the action never runs, the closure is
  dropped with it.  \<open>provider_found\<close> tells whether it ran.
\<close>

definition provider_found :: "('u event_handler \<Rightarrow> ('u, 'p option) meth) \<Rightarrow> 'u event_handler option \<Rightarrow> 'u \<Rightarrow> bool" where
  "provider_found lookup context u =
     (case context of
        None \<Rightarrow> False
      | Some handler \<Rightarrow> (case fst (lookup handler u) of Returned (Some _) \<Rightarrow> True | _ \<Rightarrow> False))"

definition external_transport_start_callback ::
  "'w transport_api \<Rightarrow> ('u \<times> 'w hsys) event_handler option \<Rightarrow> nat option \<Rightarrow> 'u \<times> 'w hsys \<Rightarrow> 'u \<times> 'w hsys" where
  "external_transport_start_callback api context handle s =
     (case transport_io_retain api handle (snd s) of
        (None, w) \<Rightarrow> (fst s, w)
      | (Some io, w) \<Rightarrow>
          let s = (fst s, w);
              run = call_external_transport_void context (\<lambda>transport. xt_start transport io) s
          in if provider_found eh_external_transport context s then run else apsnd (transport_io_drop api io) run)"

definition external_transport_send_callback ::
  "'u event_handler option \<Rightarrow> u8 ptr \<Rightarrow> usize \<Rightarrow> 'u \<Rightarrow> i32 \<times> 'u" where
  "external_transport_send_callback context data len u =
     (let packet = raw_view_slice data len
      in apfst bool_i32 (call_external_transport context False (\<lambda>transport. xt_send transport packet) u))"

definition external_transport_endpoint_callback ::
  "'u event_handler option \<Rightarrow> bool \<Rightarrow> 'u \<Rightarrow> ovpn_external_transport_endpoint_view list \<times> 'u" where
  "external_transport_endpoint_callback context complete u =
     (if \<not> complete then ([], u)
      else case call_external_transport context external_transport_endpoint_default xt_endpoint u of
             (endpoint, u) \<Rightarrow>
               ([\<lparr>rxe_host = view (ete_host endpoint), rxe_port = view (ete_port endpoint),
                  rxe_protocol = view (ete_protocol endpoint), rxe_ip_address = view (ete_ip_address endpoint)\<rparr>], u))"

definition external_transport_native_handle_callback :: "'u event_handler option \<Rightarrow> 'u \<Rightarrow> isize \<times> 'u" where
  "external_transport_native_handle_callback context u =
     apfst (\<lambda>h. case h of None \<Rightarrow> - 1 | Some handle \<Rightarrow> handle)
       (call_external_transport context None xt_native_handle u)"

definition external_transport_stop_callback :: "'u event_handler option \<Rightarrow> 'u \<Rightarrow> 'u" where
  "external_transport_stop_callback context u = (call_external_transport_void context xt_stop u)"

definition external_transport_send_queue_empty_callback :: "'u event_handler option \<Rightarrow> 'u \<Rightarrow> i32 \<times> 'u" where
  "external_transport_send_queue_empty_callback context u = (apfst bool_i32 (call_external_transport context True xt_send_queue_empty u))"

definition external_transport_has_send_queue_callback :: "'u event_handler option \<Rightarrow> 'u \<Rightarrow> i32 \<times> 'u" where
  "external_transport_has_send_queue_callback context u = (apfst bool_i32 (call_external_transport context False xt_has_send_queue u))"

definition external_transport_stop_requeueing_callback :: "'u event_handler option \<Rightarrow> 'u \<Rightarrow> 'u" where
  "external_transport_stop_requeueing_callback context u = (call_external_transport_void context xt_stop_requeueing u)"

definition external_transport_send_queue_size_callback :: "'u event_handler option \<Rightarrow> 'u \<Rightarrow> usize \<times> 'u" where
  "external_transport_send_queue_size_callback context u = (call_external_transport context 0 xt_send_queue_size u)"

definition external_transport_reset_align_adjust_callback :: "'u event_handler option \<Rightarrow> usize \<Rightarrow> 'u \<Rightarrow> 'u" where
  "external_transport_reset_align_adjust_callback context align_adjust u = (call_external_transport_void context (\<lambda>transport. xt_reset_align_adjust transport align_adjust) u)"

definition external_transport_is_relay_callback :: "'u event_handler option \<Rightarrow> 'u \<Rightarrow> i32 \<times> 'u" where
  "external_transport_is_relay_callback context u = (apfst bool_i32 (call_external_transport context False xt_is_relay u))"

definition external_transport_process_push_callback :: "'u event_handler option \<Rightarrow> ovpn_string_view \<Rightarrow> 'u \<Rightarrow> 'u" where
  "external_transport_process_push_callback context options u = (let options = string_from_view options in call_external_transport_void context (\<lambda>transport. xt_process_push transport options) u)"

section \<open>External TUN callbacks\<close>

record ovpn_external_tun_config_view =
  rxn_session_name :: ovpn_string_view
  rxn_layer :: i32
  rxn_mtu :: i32
  rxn_mtu_max :: i32
  rxn_google_dns_fallback :: i32
  rxn_dhcp_search_domains_as_split_domains :: i32
  rxn_allow_local_lan_access :: i32
  rxn_remote_bypass :: i32
  rxn_tun_persist :: i32

record ovpn_external_tun_start_view =
  rxs_options :: ovpn_string_view
  rxs_cipher_algorithm :: u32
  rxs_digest_algorithm :: u32
  rxs_key_derivation :: u32
  rxs_use_epoch_keys :: i32

record ovpn_external_tun_info_view =
  rxi_name :: ovpn_string_view
  rxi_vpn_ipv4 :: ovpn_string_view
  rxi_vpn_ipv6 :: ovpn_string_view
  rxi_gateway_ipv4 :: ovpn_string_view
  rxi_gateway_ipv6 :: ovpn_string_view
  rxi_mtu :: i32
  rxi_interface_index :: u32

definition external_tun_config_of :: "ovpn_external_tun_config_view \<Rightarrow> external_tun_config" where
  "external_tun_config_of config = \<lparr>
     tunc_session_name = string_from_view (rxn_session_name config), tunc_layer = rxn_layer config,
     tunc_mtu = rxn_mtu config, tunc_mtu_max = rxn_mtu_max config,
     tunc_google_dns_fallback = (rxn_google_dns_fallback config \<noteq> 0),
     tunc_dhcp_search_domains_as_split_domains = (rxn_dhcp_search_domains_as_split_domains config \<noteq> 0),
     tunc_allow_local_lan_access = (rxn_allow_local_lan_access config \<noteq> 0),
     tunc_remote_bypass = (rxn_remote_bypass config \<noteq> 0), tunc_tun_persist = (rxn_tun_persist config \<noteq> 0)\<rparr>"

definition external_tun_configure_callback ::
  "'u event_handler option \<Rightarrow> ovpn_external_tun_config_view option \<Rightarrow> 'u \<Rightarrow> i32 \<times> 'u" where
  "external_tun_configure_callback context config u =
     (case config of
        None \<Rightarrow> (0, u)
      | Some config \<Rightarrow>
          apfst bool_i32 (call_external_tun context False (\<lambda>tun. xn_configure tun (external_tun_config_of config)) u))"

definition external_tun_start_of :: "ovpn_external_tun_start_view \<Rightarrow> external_tun_start_config" where
  "external_tun_start_of start = \<lparr>
     tsc_options = string_from_view (rxs_options start), tsc_cipher_algorithm = rxs_cipher_algorithm start,
     tsc_digest_algorithm = rxs_digest_algorithm start, tsc_key_derivation = rxs_key_derivation start,
     tsc_use_epoch_keys = (rxs_use_epoch_keys start \<noteq> 0)\<rparr>"

definition external_tun_start_callback ::
  "'w tun_api \<Rightarrow> ('u \<times> 'w hsys) event_handler option \<Rightarrow> nat option \<Rightarrow> ovpn_external_tun_start_view option \<Rightarrow>
   'u \<times> 'w hsys \<Rightarrow> 'u \<times> 'w hsys" where
  "external_tun_start_callback api context handle start s =
     (case start of
        None \<Rightarrow> s
      | Some start \<Rightarrow>
          (case tun_io_retain api handle (snd s) of
             (None, w) \<Rightarrow> (fst s, w)
           | (Some io, w) \<Rightarrow>
               let s = (fst s, w);
                   run = call_external_tun_void context (\<lambda>tun. xn_start tun (external_tun_start_of start) io) s
               in if provider_found eh_external_tun context s then run else apsnd (tun_io_drop api io) run))"

definition external_tun_send_callback :: "'u event_handler option \<Rightarrow> u8 ptr \<Rightarrow> usize \<Rightarrow> 'u \<Rightarrow> i32 \<times> 'u" where
  "external_tun_send_callback context data len u =
     (let packet = raw_view_slice data len
      in apfst bool_i32 (call_external_tun context False (\<lambda>tun. xn_send tun packet) u))"

definition external_tun_info_callback ::
  "'u event_handler option \<Rightarrow> bool \<Rightarrow> 'u \<Rightarrow> ovpn_external_tun_info_view list \<times> 'u" where
  "external_tun_info_callback context complete u =
     (if \<not> complete then ([], u)
      else case call_external_tun context external_tun_info_default xn_info u of
             (info, u) \<Rightarrow>
               ([\<lparr>rxi_name = view (tui_name info), rxi_vpn_ipv4 = view (tui_vpn_ipv4 info),
                  rxi_vpn_ipv6 = view (tui_vpn_ipv6 info), rxi_gateway_ipv4 = view (tui_gateway_ipv4 info),
                  rxi_gateway_ipv6 = view (tui_gateway_ipv6 info), rxi_mtu = tui_mtu info,
                  rxi_interface_index = (case tui_interface_index info of None \<Rightarrow> U32_MAX | Some i \<Rightarrow> i)\<rparr>], u))"

definition external_tun_stop_callback :: "'u event_handler option \<Rightarrow> 'u \<Rightarrow> 'u" where
  "external_tun_stop_callback context u = (call_external_tun_void context xn_stop u)"

definition external_tun_set_disconnect_callback :: "'u event_handler option \<Rightarrow> 'u \<Rightarrow> 'u" where
  "external_tun_set_disconnect_callback context u = (call_external_tun_void context xn_set_disconnect u)"

definition external_tun_adjust_mss_callback :: "'u event_handler option \<Rightarrow> i32 \<Rightarrow> 'u \<Rightarrow> 'u" where
  "external_tun_adjust_mss_callback context mss u = (call_external_tun_void context (\<lambda>tun. xn_adjust_mss tun mss) u)"

definition external_tun_apply_push_update_callback :: "'u event_handler option \<Rightarrow> ovpn_string_view \<Rightarrow> 'u \<Rightarrow> 'u" where
  "external_tun_apply_push_update_callback context options u = (let options = string_from_view options in call_external_tun_void context (\<lambda>tun. xn_apply_push_update tun options) u)"

definition external_tun_layer_2_supported_callback :: "'u event_handler option \<Rightarrow> 'u \<Rightarrow> i32 \<times> 'u" where
  "external_tun_layer_2_supported_callback context u = (apfst bool_i32 (call_external_tun context False xn_layer_2_supported u))"

definition external_tun_supports_epoch_data_callback :: "'u event_handler option \<Rightarrow> 'u \<Rightarrow> i32 \<times> 'u" where
  "external_tun_supports_epoch_data_callback context u = (apfst bool_i32 (call_external_tun context False xn_supports_epoch_data u))"

definition external_tun_finalize_callback :: "'u event_handler option \<Rightarrow> i32 \<Rightarrow> 'u \<Rightarrow> 'u" where
  "external_tun_finalize_callback context disconnected u = (call_external_tun_void context (\<lambda>tun. xn_finalize tun (disconnected \<noteq> 0)) u)"

section \<open>TUN builder callbacks\<close>

definition tun_builder_set_dns_options_callback ::
  "'u event_handler option \<Rightarrow> ovpn_dns_options_view option \<Rightarrow> 'u \<Rightarrow> i32 \<times> 'u" where
  "tun_builder_set_dns_options_callback context dns u =
     (case dns of
        None \<Rightarrow> (0, u)
      | Some raw \<Rightarrow> apfst bool_i32 (call_tun context False (\<lambda>tun. tb_set_dns_options tun (dns_options_of raw)) u))"

definition tun_builder_get_local_networks_callback ::
  "'u event_handler option \<Rightarrow> i32 \<Rightarrow> bool \<Rightarrow> 'u \<Rightarrow> (ovpn_string_view ptr \<times> usize) list \<times> 'u" where
  "tun_builder_get_local_networks_callback context ipv6 complete u =
     (if \<not> complete then ([], u)
      else
        let (networks, u) =
          (case context of
             None \<Rightarrow> ([], u)
           | Some handler \<Rightarrow>
               caught [] id (with_provider (eh_tun_builder handler) [] (\<lambda>tun. tb_local_networks tun (ipv6 \<noteq> 0)) u));
            views = map view networks
        in ([(slice_pointer views, length views)], u))"

definition tun_builder_dco_new_peer_callback ::
  "'u event_handler option \<Rightarrow> ovpn_dco_peer_view option \<Rightarrow> 'u \<Rightarrow> 'u" where
  "tun_builder_dco_new_peer_callback context peer u =
     (case peer of
        None \<Rightarrow> u
      | Some peer \<Rightarrow> call_tun_void context (\<lambda>tun. tb_dco_new_peer tun (dco_peer_of peer)) u)"

definition tun_builder_dco_new_key_callback ::
  "'u event_handler option \<Rightarrow> u32 \<Rightarrow> ovpn_dco_key_config_view option \<Rightarrow> 'u \<Rightarrow> 'u" where
  "tun_builder_dco_new_key_callback context key_slot key u =
     (case key of
        None \<Rightarrow> u
      | Some key \<Rightarrow> call_tun_void context (\<lambda>tun. tb_dco_new_key tun key_slot (dco_key_config_of key)) u)"

definition tun_builder_new_callback :: "'u event_handler option \<Rightarrow> 'u \<Rightarrow> i32 \<times> 'u" where
  "tun_builder_new_callback context u = (apfst bool_i32 (call_tun context False tb_new_tunnel u))"

definition tun_builder_set_layer_callback :: "'u event_handler option \<Rightarrow> i32 \<Rightarrow> 'u \<Rightarrow> i32 \<times> 'u" where
  "tun_builder_set_layer_callback context layer u = (apfst bool_i32 (call_tun context True (\<lambda>tun. tb_set_layer tun layer) u))"

definition tun_builder_set_remote_address_callback :: "'u event_handler option \<Rightarrow> ovpn_string_view \<Rightarrow> i32 \<Rightarrow> 'u \<Rightarrow> i32 \<times> 'u" where
  "tun_builder_set_remote_address_callback context address ipv6 u = (let address = string_from_view address in apfst bool_i32 (call_tun context False (\<lambda>tun. tb_set_remote_address tun address (ipv6 \<noteq> 0)) u))"

definition tun_builder_add_address_callback :: "'u event_handler option \<Rightarrow> ovpn_string_view \<Rightarrow> i32 \<Rightarrow> ovpn_string_view \<Rightarrow> i32 \<Rightarrow> i32 \<Rightarrow> 'u \<Rightarrow> i32 \<times> 'u" where
  "tun_builder_add_address_callback context address prefix_length gateway ipv6 net30 u = (let address = string_from_view address; gateway = string_from_view gateway in apfst bool_i32 (call_tun context False (\<lambda>tun. tb_add_address tun address prefix_length gateway (ipv6 \<noteq> 0) (net30 \<noteq> 0)) u))"

definition tun_builder_set_route_metric_default_callback :: "'u event_handler option \<Rightarrow> i32 \<Rightarrow> 'u \<Rightarrow> i32 \<times> 'u" where
  "tun_builder_set_route_metric_default_callback context metric u = (apfst bool_i32 (call_tun context True (\<lambda>tun. tb_set_route_metric_default tun metric) u))"

definition tun_builder_reroute_gw_callback :: "'u event_handler option \<Rightarrow> i32 \<Rightarrow> i32 \<Rightarrow> u32 \<Rightarrow> 'u \<Rightarrow> i32 \<times> 'u" where
  "tun_builder_reroute_gw_callback context ipv4 ipv6 flags u = (apfst bool_i32 (call_tun context False (\<lambda>tun. tb_reroute_gateway tun (ipv4 \<noteq> 0) (ipv6 \<noteq> 0) flags) u))"

definition tun_builder_add_route_callback :: "'u event_handler option \<Rightarrow> ovpn_string_view \<Rightarrow> i32 \<Rightarrow> i32 \<Rightarrow> i32 \<Rightarrow> 'u \<Rightarrow> i32 \<times> 'u" where
  "tun_builder_add_route_callback context address prefix_length metric ipv6 u = (let address = string_from_view address in apfst bool_i32 (call_tun context False (\<lambda>tun. tb_add_route tun address prefix_length metric (ipv6 \<noteq> 0)) u))"

definition tun_builder_exclude_route_callback :: "'u event_handler option \<Rightarrow> ovpn_string_view \<Rightarrow> i32 \<Rightarrow> i32 \<Rightarrow> i32 \<Rightarrow> 'u \<Rightarrow> i32 \<times> 'u" where
  "tun_builder_exclude_route_callback context address prefix_length metric ipv6 u = (let address = string_from_view address in apfst bool_i32 (call_tun context False (\<lambda>tun. tb_exclude_route tun address prefix_length metric (ipv6 \<noteq> 0)) u))"

definition tun_builder_set_mtu_callback :: "'u event_handler option \<Rightarrow> i32 \<Rightarrow> 'u \<Rightarrow> i32 \<times> 'u" where
  "tun_builder_set_mtu_callback context mtu u = (apfst bool_i32 (call_tun context False (\<lambda>tun. tb_set_mtu tun mtu) u))"

definition tun_builder_set_session_name_callback :: "'u event_handler option \<Rightarrow> ovpn_string_view \<Rightarrow> 'u \<Rightarrow> i32 \<times> 'u" where
  "tun_builder_set_session_name_callback context name u = (let name = string_from_view name in apfst bool_i32 (call_tun context False (\<lambda>tun. tb_set_session_name tun name) u))"

definition tun_builder_add_proxy_bypass_callback :: "'u event_handler option \<Rightarrow> ovpn_string_view \<Rightarrow> 'u \<Rightarrow> i32 \<times> 'u" where
  "tun_builder_add_proxy_bypass_callback context host u = (let host = string_from_view host in apfst bool_i32 (call_tun context False (\<lambda>tun. tb_add_proxy_bypass tun host) u))"

definition tun_builder_set_proxy_auto_config_url_callback :: "'u event_handler option \<Rightarrow> ovpn_string_view \<Rightarrow> 'u \<Rightarrow> i32 \<times> 'u" where
  "tun_builder_set_proxy_auto_config_url_callback context url u = (let url = string_from_view url in apfst bool_i32 (call_tun context False (\<lambda>tun. tb_set_proxy_auto_config_url tun url) u))"

definition tun_builder_set_proxy_http_callback :: "'u event_handler option \<Rightarrow> ovpn_string_view \<Rightarrow> i32 \<Rightarrow> 'u \<Rightarrow> i32 \<times> 'u" where
  "tun_builder_set_proxy_http_callback context host port u = (let host = string_from_view host in apfst bool_i32 (call_tun context False (\<lambda>tun. tb_set_proxy_http tun host port) u))"

definition tun_builder_set_proxy_https_callback :: "'u event_handler option \<Rightarrow> ovpn_string_view \<Rightarrow> i32 \<Rightarrow> 'u \<Rightarrow> i32 \<times> 'u" where
  "tun_builder_set_proxy_https_callback context host port u = (let host = string_from_view host in apfst bool_i32 (call_tun context False (\<lambda>tun. tb_set_proxy_https tun host port) u))"

definition tun_builder_add_wins_server_callback :: "'u event_handler option \<Rightarrow> ovpn_string_view \<Rightarrow> 'u \<Rightarrow> i32 \<times> 'u" where
  "tun_builder_add_wins_server_callback context address u = (let address = string_from_view address in apfst bool_i32 (call_tun context False (\<lambda>tun. tb_add_wins_server tun address) u))"

definition tun_builder_set_allow_family_callback :: "'u event_handler option \<Rightarrow> i32 \<Rightarrow> i32 \<Rightarrow> 'u \<Rightarrow> i32 \<times> 'u" where
  "tun_builder_set_allow_family_callback context address_family allow u = (apfst bool_i32 (call_tun context True (\<lambda>tun. tb_set_allow_family tun address_family (allow \<noteq> 0)) u))"

definition tun_builder_set_allow_local_dns_callback :: "'u event_handler option \<Rightarrow> i32 \<Rightarrow> 'u \<Rightarrow> i32 \<times> 'u" where
  "tun_builder_set_allow_local_dns_callback context allow u = (apfst bool_i32 (call_tun context True (\<lambda>tun. tb_set_allow_local_dns tun (allow \<noteq> 0)) u))"

definition tun_builder_establish_callback :: "'u event_handler option \<Rightarrow> 'u \<Rightarrow> i32 \<times> 'u" where
  "tun_builder_establish_callback context u = (call_tun context (- 1) tb_establish u)"

definition tun_builder_persist_callback :: "'u event_handler option \<Rightarrow> 'u \<Rightarrow> i32 \<times> 'u" where
  "tun_builder_persist_callback context u = (apfst bool_i32 (call_tun context True tb_persist u))"

definition tun_builder_establish_lite_callback :: "'u event_handler option \<Rightarrow> 'u \<Rightarrow> 'u" where
  "tun_builder_establish_lite_callback context u = (call_tun_void context tb_establish_lite u)"

definition tun_builder_teardown_callback :: "'u event_handler option \<Rightarrow> i32 \<Rightarrow> 'u \<Rightarrow> 'u" where
  "tun_builder_teardown_callback context disconnect u = (call_tun_void context (\<lambda>tun. tb_teardown tun (disconnect \<noteq> 0)) u)"

definition tun_builder_dco_available_callback :: "'u event_handler option \<Rightarrow> 'u \<Rightarrow> i32 \<times> 'u" where
  "tun_builder_dco_available_callback context u = (apfst bool_i32 (call_tun context False tb_dco_available u))"

definition tun_builder_dco_enable_callback :: "'u event_handler option \<Rightarrow> ovpn_string_view \<Rightarrow> 'u \<Rightarrow> i32 \<times> 'u" where
  "tun_builder_dco_enable_callback context device_name u = (let device_name = string_from_view device_name in call_tun context (- 1) (\<lambda>tun. tb_dco_enable tun device_name) u)"

definition tun_builder_dco_set_peer_callback :: "'u event_handler option \<Rightarrow> u32 \<Rightarrow> i32 \<Rightarrow> i32 \<Rightarrow> 'u \<Rightarrow> 'u" where
  "tun_builder_dco_set_peer_callback context peer_id keepalive_interval keepalive_timeout u = (call_tun_void context (\<lambda>tun. tb_dco_set_peer tun peer_id keepalive_interval keepalive_timeout) u)"

definition tun_builder_dco_del_peer_callback :: "'u event_handler option \<Rightarrow> u32 \<Rightarrow> 'u \<Rightarrow> 'u" where
  "tun_builder_dco_del_peer_callback context peer_id u = (call_tun_void context (\<lambda>tun. tb_dco_delete_peer tun peer_id) u)"

definition tun_builder_dco_get_peer_callback :: "'u event_handler option \<Rightarrow> u32 \<Rightarrow> i32 \<Rightarrow> 'u \<Rightarrow> 'u" where
  "tun_builder_dco_get_peer_callback context peer_id synchronous u = (call_tun_void context (\<lambda>tun. tb_dco_get_peer tun peer_id (synchronous \<noteq> 0)) u)"

definition tun_builder_dco_swap_keys_callback :: "'u event_handler option \<Rightarrow> u32 \<Rightarrow> 'u \<Rightarrow> 'u" where
  "tun_builder_dco_swap_keys_callback context peer_id u = (call_tun_void context (\<lambda>tun. tb_dco_swap_keys tun peer_id) u)"

definition tun_builder_dco_del_key_callback :: "'u event_handler option \<Rightarrow> u32 \<Rightarrow> u32 \<Rightarrow> 'u \<Rightarrow> 'u" where
  "tun_builder_dco_del_key_callback context peer_id key_slot u = (call_tun_void context (\<lambda>tun. tb_dco_delete_key tun peer_id key_slot) u)"

definition tun_builder_dco_establish_callback :: "'u event_handler option \<Rightarrow> 'u \<Rightarrow> 'u" where
  "tun_builder_dco_establish_callback context u = (call_tun_void context tb_dco_establish u)"

section \<open>The contract of the dispatch functions\<close>

text \<open>
  What the three dispatch functions promise to the callbacks built on them: without a
  context, without a provider, or when the provider panics, the fallback is returned; in
  every other case the action runs on the provider, once.
\<close>

locale provider_dispatch =
  fixes call :: "'u event_handler option \<Rightarrow> 'r \<Rightarrow> ('p \<Rightarrow> ('u, 'r) meth) \<Rightarrow> 'u \<Rightarrow> 'r \<times> 'u"
    and lookup :: "'u event_handler \<Rightarrow> ('u, 'p option) meth"
  assumes call_null: "call None d act u = (d, u)"
    and call_absent: "lookup h u = (Returned None, v) \<Longrightarrow> call (Some h) d act u = (d, v)"
    and call_lookup_panic: "lookup h u = (Panicked, v) \<Longrightarrow> call (Some h) d act u = (d, v)"
    and call_present: "lookup h u = (Returned (Some p), v) \<Longrightarrow> call (Some h) d act u = caught d id (act p v)"
begin

lemma panic_contained: "lookup h u = (Returned (Some p), v) \<Longrightarrow> act p v = (Panicked, w) \<Longrightarrow> call (Some h) d act u = (d, w)"
  by (simp add: call_present caught_def)

lemma returned: "lookup h u = (Returned (Some p), v) \<Longrightarrow> act p v = (Returned r, w) \<Longrightarrow> call (Some h) d act u = (r, w)"
  by (simp add: call_present caught_def)

text \<open>The result is the fallback or what the action returned.\<close>

lemma result_cases:
  obtains "fst (call context d act u) = d"
  | h p v r w where "context = Some h" "lookup h u = (Returned (Some p), v)" "act p v = (Returned r, w)"
      "call context d act u = (r, w)"
proof (cases "context")
  case None
  then show ?thesis using that(1) call_null by simp
next
  case (Some h)
  obtain l v where l: "lookup h u = (l, v)" by fastforce
  show ?thesis
  proof (cases l)
    case Panicked
    with Some l call_lookup_panic that(1) show ?thesis by simp
  next
    case (Returned q)
    show ?thesis
    proof (cases q)
      case None
      with Some l Returned call_absent that(1) show ?thesis by simp
    next
      case q: (Some p)
      obtain r w where rw: "act p v = (r, w)" by fastforce
      show ?thesis
      proof (cases r)
        case Panicked
        with Some l Returned q rw panic_contained that(1) show ?thesis by simp
      next
        case r: (Returned a)
        then show ?thesis using that(2) [of h p v a w] Some l Returned q rw returned by simp
      qed
    qed
  qed
qed

end

lemmas dispatch_defs [dispatch_simps] = call_tun_def call_external_transport_def call_external_tun_def call_tun_void_def
  call_external_transport_void_def call_external_tun_void_def with_provider_def

interpretation tun_dispatch: provider_dispatch call_tun eh_tun_builder
  by unfold_locales (simp_all add: dispatch_simps caught_def)

interpretation transport_dispatch: provider_dispatch call_external_transport eh_external_transport
  by unfold_locales (simp_all add: dispatch_simps caught_def)

interpretation xtun_dispatch: provider_dispatch call_external_tun eh_external_tun
  by unfold_locales (simp_all add: dispatch_simps caught_def)

text \<open>The void variants are the valued ones at the unit type.\<close>

lemma call_void:
  "call_tun_void context act u = snd (call_tun context () act u)"
  "call_external_transport_void context act1 u = snd (call_external_transport context () act1 u)"
  "call_external_tun_void context act2 u = snd (call_external_tun context () act2 u)"
  by (simp_all add: dispatch_simps split: option.splits)

section \<open>Missing and failing providers\<close>

text \<open>A context in which the looked-up provider is missing, and the state afterwards.\<close>

definition absent :: "('u event_handler \<Rightarrow> ('u, 'p option) meth) \<Rightarrow> 'u event_handler option \<Rightarrow> 'u \<Rightarrow> 'u \<Rightarrow> bool" where
  "absent lookup context u v \<longleftrightarrow>
     (case context of
        None \<Rightarrow> v = u
      | Some h \<Rightarrow> lookup h u = (Returned None, v) \<or> lookup h u = (Panicked, v))"

lemma call_absent:
  "absent eh_tun_builder context u v \<Longrightarrow> call_tun context d act u = (d, v)"
  "absent eh_external_transport context u v \<Longrightarrow> call_external_transport context d act1 u = (d, v)"
  "absent eh_external_tun context u v \<Longrightarrow> call_external_tun context d act2 u = (d, v)"
  by (auto simp: absent_def dispatch_simps caught_def split: option.splits)

text \<open>A provider that changes the state and then panics, whatever is asked of it.\<close>

definition panics :: "('u \<Rightarrow> 'u) \<Rightarrow> ('u, 'r) meth" where
  "panics f u = (Panicked, f u)"

definition tun_builder_panics :: "('u \<Rightarrow> 'u) \<Rightarrow> 'u tun_builder" where
  "tun_builder_panics f = \<lparr>
     tb_new_tunnel = panics f,
     tb_set_layer = (\<lambda>_. panics f),
     tb_set_remote_address = (\<lambda>_ _. panics f),
     tb_add_address = (\<lambda>_ _ _ _ _. panics f),
     tb_set_route_metric_default = (\<lambda>_. panics f),
     tb_reroute_gateway = (\<lambda>_ _ _. panics f),
     tb_add_route = (\<lambda>_ _ _ _. panics f),
     tb_exclude_route = (\<lambda>_ _ _ _. panics f),
     tb_set_dns_options = (\<lambda>_. panics f),
     tb_set_mtu = (\<lambda>_. panics f),
     tb_set_session_name = (\<lambda>_. panics f),
     tb_add_proxy_bypass = (\<lambda>_. panics f),
     tb_set_proxy_auto_config_url = (\<lambda>_. panics f),
     tb_set_proxy_http = (\<lambda>_ _. panics f),
     tb_set_proxy_https = (\<lambda>_ _. panics f),
     tb_add_wins_server = (\<lambda>_. panics f),
     tb_set_allow_family = (\<lambda>_ _. panics f),
     tb_set_allow_local_dns = (\<lambda>_. panics f),
     tb_establish = panics f,
     tb_persist = panics f,
     tb_local_networks = (\<lambda>_. panics f),
     tb_establish_lite = panics f,
     tb_teardown = (\<lambda>_. panics f),
     tb_dco_available = panics f,
     tb_dco_enable = (\<lambda>_. panics f),
     tb_dco_new_peer = (\<lambda>_. panics f),
     tb_dco_set_peer = (\<lambda>_ _ _. panics f),
     tb_dco_delete_peer = (\<lambda>_. panics f),
     tb_dco_get_peer = (\<lambda>_ _. panics f),
     tb_dco_new_key = (\<lambda>_ _. panics f),
     tb_dco_swap_keys = (\<lambda>_. panics f),
     tb_dco_delete_key = (\<lambda>_ _. panics f),
     tb_dco_establish = panics f\<rparr>"

definition external_transport_panics :: "('u \<Rightarrow> 'u) \<Rightarrow> 'u external_transport" where
  "external_transport_panics f = \<lparr>
     xt_configure = (\<lambda>_. panics f),
     xt_start = (\<lambda>_. panics f),
     xt_stop = panics f,
     xt_send = (\<lambda>_. panics f),
     xt_send_queue_empty = panics f,
     xt_has_send_queue = panics f,
     xt_stop_requeueing = panics f,
     xt_send_queue_size = panics f,
     xt_reset_align_adjust = (\<lambda>_. panics f),
     xt_endpoint = panics f,
     xt_native_handle = panics f,
     xt_is_relay = panics f,
     xt_process_push = (\<lambda>_. panics f)\<rparr>"

definition external_tun_panics :: "('u \<Rightarrow> 'u) \<Rightarrow> 'u external_tun" where
  "external_tun_panics f = \<lparr>
     xn_configure = (\<lambda>_. panics f),
     xn_start = (\<lambda>_ _. panics f),
     xn_stop = panics f,
     xn_set_disconnect = panics f,
     xn_send = (\<lambda>_. panics f),
     xn_info = panics f,
     xn_adjust_mss = (\<lambda>_. panics f),
     xn_apply_push_update = (\<lambda>_. panics f),
     xn_layer_2_supported = panics f,
     xn_supports_epoch_data = panics f,
     xn_finalize = (\<lambda>_. panics f)\<rparr>"

definition with_tun_builder :: "'u tun_builder \<Rightarrow> 'u event_handler option" where
  "with_tun_builder tun = Some (event_handler_default\<lparr>eh_tun_builder := returns (Some tun)\<rparr>)"

definition with_transport :: "'u external_transport \<Rightarrow> 'u event_handler option" where
  "with_transport transport = Some (event_handler_default\<lparr>eh_external_transport := returns (Some transport)\<rparr>)"

definition with_tun :: "'u external_tun \<Rightarrow> 'u event_handler option" where
  "with_tun tun = Some (event_handler_default\<lparr>eh_external_tun := returns (Some tun)\<rparr>)"

lemma call_provided:
  "call_tun (with_tun_builder tun) d act u = caught d id (act tun u)"
  "call_external_transport (with_transport transport) d act1 u = caught d id (act1 transport u)"
  "call_external_tun (with_tun xtun) d act2 u = caught d id (act2 xtun u)"
  by (simp_all add: dispatch_simps with_tun_builder_def with_transport_def with_tun_def returns_def)

lemma caught_simps [simp]: "caught d f (returns r u) = (f r, u)" "caught d f (panics g u) = (d, g u)"
  by (simp_all add: caught_def returns_def panics_def)

lemma caught_map:
  "apfst bool_i32 (caught d id run) = caught (bool_i32 d) bool_i32 run"
  "snd (caught () id run') = snd run'"
  by (auto simp: caught_def split: prod.splits outcome.splits)

section \<open>Properties\<close>

text \<open>
  The answers of the TUN builder callbacks without a provider are the defaults of the
  trait.  For every callback that answers, a null context, a handler without a builder, a
  handler whose lookup panics, and a builder whose method panics all give the answer that a
  builder with only default methods gives; the void ones leave the state as the handler left it.
\<close>

theorem tun_builder_callback_defaults:
  assumes "absent eh_tun_builder context u v" and "fallback = with_tun_builder tun_builder_default"
    and "broken = with_tun_builder (tun_builder_panics f)"
  shows
  "tun_builder_new_callback context u = (fst (tun_builder_new_callback fallback u), v)
   \<and> tun_builder_new_callback broken u = (fst (tun_builder_new_callback fallback u), f u)
   \<and> tun_builder_set_layer_callback context layer u = (fst (tun_builder_set_layer_callback fallback layer u), v)
   \<and> tun_builder_set_layer_callback broken layer u = (fst (tun_builder_set_layer_callback fallback layer u), f u)
   \<and> tun_builder_set_remote_address_callback context address ipv6 u = (fst (tun_builder_set_remote_address_callback fallback address ipv6 u), v)
   \<and> tun_builder_set_remote_address_callback broken address ipv6 u = (fst (tun_builder_set_remote_address_callback fallback address ipv6 u), f u)
   \<and> tun_builder_add_address_callback context address prefix_length gateway ipv6 net30 u = (fst (tun_builder_add_address_callback fallback address prefix_length gateway ipv6 net30 u), v)
   \<and> tun_builder_add_address_callback broken address prefix_length gateway ipv6 net30 u = (fst (tun_builder_add_address_callback fallback address prefix_length gateway ipv6 net30 u), f u)
   \<and> tun_builder_set_route_metric_default_callback context metric u = (fst (tun_builder_set_route_metric_default_callback fallback metric u), v)
   \<and> tun_builder_set_route_metric_default_callback broken metric u = (fst (tun_builder_set_route_metric_default_callback fallback metric u), f u)
   \<and> tun_builder_reroute_gw_callback context ipv4 ipv6 flags u = (fst (tun_builder_reroute_gw_callback fallback ipv4 ipv6 flags u), v)
   \<and> tun_builder_reroute_gw_callback broken ipv4 ipv6 flags u = (fst (tun_builder_reroute_gw_callback fallback ipv4 ipv6 flags u), f u)
   \<and> tun_builder_add_route_callback context address prefix_length metric ipv6 u = (fst (tun_builder_add_route_callback fallback address prefix_length metric ipv6 u), v)
   \<and> tun_builder_add_route_callback broken address prefix_length metric ipv6 u = (fst (tun_builder_add_route_callback fallback address prefix_length metric ipv6 u), f u)
   \<and> tun_builder_exclude_route_callback context address prefix_length metric ipv6 u = (fst (tun_builder_exclude_route_callback fallback address prefix_length metric ipv6 u), v)
   \<and> tun_builder_exclude_route_callback broken address prefix_length metric ipv6 u = (fst (tun_builder_exclude_route_callback fallback address prefix_length metric ipv6 u), f u)
   \<and> (case dns of None \<Rightarrow> tun_builder_set_dns_options_callback context dns u = (0, u) | Some _ \<Rightarrow> tun_builder_set_dns_options_callback context dns u = (fst (tun_builder_set_dns_options_callback fallback dns u), v)
   \<and> tun_builder_set_dns_options_callback broken dns u = (fst (tun_builder_set_dns_options_callback fallback dns u), f u))
   \<and> tun_builder_set_mtu_callback context mtu u = (fst (tun_builder_set_mtu_callback fallback mtu u), v)
   \<and> tun_builder_set_mtu_callback broken mtu u = (fst (tun_builder_set_mtu_callback fallback mtu u), f u)
   \<and> tun_builder_set_session_name_callback context name u = (fst (tun_builder_set_session_name_callback fallback name u), v)
   \<and> tun_builder_set_session_name_callback broken name u = (fst (tun_builder_set_session_name_callback fallback name u), f u)
   \<and> tun_builder_add_proxy_bypass_callback context host u = (fst (tun_builder_add_proxy_bypass_callback fallback host u), v)
   \<and> tun_builder_add_proxy_bypass_callback broken host u = (fst (tun_builder_add_proxy_bypass_callback fallback host u), f u)
   \<and> tun_builder_set_proxy_auto_config_url_callback context url u = (fst (tun_builder_set_proxy_auto_config_url_callback fallback url u), v)
   \<and> tun_builder_set_proxy_auto_config_url_callback broken url u = (fst (tun_builder_set_proxy_auto_config_url_callback fallback url u), f u)
   \<and> tun_builder_set_proxy_http_callback context host port u = (fst (tun_builder_set_proxy_http_callback fallback host port u), v)
   \<and> tun_builder_set_proxy_http_callback broken host port u = (fst (tun_builder_set_proxy_http_callback fallback host port u), f u)
   \<and> tun_builder_set_proxy_https_callback context host port u = (fst (tun_builder_set_proxy_https_callback fallback host port u), v)
   \<and> tun_builder_set_proxy_https_callback broken host port u = (fst (tun_builder_set_proxy_https_callback fallback host port u), f u)
   \<and> tun_builder_add_wins_server_callback context address u = (fst (tun_builder_add_wins_server_callback fallback address u), v)
   \<and> tun_builder_add_wins_server_callback broken address u = (fst (tun_builder_add_wins_server_callback fallback address u), f u)
   \<and> tun_builder_set_allow_family_callback context address_family allow u = (fst (tun_builder_set_allow_family_callback fallback address_family allow u), v)
   \<and> tun_builder_set_allow_family_callback broken address_family allow u = (fst (tun_builder_set_allow_family_callback fallback address_family allow u), f u)
   \<and> tun_builder_set_allow_local_dns_callback context allow u = (fst (tun_builder_set_allow_local_dns_callback fallback allow u), v)
   \<and> tun_builder_set_allow_local_dns_callback broken allow u = (fst (tun_builder_set_allow_local_dns_callback fallback allow u), f u)
   \<and> tun_builder_establish_callback context u = (fst (tun_builder_establish_callback fallback u), v)
   \<and> tun_builder_establish_callback broken u = (fst (tun_builder_establish_callback fallback u), f u)
   \<and> tun_builder_persist_callback context u = (fst (tun_builder_persist_callback fallback u), v)
   \<and> tun_builder_persist_callback broken u = (fst (tun_builder_persist_callback fallback u), f u)
   \<and> tun_builder_dco_available_callback context u = (fst (tun_builder_dco_available_callback fallback u), v)
   \<and> tun_builder_dco_available_callback broken u = (fst (tun_builder_dco_available_callback fallback u), f u)
   \<and> tun_builder_dco_enable_callback context device_name u = (fst (tun_builder_dco_enable_callback fallback device_name u), v)
   \<and> tun_builder_dco_enable_callback broken device_name u = (fst (tun_builder_dco_enable_callback fallback device_name u), f u)
   \<and> tun_builder_establish_lite_callback context u = v
   \<and> tun_builder_establish_lite_callback fallback u = u
   \<and> tun_builder_establish_lite_callback broken u = f u
   \<and> tun_builder_teardown_callback context disconnect u = v
   \<and> tun_builder_teardown_callback fallback disconnect u = u
   \<and> tun_builder_teardown_callback broken disconnect u = f u
   \<and> tun_builder_dco_set_peer_callback context peer_id keepalive_interval keepalive_timeout u = v
   \<and> tun_builder_dco_set_peer_callback fallback peer_id keepalive_interval keepalive_timeout u = u
   \<and> tun_builder_dco_set_peer_callback broken peer_id keepalive_interval keepalive_timeout u = f u
   \<and> tun_builder_dco_del_peer_callback context peer_id u = v
   \<and> tun_builder_dco_del_peer_callback fallback peer_id u = u
   \<and> tun_builder_dco_del_peer_callback broken peer_id u = f u
   \<and> tun_builder_dco_get_peer_callback context peer_id synchronous u = v
   \<and> tun_builder_dco_get_peer_callback fallback peer_id synchronous u = u
   \<and> tun_builder_dco_get_peer_callback broken peer_id synchronous u = f u
   \<and> tun_builder_dco_swap_keys_callback context peer_id u = v
   \<and> tun_builder_dco_swap_keys_callback fallback peer_id u = u
   \<and> tun_builder_dco_swap_keys_callback broken peer_id u = f u
   \<and> tun_builder_dco_del_key_callback context peer_id key_slot u = v
   \<and> tun_builder_dco_del_key_callback fallback peer_id key_slot u = u
   \<and> tun_builder_dco_del_key_callback broken peer_id key_slot u = f u
   \<and> tun_builder_dco_establish_callback context u = v
   \<and> tun_builder_dco_establish_callback fallback u = u
   \<and> tun_builder_dco_establish_callback broken u = f u"
  using assms(2,3) by (auto simp: call_absent(1) [OF assms(1)] call_provided call_void tun_builder_default_def tun_builder_panics_def Let_def
      tun_builder_new_callback_def tun_builder_set_layer_callback_def
      tun_builder_set_remote_address_callback_def tun_builder_add_address_callback_def
      tun_builder_set_route_metric_default_callback_def tun_builder_reroute_gw_callback_def
      tun_builder_add_route_callback_def tun_builder_exclude_route_callback_def
      tun_builder_set_dns_options_callback_def tun_builder_set_mtu_callback_def
      tun_builder_set_session_name_callback_def tun_builder_add_proxy_bypass_callback_def
      tun_builder_set_proxy_auto_config_url_callback_def tun_builder_set_proxy_http_callback_def
      tun_builder_set_proxy_https_callback_def tun_builder_add_wins_server_callback_def
      tun_builder_set_allow_family_callback_def tun_builder_set_allow_local_dns_callback_def
      tun_builder_establish_callback_def tun_builder_persist_callback_def
      tun_builder_dco_available_callback_def tun_builder_dco_enable_callback_def
      tun_builder_establish_lite_callback_def tun_builder_teardown_callback_def
      tun_builder_dco_new_peer_callback_def tun_builder_dco_set_peer_callback_def
      tun_builder_dco_del_peer_callback_def tun_builder_dco_get_peer_callback_def
      tun_builder_dco_new_key_callback_def tun_builder_dco_swap_keys_callback_def
      tun_builder_dco_del_key_callback_def tun_builder_dco_establish_callback_def
      split: option.splits)

theorem tun_builder_callback_defaults_witness:
  "tun_builder_new_callback None (7 :: nat) = (fst (tun_builder_new_callback (with_tun_builder tun_builder_default) (7 :: nat)), 7)"
proof -
  have "absent eh_tun_builder None (7 :: nat) 7" by (simp add: absent_def)
  from tun_builder_callback_defaults [OF this refl refl, THEN conjunct1] show ?thesis .
qed

text \<open>
  The same holds for an application transport and an application tunnel: without a
  provider, or with one that panics, their callbacks answer what the default methods of the
  trait answer, and report no endpoint, no handle and no interface.
\<close>

theorem provider_callback_defaults:
  assumes "absent eh_external_transport context u v" and "absent eh_external_tun context u w"
    and "tr = with_transport external_transport_default" and "tn = with_tun external_tun_default"
    and "tr' = with_transport (external_transport_panics f)" and "tn' = with_tun (external_tun_panics f)"
  shows
  "external_transport_native_handle_callback context u = (- 1, v)
   \<and> external_transport_native_handle_callback tr u = (- 1, u)
   \<and> external_transport_native_handle_callback tr' u = (- 1, f u)
   \<and> external_transport_configure_callback context (Some config) u = (fst (external_transport_configure_callback tr (Some config) u), v)
   \<and> external_transport_configure_callback tr' (Some config) u = (fst (external_transport_configure_callback tr (Some config) u), f u)
   \<and> external_transport_send_callback context data len u = (fst (external_transport_send_callback tr data len u), v)
   \<and> external_transport_send_callback tr' data len u = (fst (external_transport_send_callback tr data len u), f u)
   \<and> external_transport_send_queue_empty_callback context u = (fst (external_transport_send_queue_empty_callback tr u), v)
   \<and> external_transport_send_queue_empty_callback tr' u = (fst (external_transport_send_queue_empty_callback tr u), f u)
   \<and> external_transport_has_send_queue_callback context u = (fst (external_transport_has_send_queue_callback tr u), v)
   \<and> external_transport_has_send_queue_callback tr' u = (fst (external_transport_has_send_queue_callback tr u), f u)
   \<and> external_transport_send_queue_size_callback context u = (fst (external_transport_send_queue_size_callback tr u), v)
   \<and> external_transport_send_queue_size_callback tr' u = (fst (external_transport_send_queue_size_callback tr u), f u)
   \<and> external_transport_endpoint_callback context True u = (fst (external_transport_endpoint_callback tr True u), v)
   \<and> external_transport_endpoint_callback tr' True u = (fst (external_transport_endpoint_callback tr True u), f u)
   \<and> external_transport_is_relay_callback context u = (fst (external_transport_is_relay_callback tr u), v)
   \<and> external_transport_is_relay_callback tr' u = (fst (external_transport_is_relay_callback tr u), f u)
   \<and> external_tun_configure_callback context (Some tconfig) u = (fst (external_tun_configure_callback tn (Some tconfig) u), w)
   \<and> external_tun_configure_callback tn' (Some tconfig) u = (fst (external_tun_configure_callback tn (Some tconfig) u), f u)
   \<and> external_tun_send_callback context data len u = (fst (external_tun_send_callback tn data len u), w)
   \<and> external_tun_send_callback tn' data len u = (fst (external_tun_send_callback tn data len u), f u)
   \<and> external_tun_info_callback context True u = (fst (external_tun_info_callback tn True u), w)
   \<and> external_tun_info_callback tn' True u = (fst (external_tun_info_callback tn True u), f u)
   \<and> external_tun_layer_2_supported_callback context u = (fst (external_tun_layer_2_supported_callback tn u), w)
   \<and> external_tun_layer_2_supported_callback tn' u = (fst (external_tun_layer_2_supported_callback tn u), f u)
   \<and> external_tun_supports_epoch_data_callback context u = (fst (external_tun_supports_epoch_data_callback tn u), w)
   \<and> external_tun_supports_epoch_data_callback tn' u = (fst (external_tun_supports_epoch_data_callback tn u), f u)"
  using assms(3-6)
  by (simp add: call_absent(2) [OF assms(1)] call_absent(3) [OF assms(2)] call_provided
      external_transport_default_def external_transport_panics_def external_tun_default_def external_tun_panics_def
      external_transport_configure_callback_def external_transport_send_callback_def
      external_transport_send_queue_empty_callback_def external_transport_has_send_queue_callback_def
      external_transport_send_queue_size_callback_def external_transport_endpoint_callback_def
      external_transport_native_handle_callback_def external_transport_is_relay_callback_def
      external_tun_configure_callback_def external_tun_send_callback_def external_tun_info_callback_def
      external_tun_layer_2_supported_callback_def external_tun_supports_epoch_data_callback_def)

theorem provider_callback_defaults_witness:
  "external_transport_native_handle_callback None (0 :: nat) = (- 1, 0)"
proof -
  have "absent eh_external_transport None (0 :: nat) 0" "absent eh_external_tun None (0 :: nat) 0"
    by (simp_all add: absent_def)
  from provider_callback_defaults [OF this refl refl refl refl, THEN conjunct1] show ?thesis .
qed

text \<open>
  The TUN builder callbacks pass their arguments on unchanged and in order, exactly once.
  With a builder installed and strings that are UTF-8, each answers with the result of the
  method of the same name on the decoded arguments, or with its fallback when that panics.
\<close>

theorem tun_builder_arguments:
  assumes "eh_tun_builder h u = (Returned (Some tun), v)" and "utf8_valid a" and "utf8_valid g"
  shows
  "tun_builder_set_remote_address_callback (Some h) (view a) (bool_i32 six) u
     = caught 0 bool_i32 (tb_set_remote_address tun a six v)
   \<and> tun_builder_add_address_callback (Some h) (view a) prefix (view g) (bool_i32 six) (bool_i32 net30) u
     = caught 0 bool_i32 (tb_add_address tun a prefix g six net30 v)
   \<and> tun_builder_reroute_gw_callback (Some h) (bool_i32 four) (bool_i32 six) flags u
     = caught 0 bool_i32 (tb_reroute_gateway tun four six flags v)
   \<and> tun_builder_add_route_callback (Some h) (view a) prefix metric (bool_i32 six) u
     = caught 0 bool_i32 (tb_add_route tun a prefix metric six v)
   \<and> tun_builder_exclude_route_callback (Some h) (view a) prefix metric (bool_i32 six) u
     = caught 0 bool_i32 (tb_exclude_route tun a prefix metric six v)
   \<and> tun_builder_set_dns_options_callback (Some h) (Some dns) u
     = caught 0 bool_i32 (tb_set_dns_options tun (dns_options_of dns) v)
   \<and> tun_builder_set_session_name_callback (Some h) (view a) u = caught 0 bool_i32 (tb_set_session_name tun a v)
   \<and> tun_builder_add_proxy_bypass_callback (Some h) (view a) u = caught 0 bool_i32 (tb_add_proxy_bypass tun a v)
   \<and> tun_builder_set_proxy_auto_config_url_callback (Some h) (view a) u
     = caught 0 bool_i32 (tb_set_proxy_auto_config_url tun a v)
   \<and> tun_builder_set_proxy_http_callback (Some h) (view a) port u = caught 0 bool_i32 (tb_set_proxy_http tun a port v)
   \<and> tun_builder_set_proxy_https_callback (Some h) (view a) port u = caught 0 bool_i32 (tb_set_proxy_https tun a port v)
   \<and> tun_builder_add_wins_server_callback (Some h) (view a) u = caught 0 bool_i32 (tb_add_wins_server tun a v)
   \<and> tun_builder_set_allow_family_callback (Some h) family (bool_i32 four) u
     = caught 1 bool_i32 (tb_set_allow_family tun family four v)
   \<and> tun_builder_dco_enable_callback (Some h) (view a) u = caught (- 1) id (tb_dco_enable tun a v)
   \<and> tun_builder_dco_set_peer_callback (Some h) peer interval timeout u
     = snd (tb_dco_set_peer tun peer interval timeout v)
   \<and> tun_builder_dco_del_key_callback (Some h) peer slot u = snd (tb_dco_delete_key tun peer slot v)
   \<and> tun_builder_dco_new_key_callback (Some h) slot (Some key) u
     = snd (tb_dco_new_key tun slot (dco_key_config_of key) v)"
proof -
  have "call_tun (Some h) d act u = caught d id (act tun v)" for d :: bool and act
    by (rule tun_dispatch.call_present [OF assms(1)])
  moreover have "call_tun (Some h) d act u = caught d id (act tun v)" for d :: int and act
    by (rule tun_dispatch.call_present [OF assms(1)])
  moreover have "call_tun (Some h) d act u = caught d id (act tun v)" for d :: unit and act
    by (rule tun_dispatch.call_present [OF assms(1)])
  ultimately show ?thesis
    using string_from_view_view [OF assms(2)] string_from_view_view [OF assms(3)]
    by (simp add: call_void caught_map Let_def tun_builder_set_remote_address_callback_def tun_builder_add_address_callback_def
        tun_builder_reroute_gw_callback_def tun_builder_add_route_callback_def tun_builder_exclude_route_callback_def
        tun_builder_set_dns_options_callback_def tun_builder_set_session_name_callback_def
        tun_builder_add_proxy_bypass_callback_def tun_builder_set_proxy_auto_config_url_callback_def
        tun_builder_set_proxy_http_callback_def tun_builder_set_proxy_https_callback_def
        tun_builder_add_wins_server_callback_def tun_builder_set_allow_family_callback_def
        tun_builder_dco_enable_callback_def tun_builder_dco_set_peer_callback_def tun_builder_dco_del_key_callback_def
        tun_builder_dco_new_key_callback_def)
qed

text \<open>A builder that records the remote address it is given.\<close>

definition recording_builder :: "(string \<times> bool) list tun_builder" where
  "recording_builder = tun_builder_default\<lparr>tb_set_remote_address :=
     (\<lambda>address ipv6 seen. (Returned True, seen @ [(address, ipv6)]))\<rparr>"

theorem tun_builder_arguments_witness:
  "\<exists>h. with_tun_builder recording_builder = Some h \<and>
     tun_builder_set_remote_address_callback (Some h) (view ''::1'') 1 [] = (1, [(''::1'', True)])"
proof -
  obtain h where h: "with_tun_builder recording_builder = Some h" by (simp add: with_tun_builder_def)
  have found: "eh_tun_builder h [] = (Returned (Some recording_builder), [])"
    using h by (auto simp: with_tun_builder_def returns_def)
  have utf8: "utf8_valid ''::1''" by code_simp
  from tun_builder_arguments [OF found utf8 utf8, THEN conjunct1, of True] h show ?thesis
    by (simp add: recording_builder_def caught_def)
qed

text \<open>
  C34: every request that expects an answer is answered exactly once, whatever the application
  does: if the core passed a completion function, each of the six asking callbacks calls it
  once, and otherwise not at all; certificate, signature and override answers carry the
  application's result, and an error for a missing context, an error result or a panic.
\<close>

theorem completions_exactly_once:
  "length (fst (external_pki_certificate_callback context alias complete u)) = (if complete then 1 else 0)
   \<and> length (fst (external_pki_sign_callback context alias data algorithm hash salt complete u)) = (if complete then 1 else 0)
   \<and> length (fst (remote_override_callback context complete u)) = (if complete then 1 else 0)
   \<and> length (fst (external_transport_endpoint_callback context complete u)) = (if complete then 1 else 0)
   \<and> length (fst (external_tun_info_callback context complete u)) = (if complete then 1 else 0)
   \<and> length (fst (tun_builder_get_local_networks_callback context six complete u)) = (if complete then 1 else 0)
   \<and> fst (external_pki_certificate_callback context alias True u) =
       (case map_option (\<lambda>h. fst (eh_external_pki_certificate h \<lparr>epcr_alias = string_from_view alias\<rparr> u)) context of
          Some (Returned (Inr c)) \<Rightarrow>
            [PkiCertCompletion 0 0 (view []) (view (epc_certificate c)) (view (epc_supporting_chain c))]
        | Some (Returned (Inl e)) \<Rightarrow>
            [PkiCertCompletion 1 (bool_i32 (epe_invalid_alias e)) (view (epe_message e)) (view []) (view [])]
        | Some Panicked \<Rightarrow> [PkiCertCompletion 1 0 (view ''external PKI callback panicked'') (view []) (view [])]
        | None \<Rightarrow> [PkiCertCompletion 1 0 (view ''external PKI callback context is null'') (view []) (view [])])
   \<and> fst (remote_override_callback context True u) =
       (case map_option (\<lambda>h. fst (eh_remote_override h u)) context of
          Some (Returned (Inr r)) \<Rightarrow> [RemoteOverrideCompletion (view (ro_host r)) (view (ro_ip r)) (view (ro_port r))
            (view (ro_protocol r)) (view [])]
        | Some (Returned (Inl e)) \<Rightarrow> [RemoteOverrideCompletion (view []) (view []) (view []) (view []) (view e)]
        | Some Panicked \<Rightarrow>
            [RemoteOverrideCompletion (view []) (view []) (view []) (view []) (view ''remote override callback panicked'')]
        | None \<Rightarrow>
            [RemoteOverrideCompletion (view []) (view []) (view []) (view []) (view ''remote override callback context is null'')])"
proof -
  have "length (fst (external_pki_sign_callback context alias data algorithm hash salt complete u)) = (if complete then 1 else 0)"
    "length (fst (external_transport_endpoint_callback context complete u)) = (if complete then 1 else 0)"
    "length (fst (external_tun_info_callback context complete u)) = (if complete then 1 else 0)"
    "length (fst (tun_builder_get_local_networks_callback context six complete u)) = (if complete then 1 else 0)"
    by (simp_all add: external_pki_sign_callback_def external_transport_endpoint_callback_def external_tun_info_callback_def
        tun_builder_get_local_networks_callback_def Let_def split: prod.splits sum.splits)
  then show ?thesis
    by (auto simp: external_pki_certificate_callback_def remote_override_callback_def caught_def external_pki_error_new_def
        split: option.splits prod.splits outcome.splits sum.splits)
qed


end
