(* ===== verification/Callback_Table.thy ===== *)
theory Callback_Table
  imports Callbacks
begin

text \<open>
  The table of callbacks that \<open>native.rs\<close> hands to the adapter with every client, one slot per
  callback and the context they are called with.  A slot is \<open>None\<close> when the pointer is null.
\<close>

record 'u ovpn_callbacks =
  oc_context :: "'u event_handler option"
  oc_event :: "('u event_handler option \<Rightarrow> i32 \<Rightarrow> i32 \<Rightarrow> ovpn_string_view \<Rightarrow> ovpn_string_view \<Rightarrow> 'u \<Rightarrow> 'u) option"
  oc_log :: "('u event_handler option \<Rightarrow> ovpn_string_view \<Rightarrow> 'u \<Rightarrow> 'u) option"
  oc_acc_event :: "('u event_handler option \<Rightarrow> ovpn_string_view \<Rightarrow> ovpn_string_view \<Rightarrow> 'u \<Rightarrow> 'u) option"
  oc_socket_protect :: "('u event_handler option \<Rightarrow> isize \<Rightarrow> ovpn_string_view \<Rightarrow> i32 \<Rightarrow> 'u \<Rightarrow> i32 \<times> 'u) option"
  oc_pause_on_connection_timeout :: "('u event_handler option \<Rightarrow> 'u \<Rightarrow> i32 \<times> 'u) option"
  oc_clock_tick :: "('u event_handler option \<Rightarrow> 'u \<Rightarrow> 'u) option"
  oc_external_pki_cert_request :: "('u event_handler option \<Rightarrow> ovpn_string_view \<Rightarrow> bool \<Rightarrow> 'u \<Rightarrow> pki_cert_completion list \<times> 'u) option"
  oc_external_pki_sign_request :: "('u event_handler option \<Rightarrow> ovpn_string_view \<Rightarrow> ovpn_string_view \<Rightarrow> ovpn_string_view \<Rightarrow> ovpn_string_view \<Rightarrow> ovpn_string_view \<Rightarrow> bool \<Rightarrow> 'u \<Rightarrow> pki_sign_completion list \<times> 'u) option"
  oc_remote_override_enabled :: "('u event_handler option \<Rightarrow> 'u \<Rightarrow> i32 \<times> 'u) option"
  oc_remote_override_request :: "('u event_handler option \<Rightarrow> bool \<Rightarrow> 'u \<Rightarrow> remote_override_completion list \<times> 'u) option"
  oc_tun_builder_new :: "('u event_handler option \<Rightarrow> 'u \<Rightarrow> i32 \<times> 'u) option"
  oc_tun_builder_set_layer :: "('u event_handler option \<Rightarrow> i32 \<Rightarrow> 'u \<Rightarrow> i32 \<times> 'u) option"
  oc_tun_builder_set_remote_address :: "('u event_handler option \<Rightarrow> ovpn_string_view \<Rightarrow> i32 \<Rightarrow> 'u \<Rightarrow> i32 \<times> 'u) option"
  oc_tun_builder_add_address :: "('u event_handler option \<Rightarrow> ovpn_string_view \<Rightarrow> i32 \<Rightarrow> ovpn_string_view \<Rightarrow> i32 \<Rightarrow> i32 \<Rightarrow> 'u \<Rightarrow> i32 \<times> 'u) option"
  oc_tun_builder_set_route_metric_default :: "('u event_handler option \<Rightarrow> i32 \<Rightarrow> 'u \<Rightarrow> i32 \<times> 'u) option"
  oc_tun_builder_reroute_gw :: "('u event_handler option \<Rightarrow> i32 \<Rightarrow> i32 \<Rightarrow> u32 \<Rightarrow> 'u \<Rightarrow> i32 \<times> 'u) option"
  oc_tun_builder_add_route :: "('u event_handler option \<Rightarrow> ovpn_string_view \<Rightarrow> i32 \<Rightarrow> i32 \<Rightarrow> i32 \<Rightarrow> 'u \<Rightarrow> i32 \<times> 'u) option"
  oc_tun_builder_exclude_route :: "('u event_handler option \<Rightarrow> ovpn_string_view \<Rightarrow> i32 \<Rightarrow> i32 \<Rightarrow> i32 \<Rightarrow> 'u \<Rightarrow> i32 \<times> 'u) option"
  oc_tun_builder_set_dns_options :: "('u event_handler option \<Rightarrow> ovpn_dns_options_view option \<Rightarrow> 'u \<Rightarrow> i32 \<times> 'u) option"
  oc_tun_builder_set_mtu :: "('u event_handler option \<Rightarrow> i32 \<Rightarrow> 'u \<Rightarrow> i32 \<times> 'u) option"
  oc_tun_builder_set_session_name :: "('u event_handler option \<Rightarrow> ovpn_string_view \<Rightarrow> 'u \<Rightarrow> i32 \<times> 'u) option"
  oc_tun_builder_add_proxy_bypass :: "('u event_handler option \<Rightarrow> ovpn_string_view \<Rightarrow> 'u \<Rightarrow> i32 \<times> 'u) option"
  oc_tun_builder_set_proxy_auto_config_url :: "('u event_handler option \<Rightarrow> ovpn_string_view \<Rightarrow> 'u \<Rightarrow> i32 \<times> 'u) option"
  oc_tun_builder_set_proxy_http :: "('u event_handler option \<Rightarrow> ovpn_string_view \<Rightarrow> i32 \<Rightarrow> 'u \<Rightarrow> i32 \<times> 'u) option"
  oc_tun_builder_set_proxy_https :: "('u event_handler option \<Rightarrow> ovpn_string_view \<Rightarrow> i32 \<Rightarrow> 'u \<Rightarrow> i32 \<times> 'u) option"
  oc_tun_builder_add_wins_server :: "('u event_handler option \<Rightarrow> ovpn_string_view \<Rightarrow> 'u \<Rightarrow> i32 \<times> 'u) option"
  oc_tun_builder_set_allow_family :: "('u event_handler option \<Rightarrow> i32 \<Rightarrow> i32 \<Rightarrow> 'u \<Rightarrow> i32 \<times> 'u) option"
  oc_tun_builder_set_allow_local_dns :: "('u event_handler option \<Rightarrow> i32 \<Rightarrow> 'u \<Rightarrow> i32 \<times> 'u) option"
  oc_tun_builder_establish :: "('u event_handler option \<Rightarrow> 'u \<Rightarrow> i32 \<times> 'u) option"
  oc_tun_builder_persist :: "('u event_handler option \<Rightarrow> 'u \<Rightarrow> i32 \<times> 'u) option"
  oc_tun_builder_get_local_networks :: "('u event_handler option \<Rightarrow> i32 \<Rightarrow> bool \<Rightarrow> 'u \<Rightarrow> (ovpn_string_view ptr \<times> usize) list \<times> 'u) option"
  oc_tun_builder_establish_lite :: "('u event_handler option \<Rightarrow> 'u \<Rightarrow> 'u) option"
  oc_tun_builder_teardown :: "('u event_handler option \<Rightarrow> i32 \<Rightarrow> 'u \<Rightarrow> 'u) option"
  oc_tun_builder_dco_available :: "('u event_handler option \<Rightarrow> 'u \<Rightarrow> i32 \<times> 'u) option"
  oc_tun_builder_dco_enable :: "('u event_handler option \<Rightarrow> ovpn_string_view \<Rightarrow> 'u \<Rightarrow> i32 \<times> 'u) option"
  oc_tun_builder_dco_new_peer :: "('u event_handler option \<Rightarrow> ovpn_dco_peer_view option \<Rightarrow> 'u \<Rightarrow> 'u) option"
  oc_tun_builder_dco_set_peer :: "('u event_handler option \<Rightarrow> u32 \<Rightarrow> i32 \<Rightarrow> i32 \<Rightarrow> 'u \<Rightarrow> 'u) option"
  oc_tun_builder_dco_del_peer :: "('u event_handler option \<Rightarrow> u32 \<Rightarrow> 'u \<Rightarrow> 'u) option"
  oc_tun_builder_dco_get_peer :: "('u event_handler option \<Rightarrow> u32 \<Rightarrow> i32 \<Rightarrow> 'u \<Rightarrow> 'u) option"
  oc_tun_builder_dco_new_key :: "('u event_handler option \<Rightarrow> u32 \<Rightarrow> ovpn_dco_key_config_view option \<Rightarrow> 'u \<Rightarrow> 'u) option"
  oc_tun_builder_dco_swap_keys :: "('u event_handler option \<Rightarrow> u32 \<Rightarrow> 'u \<Rightarrow> 'u) option"
  oc_tun_builder_dco_del_key :: "('u event_handler option \<Rightarrow> u32 \<Rightarrow> u32 \<Rightarrow> 'u \<Rightarrow> 'u) option"
  oc_tun_builder_dco_establish :: "('u event_handler option \<Rightarrow> 'u \<Rightarrow> 'u) option"
  oc_external_transport_configure :: "('u event_handler option \<Rightarrow> ovpn_external_transport_config_view option \<Rightarrow> 'u \<Rightarrow> i32 \<times> 'u) option"
  oc_external_transport_start :: "('u event_handler option \<Rightarrow> nat option \<Rightarrow> 'u \<Rightarrow> 'u) option"
  oc_external_transport_stop :: "('u event_handler option \<Rightarrow> 'u \<Rightarrow> 'u) option"
  oc_external_transport_send :: "('u event_handler option \<Rightarrow> u8 ptr \<Rightarrow> usize \<Rightarrow> 'u \<Rightarrow> i32 \<times> 'u) option"
  oc_external_transport_send_queue_empty :: "('u event_handler option \<Rightarrow> 'u \<Rightarrow> i32 \<times> 'u) option"
  oc_external_transport_has_send_queue :: "('u event_handler option \<Rightarrow> 'u \<Rightarrow> i32 \<times> 'u) option"
  oc_external_transport_stop_requeueing :: "('u event_handler option \<Rightarrow> 'u \<Rightarrow> 'u) option"
  oc_external_transport_send_queue_size :: "('u event_handler option \<Rightarrow> 'u \<Rightarrow> usize \<times> 'u) option"
  oc_external_transport_reset_align_adjust :: "('u event_handler option \<Rightarrow> usize \<Rightarrow> 'u \<Rightarrow> 'u) option"
  oc_external_transport_endpoint :: "('u event_handler option \<Rightarrow> bool \<Rightarrow> 'u \<Rightarrow> ovpn_external_transport_endpoint_view list \<times> 'u) option"
  oc_external_transport_native_handle :: "('u event_handler option \<Rightarrow> 'u \<Rightarrow> isize \<times> 'u) option"
  oc_external_transport_is_relay :: "('u event_handler option \<Rightarrow> 'u \<Rightarrow> i32 \<times> 'u) option"
  oc_external_transport_process_push :: "('u event_handler option \<Rightarrow> ovpn_string_view \<Rightarrow> 'u \<Rightarrow> 'u) option"
  oc_external_tun_configure :: "('u event_handler option \<Rightarrow> ovpn_external_tun_config_view option \<Rightarrow> 'u \<Rightarrow> i32 \<times> 'u) option"
  oc_external_tun_start :: "('u event_handler option \<Rightarrow> nat option \<Rightarrow> ovpn_external_tun_start_view option \<Rightarrow> 'u \<Rightarrow> 'u) option"
  oc_external_tun_stop :: "('u event_handler option \<Rightarrow> 'u \<Rightarrow> 'u) option"
  oc_external_tun_set_disconnect :: "('u event_handler option \<Rightarrow> 'u \<Rightarrow> 'u) option"
  oc_external_tun_send :: "('u event_handler option \<Rightarrow> u8 ptr \<Rightarrow> usize \<Rightarrow> 'u \<Rightarrow> i32 \<times> 'u) option"
  oc_external_tun_info :: "('u event_handler option \<Rightarrow> bool \<Rightarrow> 'u \<Rightarrow> ovpn_external_tun_info_view list \<times> 'u) option"
  oc_external_tun_adjust_mss :: "('u event_handler option \<Rightarrow> i32 \<Rightarrow> 'u \<Rightarrow> 'u) option"
  oc_external_tun_apply_push_update :: "('u event_handler option \<Rightarrow> ovpn_string_view \<Rightarrow> 'u \<Rightarrow> 'u) option"
  oc_external_tun_layer_2_supported :: "('u event_handler option \<Rightarrow> 'u \<Rightarrow> i32 \<times> 'u) option"
  oc_external_tun_supports_epoch_data :: "('u event_handler option \<Rightarrow> 'u \<Rightarrow> i32 \<times> 'u) option"
  oc_external_tun_finalize :: "('u event_handler option \<Rightarrow> i32 \<Rightarrow> 'u \<Rightarrow> 'u) option"

definition callback_table ::
  "'w transport_api \<Rightarrow> 'w tun_api \<Rightarrow> ('v \<times> 'w hsys) event_handler option \<Rightarrow> ('v \<times> 'w hsys) ovpn_callbacks" where
  "callback_table transport_api tun_api context = \<lparr>
     oc_context = context,
     oc_event = Some event_callback,
     oc_log = Some log_callback,
     oc_acc_event = Some app_control_callback,
     oc_socket_protect = Some socket_protect_callback,
     oc_pause_on_connection_timeout = Some pause_on_timeout_callback,
     oc_clock_tick = Some clock_tick_callback,
     oc_external_pki_cert_request = Some external_pki_certificate_callback,
     oc_external_pki_sign_request = Some external_pki_sign_callback,
     oc_remote_override_enabled = Some remote_override_enabled_callback,
     oc_remote_override_request = Some remote_override_callback,
     oc_tun_builder_new = Some tun_builder_new_callback,
     oc_tun_builder_set_layer = Some tun_builder_set_layer_callback,
     oc_tun_builder_set_remote_address = Some tun_builder_set_remote_address_callback,
     oc_tun_builder_add_address = Some tun_builder_add_address_callback,
     oc_tun_builder_set_route_metric_default = Some tun_builder_set_route_metric_default_callback,
     oc_tun_builder_reroute_gw = Some tun_builder_reroute_gw_callback,
     oc_tun_builder_add_route = Some tun_builder_add_route_callback,
     oc_tun_builder_exclude_route = Some tun_builder_exclude_route_callback,
     oc_tun_builder_set_dns_options = Some tun_builder_set_dns_options_callback,
     oc_tun_builder_set_mtu = Some tun_builder_set_mtu_callback,
     oc_tun_builder_set_session_name = Some tun_builder_set_session_name_callback,
     oc_tun_builder_add_proxy_bypass = Some tun_builder_add_proxy_bypass_callback,
     oc_tun_builder_set_proxy_auto_config_url = Some tun_builder_set_proxy_auto_config_url_callback,
     oc_tun_builder_set_proxy_http = Some tun_builder_set_proxy_http_callback,
     oc_tun_builder_set_proxy_https = Some tun_builder_set_proxy_https_callback,
     oc_tun_builder_add_wins_server = Some tun_builder_add_wins_server_callback,
     oc_tun_builder_set_allow_family = Some tun_builder_set_allow_family_callback,
     oc_tun_builder_set_allow_local_dns = Some tun_builder_set_allow_local_dns_callback,
     oc_tun_builder_establish = Some tun_builder_establish_callback,
     oc_tun_builder_persist = Some tun_builder_persist_callback,
     oc_tun_builder_get_local_networks = Some tun_builder_get_local_networks_callback,
     oc_tun_builder_establish_lite = Some tun_builder_establish_lite_callback,
     oc_tun_builder_teardown = Some tun_builder_teardown_callback,
     oc_tun_builder_dco_available = Some tun_builder_dco_available_callback,
     oc_tun_builder_dco_enable = Some tun_builder_dco_enable_callback,
     oc_tun_builder_dco_new_peer = Some tun_builder_dco_new_peer_callback,
     oc_tun_builder_dco_set_peer = Some tun_builder_dco_set_peer_callback,
     oc_tun_builder_dco_del_peer = Some tun_builder_dco_del_peer_callback,
     oc_tun_builder_dco_get_peer = Some tun_builder_dco_get_peer_callback,
     oc_tun_builder_dco_new_key = Some tun_builder_dco_new_key_callback,
     oc_tun_builder_dco_swap_keys = Some tun_builder_dco_swap_keys_callback,
     oc_tun_builder_dco_del_key = Some tun_builder_dco_del_key_callback,
     oc_tun_builder_dco_establish = Some tun_builder_dco_establish_callback,
     oc_external_transport_configure = Some external_transport_configure_callback,
     oc_external_transport_start = Some (external_transport_start_callback transport_api),
     oc_external_transport_stop = Some external_transport_stop_callback,
     oc_external_transport_send = Some external_transport_send_callback,
     oc_external_transport_send_queue_empty = Some external_transport_send_queue_empty_callback,
     oc_external_transport_has_send_queue = Some external_transport_has_send_queue_callback,
     oc_external_transport_stop_requeueing = Some external_transport_stop_requeueing_callback,
     oc_external_transport_send_queue_size = Some external_transport_send_queue_size_callback,
     oc_external_transport_reset_align_adjust = Some external_transport_reset_align_adjust_callback,
     oc_external_transport_endpoint = Some external_transport_endpoint_callback,
     oc_external_transport_native_handle = Some external_transport_native_handle_callback,
     oc_external_transport_is_relay = Some external_transport_is_relay_callback,
     oc_external_transport_process_push = Some external_transport_process_push_callback,
     oc_external_tun_configure = Some external_tun_configure_callback,
     oc_external_tun_start = Some (external_tun_start_callback tun_api),
     oc_external_tun_stop = Some external_tun_stop_callback,
     oc_external_tun_set_disconnect = Some external_tun_set_disconnect_callback,
     oc_external_tun_send = Some external_tun_send_callback,
     oc_external_tun_info = Some external_tun_info_callback,
     oc_external_tun_adjust_mss = Some external_tun_adjust_mss_callback,
     oc_external_tun_apply_push_update = Some external_tun_apply_push_update_callback,
     oc_external_tun_layer_2_supported = Some external_tun_layer_2_supported_callback,
     oc_external_tun_supports_epoch_data = Some external_tun_supports_epoch_data_callback,
     oc_external_tun_finalize = Some external_tun_finalize_callback\<rparr>"

end
