(* ===== verification/Rust_Digits.thy ===== *)
theory Rust_Digits
  imports Rust_Text
begin

text \<open>
  Numbers as text: the digits that Rust's formatter prints for a number and what the integer
  parser makes of them.
\<close>

text \<open>Text made of digits, most significant first, and the number it stands for.\<close>

definition digit_value :: "nat \<Rightarrow> nat \<Rightarrow> nat list \<Rightarrow> nat" where
  "digit_value radix acc ds = foldl (\<lambda>n d. n * radix + d) acc ds"

lemma to_digit_hex_digit_radix: "d < radix \<Longrightarrow> radix \<le> 16 \<Longrightarrow> to_digit radix (hex_digit d) = Some d"
  using byte_val_hex_digit [of d] by (auto simp: to_digit_def Let_def)

text \<open>The digits the formatter prints.\<close>

fun digits_of :: "nat \<Rightarrow> nat \<Rightarrow> nat list" where
  "digits_of radix n = (if radix < 2 \<or> n < radix then [n] else digits_of radix (n div radix) @ [n mod radix])"

declare digits_of.simps [simp del]

lemma digits_of_value: "digit_value radix 0 (digits_of radix n) = n"
  by (induction radix n rule: digits_of.induct) (auto simp: digits_of.simps digit_value_def)

lemma digits_of_not_Nil [simp]: "digits_of radix n \<noteq> []"
  by (subst digits_of.simps) auto

lemma digits_of_less: "2 \<le> radix \<Longrightarrow> d \<in> set (digits_of radix n) \<Longrightarrow> d < radix"
proof (induction radix n rule: digits_of.induct)
  case (1 radix n)
  then show ?case by (subst (asm) (2) digits_of.simps) (auto split: if_splits)
qed

lemma digits_of_first: "2 \<le> radix \<Longrightarrow> 0 < n \<Longrightarrow> hd (digits_of radix n) \<noteq> 0"
proof (induction radix n rule: digits_of.induct)
  case (1 radix n)
  show ?case
  proof (cases "n < radix")
    case True
    with 1 show ?thesis by (subst digits_of.simps) auto
  next
    case False
    with 1 have "0 < n div radix" by (simp add: div_greater_zero_iff)
    with False 1 show ?thesis by (subst digits_of.simps) (auto simp: hd_append)
  qed
qed

lemma digits_of_length:
  assumes "2 \<le> radix" "0 < k" "n < radix ^ k"
  shows "length (digits_of radix n) \<le> k"
  using assms
proof (induction k arbitrary: n)
  case (Suc k)
  show ?case
  proof (cases "n < radix")
    case False
    have "n div radix < radix ^ k" using Suc.prems by (simp add: less_mult_imp_div_less mult.commute)
    moreover have "0 < k" using False Suc.prems by (cases k) auto
    ultimately show ?thesis using Suc False by (subst digits_of.simps) auto
  qed (subst digits_of.simps, simp)
qed simp

lemma digits_of_one: "digits_of radix 0 = [0]"
  by (subst digits_of.simps) auto

lemma decimal_digits: "decimal n = map hex_digit (digits_of 10 n)"
proof (induction n rule: decimal.induct)
  case (1 n)
  then show ?case by (subst decimal.simps, subst digits_of.simps) (auto simp: hex_digit_def)
qed

lemma lower_hex_digits: "lower_hex n = map hex_digit (digits_of 16 n)"
proof (induction n rule: lower_hex.induct)
  case (1 n)
  then show ?case by (subst lower_hex.simps, subst digits_of.simps) auto
qed

text \<open>Printed numbers parse.\<close>

lemma digit_value_mono: "0 < radix \<Longrightarrow> acc \<le> digit_value radix acc ds"
proof (induction ds arbitrary: acc)
  case (Cons d ds)
  have "acc \<le> acc * radix + d" using Cons.prems by (cases radix) auto
  also have "\<dots> \<le> digit_value radix (acc * radix + d) ds" by (rule Cons.IH [OF Cons.prems])
  finally show ?case by (simp add: digit_value_def)
qed (simp add: digit_value_def)

lemma parse_digits_text:
  assumes "\<forall>d \<in> set ds. d < radix" "0 < radix" "radix \<le> 16" "digit_value radix acc ds \<le> maxv"
  shows "parse_digits maxv radix acc (map hex_digit ds) = Ok (digit_value radix acc ds)"
  using assms
proof (induction ds arbitrary: acc)
  case (Cons d ds)
  have "digit_value radix (acc * radix + d) ds \<le> maxv" using Cons.prems by (simp add: digit_value_def)
  moreover from this have "acc * radix + d \<le> maxv" using digit_value_mono Cons.prems(2) order_trans by blast
  ultimately show ?case using Cons by (simp add: to_digit_hex_digit_radix digit_value_def)
qed (simp add: digit_value_def)

lemma hex_digit_not_sign: "d < 16 \<Longrightarrow> hex_digit d \<noteq> CHR ''+'' \<and> hex_digit d \<noteq> CHR ''-''"
  using byte_val_hex_digit [of d] by (auto split: if_splits)

lemma parse_decimal:
  assumes "n \<le> maxv"
  shows "parse_unsigned maxv 10 (decimal n) = Ok n"
proof -
  let ?ds = "digits_of 10 n"
  have small: "\<forall>d \<in> set ?ds. d < 10" by (auto dest: digits_of_less [rotated])
  have first: "hd (decimal n) \<noteq> CHR ''+'' \<and> hd (decimal n) \<noteq> CHR ''-''"
  proof -
    have "hd ?ds < 10" using small by simp
    then show ?thesis using hex_digit_not_sign [of "hd ?ds"] by (simp add: decimal_digits hd_map)
  qed
  then have "decimal n \<noteq> ''+''" "decimal n \<noteq> ''-''" by auto
  moreover have "decimal n \<noteq> []" by (simp add: decimal_digits)
  moreover have "parse_digits maxv 10 0 (decimal n) = Ok n"
    using parse_digits_text [of ?ds 10 0 maxv] small assms by (simp add: decimal_digits digits_of_value)
  ultimately show ?thesis using first by (simp add: parse_unsigned_def)
qed

text \<open>Every character of a printed number is a decimal digit.\<close>

lemma decimal_chars: "c \<in> set (decimal n) \<Longrightarrow> is_ascii_digit c"
  using byte_val_hex_digit by (auto simp: decimal_digits is_ascii_digit_def dest!: digits_of_less [rotated])

end
