(* ===== verification/Udp_Transport.thy ===== *)
theory Udp_Transport
  imports Callback_Table Rust_Digits
begin

text \<open>
  The UDP transport of \<open>examples/tokio_udp_transport.rs\<close>, a complete implementation of
  \<open>ExternalTransport\<close>: the trait methods over the shared state, and the task that \<open>start\<close> spawns
  as a step relation with one step per await.  What the network and the resolver answer is open;
  the native handle is that of \<open>External_Io\<close>.  A channel, its token and its task have the same
  number, the position of the task in the list of spawned tasks.
\<close>

section \<open>State\<close>

definition QUEUE_CAPACITY :: usize where
  "QUEUE_CAPACITY = 256"

record udp_state =
  us_config :: "external_transport_config option"
  us_endpoint :: external_transport_endpoint
  us_sender :: "nat option"
  us_cancellation :: "nat option"

definition udp_state_default :: udp_state where
  "udp_state_default = \<lparr>us_config = None, us_endpoint = external_transport_endpoint_default, us_sender = None,
     us_cancellation = None\<rparr>"

text \<open>A resolved address; \<open>sa_ip\<close> is the address as it prints.\<close>

record socket_addr =
  sa_is_ipv6 :: bool
  sa_port :: nat
  sa_ip :: string

text \<open>
  Where a task is: before its first poll, awaiting the lookup, the bind and the connect of the
  socket, in the select loop, awaiting the send of a packet, and finished.
\<close>

datatype udp_phase = Entering | Resolving nat | Binding socket_addr | Attaching socket_addr | Looping | Sending "u8 list" | Ended

text \<open>
  A task with its receiver.  \<open>ut_clone\<close> is the handle of \<open>run_udp\<close>, \<open>ut_io\<close> the one of the spawned
  block; \<open>ut_accepted\<close> and \<open>ut_sent\<close> record the packets taken by \<open>send\<close> and those given to the socket.
\<close>

record udp_task =
  ut_config :: external_transport_config
  ut_io :: nat
  ut_clone :: "nat option"
  ut_phase :: udp_phase
  ut_queue :: "u8 list list"
  ut_cancelled :: bool
  ut_result :: "(unit, string) result option"
  ut_accepted :: "u8 list list"
  ut_sent :: "u8 list list"

record udp =
  ud_state :: udp_state
  ud_tasks :: "udp_task list"

definition udp_new :: udp where
  "udp_new = \<lparr>ud_state = udp_state_default, ud_tasks = []\<rparr>"

section \<open>The methods of the transport\<close>

definition udp_configure :: "external_transport_config \<Rightarrow> (udp, bool) meth" where
  "udp_configure config u =
     (if \<not> starts_with (to_ascii_lowercase (etc_protocol config)) ''udp'' then (Returned False, u)
      else (Returned True, u\<lparr>ud_state := (ud_state u)\<lparr>us_config := Some config\<rparr>\<rparr>))"

text \<open>Without a configuration the handle is dropped on the early return.\<close>

definition udp_start :: "'w transport_api \<Rightarrow> nat \<Rightarrow> (udp \<times> 'w hsys, unit) meth" where
  "udp_start api io s =
     (let u = fst s in
      case us_config (ud_state u) of
        None \<Rightarrow> (Returned (), (u, transport_io_drop api io (snd s)))
      | Some config \<Rightarrow>
          let n = length (ud_tasks u)
          in (Returned (),
              (u\<lparr>ud_state := (ud_state u)\<lparr>us_sender := Some n, us_cancellation := Some n\<rparr>,
                ud_tasks := ud_tasks u @
                  [\<lparr>ut_config = config, ut_io = io, ut_clone = None, ut_phase = Entering, ut_queue = [],
                    ut_cancelled = False, ut_result = None, ut_accepted = [], ut_sent = []\<rparr>]\<rparr>, snd s)))"

definition udp_stop :: "(udp, unit) meth" where
  "udp_stop u =
     (let tasks = (case us_cancellation (ud_state u) of
                     None \<Rightarrow> ud_tasks u
                   | Some n \<Rightarrow> (ud_tasks u)[n := (ud_tasks u ! n)\<lparr>ut_cancelled := True\<rparr>])
      in (Returned (), u\<lparr>ud_tasks := tasks, ud_state := (ud_state u)\<lparr>us_cancellation := None, us_sender := None\<rparr>\<rparr>))"

text \<open>\<open>try_send\<close> fails when the receiver is gone or no slot is free.\<close>

definition udp_send :: "u8 list \<Rightarrow> (udp, bool) meth" where
  "udp_send packet u =
     (case us_sender (ud_state u) of
        None \<Rightarrow> (Returned False, u)
      | Some n \<Rightarrow>
          let t = ud_tasks u ! n
          in if ut_phase t = Ended \<or> QUEUE_CAPACITY \<le> length (ut_queue t) then (Returned False, u)
             else (Returned True,
                   u\<lparr>ud_tasks := (ud_tasks u)[n := t\<lparr>ut_queue := ut_queue t @ [packet], ut_accepted := ut_accepted t @ [packet]\<rparr>]\<rparr>))"

definition udp_send_queue_size :: "(udp, usize) meth" where
  "udp_send_queue_size u =
     (Returned (case us_sender (ud_state u) of None \<Rightarrow> 0 | Some n \<Rightarrow> length (ut_queue (ud_tasks u ! n))), u)"

definition udp_send_queue_empty :: "(udp, bool) meth" where
  "udp_send_queue_empty u =
     (case udp_send_queue_size u of (Returned k, u) \<Rightarrow> (Returned (k = 0), u) | (Panicked, u) \<Rightarrow> (Panicked, u))"

definition udp_endpoint_of :: "(udp, external_transport_endpoint) meth" where
  "udp_endpoint_of u = (Returned (us_endpoint (ud_state u)), u)"

definition tokio_udp_transport :: "'w transport_api \<Rightarrow> (udp \<times> 'w hsys) external_transport" where
  "tokio_udp_transport api = external_transport_default\<lparr>
     xt_configure := (\<lambda>config. on_state (udp_configure config)), xt_start := udp_start api,
     xt_stop := on_state udp_stop, xt_send := (\<lambda>packet. on_state (udp_send packet)),
     xt_send_queue_empty := on_state udp_send_queue_empty, xt_has_send_queue := returns True,
     xt_send_queue_size := on_state udp_send_queue_size, xt_endpoint := on_state udp_endpoint_of\<rparr>"

definition udp_handler :: "'w transport_api \<Rightarrow> (udp \<times> 'w hsys) event_handler" where
  "udp_handler api = event_handler_default\<lparr>eh_external_transport := returns (Some (tokio_udp_transport api))\<rparr>"

section \<open>The task\<close>

definition udp_endpoint :: "external_transport_config \<Rightarrow> socket_addr \<Rightarrow> external_transport_endpoint" where
  "udp_endpoint config remote = \<lparr>ete_host = etc_host config, ete_port = decimal (sa_port remote),
     ete_protocol = etc_protocol config, ete_ip_address = sa_ip remote\<rparr>"

text \<open>
  The end of \<open>run_udp\<close> and of the spawned block: the handle and the receiver of \<open>run_udp\<close> are
  dropped, an error is reported through the other handle, which is then dropped too.
\<close>

definition udp_finish :: "'w transport_api \<Rightarrow> (unit, string) result \<Rightarrow> udp_task \<Rightarrow> 'w hsys \<Rightarrow> udp_task \<times> 'w hsys" where
  "udp_finish api r t w =
     (let w = (case ut_clone t of None \<Rightarrow> w | Some c \<Rightarrow> transport_io_drop api c w);
          w = (case r of Inl e \<Rightarrow> snd (transport_io_error api (ut_io t) e w) | Inr _ \<Rightarrow> w)
      in (t\<lparr>ut_phase := Ended, ut_queue := [], ut_clone := None, ut_result := Some r\<rparr>, transport_io_drop api (ut_io t) w))"

text \<open>A task that panicked drops what it holds without a report.\<close>

definition udp_unwind :: "'w transport_api \<Rightarrow> udp_task \<Rightarrow> 'w hsys \<Rightarrow> udp_task \<times> 'w hsys" where
  "udp_unwind api t w = (t\<lparr>ut_phase := Ended, ut_queue := []\<rparr>, transport_io_drop api (ut_io t) w)"

text \<open>
  \<open>udp_task_step api alive rx (t, w) (t', w') published\<close>: one step of the task.  \<open>alive\<close> says
  whether the sender of its channel exists, \<open>rx\<close> whether the step is the answer of \<open>socket.recv\<close>,
  \<open>published\<close> is the endpoint written to the shared state.
\<close>

inductive udp_task_step ::
  "'w transport_api \<Rightarrow> bool \<Rightarrow> bool \<Rightarrow> udp_task \<times> 'w hsys \<Rightarrow> udp_task \<times> 'w hsys \<Rightarrow> external_transport_endpoint option \<Rightarrow> bool"
  for api where
  enter_panic:
    "ut_phase t = Entering \<Longrightarrow> transport_io_clone api (ut_io t) w = (Panicked, w1) \<Longrightarrow>
     udp_task_step api alive False (t, w) (udp_unwind api t w1) None"
| enter_refused:
    "ut_phase t = Entering \<Longrightarrow> transport_io_clone api (ut_io t) w = (Returned c, w1) \<Longrightarrow>
     transport_io_pre_resolve api c w1 = (Inl e, w2) \<Longrightarrow>
     udp_task_step api alive False (t, w) (udp_finish api (Err (error_display e)) (t\<lparr>ut_clone := Some c\<rparr>) w2) None"
| enter_bad_port:
    "ut_phase t = Entering \<Longrightarrow> transport_io_clone api (ut_io t) w = (Returned c, w1) \<Longrightarrow>
     transport_io_pre_resolve api c w1 = (Inr u, w2) \<Longrightarrow> parse_unsigned 65535 10 (etc_port (ut_config t)) = Inl e \<Longrightarrow>
     udp_task_step api alive False (t, w) (udp_finish api (Err (int_error_text e)) (t\<lparr>ut_clone := Some c\<rparr>) w2) None"
| enter:
    "ut_phase t = Entering \<Longrightarrow> transport_io_clone api (ut_io t) w = (Returned c, w1) \<Longrightarrow>
     transport_io_pre_resolve api c w1 = (Inr u, w2) \<Longrightarrow> parse_unsigned 65535 10 (etc_port (ut_config t)) = Inr port \<Longrightarrow>
     udp_task_step api alive False (t, w) (t\<lparr>ut_clone := Some c, ut_phase := Resolving port\<rparr>, w2) None"
| lookup_failed:
    "ut_phase t = Resolving port \<Longrightarrow>
     udp_task_step api alive False (t, w) (udp_finish api (Err message) t w) None"
| lookup_empty:
    "ut_phase t = Resolving port \<Longrightarrow>
     udp_task_step api alive False (t, w) (udp_finish api (Err ''DNS returned no addresses'') t w) None"
| resolved:
    "ut_phase t = Resolving port \<Longrightarrow>
     udp_task_step api alive False (t, w) (t\<lparr>ut_phase := Binding remote\<rparr>, w) None"
| bind_failed:
    "ut_phase t = Binding remote \<Longrightarrow>
     udp_task_step api alive False (t, w) (udp_finish api (Err message) t w) None"
| bound:
    "ut_phase t = Binding remote \<Longrightarrow>
     udp_task_step api alive False (t, w) (t\<lparr>ut_phase := Attaching remote\<rparr>, w) None"
| attach_failed:
    "ut_phase t = Attaching remote \<Longrightarrow>
     udp_task_step api alive False (t, w) (udp_finish api (Err message) t w) None"
| attach_refused:
    "ut_phase t = Attaching remote \<Longrightarrow> ut_clone t = Some c \<Longrightarrow> transport_io_connecting api c w = (Inl e, w1) \<Longrightarrow>
     udp_task_step api alive False (t, w) (udp_finish api (Err (error_display e)) t w1) (Some (udp_endpoint (ut_config t) remote))"
| attached:
    "ut_phase t = Attaching remote \<Longrightarrow> ut_clone t = Some c \<Longrightarrow> transport_io_connecting api c w = (Inr u, w1) \<Longrightarrow>
     udp_task_step api alive False (t, w) (t\<lparr>ut_phase := Looping\<rparr>, w1) (Some (udp_endpoint (ut_config t) remote))"
| cancelled:
    "ut_phase t = Looping \<Longrightarrow> ut_cancelled t \<Longrightarrow>
     udp_task_step api alive False (t, w) (udp_finish api (Ok ()) t w) None"
| closed:
    "ut_phase t = Looping \<Longrightarrow> ut_queue t = [] \<Longrightarrow> \<not> alive \<Longrightarrow>
     udp_task_step api alive False (t, w) (udp_finish api (Ok ()) t w) None"
| take_packet:
    "ut_phase t = Looping \<Longrightarrow> ut_queue t = p # q \<Longrightarrow>
     udp_task_step api alive False (t, w) (t\<lparr>ut_phase := Sending p, ut_queue := q\<rparr>, w) None"
| send_failed:
    "ut_phase t = Sending p \<Longrightarrow>
     udp_task_step api alive False (t, w) (udp_finish api (Err message) t w) None"
| sent_refused:
    "ut_phase t = Sending p \<Longrightarrow> ut_clone t = Some c \<Longrightarrow> transport_io_needs_send api c w = (Inl e, w1) \<Longrightarrow>
     udp_task_step api alive False (t, w)
       (udp_finish api (Err (error_display e)) (t\<lparr>ut_sent := ut_sent t @ [p]\<rparr>) w1) None"
| sent:
    "ut_phase t = Sending p \<Longrightarrow> ut_clone t = Some c \<Longrightarrow> transport_io_needs_send api c w = (Inr u, w1) \<Longrightarrow>
     udp_task_step api alive False (t, w) (t\<lparr>ut_phase := Looping, ut_sent := ut_sent t @ [p]\<rparr>, w1) None"
| receive_failed:
    "ut_phase t = Looping \<Longrightarrow>
     udp_task_step api alive True (t, w) (udp_finish api (Err message) t w) None"
| received_refused:
    "ut_phase t = Looping \<Longrightarrow> length bytes \<le> 65536 \<Longrightarrow> ut_clone t = Some c \<Longrightarrow>
     transport_io_receive api c bytes w = (Inl e, w1) \<Longrightarrow>
     udp_task_step api alive True (t, w) (udp_finish api (Err (error_display e)) t w1) None"
| received:
    "ut_phase t = Looping \<Longrightarrow> length bytes \<le> 65536 \<Longrightarrow> ut_clone t = Some c \<Longrightarrow>
     transport_io_receive api c bytes w = (Inr u, w1) \<Longrightarrow>
     udp_task_step api alive True (t, w) (t, w1) None"

section \<open>The transport under the core\<close>

text \<open>One step of some task.\<close>

definition publish :: "external_transport_endpoint option \<Rightarrow> udp_state \<Rightarrow> udp_state" where
  "publish e st = (case e of None \<Rightarrow> st | Some endpoint \<Rightarrow> st\<lparr>us_endpoint := endpoint\<rparr>)"

inductive udp_step :: "'w transport_api \<Rightarrow> bool \<Rightarrow> udp \<times> 'w hsys \<Rightarrow> udp \<times> 'w hsys \<Rightarrow> bool" for api where
  task:
    "n < length (ud_tasks u) \<Longrightarrow>
     udp_task_step api (us_sender (ud_state u) = Some n) rx (ud_tasks u ! n, w) (t, w') e \<Longrightarrow>
     udp_step api rx (u, w) (u\<lparr>ud_tasks := (ud_tasks u)[n := t], ud_state := publish e (ud_state u)\<rparr>, w')"

text \<open>The core calls the transport through the slots of the table that \<open>native.rs\<close> gave to the adapter.\<close>

definition udp_table :: "'w transport_api \<Rightarrow> 'w tun_api \<Rightarrow> (udp \<times> 'w hsys) ovpn_callbacks" where
  "udp_table api tapi = callback_table api tapi (Some (udp_handler api))"

inductive core_step :: "(udp \<times> 'w hsys) ovpn_callbacks \<Rightarrow> udp \<times> 'w hsys \<Rightarrow> udp \<times> 'w hsys \<Rightarrow> bool" for table where
  core_configure: "core_step table s (snd (the (oc_external_transport_configure table) (oc_context table) config s))"
| core_start: "core_step table s (the (oc_external_transport_start table) (oc_context table) handle s)"
| core_stop: "core_step table s (the (oc_external_transport_stop table) (oc_context table) s)"
| core_send: "core_step table s (snd (the (oc_external_transport_send table) (oc_context table) data len s))"
| core_send_queue_empty: "core_step table s (snd (the (oc_external_transport_send_queue_empty table) (oc_context table) s))"
| core_has_send_queue: "core_step table s (snd (the (oc_external_transport_has_send_queue table) (oc_context table) s))"
| core_stop_requeueing: "core_step table s (the (oc_external_transport_stop_requeueing table) (oc_context table) s)"
| core_send_queue_size: "core_step table s (snd (the (oc_external_transport_send_queue_size table) (oc_context table) s))"
| core_reset_align_adjust: "core_step table s (the (oc_external_transport_reset_align_adjust table) (oc_context table) align s)"
| core_endpoint: "core_step table s (snd (the (oc_external_transport_endpoint table) (oc_context table) complete s))"
| core_native_handle: "core_step table s (snd (the (oc_external_transport_native_handle table) (oc_context table) s))"
| core_is_relay: "core_step table s (snd (the (oc_external_transport_is_relay table) (oc_context table) s))"
| core_process_push: "core_step table s (the (oc_external_transport_process_push table) (oc_context table) options s)"

definition udp_reachable :: "'w transport_api \<Rightarrow> 'w tun_api \<Rightarrow> 'w hsys \<Rightarrow> udp \<times> 'w hsys \<Rightarrow> bool" where
  "udp_reachable api tapi w0 s \<longleftrightarrow>
     (\<lambda>s t. core_step (udp_table api tapi) s t \<or> (\<exists>rx. udp_step api rx s t))\<^sup>*\<^sup>* (udp_new, w0) s"

inductive_cases udp_stepE: "udp_step api rx s t"
inductive_cases core_stepE: "core_step table s t"
inductive_cases udp_task_stepE: "udp_task_step api alive rx s t e"

section \<open>The invariant\<close>

fun in_flight :: "udp_phase \<Rightarrow> u8 list list" where
  "in_flight (Sending p) = [p]"
| "in_flight _ = []"

text \<open>
  The packets a live task accepted are those it sent, the one it is sending and those in its
  queue; a finished task sent a prefix of them.  A live task past its first poll holds its clone.
\<close>

definition task_inv :: "udp_task \<Rightarrow> bool" where
  "task_inv t \<longleftrightarrow>
     (if ut_phase t = Ended then (\<exists>rest. ut_accepted t = ut_sent t @ rest) \<and> ut_queue t = [] \<and> ut_clone t = None
      else ut_accepted t = ut_sent t @ in_flight (ut_phase t) @ ut_queue t \<and> length (ut_queue t) \<le> QUEUE_CAPACITY
           \<and> (ut_clone t = None \<longleftrightarrow> ut_phase t = Entering))"

definition udp_inv :: "udp \<Rightarrow> bool" where
  "udp_inv u \<longleftrightarrow>
     list_all task_inv (ud_tasks u) \<and> us_sender (ud_state u) = us_cancellation (ud_state u)
     \<and> (\<forall>n. us_sender (ud_state u) = Some n \<longrightarrow> n < length (ud_tasks u))"

text \<open>The references that the transport owns.\<close>

definition task_refs :: "nat \<Rightarrow> udp_task \<Rightarrow> int" where
  "task_refs a t = (if ut_phase t \<noteq> Ended \<and> ut_io t = a then 1 else 0) + (if ut_clone t = Some a then 1 else 0)"

definition udp_refs :: "nat \<Rightarrow> udp \<Rightarrow> int" where
  "udp_refs a u = sum_list (map (task_refs a) (ud_tasks u))"

lemma udp_dispatch:
  "call_external_transport (Some (udp_handler api)) fallback action s = caught fallback id (action (tokio_udp_transport api) s)"
  "call_external_transport_void (Some (udp_handler api)) action' s = snd (action' (tokio_udp_transport api) s)"
  "provider_found eh_external_transport (Some (udp_handler api)) s"
  by (simp_all add: dispatch_simps with_provider_def udp_handler_def returns_def provider_found_def caught_def
      split: prod.splits outcome.splits)

lemmas udp_callbacks = external_transport_configure_callback_def external_transport_start_callback_def
  external_transport_stop_callback_def external_transport_send_callback_def udp_dispatch tokio_udp_transport_def

lemma udp_finish_eq:
  "(t', w') = udp_finish api r t w
     \<longleftrightarrow> t' = t\<lparr>ut_phase := Ended, ut_queue := [], ut_clone := None, ut_result := Some r\<rparr> \<and> w' = snd (udp_finish api r t w)"
  by (auto simp: udp_finish_def Let_def)

lemma udp_finish_held:
  "ut_phase t \<noteq> Ended \<Longrightarrow> held a (snd (udp_finish api r t w)) = held a w - task_refs a t"
  by (auto simp: udp_finish_def Let_def task_refs_def transport.dropped_held transport_io_error_def
      transport_io_error_with_code_def split: option.split sum.split)

lemma io_calls_held:
  "transport_io_pre_resolve api c w = (r, w') \<Longrightarrow> held a w' = held a w"
  "transport_io_connecting api c w = (r, w') \<Longrightarrow> held a w' = held a w"
  "transport_io_needs_send api c w = (r, w') \<Longrightarrow> held a w' = held a w"
  "transport_io_receive api c bytes w = (r, w') \<Longrightarrow> held a w' = held a w"
  by (simp_all add: transport_io_pre_resolve_def transport_io_connecting_def transport_io_needs_send_def
      transport_io_receive_def flagged_def held_def split: prod.splits) auto

lemma clone_step_held:
  "transport_io_clone api raw w = (Returned c, w') \<Longrightarrow> held a w' = held a w + (if c = a then 1 else 0)"
  "transport_io_clone api raw w = (Panicked, w') \<Longrightarrow> held a w' = held a w"
  using transport.clone_held [of a api raw w] by auto

text \<open>A step of a task keeps the invariant, accounts for its references and starts from a live phase.\<close>

lemma udp_task_step_inv:
  assumes "udp_task_step api alive rx (t, w) (t', w') e" "task_inv t"
  shows "task_inv t'"
  using assms by cases (auto simp: udp_finish_eq udp_unwind_def task_inv_def)

lemma udp_task_step_held:
  assumes "udp_task_step api alive rx (t, w) (t', w') e" "task_inv t"
  shows "held a w' = held a w + task_refs a t' - task_refs a t"
  using assms
proof cases
  case (enter_refused c w1 e' w2)
  moreover have "held a w2 = held a w + (if c = a then 1 else 0)"
    using enter_refused io_calls_held(1) [of api c w1 _ w2 a] clone_step_held(1) [of api "ut_io t" w c w1 a] by simp
  ultimately show ?thesis using assms(2) by (auto simp: udp_finish_eq udp_finish_held task_refs_def task_inv_def)
next
  case (enter_bad_port c w1 u w2 e')
  moreover have "held a w2 = held a w + (if c = a then 1 else 0)"
    using enter_bad_port io_calls_held(1) [of api c w1 _ w2 a] clone_step_held(1) [of api "ut_io t" w c w1 a] by simp
  ultimately show ?thesis using assms(2) by (auto simp: udp_finish_eq udp_finish_held task_refs_def task_inv_def)
next
  case (enter c w1 u port)
  moreover have "held a w' = held a w + (if c = a then 1 else 0)"
    using enter io_calls_held(1) [of api c w1 _ w' a] clone_step_held(1) [of api "ut_io t" w c w1 a] by simp
  ultimately show ?thesis using assms(2) by (auto simp: task_refs_def task_inv_def)
qed (auto simp: udp_finish_eq udp_finish_held udp_unwind_def task_refs_def task_inv_def transport.dropped_held
      dest: io_calls_held [where a = a] clone_step_held [where a = a])

lemma udp_task_step_live: "udp_task_step api alive rx (t, w) r e \<Longrightarrow> ut_phase t \<noteq> Ended"
  by (erule udp_task_stepE) auto

text \<open>The whole transport.\<close>

lemma sum_list_update_int: "n < length xs \<Longrightarrow> sum_list (xs[n := x]) = sum_list xs + x - (xs ! n :: int)"
  by (induction xs arbitrary: n) (auto split: nat.splits)

lemma udp_refs_update:
  "n < length (ud_tasks u) \<Longrightarrow>
   udp_refs a (u\<lparr>ud_tasks := (ud_tasks u)[n := t], ud_state := st\<rparr>) = udp_refs a u + task_refs a t - task_refs a (ud_tasks u ! n)"
  by (simp add: udp_refs_def map_update sum_list_update_int)

lemma udp_inv_update:
  "udp_inv u \<Longrightarrow> n < length (ud_tasks u) \<Longrightarrow> task_inv t \<Longrightarrow> us_sender st = us_sender (ud_state u) \<Longrightarrow>
   us_cancellation st = us_cancellation (ud_state u) \<Longrightarrow> udp_inv (u\<lparr>ud_tasks := (ud_tasks u)[n := t], ud_state := st\<rparr>)"
  by (auto simp: udp_inv_def list_all_length nth_list_update)

lemma publish_simps [simp]:
  "us_sender (publish e st) = us_sender st" "us_cancellation (publish e st) = us_cancellation st"
  by (simp_all add: publish_def split: option.split)

lemma udp_step_inv:
  assumes "udp_step api rx (u, w) (u', w')" "udp_inv u"
  shows "udp_inv u' \<and> held a w' - udp_refs a u' = held a w - udp_refs a u"
  using assms(1)
proof cases
  case (task n t e)
  have inv: "task_inv (ud_tasks u ! n)" using assms(2) task(2) by (simp add: udp_inv_def list_all_length)
  show ?thesis
    using task udp_inv_update [OF assms(2) task(2) udp_task_step_inv [OF task(3) inv]] udp_task_step_held [OF task(3) inv, of a]
    by (simp add: udp_refs_update)
qed

lemma on_state_snd:
  "snd (caught d f (on_state m s)) = (snd (m (fst s)), snd s)" "snd (on_state m s) = (snd (m (fst s)), snd s)"
  by (simp_all add: caught_def on_state_def apsnd_def map_prod_def split: prod.split outcome.split)

lemma udp_callback_effects:
  "snd (external_transport_configure_callback (Some (udp_handler api)) config (u, w))
     = (case config of None \<Rightarrow> u | Some c \<Rightarrow> snd (udp_configure (external_transport_config_of c) u), w)"
  "external_transport_stop_callback (Some (udp_handler api)) (u, w) = (snd (udp_stop u), w)"
  "snd (external_transport_send_callback (Some (udp_handler api)) data len (u, w))
     = (snd (udp_send (raw_view_slice data len) u), w)"
  "external_transport_start_callback api (Some (udp_handler api)) handle (u, w)
     = (case transport_io_retain api handle w of (None, w) \<Rightarrow> (u, w) | (Some io, w) \<Rightarrow> snd (udp_start api io (u, w)))"
  by (simp_all add: udp_callbacks on_state_snd Let_def split: option.split prod.split)

text \<open>The queries of the core and the methods the transport does not override change nothing.\<close>

lemma udp_queries_keep:
  "snd (external_transport_send_queue_empty_callback (Some (udp_handler api)) s) = s"
  "snd (external_transport_has_send_queue_callback (Some (udp_handler api)) s) = s"
  "external_transport_stop_requeueing_callback (Some (udp_handler api)) s = s"
  "snd (external_transport_send_queue_size_callback (Some (udp_handler api)) s) = s"
  "external_transport_reset_align_adjust_callback (Some (udp_handler api)) align s = s"
  "snd (external_transport_endpoint_callback (Some (udp_handler api)) complete s) = s"
  "snd (external_transport_native_handle_callback (Some (udp_handler api)) s) = s"
  "snd (external_transport_is_relay_callback (Some (udp_handler api)) s) = s"
  "external_transport_process_push_callback (Some (udp_handler api)) options s = s"
  by (simp_all add: external_transport_send_queue_empty_callback_def external_transport_has_send_queue_callback_def
      external_transport_stop_requeueing_callback_def external_transport_send_queue_size_callback_def
      external_transport_reset_align_adjust_callback_def external_transport_endpoint_callback_def
      external_transport_native_handle_callback_def external_transport_is_relay_callback_def
      external_transport_process_push_callback_def udp_dispatch tokio_udp_transport_def external_transport_default_def
      udp_send_queue_empty_def udp_send_queue_size_def udp_endpoint_of_def on_state_def returns_def caught_def Let_def
      split: prod.splits)

lemma udp_table_slots:
  "oc_context (udp_table api tapi) = Some (udp_handler api)"
  "oc_external_transport_configure (udp_table api tapi) = Some external_transport_configure_callback"
  "oc_external_transport_start (udp_table api tapi) = Some (external_transport_start_callback api)"
  "oc_external_transport_stop (udp_table api tapi) = Some external_transport_stop_callback"
  "oc_external_transport_send (udp_table api tapi) = Some external_transport_send_callback"
  "oc_external_transport_send_queue_empty (udp_table api tapi) = Some external_transport_send_queue_empty_callback"
  "oc_external_transport_has_send_queue (udp_table api tapi) = Some external_transport_has_send_queue_callback"
  "oc_external_transport_stop_requeueing (udp_table api tapi) = Some external_transport_stop_requeueing_callback"
  "oc_external_transport_send_queue_size (udp_table api tapi) = Some external_transport_send_queue_size_callback"
  "oc_external_transport_reset_align_adjust (udp_table api tapi) = Some external_transport_reset_align_adjust_callback"
  "oc_external_transport_endpoint (udp_table api tapi) = Some external_transport_endpoint_callback"
  "oc_external_transport_native_handle (udp_table api tapi) = Some external_transport_native_handle_callback"
  "oc_external_transport_is_relay (udp_table api tapi) = Some external_transport_is_relay_callback"
  "oc_external_transport_process_push (udp_table api tapi) = Some external_transport_process_push_callback"
  by (simp_all add: udp_table_def callback_table_def)

lemma udp_methods_inv:
  assumes "udp_inv u"
  shows "udp_inv (snd (udp_configure config u)) \<and> udp_refs a (snd (udp_configure config u)) = udp_refs a u"
    and "udp_inv (snd (udp_stop u)) \<and> udp_refs a (snd (udp_stop u)) = udp_refs a u"
    and "udp_inv (snd (udp_send packet u)) \<and> udp_refs a (snd (udp_send packet u)) = udp_refs a u"
proof -
  show "udp_inv (snd (udp_configure config u)) \<and> udp_refs a (snd (udp_configure config u)) = udp_refs a u"
    using assms by (auto simp: udp_configure_def udp_inv_def udp_refs_def)
  show "udp_inv (snd (udp_stop u)) \<and> udp_refs a (snd (udp_stop u)) = udp_refs a u"
    using assms by (auto simp: udp_stop_def udp_inv_def udp_refs_def Let_def list_all_length nth_list_update task_inv_def
        map_update sum_list_update_int task_refs_def split: option.split)
  show "udp_inv (snd (udp_send packet u)) \<and> udp_refs a (snd (udp_send packet u)) = udp_refs a u"
    using assms by (auto simp: udp_send_def udp_inv_def udp_refs_def Let_def list_all_length nth_list_update task_inv_def
        map_update sum_list_update_int task_refs_def split: option.split)
qed

lemma udp_start_inv:
  assumes "udp_inv u" "udp_start api io (u, w) = (r, (u', w'))"
  shows "udp_inv u' \<and> held a w' - udp_refs a u' = held a w - (if io = a then 1 else 0) - udp_refs a u"
  using assms by (auto simp: udp_start_def udp_inv_def udp_refs_def Let_def task_inv_def task_refs_def QUEUE_CAPACITY_def
      less_Suc_eq transport.dropped_held split: option.splits)

lemma core_step_inv:
  assumes "core_step (udp_table api tapi) (u, w) (u', w')" "udp_inv u"
  shows "udp_inv u' \<and> held a w' - udp_refs a u' = held a w - udp_refs a u"
  using assms(1)
proof cases
  case (core_configure config)
  then show ?thesis using assms(2) udp_methods_inv(1) [OF assms(2)] by (simp add: udp_table_slots udp_callback_effects split: option.splits)
next
  case (core_start handle)
  obtain r v where r: "transport_io_retain api handle w = (r, v)" by fastforce
  show ?thesis
  proof (cases r)
    case None
    then show ?thesis using core_start r assms(2) transport.retain_held [of a api handle w] by (simp add: udp_table_slots udp_callback_effects)
  next
    case (Some io)
    obtain q where "udp_start api io (u, v) = (q, (u', w'))"
      using core_start r Some by (cases "udp_start api io (u, v)") (simp add: udp_table_slots udp_callback_effects)
    from udp_start_inv [OF assms(2) this, of a] show ?thesis
      using r Some transport.retain_held [of a api handle w] by simp
  qed
next
  case core_stop
  then show ?thesis using udp_methods_inv(2) [OF assms(2)] by (simp add: udp_table_slots udp_callback_effects)
next
  case (core_send data len)
  then show ?thesis using udp_methods_inv(3) [OF assms(2)] by (simp add: udp_table_slots udp_callback_effects)
qed (use assms(2) in \<open>simp_all add: udp_table_slots udp_queries_keep\<close>)

lemma udp_reachable_inv:
  assumes "udp_reachable api tapi w0 (u, w)"
  shows "udp_inv u \<and> held a w = held a w0 + udp_refs a u"
  using assms unfolding udp_reachable_def
proof (induction rule: rtranclp_induct2)
  case refl
  then show ?case by (simp add: udp_inv_def udp_refs_def udp_new_def udp_state_default_def)
next
  case (step u w u' w')
  then have "udp_inv u' \<and> held a w' - udp_refs a u' = held a w - udp_refs a u"
    using core_step_inv [of api tapi u w u' w' a] udp_step_inv [of api _ u w u' w' a] by blast
  with step show ?case by simp
qed

section \<open>Termination\<close>

text \<open>Every step but a received datagram brings a task closer to its end.\<close>

fun phase_rank :: "udp_phase \<Rightarrow> nat" where
  "phase_rank Ended = 0"
| "phase_rank Looping = 1"
| "phase_rank (Sending _) = 2"
| "phase_rank (Attaching _) = 3"
| "phase_rank (Binding _) = 4"
| "phase_rank (Resolving _) = 5"
| "phase_rank Entering = 6"

definition task_weight :: "udp_task \<Rightarrow> nat" where
  "task_weight t = phase_rank (ut_phase t) + 2 * length (ut_queue t)"

definition udp_weight :: "udp \<Rightarrow> nat" where
  "udp_weight u = sum_list (map task_weight (ud_tasks u))"

lemma phase_rank_pos: "p \<noteq> Ended \<Longrightarrow> 0 < phase_rank p"
  by (cases p) simp_all

lemma task_step_weight: "udp_task_step api alive False (t, w) (t', w') e \<Longrightarrow> task_weight t' < task_weight t"
  by (erule udp_task_stepE) (auto simp: udp_finish_eq udp_unwind_def task_weight_def)

lemma udp_step_weight:
  assumes "udp_step api False (u, w) (u', w')"
  shows "udp_weight u' < udp_weight u"
  using assms
proof cases
  case (task n t e)
  moreover have "task_weight (ud_tasks u ! n) \<le> sum_list (map task_weight (ud_tasks u))"
    using task(2) by (intro member_le_sum_list) simp_all
  ultimately show ?thesis using task_step_weight [OF task(3)]
    by (simp add: udp_weight_def map_update sum_list_update)
qed

lemma quiet_steps_wf: "wf {(t, s). udp_step api False s t}"
  by (rule wf_subset [OF wf_measure [of "\<lambda>s. udp_weight (fst s)"]]) (auto dest: udp_step_weight)

text \<open>A task that waits for nothing but a datagram.\<close>

definition task_idle :: "bool \<Rightarrow> udp_task \<Rightarrow> bool" where
  "task_idle alive t \<longleftrightarrow> ut_phase t = Looping \<and> ut_queue t = [] \<and> \<not> ut_cancelled t \<and> alive"

definition udp_quiescent :: "udp \<Rightarrow> bool" where
  "udp_quiescent u \<longleftrightarrow>
     (\<forall>n<length (ud_tasks u). ut_phase (ud_tasks u ! n) = Ended \<or> task_idle (us_sender (ud_state u) = Some n) (ud_tasks u ! n))"

lemma task_progress:
  "ut_phase t \<noteq> Ended \<Longrightarrow> \<not> task_idle alive t \<Longrightarrow> \<exists>t' w' e. udp_task_step api alive False (t, w) (t', w') e"
proof (cases "ut_phase t")
  case Entering
  obtain r w1 where c: "transport_io_clone api (ut_io t) w = (r, w1)" by fastforce
  show ?thesis
  proof (cases r)
    case Panicked
    with Entering c enter_panic [of t api w w1 alive] show ?thesis by (metis surj_pair)
  next
    case (Returned k)
    obtain r2 w2 where p: "transport_io_pre_resolve api k w1 = (r2, w2)" by fastforce
    show ?thesis
    proof (cases r2)
      case (Inl e)
      with Entering c Returned p enter_refused [of t api w k w1 e w2 alive] show ?thesis by (metis surj_pair)
    next
      case (Inr v)
      with Entering c Returned p enter [of t api w k w1 v w2] enter_bad_port [of t api w k w1 v w2] show ?thesis
        by (cases "parse_unsigned 65535 10 (etc_port (ut_config t))") (metis surj_pair)+
    qed
  qed
next
  case Looping
  assume "\<not> task_idle alive t"
  with Looping cancelled [of t api alive w] closed [of t alive api w] take_packet [of t _ _ api alive w] show ?thesis
    by (cases "ut_queue t") (auto simp: task_idle_def, (metis surj_pair)+)
qed (metis lookup_empty bind_failed attach_failed send_failed surj_pair)+

lemma udp_quiescent_iff: "udp_quiescent u \<longleftrightarrow> (\<nexists>s. udp_step api False (u, w) s)"
proof
  assume "udp_quiescent u"
  then show "\<nexists>s. udp_step api False (u, w) s"
    by (auto simp: udp_quiescent_def task_idle_def elim!: udp_stepE udp_task_stepE)
next
  assume stuck: "\<nexists>s. udp_step api False (u, w) s"
  have "ut_phase (ud_tasks u ! n) = Ended \<or> task_idle (us_sender (ud_state u) = Some n) (ud_tasks u ! n)"
    if "n < length (ud_tasks u)" for n
    using that stuck task_progress [of "ud_tasks u ! n"] udp_step.task [OF that] by blast
  then show "udp_quiescent u" by (simp add: udp_quiescent_def)
qed

lemma quiet_run_bound: "(udp_step api False ^^ k) (u, w) (u', w') \<Longrightarrow> k + udp_weight u' \<le> udp_weight u"
proof (induction k arbitrary: u' w')
  case (Suc k)
  then obtain v x where "(udp_step api False ^^ k) (u, w) (v, x)" "udp_step api False (v, x) (u', w')" by auto
  with Suc.IH [of v x] udp_step_weight [of api v x u' w'] show ?case by simp
qed simp

lemma quiet_run_exists: "\<exists>u' w'. (udp_step api False)\<^sup>*\<^sup>* (u, w) (u', w') \<and> udp_quiescent u'"
proof (induction "udp_weight u" arbitrary: u w rule: less_induct)
  case less
  show ?case
  proof (cases "udp_quiescent u")
    case False
    then obtain v x where step: "udp_step api False (u, w) (v, x)" using udp_quiescent_iff [of u api w] by auto
    obtain u' w' where "(udp_step api False)\<^sup>*\<^sup>* (v, x) (u', w')" "udp_quiescent u'"
      using less [OF udp_step_weight [OF step], of x] by blast
    with step show ?thesis by (meson converse_rtranclp_into_rtranclp)
  qed blast
qed

lemma udp_steps_sender:
  "(udp_step api rx)\<^sup>*\<^sup>* (u, w) (u', w') \<Longrightarrow> us_sender (ud_state u') = us_sender (ud_state u)"
  by (induction rule: rtranclp_induct2) (auto elim!: udp_stepE)

lemma stopped_ends:
  assumes "(udp_step api False)\<^sup>*\<^sup>* (snd (udp_stop u), w) (u', w')" "udp_quiescent u'"
  shows "\<forall>t\<in>set (ud_tasks u'). ut_phase t = Ended"
  using assms(2) udp_steps_sender [OF assms(1)]
  by (auto simp: udp_quiescent_def task_idle_def udp_stop_def Let_def in_set_conv_nth)

lemma task_refs_nonneg: "0 \<le> task_refs a t"
  by (simp add: task_refs_def)

lemma udp_refs_nonneg: "0 \<le> udp_refs a u"
  by (auto simp: udp_refs_def task_refs_nonneg intro!: add_nonneg_nonneg sum_list_nonneg)

lemma udp_refs_member: "t \<in> set (ud_tasks u) \<Longrightarrow> task_refs a t \<le> udp_refs a u"
proof -
  assume "t \<in> set (ud_tasks u)"
  then obtain xs ys where "ud_tasks u = xs @ t # ys" by (meson split_list)
  then show ?thesis by (auto simp: udp_refs_def task_refs_nonneg intro!: add_nonneg_nonneg sum_list_nonneg)
qed

lemma task_inv_ended_refs: "task_inv t \<Longrightarrow> ut_phase t = Ended \<Longrightarrow> task_refs a t = 0"
  by (simp add: task_inv_def task_refs_def)

lemma udp_refs_ended:
  "udp_inv u \<Longrightarrow> \<forall>t\<in>set (ud_tasks u). ut_phase t = Ended \<Longrightarrow> udp_refs a u = 0"
  by (auto simp: udp_refs_def udp_inv_def list_all_iff task_inv_ended_refs intro!: sum_list_0 cong: map_cong)

section \<open>Properties\<close>

text \<open>
  C19: in every state that the core and the tasks of the example transport can reach, the packets
  given to the socket of a task are a prefix of those its sender accepted, a running task has lost
  none (what it accepted is what it sent, the packet it is sending and its queue, in order), the
  queue never exceeds its capacity, and the send callback answers 1 exactly when the current
  channel has a live receiver and a free slot, in which case the packet is queued last.
\<close>

theorem udp_packets_in_order:
  assumes "udp_reachable api tapi w0 (u, w)"
  shows "(\<forall>t\<in>set (ud_tasks u).
            (\<exists>rest. ut_accepted t = ut_sent t @ rest) \<and> length (ut_queue t) \<le> 256
            \<and> (ut_phase t \<noteq> Ended \<longrightarrow> ut_accepted t = ut_sent t @ in_flight (ut_phase t) @ ut_queue t))
         \<and> (case the (oc_external_transport_send (udp_table api tapi)) (oc_context (udp_table api tapi)) data len (u, w) of (r, u', w') \<Rightarrow>
              (r = 1 \<longleftrightarrow> (\<exists>n. us_sender (ud_state u) = Some n \<and> ut_phase (ud_tasks u ! n) \<noteq> Ended
                                 \<and> length (ut_queue (ud_tasks u ! n)) < 256))
              \<and> (r = 1 \<longrightarrow> (\<exists>n. us_sender (ud_state u) = Some n \<and> n < length (ud_tasks u)
                   \<and> ut_queue (ud_tasks u' ! n) = ut_queue (ud_tasks u ! n) @ [raw_view_slice data len]
                   \<and> ut_accepted (ud_tasks u' ! n) = ut_accepted (ud_tasks u ! n) @ [raw_view_slice data len]
                   \<and> (\<forall>m. m \<noteq> n \<longrightarrow> ud_tasks u' ! m = ud_tasks u ! m)))
              \<and> (r \<noteq> 1 \<longrightarrow> r = 0 \<and> u' = u) \<and> w' = w)
         \<and> external_transport_send_queue_empty_callback (Some (udp_handler api)) (u, w)
             = (bool_i32 (fst (external_transport_send_queue_size_callback (Some (udp_handler api)) (u, w)) = 0), u, w)"
proof (intro conjI ballI)
  have inv: "udp_inv u" using udp_reachable_inv [OF assms] by simp
  fix t assume "t \<in> set (ud_tasks u)"
  with inv have "task_inv t" by (simp add: udp_inv_def list_all_iff)
  then show "\<exists>rest. ut_accepted t = ut_sent t @ rest" "length (ut_queue t) \<le> 256"
    "ut_phase t \<noteq> Ended \<longrightarrow> ut_accepted t = ut_sent t @ in_flight (ut_phase t) @ ut_queue t"
    by (auto simp: task_inv_def QUEUE_CAPACITY_def split: if_splits)
next
  have "us_sender (ud_state u) = Some n \<Longrightarrow> n < length (ud_tasks u)" for n
    using udp_reachable_inv [OF assms] by (simp add: udp_inv_def)
  then show "case the (oc_external_transport_send (udp_table api tapi)) (oc_context (udp_table api tapi)) data len (u, w) of (r, u', w') \<Rightarrow>
      (r = 1 \<longleftrightarrow> (\<exists>n. us_sender (ud_state u) = Some n \<and> ut_phase (ud_tasks u ! n) \<noteq> Ended
                         \<and> length (ut_queue (ud_tasks u ! n)) < 256))
      \<and> (r = 1 \<longrightarrow> (\<exists>n. us_sender (ud_state u) = Some n \<and> n < length (ud_tasks u)
           \<and> ut_queue (ud_tasks u' ! n) = ut_queue (ud_tasks u ! n) @ [raw_view_slice data len]
           \<and> ut_accepted (ud_tasks u' ! n) = ut_accepted (ud_tasks u ! n) @ [raw_view_slice data len]
           \<and> (\<forall>m. m \<noteq> n \<longrightarrow> ud_tasks u' ! m = ud_tasks u ! m)))
      \<and> (r \<noteq> 1 \<longrightarrow> r = 0 \<and> u' = u) \<and> w' = w"
    by (auto simp: udp_table_slots udp_callbacks on_state_def udp_send_def caught_def bool_i32_def QUEUE_CAPACITY_def Let_def
        split: option.split)
next
  show "external_transport_send_queue_empty_callback (Some (udp_handler api)) (u, w)
      = (bool_i32 (fst (external_transport_send_queue_size_callback (Some (udp_handler api)) (u, w)) = 0), u, w)"
    by (simp add: external_transport_send_queue_empty_callback_def external_transport_send_queue_size_callback_def
        udp_dispatch tokio_udp_transport_def udp_send_queue_empty_def udp_send_queue_size_def caught_def on_state_def
        split: option.split)
qed

text \<open>
  C20: the example transport never gives a handle of the core back while it is in use and leaks
  none: while a task runs, both handles it uses have a reference beyond those held at the start,
  and when every task has ended, exactly those references are held.
\<close>

theorem udp_no_handle_leak:
  assumes "udp_reachable api tapi w0 (u, w)"
  shows "(\<forall>t\<in>set (ud_tasks u). ut_phase t \<noteq> Ended \<longrightarrow>
            held (ut_io t) w0 < held (ut_io t) w \<and> (\<forall>c. ut_clone t = Some c \<longrightarrow> held c w0 < held c w))
         \<and> held a w0 \<le> held a w
         \<and> ((\<forall>t\<in>set (ud_tasks u). ut_phase t = Ended) \<longrightarrow> held a w = held a w0)"
proof -
  have inv: "udp_inv u" and eq: "held b w = held b w0 + udp_refs b u" for b
    using udp_reachable_inv [OF assms] by simp_all
  have "0 < udp_refs (ut_io t) u \<and> (\<forall>c. ut_clone t = Some c \<longrightarrow> 0 < udp_refs c u)"
    if t: "t \<in> set (ud_tasks u)" and live: "ut_phase t \<noteq> Ended" for t
    using udp_refs_member [OF t, of "ut_io t"] udp_refs_member [OF t, of "the (ut_clone t)"] live
    by (auto simp: task_refs_def split: if_splits)
  moreover have "(\<forall>t\<in>set (ud_tasks u). ut_phase t = Ended) \<longrightarrow> held a w = held a w0"
    using udp_refs_ended [OF inv, of a] eq [of a] by simp
  ultimately show ?thesis using eq udp_refs_nonneg [of a u] by simp
qed

text \<open>
  C18: the tasks of the example transport come to rest: from a state, at most \<open>udp_weight\<close> steps are
  possible before a datagram arrives (six for each task, two for each queued
  packet), a state of rest is always within reach, and once the core has called stop
  every task has ended in a state of rest.
\<close>

theorem udp_terminates:
  "((udp_step api False ^^ k) (u, w) s \<longrightarrow> k \<le> udp_weight u)
   \<and> (\<exists>u' w'. (udp_step api False)\<^sup>*\<^sup>* (u, w) (u', w') \<and> (\<nexists>s. udp_step api False (u', w') s))
   \<and> ((udp_step api False)\<^sup>*\<^sup>* (the (oc_external_transport_stop (udp_table api tapi)) (oc_context (udp_table api tapi)) (u, w)) (v, x)
        \<and> (\<nexists>s. udp_step api False (v, x) s)
        \<longrightarrow> (\<forall>t\<in>set (ud_tasks v). ut_phase t = Ended))"
proof (intro conjI impI ballI)
  show "k \<le> udp_weight u" if "(udp_step api False ^^ k) (u, w) s"
    using quiet_run_bound [of k api u w "fst s" "snd s"] that by simp
  show "\<exists>u' w'. (udp_step api False)\<^sup>*\<^sup>* (u, w) (u', w') \<and> (\<nexists>s. udp_step api False (u', w') s)"
    using quiet_run_exists [of api u w] udp_quiescent_iff [of _ api] by blast
next
  assume run: "(udp_step api False)\<^sup>*\<^sup>* (the (oc_external_transport_stop (udp_table api tapi)) (oc_context (udp_table api tapi)) (u, w)) (v, x)
        \<and> (\<nexists>s. udp_step api False (v, x) s)"
  then have q: "udp_quiescent v" using udp_quiescent_iff [of v api x] by simp
  fix t assume "t \<in> set (ud_tasks v)"
  with run stopped_ends [of api u w v x] q show "ut_phase t = Ended"
    by (simp add: udp_table_slots udp_callback_effects)
qed

section \<open>Concrete runs\<close>

definition udp_sample_api :: "unit transport_api" where
  "udp_sample_api = \<lparr>ovpn_external_transport_handle_retain = (\<lambda>a c. (Some a, c)),
     ovpn_external_transport_handle_free = (\<lambda>_ c. c), ovpn_external_transport_receive = (\<lambda>_ _ c. (1, c)),
     ovpn_external_transport_needs_send = (\<lambda>_ c. (1, c)), ovpn_external_transport_error = (\<lambda>_ _ _ c. (1, c)),
     ovpn_external_transport_proxy_error = (\<lambda>_ _ _ c. (1, c)), ovpn_external_transport_pre_resolve = (\<lambda>_ c. (1, c)),
     ovpn_external_transport_wait_proxy = (\<lambda>_ c. (1, c)), ovpn_external_transport_wait = (\<lambda>_ c. (1, c)),
     ovpn_external_transport_connecting = (\<lambda>_ c. (1, c)), ovpn_external_transport_is_openvpn_protocol = (\<lambda>_ _. 1),
     ovpn_external_transport_is_keepalive_enabled = (\<lambda>_ _. 0),
     ovpn_external_transport_disable_keepalive = (\<lambda>_ c. ((1, 0, 0), c)), ovpn_error_code_transport = 1,
     ovpn_error_code_proxy = 2\<rparr>"

definition udp_sample_config :: ovpn_external_transport_config_view where
  "udp_sample_config = \<lparr>rxt_host = view ''vpn'', rxt_port = view ''1194'', rxt_protocol = view ''UDP'',
     rxt_gremlin_config = view [], rxt_remotes = None, rxt_remotes_len = 0, rxt_server_address_float = 0,
     rxt_synchronous_dns_lookup = 0\<rparr>"

definition udp_sample_world :: "unit hsys" where
  "udp_sample_world = \<lparr>hs_core = (), hs_log = []\<rparr>"

text \<open>The core configures and starts the transport.\<close>

definition udp_sample_tun_api :: "unit tun_api" where
  "udp_sample_tun_api = \<lparr>ovpn_external_tun_handle_retain = (\<lambda>_ c. (None, c)), ovpn_external_tun_handle_free = (\<lambda>_ c. c),
     ovpn_external_tun_receive = (\<lambda>_ _ c. (0, c)), ovpn_external_tun_error = (\<lambda>_ _ _ c. (0, c)),
     ovpn_external_tun_pre_tun_config = (\<lambda>_ c. (0, c)), ovpn_external_tun_pre_route_config = (\<lambda>_ c. (0, c)),
     ovpn_external_tun_connected = (\<lambda>_ c. (0, c)), ovpn_error_code_tun = 1\<rparr>"

abbreviation udp_sample_table :: "(udp \<times> unit hsys) ovpn_callbacks" where
  "udp_sample_table \<equiv> udp_table udp_sample_api udp_sample_tun_api"

definition udp_sample_started :: "udp \<times> unit hsys" where
  "udp_sample_started = the (oc_external_transport_start udp_sample_table) (oc_context udp_sample_table) (Some 7)
     (snd (the (oc_external_transport_configure udp_sample_table) (oc_context udp_sample_table) (Some udp_sample_config)
        (udp_new, udp_sample_world)))"

lemma udp_sample_started_reachable: "udp_reachable udp_sample_api udp_sample_tun_api udp_sample_world udp_sample_started"
proof -
  let ?r = "\<lambda>s t. core_step udp_sample_table s t \<or> (\<exists>rx. udp_step udp_sample_api rx s t)"
  have "?r\<^sup>*\<^sup>* (udp_new, udp_sample_world)
      (snd (the (oc_external_transport_configure udp_sample_table) (oc_context udp_sample_table) (Some udp_sample_config)
        (udp_new, udp_sample_world)))"
    by (rule r_into_rtranclp) (simp only: core_configure simp_thms)
  then show ?thesis unfolding udp_reachable_def udp_sample_started_def
    by (rule rtranclp.rtrancl_into_rtrancl) (simp only: core_start simp_thms)
qed

lemma udp_sample_started_eq:
  "udp_sample_started = (\<lparr>ud_state = \<lparr>us_config = Some (external_transport_config_of udp_sample_config),
       us_endpoint = external_transport_endpoint_default, us_sender = Some 0, us_cancellation = Some 0\<rparr>,
     ud_tasks = [\<lparr>ut_config = external_transport_config_of udp_sample_config, ut_io = 7, ut_clone = None,
       ut_phase = Entering, ut_queue = [], ut_cancelled = False, ut_result = None, ut_accepted = [], ut_sent = []\<rparr>]\<rparr>, \<lparr>hs_core = (), hs_log = [HandleRetain 7]\<rparr>)"
proof -
  have "starts_with (to_ascii_lowercase (etc_protocol (external_transport_config_of udp_sample_config))) ''udp''"
    by code_simp
  then show ?thesis
    by (simp add: udp_sample_started_def udp_table_slots udp_callback_effects udp_configure_def udp_start_def udp_new_def udp_state_default_def
        transport_io_retain_def udp_sample_api_def udp_sample_world_def)
qed

theorem udp_packets_in_order_witness:
  "fst (the (oc_external_transport_send udp_sample_table) (oc_context udp_sample_table) (Some [1, 2]) 2 udp_sample_started) = 1"
proof -
  have "udp_reachable udp_sample_api udp_sample_tun_api udp_sample_world (fst udp_sample_started, snd udp_sample_started)"
    using udp_sample_started_reachable by simp
  note udp_packets_in_order [OF this, of "Some [1, 2]" 2]
  then show ?thesis by (simp add: udp_sample_started_eq split: prod.splits)
qed

theorem udp_no_handle_leak_witness: "held 7 udp_sample_world < held 7 (snd udp_sample_started)"
proof -
  have "udp_reachable udp_sample_api udp_sample_tun_api udp_sample_world (fst udp_sample_started, snd udp_sample_started)"
    using udp_sample_started_reachable by simp
  note udp_no_handle_leak [OF this, of 7]
  then show ?thesis by (simp add: udp_sample_started_eq)
qed

text \<open>Stopped before its first poll, the task ends after the lookup failed.\<close>

theorem udp_terminates_witness:
  "(\<exists>u' w'. (udp_step udp_sample_api False)\<^sup>*\<^sup>* (the (oc_external_transport_stop udp_sample_table) (oc_context udp_sample_table) udp_sample_started) (u', w')
      \<and> (\<forall>t\<in>set (ud_tasks u'). ut_phase t = Ended)) \<and> udp_weight (fst udp_sample_started) = 6"
proof -
  let ?s = "the (oc_external_transport_stop udp_sample_table) (oc_context udp_sample_table) udp_sample_started"
  obtain u' w' where run: "(udp_step udp_sample_api False)\<^sup>*\<^sup>* (fst ?s, snd ?s) (u', w')"
    and stuck: "\<nexists>s. udp_step udp_sample_api False (u', w') s"
    using udp_terminates [where k = 0 and api = udp_sample_api and u = "fst ?s" and w = "snd ?s" and tapi = udp_sample_tun_api] by blast
  show ?thesis
    using udp_terminates [where k = 0 and api = udp_sample_api and u = "fst udp_sample_started" and w = "snd udp_sample_started" and
        tapi = udp_sample_tun_api and v = u' and x = w'] run stuck
    by (auto simp: udp_sample_started_eq udp_weight_def task_weight_def)
qed

end
