(* ===== verification/Tokio_Handlers.thy ===== *)
theory Tokio_Handlers
  imports Callbacks
begin

text \<open>
  The two handlers that \<open>tokio.rs\<close> puts between the core and the application: the bridge
  that runs an asynchronous handler's futures on the connection thread, and the handler
  that copies events, logs and control messages to broadcast channels.
\<close>

section \<open>Futures and channels\<close>

text \<open>A boxed future, and \<open>Handle::block_on\<close>, which runs it to completion.\<close>

datatype ('u, 'r) callback_future = CallbackFuture "('u, 'r) meth"

fun block_on :: "('u, 'r) callback_future \<Rightarrow> ('u, 'r) meth" where
  "block_on (CallbackFuture future) = future"

text \<open>\<open>Box::pin(async { r })\<close>.\<close>

definition ready :: "'r \<Rightarrow> ('u, 'r) callback_future" where
  "ready r = CallbackFuture (returns r)"

section \<open>The asynchronous handler\<close>

record 'u async_event_handler =
  ah_event :: "event \<Rightarrow> ('u, unit) meth"
  ah_log :: "string \<Rightarrow> ('u, unit) meth"
  ah_app_control_message :: "app_control_message \<Rightarrow> ('u, unit) meth"
  ah_socket_protect :: "isize \<Rightarrow> string \<Rightarrow> bool \<Rightarrow> ('u, bool) callback_future"
  ah_pause_on_connection_timeout :: "('u, bool) callback_future"
  ah_clock_tick :: "('u, unit) meth"
  ah_remote_override_enabled :: "('u, bool) meth"
  ah_remote_override :: "('u, (remote_override, string) result) callback_future"
  ah_tun_builder :: "('u, 'u tun_builder option) meth"
  ah_external_transport :: "('u, 'u external_transport option) meth"
  ah_external_tun :: "('u, 'u external_tun option) meth"
  ah_external_pki_certificate ::
    "external_pki_certificate_request \<Rightarrow> ('u, (external_pki_certificate_t, external_pki_error) result) callback_future"
  ah_external_pki_sign :: "external_pki_sign_request \<Rightarrow> ('u, (string, external_pki_error) result) callback_future"

definition async_event_handler_default :: "'u async_event_handler" where
  "async_event_handler_default = \<lparr>
     ah_event = (\<lambda>_. returns ()),
     ah_log = (\<lambda>_. returns ()),
     ah_app_control_message = (\<lambda>_. returns ()),
     ah_socket_protect = (\<lambda>_ _ _. ready True),
     ah_pause_on_connection_timeout = ready False,
     ah_clock_tick = returns (),
     ah_remote_override_enabled = returns False,
     ah_remote_override = ready (Err ''remote override callback is not implemented''),
     ah_tun_builder = returns None,
     ah_external_transport = returns None,
     ah_external_tun = returns None,
     ah_external_pki_certificate = (\<lambda>_. ready (Err (external_pki_error_new
       ''external PKI certificate callback is not implemented''))),
     ah_external_pki_sign = (\<lambda>_. ready (Err (external_pki_error_new
       ''external PKI signing callback is not implemented'')))\<rparr>"

text \<open>\<open>impl EventHandler for AsyncHandlerBridge\<close>.\<close>

definition async_handler_bridge :: "'u async_event_handler \<Rightarrow> 'u event_handler" where
  "async_handler_bridge handler = \<lparr>
     eh_event = ah_event handler,
     eh_log = ah_log handler,
     eh_app_control_message = ah_app_control_message handler,
     eh_socket_protect = (\<lambda>socket remote ipv6. block_on (ah_socket_protect handler socket remote ipv6)),
     eh_pause_on_connection_timeout = block_on (ah_pause_on_connection_timeout handler),
     eh_clock_tick = ah_clock_tick handler,
     eh_remote_override_enabled = ah_remote_override_enabled handler,
     eh_remote_override = block_on (ah_remote_override handler),
     eh_tun_builder = ah_tun_builder handler,
     eh_external_transport = ah_external_transport handler,
     eh_external_tun = ah_external_tun handler,
     eh_external_pki_certificate = (\<lambda>request. block_on (ah_external_pki_certificate handler request)),
     eh_external_pki_sign = (\<lambda>request. block_on (ah_external_pki_sign handler request))\<rparr>"

section \<open>The broadcasting handler\<close>

text \<open>
  A broadcast sender is a change of the state that holds the channels; a send to a channel
  without receivers is ignored by the code and is the sender's business here.
\<close>

record 'u broadcast_handler =
  bh_delegate :: "'u event_handler"
  bh_events :: "event \<Rightarrow> 'u \<Rightarrow> 'u"
  bh_logs :: "string \<Rightarrow> 'u \<Rightarrow> 'u"
  bh_app_control :: "app_control_message \<Rightarrow> 'u \<Rightarrow> 'u"

definition broadcasting :: "'u broadcast_handler \<Rightarrow> 'u event_handler" where
  "broadcasting b = \<lparr>
     eh_event = (\<lambda>event u. eh_event (bh_delegate b) event (bh_events b event u)),
     eh_log = (\<lambda>text u. eh_log (bh_delegate b) text (bh_logs b text u)),
     eh_app_control_message = (\<lambda>message u.
       eh_app_control_message (bh_delegate b) message (bh_app_control b message u)),
     eh_socket_protect = (\<lambda>socket remote ipv6. eh_socket_protect (bh_delegate b) socket remote ipv6),
     eh_pause_on_connection_timeout = eh_pause_on_connection_timeout (bh_delegate b),
     eh_clock_tick = eh_clock_tick (bh_delegate b),
     eh_remote_override_enabled = eh_remote_override_enabled (bh_delegate b),
     eh_remote_override = eh_remote_override (bh_delegate b),
     eh_tun_builder = eh_tun_builder (bh_delegate b),
     eh_external_transport = eh_external_transport (bh_delegate b),
     eh_external_tun = eh_external_tun (bh_delegate b),
     eh_external_pki_certificate = (\<lambda>request. eh_external_pki_certificate (bh_delegate b) request),
     eh_external_pki_sign = (\<lambda>request. eh_external_pki_sign (bh_delegate b) request)\<rparr>"

section \<open>Properties\<close>

text \<open>
  C35: the broadcasting handler is transparent.  Events, logs and control messages reach the
  channel once and before the application, so that they are broadcast even when the
  application's handler panics; every other callback of the core, and every callback that
  goes to a provider, behaves exactly as if the application's handler were installed itself.
\<close>

theorem broadcasting_is_transparent:
  "event_callback (Some (broadcasting b)) error fatal name info u =
     event_callback (Some (bh_delegate b)) error fatal name info
       (bh_events b \<lparr>evt_error = (error \<noteq> 0), evt_fatal = (fatal \<noteq> 0), evt_name = string_from_view name,
                     evt_info = string_from_view info\<rparr> u)
   \<and> log_callback (Some (broadcasting b)) text u
       = log_callback (Some (bh_delegate b)) text (bh_logs b (string_from_view text) u)
   \<and> app_control_callback (Some (broadcasting b)) name info u
       = app_control_callback (Some (bh_delegate b)) name info
           (bh_app_control b \<lparr>acm_protocol = string_from_view name, acm_payload = string_from_view info\<rparr> u)
   \<and> socket_protect_callback (Some (broadcasting b)) socket remote six u
       = socket_protect_callback (Some (bh_delegate b)) socket remote six u
   \<and> pause_on_timeout_callback (Some (broadcasting b)) u = pause_on_timeout_callback (Some (bh_delegate b)) u
   \<and> clock_tick_callback (Some (broadcasting b)) u = clock_tick_callback (Some (bh_delegate b)) u
   \<and> remote_override_enabled_callback (Some (broadcasting b)) u = remote_override_enabled_callback (Some (bh_delegate b)) u
   \<and> remote_override_callback (Some (broadcasting b)) complete u = remote_override_callback (Some (bh_delegate b)) complete u
   \<and> external_pki_certificate_callback (Some (broadcasting b)) name complete u
       = external_pki_certificate_callback (Some (bh_delegate b)) name complete u
   \<and> external_pki_sign_callback (Some (broadcasting b)) name data algorithm hash salt complete u
       = external_pki_sign_callback (Some (bh_delegate b)) name data algorithm hash salt complete u
   \<and> call_tun (Some (broadcasting b)) d act u = call_tun (Some (bh_delegate b)) d act u
   \<and> call_external_transport (Some (broadcasting b)) d act1 u = call_external_transport (Some (bh_delegate b)) d act1 u
   \<and> call_external_tun (Some (broadcasting b)) d act2 u = call_external_tun (Some (bh_delegate b)) d act2 u"
  by (simp add: broadcasting_def event_callback_def log_callback_def app_control_callback_def
      socket_protect_callback_def pause_on_timeout_callback_def clock_tick_callback_def
      remote_override_enabled_callback_def remote_override_callback_def external_pki_certificate_callback_def
      external_pki_sign_callback_def dispatch_simps)

text \<open>
  An asynchronous handler with only default methods is, behind the bridge, the default
  synchronous handler; a panic of a future is contained like a panic of a method.
\<close>

theorem async_defaults_agree:
  "async_handler_bridge async_event_handler_default = event_handler_default
   \<and> (ah_socket_protect h socket (string_from_view remote) (six \<noteq> 0) = CallbackFuture (panics f) \<longrightarrow>
        socket_protect_callback (Some (async_handler_bridge h)) socket remote six u = (0, f u))
   \<and> (ah_remote_override h = CallbackFuture (panics f) \<longrightarrow>
        fst (remote_override_callback (Some (async_handler_bridge h)) True u) =
          [RemoteOverrideCompletion (view []) (view []) (view []) (view []) (view ''remote override callback panicked'')])"
  by (simp add: async_handler_bridge_def async_event_handler_default_def event_handler_default_def ready_def
      socket_protect_callback_def remote_override_callback_def)

theorem async_defaults_agree_witness:
  "socket_protect_callback
     (Some (async_handler_bridge (async_event_handler_default\<lparr>ah_socket_protect := (\<lambda>_ _ _. CallbackFuture (panics Suc))\<rparr>)))
     3 (view []) 0 (0 :: nat) = (0, 1)"
  using async_defaults_agree [of "async_event_handler_default\<lparr>ah_socket_protect := (\<lambda>_ _ _. CallbackFuture (panics Suc))\<rparr>"
      3 "view []" 0 Suc 0, THEN conjunct2, THEN conjunct1] by simp

end
