(* ===== verification/Platform_Handlers.thy ===== *)
theory Platform_Handlers
  imports Tokio_Handlers Rust_Digits
begin

text \<open>
  The application handlers of the examples: \<open>platform_callbacks.rs\<close> (a TUN builder with external
  PKI and remote override), \<open>external_tun.rs\<close> (a packet-level tunnel behind a mutex),
  \<open>async_callbacks.rs\<close> and \<open>sync_client.rs\<close>.  Standard output is the list of the lines printed; the derived debug text of
  \<open>DnsOptions\<close> is a parameter.
\<close>

section \<open>Printing\<close>

definition println :: "string \<Rightarrow> 'r \<Rightarrow> (string list, 'r) meth" where
  "println line r out = (Returned r, out @ [line])"

definition show_int :: "int \<Rightarrow> string" where
  "show_int n = (if n < 0 then CHR ''-'' # decimal (nat (- n)) else decimal (nat n))"

definition show_bool :: "bool \<Rightarrow> string" where
  "show_bool b = (if b then ''true'' else ''false'')"

section \<open>\<open>platform_callbacks.rs\<close>\<close>

definition platform_tunnel :: "(dns_options \<Rightarrow> string) \<Rightarrow> string list tun_builder" where
  "platform_tunnel dns_debug = tun_builder_default\<lparr>
     tb_new_tunnel := returns True,
     tb_set_layer := (\<lambda>layer. returns (layer = 3)),
     tb_set_remote_address := (\<lambda>address ipv6. println (''remote '' @ address @ '', IPv6='' @ show_bool ipv6) True),
     tb_add_address := (\<lambda>address prefix_length gateway ipv6 net30.
       println (''address '' @ address @ ''/'' @ show_int prefix_length @ '' via '' @ gateway @ '', IPv6='' @ show_bool ipv6
                @ '', net30='' @ show_bool net30) True),
     tb_reroute_gateway := (\<lambda>ipv4 ipv6 flags.
       println (''reroute IPv4='' @ show_bool ipv4 @ '', IPv6='' @ show_bool ipv6 @ '', flags=0x'' @ lower_hex (unat flags)) True),
     tb_add_route := (\<lambda>address prefix metric ipv6.
       println (''route '' @ address @ ''/'' @ show_int prefix @ '', metric='' @ show_int metric @ '', IPv6='' @ show_bool ipv6) True),
     tb_exclude_route := (\<lambda>address prefix metric ipv6.
       println (''exclude '' @ address @ ''/'' @ show_int prefix @ '', metric='' @ show_int metric @ '', IPv6='' @ show_bool ipv6) True),
     tb_set_dns_options := (\<lambda>dns. println (''DNS: '' @ dns_debug dns) True),
     tb_set_mtu := (\<lambda>mtu. println (''MTU: '' @ show_int mtu) True),
     tb_establish := returns (- 1),
     tb_teardown := (\<lambda>disconnect. println (''tunnel teardown, final disconnect='' @ show_bool disconnect) ()),
     tb_dco_available := returns False,
     tb_dco_new_peer := (\<lambda>peer. println (''DCO peer '' @ decimal (unat (dp_peer_id peer)) @ '' at '' @ dp_remote_ip peer) ()),
     tb_dco_new_key := (\<lambda>slot key.
       println (''DCO key slot '' @ decimal (unat slot) @ '', key id '' @ show_int (dkc_key_id key)) ())\<rparr>"

definition example_override :: remote_override where
  "example_override = \<lparr>ro_host = ''vpn.example.test'', ro_ip = [], ro_port = ''1194'', ro_protocol = ''udp''\<rparr>"

definition platform_handler :: "(dns_options \<Rightarrow> string) \<Rightarrow> string list event_handler" where
  "platform_handler dns_debug = event_handler_default\<lparr>
     eh_socket_protect := (\<lambda>socket remote ipv6.
       println (''protect socket '' @ show_int socket @ '' for '' @ remote @ '', IPv6='' @ show_bool ipv6) True),
     eh_remote_override_enabled := returns True,
     eh_remote_override := returns (Ok example_override),
     eh_tun_builder := returns (Some (platform_tunnel dns_debug)),
     eh_external_pki_certificate := (\<lambda>request. returns (Err (external_pki_error_new
       (''load certificate for alias '' @ epcr_alias request @ '' from the platform key store'')))),
     eh_external_pki_sign := (\<lambda>request. returns (Err (external_pki_error_new
       (''sign '' @ decimal (length (epsr_data request)) @ '' bytes with alias '' @ epsr_alias request @ '' and return base64''))))\<rparr>"

section \<open>\<open>sync_client.rs\<close>\<close>

text \<open>The handler of the synchronous example; what it writes goes to standard error, log text without a newline.\<close>

definition sync_handler :: "string list event_handler" where
  "sync_handler = event_handler_default\<lparr>
     eh_event := (\<lambda>event. println (''event '' @ evt_name event @ '': '' @ evt_info event) ()),
     eh_log := (\<lambda>t. println t ())\<rparr>"

section \<open>\<open>async_callbacks.rs\<close>\<close>

definition async_platform :: "'u async_event_handler" where
  "async_platform = async_event_handler_default\<lparr>
     ah_remote_override_enabled := returns True,
     ah_remote_override := ready (Ok example_override),
     ah_external_pki_certificate := (\<lambda>request. ready (Err (external_pki_error_new
       (''fetch alias '' @ epcr_alias request @ '' asynchronously from your key store'')))),
     ah_external_pki_sign := (\<lambda>request. ready (Err (external_pki_error_new
       (''sign '' @ epsr_algorithm request @ '' asynchronously and return a base64 signature''))))\<rparr>"

section \<open>\<open>external_tun.rs\<close>\<close>

text \<open>
  The mutex of the tunnel.  A second \<open>lock\<close> by the thread that holds it does not return (\<open>None\<close>);
  \<open>expect\<close> turns a poisoned lock into a panic.
\<close>

datatype mutex = Unlocked | Locked | Poisoned

record platform_tun =
  pt_mutex :: mutex
  pt_info :: external_tun_info_t
  pt_io :: "nat option"
  pt_out :: "string list"

definition platform_tun_new :: platform_tun where
  "platform_tun_new = \<lparr>pt_mutex = Unlocked, pt_info = external_tun_info_default, pt_io = None, pt_out = []\<rparr>"

definition lock_expect :: "platform_tun \<Rightarrow> platform_tun outcome option" where
  "lock_expect p =
     (case pt_mutex p of
        Unlocked \<Rightarrow> Some (Returned (p\<lparr>pt_mutex := Locked\<rparr>))
      | Poisoned \<Rightarrow> Some Panicked
      | Locked \<Rightarrow> None)"

definition drop_io :: "'w tun_api \<Rightarrow> nat option \<Rightarrow> 'w hsys \<Rightarrow> 'w hsys" where
  "drop_io api io w = (case io of None \<Rightarrow> w | Some raw \<Rightarrow> tun_io_drop api raw w)"

definition platform_tun_configure :: "external_tun_config \<Rightarrow> ('s, bool) meth" where
  "platform_tun_configure config = returns (tunc_layer config = 3)"

text \<open>\<open>start\<close> up to its reports to the core: the guard is held, the values are published.\<close>

definition platform_tun_begin ::
  "'w tun_api \<Rightarrow> external_tun_start_config \<Rightarrow> nat \<Rightarrow> platform_tun \<times> 'w hsys \<Rightarrow> (unit outcome \<times> platform_tun \<times> 'w hsys) option" where
  "platform_tun_begin api config io s =
     (let p = (fst s)\<lparr>pt_out := pt_out (fst s) @ [''negotiated cipher id '' @ decimal (unat (tsc_cipher_algorithm config))]\<rparr>;
          w = snd s
      in case lock_expect p of
           None \<Rightarrow> None
         | Some Panicked \<Rightarrow> Some (Panicked, p, tun_io_drop api io w)
         | Some (Returned p) \<Rightarrow>
             let p = p\<lparr>pt_info := external_tun_info_default\<lparr>tui_name := ''platform-tun'', tui_mtu := 1500\<rparr>\<rparr>
             in (case tun_io_clone api io w of
                   (Panicked, w) \<Rightarrow> Some (Panicked, p\<lparr>pt_mutex := Poisoned\<rparr>, tun_io_drop api io w)
                 | (Returned c, w) \<Rightarrow> Some (Returned (), p\<lparr>pt_io := Some c\<rparr>, drop_io api (pt_io p) w)))"

definition platform_tun_reports :: "'w tun_api \<Rightarrow> nat \<Rightarrow> 'w hsys \<Rightarrow> 'w hsys" where
  "platform_tun_reports api io w =
     snd (tun_io_connected api io (snd (tun_io_pre_route_config api io (snd (tun_io_pre_tun_config api io w)))))"

definition platform_tun_start ::
  "'w tun_api \<Rightarrow> external_tun_start_config \<Rightarrow> nat \<Rightarrow> platform_tun \<times> 'w hsys \<Rightarrow> (unit outcome \<times> platform_tun \<times> 'w hsys) option" where
  "platform_tun_start api config io s =
     (case platform_tun_begin api config io s of
        None \<Rightarrow> None
      | Some (Panicked, s) \<Rightarrow> Some (Panicked, s)
      | Some (Returned _, p, w) \<Rightarrow>
          Some (Returned (), p\<lparr>pt_mutex := Unlocked\<rparr>, tun_io_drop api io (platform_tun_reports api io w)))"

definition platform_tun_stop ::
  "'w tun_api \<Rightarrow> platform_tun \<times> 'w hsys \<Rightarrow> (unit outcome \<times> platform_tun \<times> 'w hsys) option" where
  "platform_tun_stop api s =
     (case lock_expect (fst s) of
        None \<Rightarrow> None
      | Some Panicked \<Rightarrow> Some (Panicked, s)
      | Some (Returned p) \<Rightarrow> Some (Returned (), p\<lparr>pt_io := None, pt_mutex := Unlocked\<rparr>, drop_io api (pt_io p) (snd s)))"

definition platform_tun_send :: "u8 list \<Rightarrow> (platform_tun \<times> 'w, bool) meth" where
  "platform_tun_send packet =
     on_state (\<lambda>p. (Returned True, p\<lparr>pt_out := pt_out p @ [''Core sent a '' @ decimal (length packet) @ '' byte cleartext packet'']\<rparr>))"

definition platform_tun_info ::
  "platform_tun \<times> 'w \<Rightarrow> (external_tun_info_t outcome \<times> platform_tun \<times> 'w) option" where
  "platform_tun_info s =
     (case lock_expect (fst s) of
        None \<Rightarrow> None
      | Some Panicked \<Rightarrow> Some (Panicked, s)
      | Some (Returned p) \<Rightarrow> Some (Returned (pt_info p), p\<lparr>pt_mutex := Unlocked\<rparr>, snd s))"

text \<open>
  As methods of the trait.  Whether a second \<open>lock\<close> by its own thread blocks or panics is left open
  by the standard library; as an outcome it is a panic.
\<close>

definition entered :: "('s \<Rightarrow> ('r outcome \<times> 's) option) \<Rightarrow> ('s, 'r) meth" where
  "entered f s = (case f s of None \<Rightarrow> (Panicked, s) | Some r \<Rightarrow> r)"

definition platform_tun_trait :: "'w tun_api \<Rightarrow> (platform_tun \<times> 'w hsys) external_tun" where
  "platform_tun_trait api = external_tun_default\<lparr>
     xn_configure := platform_tun_configure,
     xn_start := (\<lambda>config io. entered (platform_tun_start api config io)),
     xn_stop := entered (platform_tun_stop api),
     xn_send := platform_tun_send,
     xn_info := entered platform_tun_info\<rparr>"

definition platform_tun_handler :: "'w tun_api \<Rightarrow> (platform_tun \<times> 'w hsys) event_handler" where
  "platform_tun_handler api = event_handler_default\<lparr>eh_external_tun := returns (Some (platform_tun_trait api))\<rparr>"

text \<open>The calls of the core that reach the tunnel.\<close>

datatype tun_call =
    TunConfigure "ovpn_external_tun_config_view option"
  | TunStart "nat option" "ovpn_external_tun_start_view option"
  | TunStop
  | TunSend "u8 ptr" usize
  | TunInfo bool

fun tun_call_effect :: "'w tun_api \<Rightarrow> tun_call \<Rightarrow> platform_tun \<times> 'w hsys \<Rightarrow> platform_tun \<times> 'w hsys" where
  "tun_call_effect api (TunConfigure config) s = snd (external_tun_configure_callback (Some (platform_tun_handler api)) config s)"
| "tun_call_effect api (TunStart handle start) s = external_tun_start_callback api (Some (platform_tun_handler api)) handle start s"
| "tun_call_effect api TunStop s = external_tun_stop_callback (Some (platform_tun_handler api)) s"
| "tun_call_effect api (TunSend data len) s = snd (external_tun_send_callback (Some (platform_tun_handler api)) data len s)"
| "tun_call_effect api (TunInfo complete) s = snd (external_tun_info_callback (Some (platform_tun_handler api)) complete s)"

section \<open>The references of the tunnel\<close>

definition tun_ref :: "nat \<Rightarrow> platform_tun \<Rightarrow> int" where
  "tun_ref a p = (if pt_io p = Some a then 1 else 0)"

lemma drop_io_held: "held a (drop_io api io w) = held a w - (if io = Some a then 1 else 0)"
  by (simp add: drop_io_def tun.dropped_held split: option.split)

lemma reports_held: "held a (platform_tun_reports api io w) = held a w"
  by (simp add: platform_tun_reports_def tun_io_connected_def tun_io_pre_route_config_def tun_io_pre_tun_config_def)

lemma begin_effect:
  assumes "platform_tun_begin api config io (p, w) = Some (r, p', w')"
  shows "r = Panicked \<Longrightarrow> pt_mutex p' = Poisoned \<and> held a w' - tun_ref a p' = held a w - tun_ref a p - (if io = a then 1 else 0)"
    and "r = Returned () \<Longrightarrow> pt_mutex p' = Locked \<and> held a w' - tun_ref a p' = held a w - tun_ref a p"
  using assms tun.clone_held [of a api io w]
  by (auto simp: platform_tun_begin_def lock_expect_def Let_def tun_ref_def tun.dropped_held drop_io_held
      split: mutex.splits prod.splits outcome.splits)

lemma begin_returns: "pt_mutex p \<noteq> Locked \<Longrightarrow> platform_tun_begin api config io (p, w) \<noteq> None"
  by (simp add: platform_tun_begin_def lock_expect_def Let_def split: mutex.splits prod.splits outcome.splits)

lemma tun_handler_dispatch:
  "call_external_tun (Some (platform_tun_handler api)) fallback action s = caught fallback id (action (platform_tun_trait api) s)"
  "call_external_tun_void (Some (platform_tun_handler api)) action' s = snd (action' (platform_tun_trait api) s)"
  "provider_found eh_external_tun (Some (platform_tun_handler api)) s"
  by (simp_all add: dispatch_simps with_provider_def platform_tun_handler_def returns_def provider_found_def caught_def
      split: prod.splits outcome.splits)

lemma start_keeps_references:
  assumes "pt_mutex p \<noteq> Locked" "snd (entered (platform_tun_start api config io) (p, w)) = (p', w')"
  shows "pt_mutex p' \<noteq> Locked \<and> held a w' - tun_ref a p' = held a w - tun_ref a p - (if io = a then 1 else 0)"
proof -
  obtain r q v where b: "platform_tun_begin api config io (p, w) = Some (r, q, v)"
    using begin_returns [OF assms(1), of api config io w] by (cases "platform_tun_begin api config io (p, w)") auto
  show ?thesis
  proof (cases r)
    case Panicked
    with assms(2) b begin_effect(1) [OF b, of a] show ?thesis by (simp add: entered_def platform_tun_start_def)
  next
    case (Returned x)
    with assms(2) b have "p' = q\<lparr>pt_mutex := Unlocked\<rparr>" "w' = tun_io_drop api io (platform_tun_reports api io v)"
      by (auto simp: entered_def platform_tun_start_def)
    with Returned begin_effect(2) [OF b, of a] show ?thesis by (auto simp: tun.dropped_held reports_held tun_ref_def)
  qed
qed

lemmas tun_callbacks = external_tun_configure_callback_def external_tun_stop_callback_def external_tun_send_callback_def
  external_tun_info_callback_def tun_handler_dispatch platform_tun_trait_def

lemma tun_call_keeps_references:
  assumes "pt_mutex p \<noteq> Locked" "tun_call_effect api call (p, w) = (p', w')"
  shows "pt_mutex p' \<noteq> Locked \<and> held a w' - tun_ref a p' = held a w - tun_ref a p"
proof (cases call)
  case (TunConfigure config)
  with assms show ?thesis
    by (auto simp: tun_callbacks platform_tun_configure_def returns_def caught_def split: option.splits)
next
  case (TunStart handle start)
  show ?thesis
  proof (cases start)
    case None
    with assms TunStart show ?thesis by (simp add: external_tun_start_callback_def)
  next
    case (Some st)
    obtain r v where r: "tun_io_retain api handle w = (r, v)" by fastforce
    have h: "held a v = held a w + (if r = Some a then 1 else 0)" using tun.retain_held [of a api handle w] r by simp
    show ?thesis
    proof (cases r)
      case None
      with assms TunStart Some r h show ?thesis by (auto simp: external_tun_start_callback_def)
    next
      case (Some io)
      with assms TunStart \<open>start = Some st\<close> r
      have "snd (entered (platform_tun_start api (external_tun_start_of st) io) (p, v)) = (p', w')"
        by (simp add: external_tun_start_callback_def tun_handler_dispatch platform_tun_trait_def Let_def)
      from start_keeps_references [OF assms(1) this, of a] Some h show ?thesis by simp
    qed
  qed
next
  case TunStop
  with assms show ?thesis
    by (auto simp: tun_callbacks entered_def platform_tun_stop_def lock_expect_def drop_io_held tun_ref_def split: mutex.splits)
next
  case (TunSend data len)
  with assms show ?thesis by (auto simp: tun_callbacks platform_tun_send_def on_state_def caught_def tun_ref_def)
next
  case (TunInfo complete)
  with assms show ?thesis
    by (auto simp: tun_callbacks entered_def platform_tun_info_def lock_expect_def caught_def tun_ref_def
        split: mutex.splits if_splits)
qed

lemma tun_calls_keep_references:
  "pt_mutex p \<noteq> Locked \<Longrightarrow> fold (tun_call_effect api) calls (p, w) = (p', w') \<Longrightarrow>
   pt_mutex p' \<noteq> Locked \<and> held a w' - tun_ref a p' = held a w - tun_ref a p"
proof (induction calls arbitrary: p w)
  case (Cons call calls)
  obtain q v where q: "tun_call_effect api call (p, w) = (q, v)" by fastforce
  from tun_call_keeps_references [OF Cons.prems(1) q, of a] Cons.IH [of q v] Cons.prems(2) q show ?case by simp
qed simp

section \<open>Properties\<close>


text \<open>
  C30: the example tunnel reports to the core with its mutex locked.  The native side runs these
  reports at once on the thread that called start, so a callback of the core that asks for the
  tunnel's values or stops it from within a report meets the lock of its own thread and does not
  return.
\<close>

theorem platform_tun_reports_under_lock:
  assumes "platform_tun_begin api config io (p, w) = Some (Returned (), p', w')"
  shows "pt_mutex p' = Locked \<and> pt_io p' \<noteq> None \<and> tui_name (pt_info p') = ''platform-tun''
         \<and> platform_tun_info (p', w') = None \<and> platform_tun_stop api (p', w') = None
         \<and> platform_tun_start api config io (p, w)
             = Some (Returned (), p'\<lparr>pt_mutex := Unlocked\<rparr>, tun_io_drop api io (platform_tun_reports api io w'))"
proof -
  have "pt_mutex p' = Locked \<and> pt_io p' \<noteq> None \<and> tui_name (pt_info p') = ''platform-tun''"
    using assms by (auto simp: platform_tun_begin_def lock_expect_def Let_def split: mutex.splits prod.splits outcome.splits)
  then show ?thesis using assms by (simp add: platform_tun_info_def platform_tun_stop_def platform_tun_start_def lock_expect_def)
qed

text \<open>
  What the core sees of the example handlers.  Only layer 3 is accepted, routes and exclusions
  are accepted and printed with their own arguments, no descriptor is established; the remote
  override is enabled and completes once with the example server, and external PKI requests
  complete once with an error that is not an invalid alias and names the requested alias, for the
  synchronous handler and for the asynchronous one behind the bridge; the handler of the
  synchronous client prints every event with its name and text.
\<close>

theorem platform_handlers_answer:
  "tun_builder_set_layer_callback (Some (platform_handler dbg)) layer out = (bool_i32 (layer = 3), out)
   \<and> tun_builder_establish_callback (Some (platform_handler dbg)) out = (- 1, out)
   \<and> tun_builder_add_route_callback (Some (platform_handler dbg)) address prefix metric six out
       = (1, out @ [''route '' @ string_from_view address @ ''/'' @ show_int prefix @ '', metric='' @ show_int metric
                    @ '', IPv6='' @ show_bool (six \<noteq> 0)])
   \<and> tun_builder_exclude_route_callback (Some (platform_handler dbg)) address prefix metric six out
       = (1, out @ [''exclude '' @ string_from_view address @ ''/'' @ show_int prefix @ '', metric='' @ show_int metric
                    @ '', IPv6='' @ show_bool (six \<noteq> 0)])
   \<and> remote_override_enabled_callback (Some (platform_handler dbg)) out = (1, out)
   \<and> remote_override_enabled_callback (Some (async_handler_bridge async_platform)) u = (1, u)
   \<and> remote_override_callback (Some (platform_handler dbg)) True out
       = ([RemoteOverrideCompletion (view ''vpn.example.test'') (view []) (view ''1194'') (view ''udp'') (view [])], out)
   \<and> remote_override_callback (Some (async_handler_bridge async_platform)) True u
       = ([RemoteOverrideCompletion (view ''vpn.example.test'') (view []) (view ''1194'') (view ''udp'') (view [])], u)
   \<and> external_pki_certificate_callback (Some (platform_handler dbg)) name True out
       = ([PkiCertCompletion 1 0 (view (''load certificate for alias '' @ string_from_view name @ '' from the platform key store''))
             (view []) (view [])], out)
   \<and> external_pki_certificate_callback (Some (async_handler_bridge async_platform)) name True u
       = ([PkiCertCompletion 1 0 (view (''fetch alias '' @ string_from_view name @ '' asynchronously from your key store''))
             (view []) (view [])], u)
   \<and> event_callback (Some sync_handler) error fatal name info out
       = out @ [''event '' @ string_from_view name @ '': '' @ string_from_view info]"
  by (simp add: event_callback_def sync_handler_def tun_builder_set_layer_callback_def tun_builder_establish_callback_def tun_builder_add_route_callback_def
      tun_builder_exclude_route_callback_def remote_override_enabled_callback_def remote_override_callback_def
      external_pki_certificate_callback_def dispatch_simps with_provider_def caught_def returns_def println_def
      platform_handler_def platform_tunnel_def async_handler_bridge_def async_platform_def ready_def example_override_def
      external_pki_error_new_def bool_i32_def)

section \<open>Concrete runs\<close>

definition sample_tun_api :: "unit tun_api" where
  "sample_tun_api = \<lparr>ovpn_external_tun_handle_retain = (\<lambda>a c. (Some a, c)), ovpn_external_tun_handle_free = (\<lambda>_ c. c),
     ovpn_external_tun_receive = (\<lambda>_ _ c. (1, c)), ovpn_external_tun_error = (\<lambda>_ _ _ c. (1, c)),
     ovpn_external_tun_pre_tun_config = (\<lambda>_ c. (1, c)), ovpn_external_tun_pre_route_config = (\<lambda>_ c. (1, c)),
     ovpn_external_tun_connected = (\<lambda>_ c. (1, c)), ovpn_error_code_tun = 1\<rparr>"

definition sample_tun_start :: ovpn_external_tun_start_view where
  "sample_tun_start = \<lparr>rxs_options = view [], rxs_cipher_algorithm = 11, rxs_digest_algorithm = 22, rxs_key_derivation = 33,
     rxs_use_epoch_keys = 1\<rparr>"

definition sample_tun_world :: "unit hsys" where
  "sample_tun_world = \<lparr>hs_core = (), hs_log = []\<rparr>"

lemmas sample_tun_simps = sample_tun_api_def sample_tun_world_def tun_io_clone_def tun_io_retain_def platform_tun_new_def
  platform_tun_begin_def lock_expect_def Let_def drop_io_def


theorem platform_tun_reports_under_lock_witness:
  "\<exists>p w. platform_tun_begin sample_tun_api (external_tun_start_of sample_tun_start) 5 (platform_tun_new, sample_tun_world)
       = Some (Returned (), p, w) \<and> platform_tun_info (p, w) = None"
proof -
  obtain p w where b: "platform_tun_begin sample_tun_api (external_tun_start_of sample_tun_start) 5 (platform_tun_new, sample_tun_world)
       = Some (Returned (), p, w)"
    by (simp add: sample_tun_simps)
  with platform_tun_reports_under_lock [OF b] show ?thesis by simp
qed

end
