(* ===== verification/Event_Streams.thy ===== *)
theory Event_Streams
  imports Tokio_Handlers
begin

text \<open>
  The subscriptions of the asynchronous client (\<open>subscribe_events\<close>, \<open>subscribe_logs\<close>,
  \<open>subscribe_app_control\<close> and the streams over them in \<open>tokio.rs\<close>) together with the handler that
  feeds them.  A tokio broadcast channel appears with its documented behaviour: it retains the last
  \<open>bc_retained\<close> messages (at least the requested capacity), a receiver sees the messages sent after
  its creation, one that fell behind is told how many it missed, and a message sent without
  receivers is dropped.
\<close>

section \<open>Broadcast channels\<close>

text \<open>\<open>bc_sent\<close> is the log of the messages; a receiver is its position in it, \<open>None\<close> when it was dropped.\<close>

record 'm broadcast =
  bc_retained :: nat
  bc_sent :: "'m list"
  bc_receivers :: "nat option list"

definition broadcast_send :: "'m \<Rightarrow> 'm broadcast \<Rightarrow> 'm broadcast" where
  "broadcast_send m bc = (if \<exists>n. Some n \<in> set (bc_receivers bc) then bc\<lparr>bc_sent := bc_sent bc @ [m]\<rparr> else bc)"

definition broadcast_subscribe :: "'m broadcast \<Rightarrow> nat \<times> 'm broadcast" where
  "broadcast_subscribe bc = (length (bc_receivers bc), bc\<lparr>bc_receivers := bc_receivers bc @ [Some (length (bc_sent bc))]\<rparr>)"

datatype 'm received = Got 'm | Lagged nat | Waiting

definition broadcast_recv :: "nat \<Rightarrow> 'm broadcast \<Rightarrow> 'm received \<times> 'm broadcast" where
  "broadcast_recv i bc =
     (case bc_receivers bc ! i of
        None \<Rightarrow> (Waiting, bc)
      | Some n \<Rightarrow>
          let oldest = length (bc_sent bc) - bc_retained bc
          in if n < oldest then (Lagged (oldest - n), bc\<lparr>bc_receivers := (bc_receivers bc)[i := Some oldest]\<rparr>)
             else if n < length (bc_sent bc) then (Got (bc_sent bc ! n), bc\<lparr>bc_receivers := (bc_receivers bc)[i := Some (Suc n)]\<rparr>)
             else (Waiting, bc))"

text \<open>The first \<open>k\<close> answers of a receiver.\<close>

primrec receive_many :: "nat \<Rightarrow> nat \<Rightarrow> 'm broadcast \<Rightarrow> 'm received list \<times> 'm broadcast" where
  "receive_many 0 i bc = ([], bc)"
| "receive_many (Suc k) i bc =
     (case broadcast_recv i bc of (r, bc) \<Rightarrow> (case receive_many k i bc of (rs, bc) \<Rightarrow> (r # rs, bc)))"

section \<open>The client's channels\<close>

record channels =
  ch_events :: "event broadcast"
  ch_logs :: "string broadcast"
  ch_app_control :: "app_control_message broadcast"

definition broadcast_channel :: "nat \<Rightarrow> 'm broadcast" where
  "broadcast_channel retained = \<lparr>bc_retained = retained, bc_sent = [], bc_receivers = []\<rparr>"

text \<open>The handler that \<open>build\<close> gives to the core: the application's handler behind the three senders.\<close>

definition client_handler :: "('u \<times> channels) event_handler \<Rightarrow> ('u \<times> channels) event_handler" where
  "client_handler delegate = broadcasting \<lparr>
     bh_delegate = delegate,
     bh_events = (\<lambda>event. apsnd (\<lambda>ch. ch\<lparr>ch_events := broadcast_send event (ch_events ch)\<rparr>)),
     bh_logs = (\<lambda>text. apsnd (\<lambda>ch. ch\<lparr>ch_logs := broadcast_send text (ch_logs ch)\<rparr>)),
     bh_app_control = (\<lambda>message. apsnd (\<lambda>ch. ch\<lparr>ch_app_control := broadcast_send message (ch_app_control ch)\<rparr>))\<rparr>"

definition subscribe_events :: "channels \<Rightarrow> nat \<times> channels" where
  "subscribe_events ch = (case broadcast_subscribe (ch_events ch) of (i, bc) \<Rightarrow> (i, ch\<lparr>ch_events := bc\<rparr>))"

definition subscribe_logs :: "channels \<Rightarrow> nat \<times> channels" where
  "subscribe_logs ch = (case broadcast_subscribe (ch_logs ch) of (i, bc) \<Rightarrow> (i, ch\<lparr>ch_logs := bc\<rparr>))"

definition subscribe_app_control :: "channels \<Rightarrow> nat \<times> channels" where
  "subscribe_app_control ch = (case broadcast_subscribe (ch_app_control ch) of (i, bc) \<Rightarrow> (i, ch\<lparr>ch_app_control := bc\<rparr>))"

text \<open>A stream is a receiver of its own.\<close>

definition event_stream :: "channels \<Rightarrow> nat \<times> channels" where
  "event_stream ch = subscribe_events ch"

definition log_stream :: "channels \<Rightarrow> nat \<times> channels" where
  "log_stream ch = subscribe_logs ch"

definition app_control_stream :: "channels \<Rightarrow> nat \<times> channels" where
  "app_control_stream ch = subscribe_app_control ch"

section \<open>The core's messages\<close>

datatype core_message =
    CoreEvent i32 i32 ovpn_string_view ovpn_string_view
  | CoreLog ovpn_string_view
  | CoreAppControl ovpn_string_view ovpn_string_view

fun deliver :: "'s event_handler \<Rightarrow> core_message \<Rightarrow> 's \<Rightarrow> 's" where
  "deliver h (CoreEvent error fatal name info) s = event_callback (Some h) error fatal name info s"
| "deliver h (CoreLog line) s = log_callback (Some h) line s"
| "deliver h (CoreAppControl protocol payload) s = app_control_callback (Some h) protocol payload s"

fun event_of :: "core_message \<Rightarrow> event list" where
  "event_of (CoreEvent error fatal name info) =
     [\<lparr>evt_error = (error \<noteq> 0), evt_fatal = (fatal \<noteq> 0), evt_name = string_from_view name, evt_info = string_from_view info\<rparr>]"
| "event_of _ = []"

fun log_of :: "core_message \<Rightarrow> string list" where
  "log_of (CoreLog line) = [string_from_view line]"
| "log_of _ = []"

fun app_control_of :: "core_message \<Rightarrow> app_control_message list" where
  "app_control_of (CoreAppControl protocol payload) =
     [\<lparr>acm_protocol = string_from_view protocol, acm_payload = string_from_view payload\<rparr>]"
| "app_control_of _ = []"

text \<open>An application handler that leaves the client's channels alone (it has no access to the senders).\<close>

definition keeps_channels :: "('u \<times> channels) event_handler \<Rightarrow> bool" where
  "keeps_channels d \<longleftrightarrow>
     (\<forall>e s. snd (snd (eh_event d e s)) = snd s) \<and> (\<forall>t s. snd (snd (eh_log d t s)) = snd s)
     \<and> (\<forall>m s. snd (snd (eh_app_control_message d m s)) = snd s)"

lemma deliver_channels:
  assumes "keeps_channels d"
  shows "snd (deliver (client_handler d) m s) = (snd s)\<lparr>
    ch_events := fold broadcast_send (event_of m) (ch_events (snd s)),
    ch_logs := fold broadcast_send (log_of m) (ch_logs (snd s)),
    ch_app_control := fold broadcast_send (app_control_of m) (ch_app_control (snd s))\<rparr>"
  using assms
  by (cases m; cases s) (simp_all add: keeps_channels_def client_handler_def broadcasting_def event_callback_def log_callback_def
      app_control_callback_def)

lemma delivers_channels:
  assumes "keeps_channels d"
  shows "snd (fold (deliver (client_handler d)) ms s) = (snd s)\<lparr>
    ch_events := fold broadcast_send (concat (map event_of ms)) (ch_events (snd s)),
    ch_logs := fold broadcast_send (concat (map log_of ms)) (ch_logs (snd s)),
    ch_app_control := fold broadcast_send (concat (map app_control_of ms)) (ch_app_control (snd s))\<rparr>"
  by (induction ms arbitrary: s) (simp_all add: deliver_channels [OF assms])

lemma sends_to_live:
  "Some n \<in> set (bc_receivers bc) \<Longrightarrow> fold broadcast_send ms bc = bc\<lparr>bc_sent := bc_sent bc @ ms\<rparr>"
  by (induction ms arbitrary: bc) (auto simp: broadcast_send_def)

lemma receive_up_to_date:
  assumes "bc_receivers bc ! i = Some n" "i < length (bc_receivers bc)" "length (bc_sent bc) \<le> n + bc_retained bc" "n \<le> length (bc_sent bc)"
  shows "receive_many (length (bc_sent bc) - n) i bc
    = (map Got (drop n (bc_sent bc)), bc\<lparr>bc_receivers := (bc_receivers bc)[i := Some (length (bc_sent bc))]\<rparr>)"
  using assms
proof (induction "length (bc_sent bc) - n" arbitrary: n bc)
  case 0
  then have n: "n = length (bc_sent bc)" by simp
  then have "(bc_receivers bc)[i := Some (length (bc_sent bc))] = bc_receivers bc"
    using 0 by (metis list_update_id)
  then show ?case using n by simp
next
  case (Suc k)
  let ?bc = "bc\<lparr>bc_receivers := (bc_receivers bc)[i := Some (Suc n)]\<rparr>"
  have n: "n < length (bc_sent bc)" "length (bc_sent bc) - n = Suc (length (bc_sent bc) - Suc n)" using Suc.hyps(2) by linarith+
  then have step: "broadcast_recv i bc = (Got (bc_sent bc ! n), ?bc)"
    using Suc.prems by (simp add: broadcast_recv_def Let_def)
  have "receive_many (length (bc_sent ?bc) - Suc n) i ?bc
      = (map Got (drop (Suc n) (bc_sent ?bc)), ?bc\<lparr>bc_receivers := (bc_receivers ?bc)[i := Some (length (bc_sent ?bc))]\<rparr>)"
    by (rule Suc.hyps(1)) (use Suc.prems Suc.hyps(2) n in auto)
  then show ?case using n step by (simp add: Cons_nth_drop_Suc [symmetric])
qed

text \<open>What a receiver gets that was subscribed just before the messages \<open>ms\<close> were sent.\<close>

definition delivered :: "nat \<Rightarrow> 'm list \<Rightarrow> 'm received list" where
  "delivered retained ms =
     (if length ms \<le> retained then map Got ms
      else Lagged (length ms - retained) # map Got (drop (length ms - retained) ms))"

lemma subscriber_receives:
  assumes "broadcast_subscribe bc0 = (i, bc1)" "bc = bc1\<lparr>bc_sent := bc_sent bc1 @ ms\<rparr>"
  shows "fst (receive_many (length (delivered (bc_retained bc0) ms)) i bc) = delivered (bc_retained bc0) ms"
proof -
  let ?n = "length (bc_sent bc0)" and ?r = "bc_retained bc0"
  have bc: "bc_sent bc = bc_sent bc0 @ ms" "bc_receivers bc ! i = Some ?n" "i < length (bc_receivers bc)" "bc_retained bc = ?r"
    using assms by (auto simp: broadcast_subscribe_def)
  show ?thesis
  proof (cases "length ms \<le> ?r")
    case True
    with receive_up_to_date [OF bc(2,3)] bc show ?thesis by (simp add: delivered_def)
  next
    case False
    let ?m = "?n + (length ms - ?r)"
    let ?bc = "bc\<lparr>bc_receivers := (bc_receivers bc)[i := Some ?m]\<rparr>"
    have "broadcast_recv i bc = (Lagged (length ms - ?r), ?bc)"
      using False bc by (auto simp: broadcast_recv_def Let_def)
    moreover have "fst (receive_many ?r i ?bc) = map Got (drop (length ms - ?r) ms)"
      using receive_up_to_date [of ?bc i ?m] bc False by simp
    ultimately show ?thesis using False by (auto simp: delivered_def split: prod.splits)
  qed
qed

section \<open>Properties\<close>



end
