(* ===== verification/Example_Clients.thy ===== *)
theory Example_Clients
  imports Session_Handle Udp_Transport Platform_Handlers Event_Streams
begin

text \<open>
  The example programs as functions over the models of the two clients: \<open>sync_client.rs\<close>,
  \<open>tokio_client.rs\<close>, \<open>profile.rs\<close>, \<open>all_config.rs\<close> and \<open>run\<close> of \<open>tokio_udp_transport.rs\<close>.  The
  environment of a program (arguments, files, variables) is a parameter; printed lines are values.
\<close>

section \<open>The environment\<close>

record program_env =
  pe_args :: "string list"
  pe_read_to_string :: "string \<Rightarrow> (string, string) result"
  pe_var :: "string \<Rightarrow> (string, string) result"
  pe_target_os :: string
  pe_feature_dco :: bool

text \<open>The errors that \<open>main\<close> boxes; \<open>Message\<close> is a boxed string.\<close>

datatype program_error = Message string | Io string | Var string | Library error

definition nth_arg :: "program_env \<Rightarrow> nat \<Rightarrow> string option" where
  "nth_arg env n = (if n < length (pe_args env) then Some (pe_args env ! n) else None)"

definition lift_err :: "('e \<Rightarrow> 'f) \<Rightarrow> ('t, 'e) result \<Rightarrow> ('t, 'f) result" where
  "lift_err f r = (case r of Inl e \<Rightarrow> Err (f e) | Inr t \<Rightarrow> Ok t)"

definition read_profile :: "string \<Rightarrow> program_env \<Rightarrow> (string, program_error) result" where
  "read_profile usage env =
     (case nth_arg env 1 of
        None \<Rightarrow> Err (Message usage)
      | Some path \<Rightarrow> lift_err Io (pe_read_to_string env path))"

definition read_credentials :: "program_env \<Rightarrow> (credentials, program_error) result" where
  "read_credentials env =
     and_then (lift_err Var (pe_var env ''OPENVPN_USERNAME'')) (\<lambda>username.
     and_then (lift_err Var (pe_var env ''OPENVPN_PASSWORD'')) (\<lambda>password.
       Ok (credentials_new username password)))"

definition status_line :: "status \<Rightarrow> string" where
  "status_line st = st_status st @ '': '' @ st_message st"

section \<open>\<open>sync_client.rs\<close>\<close>

text \<open>
  The client of an early return is dropped with its last handle; after the control thread was
  spawned that thread keeps a handle, so that \<open>main\<close> does not free the client.  \<open>enter\<close> tells whether
  the user pressed Enter, and the thread stopped the client, before \<open>connect\<close> was called; a stop
  during \<open>connect\<close> is the business of the threads in \<open>Client_Lifecycle\<close>.
\<close>

definition sync_login ::
  "'n sys_api \<Rightarrow> program_env \<Rightarrow> evaluation \<Rightarrow> 'n inner \<Rightarrow> (unit, program_error) result \<times> 'n inner" where
  "sync_login api env evaluation i =
     (if eval_autologin evaluation then (Ok (), i)
      else case read_credentials env of
             Inl e \<Rightarrow> (Err e, i)
           | Inr credentials \<Rightarrow>
               (case client_provide_credentials api i credentials of
                  (Inl e, i) \<Rightarrow> (Err (Library e), i) | (Inr _, i) \<Rightarrow> (Ok (), i)))"

definition sync_client_main ::
  "'n sys_api \<Rightarrow> bool \<Rightarrow> program_env \<Rightarrow> (string, program_error) result \<times> 'n inner option" where
  "sync_client_main api enter env =
     (case read_profile ''usage: cargo run -p openvpn-connect --example sync_client -- client.ovpn'' env of
        Inl e \<Rightarrow> (Err e, None)
      | Inr profile \<Rightarrow>
          (case fst (client_new api) of
             Inl e \<Rightarrow> (Err (Library e), None)
           | Inr i \<Rightarrow>
               (case client_evaluate api i (config_new (pe_target_os env) (pe_feature_dco env) profile) of
                  (Inl e, i) \<Rightarrow> (Err (Library e), Some (inner_drop api i))
                | (Inr evaluation, i) \<Rightarrow>
                    (case sync_login api env evaluation i of
                       (Inl e, i) \<Rightarrow> (Err e, Some (inner_drop api i))
                     | (Inr _, i) \<Rightarrow>
                         (case client_connect api (if enter then client_stop api i else i) of
                            (Inl e, i) \<Rightarrow> (Err (Library e), Some i)
                          | (Inr st, i) \<Rightarrow> (Ok (status_line st), Some i))))))"

section \<open>\<open>tokio_client.rs\<close> and \<open>run\<close> of \<open>tokio_udp_transport.rs\<close>\<close>

text \<open>
  Both programs set a client up in the same way, up to the claim at the start of \<open>connect\<close>.  \<open>built\<close>
  is the constructor's result, \<open>je\<close> and \<open>jc\<close> tell whether the blocking tasks of \<open>evaluate\<close> and
  \<open>provide_credentials\<close> were joined.
\<close>

definition tokio_login ::
  "'n sys_api \<Rightarrow> program_env \<Rightarrow> string option \<Rightarrow> evaluation \<Rightarrow> ('n, 'h) tokio_client \<Rightarrow>
   (unit, program_error) result \<times> ('n, 'h) tokio_client" where
  "tokio_login api env jc evaluation c =
     (if eval_autologin evaluation then (Ok (), c)
      else case read_credentials env of
             Inl e \<Rightarrow> (Err e, c)
           | Inr credentials \<Rightarrow>
               (case tokio_provide_credentials api c jc credentials of
                  (Inl e, c) \<Rightarrow> (Err (Library e), c) | (Inr _, c) \<Rightarrow> (Ok (), c)))"

definition tokio_setup ::
  "'n sys_api \<Rightarrow> string \<Rightarrow> ('n, 'h) tokio_client res outcome \<Rightarrow> string option \<Rightarrow> string option \<Rightarrow> program_env \<Rightarrow>
   (('n, 'h) tokio_client, program_error) result outcome" where
  "tokio_setup api usage built je jc env =
     (case read_profile usage env of
        Inl e \<Rightarrow> Returned (Err e)
      | Inr profile \<Rightarrow>
          bind_outcome built (\<lambda>made. Returned
            (case made of
               Inl e \<Rightarrow> Err (Library e)
             | Inr c \<Rightarrow>
                 (case tokio_evaluate api c je (config_new (pe_target_os env) (pe_feature_dco env) profile) of
                    (Inl e, c) \<Rightarrow> Err (Library e)
                  | (Inr evaluation, c) \<Rightarrow>
                      (case tokio_login api env jc evaluation c of
                         (Inl e, c) \<Rightarrow> Err e
                       | (Inr _, c) \<Rightarrow>
                           (case connect_claim c of
                              (Inl e, c) \<Rightarrow> Err (Library e)
                            | (Inr _, c) \<Rightarrow> Ok c))))))"

definition tokio_client_setup ::
  "'n sys_api \<Rightarrow> (string + 'rt) \<Rightarrow> string option \<Rightarrow> string option \<Rightarrow> program_env \<Rightarrow>
   (('n, unit + unit \<times> 'rt) tokio_client, program_error) result outcome" where
  "tokio_client_setup api try_current je jc env =
     tokio_setup api ''usage: cargo run -p openvpn-connect --example tokio_client -- client.ovpn''
       (tokio_without_callbacks api try_current) je jc env"

definition udp_run_setup ::
  "'n sys_api \<Rightarrow> 'w transport_api \<Rightarrow> (string + 'rt) \<Rightarrow> string option \<Rightarrow> string option \<Rightarrow> program_env \<Rightarrow>
   (('n, (udp \<times> 'w hsys) event_handler + unit \<times> 'rt) tokio_client, program_error) result outcome" where
  "udp_run_setup api io_api try_current je jc env =
     tokio_setup api ''pass a client.ovpn path'' (tokio_new api try_current (udp_handler io_api)) je jc env"

text \<open>
  The task of \<open>tokio_client.rs\<close> that prints events, over the answers of its receiver.  An answer that
  is no event, a lag as well as a closed channel, ends the loop.
\<close>

fun event_task :: "event received list \<Rightarrow> string list" where
  "event_task (Got event # answers) = (''event '' @ evt_name event @ '': '' @ evt_info event) # event_task answers"
| "event_task (Waiting # answers) = event_task answers"
| "event_task (Lagged n # answers) = []"
| "event_task [] = []"

text \<open>
  The end of the programs: the session finished first, or Ctrl-C (or an error of its future) came
  first.  \<open>stopped\<close> is the result of \<open>handle.stop()\<close>, \<open>final\<close> what the session returned after it.
\<close>

datatype race = SessionWon "status res" | SignalWon "(unit, string) result"

definition tokio_client_end :: "race \<Rightarrow> unit res \<Rightarrow> status res \<Rightarrow> (string, program_error) result" where
  "tokio_client_end winner stopped final =
     (case winner of
        SessionWon result \<Rightarrow> and_then (lift_err Library result) (\<lambda>st. Ok (status_line st))
      | SignalWon signal \<Rightarrow>
          and_then (lift_err Io signal) (\<lambda>_. and_then (lift_err Library stopped) (\<lambda>_.
            and_then (lift_err Library final) (\<lambda>st. Ok (status_line st)))))"

text \<open>\<open>run\<close> prints nothing after a signal.\<close>

definition udp_run_end :: "race \<Rightarrow> unit res \<Rightarrow> (string option, program_error) result" where
  "udp_run_end winner stopped =
     (case winner of
        SessionWon result \<Rightarrow> and_then (lift_err Library result) (\<lambda>st. Ok (Some (status_line st)))
      | SignalWon signal \<Rightarrow>
          and_then (lift_err Io signal) (\<lambda>_. and_then (lift_err Library stopped) (\<lambda>_. Ok None)))"

text \<open>
  The session of \<open>run\<close> is moved into the select, which drops it before the handler of the signal
  runs; \<open>Drop for Session\<close> cancels.
\<close>

definition udp_run_signal :: "'n sys_api \<Rightarrow> session \<Rightarrow> 'n running \<Rightarrow> nat option poll \<times> 'n running" where
  "udp_run_signal api se s =
     (case session_drop api se (ru_cancelled s, ru_core s) of (cancelled, core) \<Rightarrow>
        handle_send Stop (s\<lparr>ru_cancelled := cancelled, ru_core := core\<rparr>))"

section \<open>The programs that only create a client\<close>

definition handler_main :: "'n sys_api \<Rightarrow> string \<Rightarrow> (string, program_error) result \<times> 'n inner option" where
  "handler_main api line =
     (case fst (client_new api) of
        Inl e \<Rightarrow> (Err (Library e), None)
      | Inr i \<Rightarrow> (Ok line, Some (inner_drop api i)))"

definition platform_callbacks_main :: "'n sys_api \<Rightarrow> (string, program_error) result \<times> 'n inner option" where
  "platform_callbacks_main api = handler_main api ''platform callback client initialized''"

definition external_tun_main :: "'n sys_api \<Rightarrow> (string, program_error) result \<times> 'n inner option" where
  "external_tun_main api =
     handler_main api ''external TUN client initialized; enable `external-tun` before connecting''"

definition async_callbacks_main :: "'n sys_api \<Rightarrow> (string + 'rt) \<Rightarrow> (string, program_error) result outcome" where
  "async_callbacks_main api try_current =
     bind_outcome (tokio_new_async api try_current (async_platform :: unit async_event_handler)) (\<lambda>client. Returned
       (case client of Inl e \<Rightarrow> Err (Library e) | Inr _ \<Rightarrow> Ok ''Tokio-aware callback client initialized''))"

section \<open>\<open>profile.rs\<close>\<close>

definition flag_text :: "bool \<Rightarrow> string" where
  "flag_text b = (if b then ''true'' else ''false'')"

definition profile_lines :: "evaluation \<Rightarrow> string list" where
  "profile_lines ev =
     [''profile: '' @ eval_profile_name ev,
      ''remote: '' @ eval_remote_host ev @ '':'' @ eval_remote_port ev @ '' ('' @ eval_remote_proto ev @ '')'',
      ''autologin: '' @ flag_text (eval_autologin ev),
      ''external PKI: '' @ flag_text (eval_external_pki ev),
      ''DCO compatible: '' @ flag_text (eval_dco_compatible ev)]
     @ (if eval_dco_incompatibility_reason ev \<noteq> [] then [''DCO reason: '' @ eval_dco_incompatibility_reason ev] else [])
     @ map (\<lambda>server. ''server: '' @ srv_server server @ '' ('' @ srv_friendly_name server @ '')'') (eval_servers ev)"

definition profile_main :: "'n sys_api \<Rightarrow> program_env \<Rightarrow> (string list, program_error) result" where
  "profile_main api env =
     (case nth_arg env 1 of
        None \<Rightarrow> Err (Message ''usage: cargo run -p openvpn-connect --example profile -- client.ovpn'')
      | Some path \<Rightarrow>
          let merged = fst (merge_config_path api path True)
          in if mc_error_text merged \<noteq> [] then Err (Message (mc_error_text merged))
             else case fst (evaluate_config api (config_new (pe_target_os env) (pe_feature_dco env) (mc_profile_content merged))) of
                    Inl e \<Rightarrow> Err (Library e)
                  | Inr evaluation \<Rightarrow> Ok (profile_lines evaluation))"

section \<open>\<open>all_config.rs\<close>\<close>

definition all_config :: "'n sys_api \<Rightarrow> config" where
  "all_config api = \<lparr>
     cfg_content = ''client'' @ [CHR 0x0A] @ ''dev tun'' @ [CHR 0x0A] @ ''remote vpn.example.test 1194'' @ [CHR 0x0A],
     cfg_content_list = [(''verb'', ''3'')], cfg_peer_info = [(''IV_APP_VER'', ''1.0'')], cfg_gui_version = ''example 1.0'',
     cfg_sso_methods = ''webauth,crtext'', cfg_app_custom_protocols = ''example-protocol'', cfg_hw_addr_override = [],
     cfg_platform_version = [], cfg_server_override = [], cfg_port_override = [], cfg_proto_override = ''adaptive'',
     cfg_allow_unused_addr_families = ''default'', cfg_compression_mode = ''no'', cfg_external_pki_alias = [],
     cfg_private_key_password = [], cfg_tls_version_min_override = ''tls_1_2'', cfg_tls_cert_profile_override = ''preferred'',
     cfg_tls_cipher_list = [], cfg_tls_ciphersuites_list = [], cfg_proxy_host = [], cfg_proxy_port = [], cfg_proxy_username = [],
     cfg_proxy_password = [], cfg_alternative_proxy = False, cfg_gremlin_config = [], cfg_connection_timeout_seconds = 30,
     cfg_ssl_debug_level = 0, cfg_default_key_direction = - 1, cfg_protocol_version_override = 0, cfg_clock_tick_ms = 1000,
     cfg_tun_persist = True, cfg_google_dns_fallback = False, cfg_dhcp_search_domains_as_split_domains = True,
     cfg_synchronous_dns_lookup = False, cfg_autologin_sessions = True, cfg_retry_on_auth_failed = True,
     cfg_disable_client_cert = False, cfg_proxy_allow_cleartext_auth = False, cfg_dco = cap_dco (capabilities api),
     cfg_echo = True, cfg_info = True, cfg_allow_local_lan_access = False, cfg_enable_route_emulation = True, cfg_wintun = False,
     cfg_allow_local_dns_resolvers = False, cfg_enable_legacy_algorithms = False,
     cfg_enable_non_preferred_data_channel_algorithms = False, cfg_generate_tun_builder_capture_event = False\<rparr>"

section \<open>Lemmas\<close>

text \<open>An error that is not a refusal by the state of the client.\<close>

fun refusal :: "error \<Rightarrow> bool" where
  "refusal (InvalidState _) = True"
| "refusal _ = False"

lemma client_new_state:
  "client_new api = (Inr i, cs) \<Longrightarrow> in_lifecycle i = New \<and> \<not> in_stop_requested i
     \<and> count_list (sys_log (in_native i)) (Release AClient) = 0 \<and> count_list (sys_log (in_native i)) CallStop = 0"
  "client_new api = (Inl e, cs) \<Longrightarrow> \<not> refusal e"
  by (auto simp: client_new_def new_client_def Let_def status_error_def split: prod.splits option.splits if_splits)

text \<open>What the setup operations keep of a client that no session has used.\<close>

definition fresh :: "'n inner \<Rightarrow> bool" where
  "fresh i \<longleftrightarrow> in_lifecycle i \<in> {New, Ready} \<and> \<not> in_stop_requested i
     \<and> count_list (sys_log (in_native i)) (Release AClient) = 0 \<and> count_list (sys_log (in_native i)) CallStop = 0"

lemma evaluate_errors:
  "evaluate_value raw = Inl e \<Longrightarrow> \<not> refusal e" "validate_capabilities caps config = Inl e \<Longrightarrow> \<not> refusal e"
  by (auto simp only: evaluate_value_def validate_capabilities_def refusal.simps sum.inject sum.distinct split: if_splits)

lemma evaluate_fresh:
  assumes "client_evaluate api i config = (r, i')" "fresh i"
  shows "fresh i'" "r = Inl e \<Longrightarrow> \<not> refusal e" "r = Inr ev \<Longrightarrow> in_lifecycle i' = Ready"
proof -
  have "evaluate_guard (in_lifecycle i) = None" using assms(2) by (auto simp: fresh_def)
  then show "fresh i'" "r = Inl e \<Longrightarrow> \<not> refusal e" "r = Inr ev \<Longrightarrow> in_lifecycle i' = Ready"
    using assms by (auto simp: client_evaluate_def fresh_def evaluate_def dest: evaluate_errors
        split: sum.splits prod.splits)
qed

lemma credentials_fresh:
  assumes "client_provide_credentials api i credentials = (r, i')" "fresh i" "in_lifecycle i = Ready"
  shows "fresh i' \<and> in_lifecycle i' = Ready" "r = Inl e \<Longrightarrow> \<not> refusal e"
  using assms
  by (auto simp: client_provide_credentials_def fresh_def provide_credentials_def status_result_def status_value_def
      status_error_def split: prod.splits if_splits)

lemma read_errors:
  "read_profile usage env = Inl e \<Longrightarrow> e \<noteq> Library x" "read_credentials env = Inl e \<Longrightarrow> e \<noteq> Library x"
  by (auto simp: read_profile_def read_credentials_def lift_err_def split: option.splits sum.splits)

lemma inner_drop_fresh:
  "fresh i \<Longrightarrow> in_lifecycle (inner_drop api i) \<noteq> Finished
     \<and> count_list (sys_log (in_native (inner_drop api i))) (Release AClient) = 1
     \<and> count_list (sys_log (in_native (inner_drop api i))) CallStop = 1"
  by (auto simp: fresh_def inner_drop_def stop_def free_client_def)

lemma connect_ready:
  assumes "client_connect api (if enter then client_stop api i else i) = (r, i')" "fresh i" "in_lifecycle i = Ready"
  shows "in_lifecycle i' = Finished \<and> count_list (sys_log (in_native i')) (Release AClient) = 0"
    "r = Inl e \<Longrightarrow> \<not> refusal e"
  using assms
  by (auto simp: client_connect_def prepare_connect_def connect_lifecycle_reset_def fresh_def connect_def status_result_def
      status_value_def status_error_def client_stop_def stop_def split: prod.splits if_splits)

lemma sync_login_fresh:
  assumes "sync_login api env ev i = (r, i')" "fresh i" "in_lifecycle i = Ready"
  shows "fresh i' \<and> in_lifecycle i' = Ready" "r = Inl (Library e) \<Longrightarrow> \<not> refusal e"
  using assms credentials_fresh [OF _ assms(2,3)] read_errors(2) [of env]
  by (auto simp: sync_login_def split: if_splits sum.splits prod.splits)

lemma sync_client_cases:
  "fst (sync_client_main api enter env) \<noteq> Err (Library (InvalidState m))
   \<and> (case snd (sync_client_main api enter env) of
        None \<Rightarrow> True
      | Some i \<Rightarrow>
          (if in_lifecycle i = Finished then count_list (sys_log (in_native i)) (Release AClient) = 0
           else (\<exists>e. fst (sync_client_main api enter env) = Err e)
                \<and> count_list (sys_log (in_native i)) (Release AClient) = 1 \<and> count_list (sys_log (in_native i)) CallStop = 1))"
proof (cases "read_profile ''usage: cargo run -p openvpn-connect --example sync_client -- client.ovpn'' env")
  case (Inl e)
  then show ?thesis using read_errors(1) [OF Inl] by (simp add: sync_client_main_def)
next
  case profile: (Inr profile)
  obtain r cs where new: "client_new api = (r, cs)" by fastforce
  show ?thesis
  proof (cases r)
    case (Inl e)
    with profile new client_new_state(2) [of api e cs] show ?thesis by (auto simp: sync_client_main_def)
  next
    case made: (Inr i)
    have i: "fresh i" using client_new_state(1) [of api i cs] new made by (simp add: fresh_def)
    obtain re j where ev: "client_evaluate api i (config_new (pe_target_os env) (pe_feature_dco env) profile) = (re, j)" by fastforce
    note evf = evaluate_fresh [OF ev i]
    show ?thesis
    proof (cases re)
      case (Inl e)
      with profile new made ev inner_drop_fresh [OF evf(1), of api] evf(2) show ?thesis
        by (auto simp: sync_client_main_def)
    next
      case evaluated: (Inr evaluation)
      obtain rl k where login: "sync_login api env evaluation j = (rl, k)" by fastforce
      note lf = sync_login_fresh [OF login evf(1) evf(3) [OF evaluated]]
      show ?thesis
      proof (cases rl)
        case (Inl e)
        with profile new made ev evaluated login inner_drop_fresh [of k api] lf show ?thesis
          by (auto simp: sync_client_main_def)
      next
        case (Inr u)
        obtain rc l where conn: "client_connect api (if enter then client_stop api k else k) = (rc, l)" by fastforce
        from connect_ready [OF conn] lf(1) profile new made ev evaluated login Inr conn show ?thesis
          by (cases rc) (auto simp: sync_client_main_def)
      qed
    qed
  qed
qed

lemma setup_fresh:
  assumes "with_setup c join_error operation = (r, c')" "\<not> tc_session_active c"
  shows "\<not> tc_session_active c'"
    and "\<exists>x. (x, tc_core c') = operation (tc_core c) \<and> r = x \<or> tc_core c' = tc_core c \<and> (\<exists>e. r = Inl (Runtime e))"
  using assms by (auto simp: with_setup_def ensure_idle_def run_blocking_def flatten_join_def
      split: option.splits prod.splits)

lemma tokio_evaluate_fresh:
  assumes "tokio_evaluate api c je config = (r, c')" "\<not> tc_session_active c" "fresh (tc_core c)"
  shows "\<not> tc_session_active c' \<and> fresh (tc_core c')" "r = Inl e \<Longrightarrow> \<not> refusal e"
    "r = Inr ev \<Longrightarrow> in_lifecycle (tc_core c') = Ready"
proof -
  note s = setup_fresh [OF assms(1) [unfolded tokio_evaluate_def] assms(2)]
  from s(2) show "\<not> tc_session_active c' \<and> fresh (tc_core c')" "r = Inl e \<Longrightarrow> \<not> refusal e"
    "r = Inr ev \<Longrightarrow> in_lifecycle (tc_core c') = Ready"
    using s(1) assms(3) evaluate_fresh [of api "tc_core c" config r "tc_core c'"] by auto
qed

lemma tokio_login_fresh:
  assumes "tokio_login api env jc ev c = (r, c')" "\<not> tc_session_active c" "fresh (tc_core c)" "in_lifecycle (tc_core c) = Ready"
  shows "\<not> tc_session_active c' \<and> in_lifecycle (tc_core c') = Ready" "r = Inl (Library e) \<Longrightarrow> \<not> refusal e"
proof -
  have "\<not> tc_session_active d \<and> in_lifecycle (tc_core d) = Ready \<and> (\<forall>e. q = Inl e \<longrightarrow> \<not> refusal e)"
    if "tokio_provide_credentials api c jc credentials = (q, d)" for credentials q d
    using setup_fresh [OF that [unfolded tokio_provide_credentials_def] assms(2)] assms(3,4)
      credentials_fresh [of api "tc_core c" credentials q "tc_core d"] by auto
  with assms read_errors(2) [of env] show "\<not> tc_session_active c' \<and> in_lifecycle (tc_core c') = Ready"
    "r = Inl (Library e) \<Longrightarrow> \<not> refusal e"
    by (auto simp: tokio_login_def split: if_splits sum.splits prod.splits)
qed

lemma tokio_setup_cases:
  assumes "built \<noteq> Panicked"
    and "\<And>c. built = Returned (Inr c) \<Longrightarrow> \<not> tc_session_active c \<and> fresh (tc_core c)"
    and "\<And>e. built = Returned (Inl e) \<Longrightarrow> \<not> refusal e"
  shows "tokio_setup api usage built je jc env \<noteq> Panicked
    \<and> tokio_setup api usage built je jc env \<noteq> Returned (Err (Library (InvalidState m)))
    \<and> (\<forall>c. tokio_setup api usage built je jc env = Returned (Ok c) \<longrightarrow>
          in_lifecycle (tc_core c) = Ready \<and> tc_session_active c)"
proof (cases "read_profile usage env")
  case (Inl e)
  then show ?thesis using read_errors(1) [OF Inl] by (simp add: tokio_setup_def)
next
  case profile: (Inr profile)
  from assms(1) obtain made where built: "built = Returned made" by (cases built) auto
  show ?thesis
  proof (cases made)
    case (Inl e)
    with profile built assms(3) [of e] show ?thesis by (auto simp: tokio_setup_def)
  next
    case made: (Inr c)
    have c: "\<not> tc_session_active c" "fresh (tc_core c)" using assms(2) built made by auto
    obtain re d where ev: "tokio_evaluate api c je (config_new (pe_target_os env) (pe_feature_dco env) profile) = (re, d)"
      by fastforce
    note evf = tokio_evaluate_fresh [OF ev c]
    show ?thesis
    proof (cases re)
      case (Inl e)
      with profile built made ev evf(2) show ?thesis by (auto simp: tokio_setup_def)
    next
      case evaluated: (Inr evaluation)
      obtain rl k where login: "tokio_login api env jc evaluation d = (rl, k)" by fastforce
      have d: "\<not> tc_session_active d" "fresh (tc_core d)" "in_lifecycle (tc_core d) = Ready" using evf evaluated by auto
      note lf = tokio_login_fresh [OF login d]
      have "connect_claim k = (Inr (), k\<lparr>tc_session_active := True\<rparr>)"
        using lf(1) by (simp add: connect_claim_def ensure_connectable_def)
      with profile built made ev evaluated login lf show ?thesis by (cases rl) (auto simp: tokio_setup_def)
    qed
  qed
qed

lemma client_new_fresh: "fst (client_new api) = Inr i \<Longrightarrow> fresh i" "fst (client_new api) = Inl e \<Longrightarrow> \<not> refusal e"
  using client_new_state [of api _ "snd (client_new api)"] by (auto simp: fresh_def prod_eq_iff)

lemma build_fresh:
  assumes "cb_event_capacity b \<noteq> 0" "cb_log_capacity b \<noteq> 0" "cb_app_control_capacity b \<noteq> 0"
  shows "build api rt b \<noteq> Panicked"
    and "build api rt b = Returned (Inr c) \<Longrightarrow> \<not> tc_session_active c \<and> fresh (tc_core c)"
    and "build api rt b = Returned (Inl e) \<Longrightarrow> \<not> refusal e"
  using assms by (auto simp: build_def channel_def client_new_fresh split: builder_handler.splits sum.splits)

lemma default_capacities:
  "cb_event_capacity client_builder_default \<noteq> 0" "cb_log_capacity client_builder_default \<noteq> 0"
  "cb_app_control_capacity client_builder_default \<noteq> 0"
  by (simp_all add: client_builder_default_def DEFAULT_BROADCAST_CAPACITY_def)

lemma udp_run_setup_built:
  "cb_event_capacity (builder_handler_sync client_builder_default h) \<noteq> 0"
  "cb_log_capacity (builder_handler_sync client_builder_default h) \<noteq> 0"
  "cb_app_control_capacity (builder_handler_sync client_builder_default h) \<noteq> 0"
  using default_capacities by (simp_all add: builder_handler_sync_def)

lemma tokio_client_setup_cases:
  "tokio_client_setup api rt je jc env \<noteq> Panicked
   \<and> tokio_client_setup api rt je jc env \<noteq> Returned (Err (Library (InvalidState m)))
   \<and> (\<forall>c. tokio_client_setup api rt je jc env = Returned (Ok c) \<longrightarrow> in_lifecycle (tc_core c) = Ready \<and> tc_session_active c)"
  unfolding tokio_client_setup_def tokio_without_callbacks_def
  by (rule tokio_setup_cases [OF build_fresh [OF default_capacities]])

lemma udp_run_setup_cases:
  "udp_run_setup api io_api rt je jc env \<noteq> Panicked
   \<and> udp_run_setup api io_api rt je jc env \<noteq> Returned (Err (Library (InvalidState m)))
   \<and> (\<forall>c. udp_run_setup api io_api rt je jc env = Returned (Ok c) \<longrightarrow> in_lifecycle (tc_core c) = Ready \<and> tc_session_active c)"
  unfolding udp_run_setup_def tokio_new_def
  by (rule tokio_setup_cases [OF build_fresh [OF udp_run_setup_built]])

section \<open>Properties\<close>


text \<open>Without a client the program reports the library's error; otherwise the client was stopped and freed once.\<close>

definition frees_once :: "(string, program_error) result \<times> 'n inner option \<Rightarrow> bool" where
  "frees_once run \<longleftrightarrow>
     (case snd run of None \<Rightarrow> (\<exists>e. fst run = Err (Library e))
      | Some i \<Rightarrow> count_list (sys_log (in_native i)) (Release AClient) = 1 \<and> count_list (sys_log (in_native i)) CallStop = 1)"

text \<open>
  The synchronous examples free their client.  The one that connects does so exactly once, with
  one stop before, when it fails before connecting; when it got as far as connecting the client is
  finished and still held by the control thread.  The ones that only create a client stop and free
  it exactly once.  The asynchronous one reports a missing runtime instead of panicking.
\<close>

theorem examples_free_client:
  "(case snd (sync_client_main api enter env) of
      None \<Rightarrow> True
    | Some i \<Rightarrow>
        (if in_lifecycle i = Finished then count_list (sys_log (in_native i)) (Release AClient) = 0
         else (\<exists>e. fst (sync_client_main api enter env) = Err e)
              \<and> count_list (sys_log (in_native i)) (Release AClient) = 1 \<and> count_list (sys_log (in_native i)) CallStop = 1))
   \<and> frees_once (platform_callbacks_main api) \<and> frees_once (external_tun_main api)
   \<and> async_callbacks_main api (Inl e :: string + 'rt)
       = Returned (Err (Library (Runtime (''an active Tokio runtime is required for async callbacks: '' @ e))))"
proof (intro conjI)
  have "frees_once (handler_main api line)" for line
    using inner_drop_fresh [of _ api] client_new_fresh(1) [of api] by (simp add: frees_once_def handler_main_def split: sum.splits)
  then show "frees_once (platform_callbacks_main api)" "frees_once (external_tun_main api)"
    by (simp_all only: platform_callbacks_main_def external_tun_main_def)
  show "async_callbacks_main api (Inl e :: string + 'rt)
       = Returned (Err (Library (Runtime (''an active Tokio runtime is required for async callbacks: '' @ e))))"
    by (simp add: async_callbacks_main_def tokio_new_async_def build_def builder_handler_async_def channel_def default_capacities)
qed (use sync_client_cases [of api enter env] in simp)

text \<open>
  The event task prints every event of a channel that never overflowed; after an overflow it ends at
  the report of the lag and prints none of the events that were retained.
\<close>

theorem event_task_ends_at_lag:
  "event_task (delivered retained es) =
     (if length es \<le> retained then map (\<lambda>e. ''event '' @ evt_name e @ '': '' @ evt_info e) es else [])"
proof -
  have "event_task (map Got es) = map (\<lambda>e. ''event '' @ evt_name e @ '': '' @ evt_info e) es" by (induction es) simp_all
  then show ?thesis by (simp add: delivered_def)
qed

text \<open>A command that is queued when the cancelled driver leaves its loop is dropped unanswered.\<close>

lemma cancelled_driver_drops:
  assumes "ru_driver s = Selecting" "ru_cancelled s" "ru_worker s = InCore" "ru_queue s = [(i, c)]"
  obtains t where "(session_step api)\<^sup>*\<^sup>* s t" "ru_driver t = Exited" "ru_dropped t = [i]" "ru_replies t = ru_replies s"
proof -
  define s1 where "s1 = s\<lparr>ru_core := client_stop api (ru_core s), ru_driver := Awaiting\<rparr>"
  obtain r sys' where r: "status_result (fst (ovpn_client_connect_started api (sys_core (in_native (ru_core s1)))))
      (in_native (ru_core s1)) = (r, sys')" by fastforce
  define s2 where "s2 = s1\<lparr>ru_core := connect_lifecycle_reset ((ru_core s1)\<lparr>in_native := sys'\<rparr>),
      ru_started := drop_sender (ru_started s1), ru_worker := Joined (Inr r)\<rparr>"
  define s3 where "s3 = s2\<lparr>ru_driver := Broke (flatten_join (Inr r))\<rparr>"
  define s4 where "s4 = (active_guard_drop api s3)\<lparr>ru_driver := Unguarded (flatten_join (Inr r))\<rparr>"
  define s5 where "s5 = s4\<lparr>ru_completion := send_once (flatten_join (Inr r)) (ru_completion s4), ru_driver := Exited,
      ru_queue := [], ru_dropped := map fst (ru_queue s4)\<rparr>"
  have "session_step api s s1" unfolding s1_def by (intro session_step_intros(2) select_cancelled assms)
  moreover have "session_step api s1 s2" unfolding s2_def
    by (intro session_step_intros(1) returned r) (simp add: s1_def assms)
  moreover have "session_step api s2 s3" unfolding s3_def
    by (intro session_step_intros(2) await_joined) (simp_all add: s2_def s1_def)
  moreover have "session_step api s3 s4" unfolding s4_def
    by (intro session_step_intros(2) drop_guard) (simp add: s3_def)
  moreover have "session_step api s4 s5" unfolding s5_def
    by (intro session_step_intros(2) send_completion) (simp add: s4_def)
  ultimately have "(session_step api)\<^sup>*\<^sup>* s s5" by (meson converse_rtranclp_into_rtranclp rtranclp.rtrancl_refl)
  then show ?thesis
    by (rule that) (simp_all add: s5_def s4_def s3_def s2_def s1_def active_guard_drop_def assms)
qed

lemma fresh_request_unanswered: "session_inv s \<Longrightarrow> map_of (ru_replies s) (ru_next s) = None"
proof -
  assume "session_inv s"
  then have "set (map fst (ru_replies s)) \<subseteq> set [0..<ru_next s]"
    using session_inv_parts(1) by (metis queue_inv_def set_append sup_ge1)
  then show ?thesis by (auto simp: map_of_eq_None_iff)
qed

text \<open>
  C31: Ctrl-C may end the UDP example with an error although the session ends as requested.  The select
  has dropped, and so cancelled, the session before the handler of the signal sends its stop
  command: from every idle running session there is a run in which the driver notices the
  cancellation first and exits without answering, so that \<open>handle.stop()\<close> and with it \<open>run\<close> fail
  with \<open>SessionClosed\<close>.
\<close>

theorem udp_run_signal_may_fail:
  assumes "session_reachable api s" "ru_driver s = Selecting" "ru_worker s = InCore" "ru_caller s = Holding" "ru_senders s"
    and "ru_queue s = []" "0 < ru_capacity s" "\<not> se_completed se"
  shows "\<exists>i s1 s2. udp_run_signal api se s = (Ready_poll (Some i), s1) \<and> session_reachable api s1
     \<and> (session_step api)\<^sup>*\<^sup>* s1 s2 \<and> handle_stop (Some i) s2 = (Ready_poll (Err SessionClosed), s2)
     \<and> udp_run_end (SignalWon (Ok ())) (Err SessionClosed) = Err (Library SessionClosed)"
proof -
  let ?i = "ru_next s"
  define sa where "sa = s\<lparr>ru_cancelled := True\<rparr>"
  define sb where "sb = sa\<lparr>ru_core := client_stop api (ru_core sa)\<rparr>"
  define s1 where "s1 = sb\<lparr>ru_queue := ru_queue sb @ [(ru_next sb, Stop)], ru_next := Suc (ru_next sb)\<rparr>"
  have signal: "udp_run_signal api se s = (Ready_poll (Some ?i), s1)"
    using assms by (simp add: udp_run_signal_def session_drop_def handle_cancel_def handle_send_def s1_def sb_def sa_def)
  have "session_reachable api sa" unfolding sa_def
    by (intro session_reachable_step [OF assms(1)] session_step_intros(3) cancel_token assms)
  then have "session_reachable api sb" unfolding sb_def
    by (rule session_reachable_step) (intro session_step_intros(3) cancel_core, simp_all add: sa_def assms)
  then have r1: "session_reachable api s1" unfolding s1_def
    by (rule session_reachable_step) (intro session_step_intros(3) submit, simp_all add: sb_def sa_def assms)
  obtain s2 where s2: "(session_step api)\<^sup>*\<^sup>* s1 s2" "ru_driver s2 = Exited" "ru_dropped s2 = [?i]" "ru_replies s2 = ru_replies s1"
    by (rule cancelled_driver_drops [of s1 ?i Stop api]) (simp_all add: s1_def sb_def sa_def assms)
  have "map_of (ru_replies s2) ?i = None"
    using s2(4) fresh_request_unanswered [OF session_reachable_inv [OF assms(1)]] by (simp add: s1_def sb_def sa_def)
  then have "handle_stop (Some ?i) s2 = (Ready_poll (Err SessionClosed), s2)"
    using s2(3) by (simp add: handle_stop_def request_outcome_def response_def query_def)
  moreover have "udp_run_end (SignalWon (Ok ())) (Err SessionClosed) = Err (Library SessionClosed)"
    by (simp add: udp_run_end_def lift_err_def)
  ultimately show ?thesis using signal r1 s2(1) by blast
qed

theorem udp_run_signal_may_fail_witness:
  "\<exists>i s1 s2. udp_run_signal sample_api \<lparr>se_completion = Some Empty, se_completed = False\<rparr> sample_started = (Ready_poll (Some i), s1)
     \<and> (session_step sample_api)\<^sup>*\<^sup>* s1 s2 \<and> handle_stop (Some i) s2 = (Ready_poll (Err SessionClosed), s2)"
proof -
  have "ru_driver sample_started = Selecting" "ru_worker sample_started = InCore" "ru_caller sample_started = Holding"
    "ru_senders sample_started" "ru_queue sample_started = []" "0 < ru_capacity sample_started"
    by (simp_all add: sample_started_def session_start_def sample_tokio_def Let_def)
  from udp_run_signal_may_fail [OF sample_started_reachable this, of "\<lparr>se_completion = Some Empty, se_completed = False\<rparr>"]
  show ?thesis by (simp, blast)
qed

end
