(* ===== verification/Crypto_Backend.thy ===== *)
theory Crypto_Backend
  imports Rust_Prelude
begin

text \<open>
  The cryptographic callbacks of \<open>rust_backend/crypto.rs\<close>.  The RustCrypto primitives are a
  parameter; modelled are the algorithm tables, the handles with their buffering, every
  check and every error path of the callbacks, the panics they catch, and what they leave
  in the caller's buffers.  A handle pointer is an option (\<open>None\<close> is null), and input and
  output buffers of one call do not overlap, as the slices built from them demand.
\<close>

section \<open>Algorithms\<close>

abbreviation AES_128_CBC :: u32 where "AES_128_CBC \<equiv> 1"
abbreviation AES_192_CBC :: u32 where "AES_192_CBC \<equiv> 2"
abbreviation AES_256_CBC :: u32 where "AES_256_CBC \<equiv> 3"
abbreviation DES_CBC :: u32 where "DES_CBC \<equiv> 4"
abbreviation DES_EDE3_CBC :: u32 where "DES_EDE3_CBC \<equiv> 5"
abbreviation BF_CBC :: u32 where "BF_CBC \<equiv> 6"
abbreviation AES_256_CTR :: u32 where "AES_256_CTR \<equiv> 7"
abbreviation AES_128_GCM :: u32 where "AES_128_GCM \<equiv> 8"
abbreviation AES_192_GCM :: u32 where "AES_192_GCM \<equiv> 9"
abbreviation AES_256_GCM :: u32 where "AES_256_GCM \<equiv> 10"
abbreviation CHACHA20_POLY1305 :: u32 where "CHACHA20_POLY1305 \<equiv> 11"
abbreviation MD4 :: u32 where "MD4 \<equiv> 12"
abbreviation MD5 :: u32 where "MD5 \<equiv> 13"
abbreviation SHA1 :: u32 where "SHA1 \<equiv> 14"
abbreviation SHA224 :: u32 where "SHA224 \<equiv> 15"
abbreviation SHA256 :: u32 where "SHA256 \<equiv> 16"
abbreviation SHA384 :: u32 where "SHA384 \<equiv> 17"
abbreviation SHA512 :: u32 where "SHA512 \<equiv> 18"

type_synonym bytes = "u8 list"
type_synonym 'a sres = "('a, string) result"

definition is_cipher_supported :: "u32 \<Rightarrow> bool" where
  "is_cipher_supported algorithm \<longleftrightarrow>
     algorithm \<in> {AES_128_CBC, AES_192_CBC, AES_256_CBC, DES_CBC, DES_EDE3_CBC, BF_CBC, AES_256_CTR}"

definition is_aead_supported :: "u32 \<Rightarrow> bool" where
  "is_aead_supported algorithm \<longleftrightarrow> algorithm \<in> {AES_128_GCM, AES_192_GCM, AES_256_GCM, CHACHA20_POLY1305}"

definition cipher_key_size :: "u32 \<Rightarrow> usize sres" where
  "cipher_key_size algorithm =
     (if algorithm \<in> {AES_128_CBC, AES_128_GCM, BF_CBC} then Ok 16
      else if algorithm \<in> {AES_192_CBC, AES_192_GCM, DES_EDE3_CBC} then Ok 24
      else if algorithm \<in> {AES_256_CBC, AES_256_CTR, AES_256_GCM, CHACHA20_POLY1305} then Ok 32
      else if algorithm = DES_CBC then Ok 8
      else Err [])"

definition cipher_iv_size :: "u32 \<Rightarrow> usize sres" where
  "cipher_iv_size algorithm =
     (if algorithm \<in> {AES_128_CBC, AES_192_CBC, AES_256_CBC, AES_256_CTR} then Ok 16
      else if algorithm \<in> {DES_CBC, DES_EDE3_CBC, BF_CBC} then Ok 8
      else if algorithm \<in> {AES_128_GCM, AES_192_GCM, AES_256_GCM, CHACHA20_POLY1305} then Ok 12
      else Err [])"

definition digest_size_for :: "u32 \<Rightarrow> usize sres" where
  "digest_size_for algorithm =
     (if algorithm \<in> {MD4, MD5} then Ok 16
      else if algorithm = SHA1 then Ok 20
      else if algorithm = SHA224 then Ok 28
      else if algorithm = SHA256 then Ok 32
      else if algorithm = SHA384 then Ok 48
      else if algorithm = SHA512 then Ok 64
      else Err [])"

section \<open>The primitives as a parameter\<close>

datatype hash_type = Md4 | Md5 | Sha1 | Sha224 | Sha256 | Sha384 | Sha512
datatype block_type = Aes128 | Aes192 | Aes256 | Des | TdesEde3 | Blowfish
datatype aead_type = Aes128Gcm | Aes192Gcm | Aes256Gcm | ChaCha20Poly1305

text \<open>
  \<open>pr_cbc_encrypt t key iv data\<close> is \<open>Encryptor::new_from_slices\<close> followed by
  \<open>encrypt_padded_vec_mut::<Pkcs7>\<close>, with the text of the error of the former; the decryptor
  and the CTR stream cipher are alike.  \<open>pr_aead_new\<close> is \<open>new_from_slice\<close>;
  \<open>pr_from_slice n\<close> is the conversion of a slice into a fixed array of \<open>n\<close> bytes.
  The in-place AEAD operations return the buffer they leave.
\<close>

record prims =
  pr_getrandom :: "nat \<Rightarrow> bytes sres"
  pr_digest :: "hash_type \<Rightarrow> bytes \<Rightarrow> bytes"
  pr_hmac :: "hash_type \<Rightarrow> bytes \<Rightarrow> bytes \<Rightarrow> bytes sres"
  pr_cbc_encrypt :: "block_type \<Rightarrow> bytes \<Rightarrow> bytes \<Rightarrow> bytes \<Rightarrow> bytes sres"
  pr_cbc_decrypt :: "block_type \<Rightarrow> bytes \<Rightarrow> bytes \<Rightarrow> bytes \<Rightarrow> bytes sres"
  pr_ctr :: "bytes \<Rightarrow> bytes \<Rightarrow> bytes \<Rightarrow> bytes sres"
  pr_aead_new :: "aead_type \<Rightarrow> bytes \<Rightarrow> unit sres"
  pr_from_slice :: "nat \<Rightarrow> bytes \<Rightarrow> bytes outcome"
  pr_aead_encrypt :: "aead_type \<Rightarrow> bytes \<Rightarrow> bytes \<Rightarrow> bytes \<Rightarrow> bytes \<Rightarrow> bytes sres \<times> bytes"
  pr_aead_decrypt :: "aead_type \<Rightarrow> bytes \<Rightarrow> bytes \<Rightarrow> bytes \<Rightarrow> bytes \<Rightarrow> bytes \<Rightarrow> unit sres \<times> bytes"

section \<open>Helpers\<close>

definition ffi_status :: "unit sres outcome \<Rightarrow> i32" where
  "ffi_status operation = (case operation of Returned (Inr _) \<Rightarrow> 1 | _ \<Rightarrow> 0)"

definition ffi_length :: "usize sres outcome \<Rightarrow> usize" where
  "ffi_length operation = (case operation of Returned (Inr n) \<Rightarrow> n | _ \<Rightarrow> 0)"

definition ffi_pointer :: "'h sres outcome \<Rightarrow> 'h option" where
  "ffi_pointer operation = (case operation of Returned (Inr handle) \<Rightarrow> Some handle | _ \<Rightarrow> None)"

definition input_slice :: "u8 ptr \<Rightarrow> usize \<Rightarrow> bytes sres" where
  "input_slice input len =
     (if len = 0 then Ok []
      else case input of None \<Rightarrow> Err ''null input'' | Some mem \<Rightarrow> Ok (take len mem))"

definition output_slice :: "u8 ptr \<Rightarrow> usize \<Rightarrow> bytes sres" where
  "output_slice output len =
     (if len = 0 then Ok []
      else case output of None \<Rightarrow> Err ''null output'' | Some mem \<Rightarrow> Ok (take len mem))"

text \<open>Writing through a slice of the output writes the memory behind the pointer.\<close>

definition write_output :: "bytes \<Rightarrow> u8 ptr \<Rightarrow> u8 ptr" where
  "write_output value output = map_option (write_prefix value) output"

definition copy_output :: "u8 ptr \<Rightarrow> usize \<Rightarrow> bytes \<Rightarrow> usize sres \<times> u8 ptr" where
  "copy_output output capacity value =
     (if capacity < length value then (Err ''output buffer is too small'', output)
      else case output_slice output capacity of
             Inl e \<Rightarrow> (Err e, output)
           | Inr _ \<Rightarrow> (Ok (length value), write_output value output))"

definition handle_mut :: "'h option \<Rightarrow> 'h sres" where
  "handle_mut handle = (case handle of None \<Rightarrow> Err ''null handle'' | Some h \<Rightarrow> Ok h)"

abbreviation handle_ref :: "'h option \<Rightarrow> 'h sres" where
  "handle_ref \<equiv> handle_mut"

text \<open>\<open>free_handle\<close>: the pointer is not usable afterwards.\<close>

definition free_handle :: "'h option \<Rightarrow> 'h option" where
  "free_handle handle = None"

text \<open>\<open>output\<close> is where \<open>getrandom::fill\<close> writes; its error leaves the buffer as it was.\<close>

definition random :: "prims \<Rightarrow> u8 ptr \<Rightarrow> usize \<Rightarrow> i32 \<times> u8 ptr" where
  "random p output output_len =
     (case output_slice output output_len of
        Inl e \<Rightarrow> (ffi_status (Returned (Err e)), output)
      | Inr part \<Rightarrow>
          (case pr_getrandom p (length part) of
             Inl e \<Rightarrow> (ffi_status (Returned (Err e)), output)
           | Inr value \<Rightarrow> (ffi_status (Returned (Ok ())), write_output value output)))"

section \<open>Digests and HMACs\<close>

record digest_handle =
  dh_algorithm :: u32
  dh_data :: bytes

record hmac_handle =
  hh_algorithm :: u32
  hh_key :: bytes
  hh_data :: bytes

definition hash_of :: "u32 \<Rightarrow> hash_type option" where
  "hash_of algorithm =
     (if algorithm = MD4 then Some Md4 else if algorithm = MD5 then Some Md5
      else if algorithm = SHA1 then Some Sha1 else if algorithm = SHA224 then Some Sha224
      else if algorithm = SHA256 then Some Sha256 else if algorithm = SHA384 then Some Sha384
      else if algorithm = SHA512 then Some Sha512 else None)"

definition compute_digest :: "prims \<Rightarrow> u32 \<Rightarrow> bytes \<Rightarrow> bytes sres" where
  "compute_digest p algorithm data =
     (case hash_of algorithm of
        None \<Rightarrow> Err ''unsupported digest'' | Some t \<Rightarrow> Ok (pr_digest p t data))"

definition compute_hmac :: "prims \<Rightarrow> u32 \<Rightarrow> bytes \<Rightarrow> bytes \<Rightarrow> bytes sres" where
  "compute_hmac p algorithm key data =
     (case hash_of algorithm of
        None \<Rightarrow> Err ''unsupported HMAC'' | Some t \<Rightarrow> pr_hmac p t key data)"

definition digest_new :: "u32 \<Rightarrow> digest_handle option" where
  "digest_new algorithm =
     ffi_pointer (Returned (and_then (digest_size_for algorithm)
       (\<lambda>_. Ok \<lparr>dh_algorithm = algorithm, dh_data = []\<rparr>)))"

definition digest_free :: "digest_handle option \<Rightarrow> digest_handle option" where
  "digest_free handle = free_handle handle"

definition digest_update :: "digest_handle option \<Rightarrow> u8 ptr \<Rightarrow> usize \<Rightarrow> i32 \<times> digest_handle option" where
  "digest_update handle input input_len =
     (case and_then (handle_mut handle) (\<lambda>h. and_then (input_slice input input_len)
             (\<lambda>part. Ok (h\<lparr>dh_data := dh_data h @ part\<rparr>))) of
        Inl e \<Rightarrow> (ffi_status (Returned (Err e)), handle)
      | Inr h \<Rightarrow> (ffi_status (Returned (Ok ())), Some h))"

definition digest_final :: "prims \<Rightarrow> digest_handle option \<Rightarrow> u8 ptr \<Rightarrow> usize \<Rightarrow> usize \<times> u8 ptr" where
  "digest_final p handle output output_capacity =
     (case and_then (handle_mut handle) (\<lambda>h. compute_digest p (dh_algorithm h) (dh_data h)) of
        Inl e \<Rightarrow> (ffi_length (Returned (Err e)), output)
      | Inr digest \<Rightarrow> apfst (\<lambda>r. ffi_length (Returned r)) (copy_output output output_capacity digest))"

definition digest_size :: "digest_handle option \<Rightarrow> usize" where
  "digest_size handle = ffi_length (Returned (and_then (handle_ref handle) (\<lambda>h. digest_size_for (dh_algorithm h))))"

definition hmac_new :: "u32 \<Rightarrow> u8 ptr \<Rightarrow> usize \<Rightarrow> hmac_handle option" where
  "hmac_new algorithm key key_len =
     ffi_pointer (Returned (and_then (digest_size_for algorithm) (\<lambda>_. and_then (input_slice key key_len)
       (\<lambda>key. Ok \<lparr>hh_algorithm = algorithm, hh_key = key, hh_data = []\<rparr>))))"

definition hmac_free :: "hmac_handle option \<Rightarrow> hmac_handle option" where
  "hmac_free handle = free_handle handle"

definition hmac_reset :: "hmac_handle option \<Rightarrow> i32 \<times> hmac_handle option" where
  "hmac_reset handle =
     (case handle_mut handle of
        Inl e \<Rightarrow> (ffi_status (Returned (Err e)), handle)
      | Inr h \<Rightarrow> (ffi_status (Returned (Ok ())), Some (h\<lparr>hh_data := []\<rparr>)))"

definition hmac_update :: "hmac_handle option \<Rightarrow> u8 ptr \<Rightarrow> usize \<Rightarrow> i32 \<times> hmac_handle option" where
  "hmac_update handle input input_len =
     (case and_then (handle_mut handle) (\<lambda>h. and_then (input_slice input input_len)
             (\<lambda>part. Ok (h\<lparr>hh_data := hh_data h @ part\<rparr>))) of
        Inl e \<Rightarrow> (ffi_status (Returned (Err e)), handle)
      | Inr h \<Rightarrow> (ffi_status (Returned (Ok ())), Some h))"

definition hmac_final :: "prims \<Rightarrow> hmac_handle option \<Rightarrow> u8 ptr \<Rightarrow> usize \<Rightarrow> usize \<times> u8 ptr" where
  "hmac_final p handle output output_capacity =
     (case and_then (handle_mut handle) (\<lambda>h. compute_hmac p (hh_algorithm h) (hh_key h) (hh_data h)) of
        Inl e \<Rightarrow> (ffi_length (Returned (Err e)), output)
      | Inr digest \<Rightarrow> apfst (\<lambda>r. ffi_length (Returned r)) (copy_output output output_capacity digest))"

definition hmac_size :: "hmac_handle option \<Rightarrow> usize" where
  "hmac_size handle = ffi_length (Returned (and_then (handle_ref handle) (\<lambda>h. digest_size_for (hh_algorithm h))))"

section \<open>Ciphers\<close>

record cipher_handle =
  ch_algorithm :: u32
  ch_key :: bytes
  ch_iv :: bytes
  ch_data :: bytes
  ch_encrypt :: bool

definition block_of :: "u32 \<Rightarrow> block_type option" where
  "block_of algorithm =
     (if algorithm = AES_128_CBC then Some Aes128 else if algorithm = AES_192_CBC then Some Aes192
      else if algorithm = AES_256_CBC then Some Aes256 else if algorithm = DES_CBC then Some Des
      else if algorithm = DES_EDE3_CBC then Some TdesEde3 else if algorithm = BF_CBC then Some Blowfish
      else None)"

definition crypt_cipher :: "prims \<Rightarrow> cipher_handle \<Rightarrow> bytes sres" where
  "crypt_cipher p h =
     (case block_of (ch_algorithm h) of
        Some t \<Rightarrow> (if ch_encrypt h then pr_cbc_encrypt p t (ch_key h) (ch_iv h) (ch_data h)
                   else pr_cbc_decrypt p t (ch_key h) (ch_iv h) (ch_data h))
      | None \<Rightarrow>
          if ch_algorithm h = AES_256_CTR then pr_ctr p (ch_key h) (ch_iv h) (ch_data h)
          else Err ''unsupported cipher'')"

definition cipher_new :: "u32 \<Rightarrow> u8 ptr \<Rightarrow> usize \<Rightarrow> i32 \<Rightarrow> cipher_handle option" where
  "cipher_new algorithm key key_len encrypt =
     ffi_pointer (Returned (
       if \<not> is_cipher_supported algorithm then Err ''unsupported cipher''
       else and_then (cipher_key_size algorithm) (\<lambda>expected. and_then (input_slice key key_len) (\<lambda>key.
         if length key < expected then Err ''insufficient cipher key''
         else Ok \<lparr>ch_algorithm = algorithm, ch_key = take expected key, ch_iv = [], ch_data = [],
                  ch_encrypt = (encrypt \<noteq> 0)\<rparr>))))"

definition cipher_free :: "cipher_handle option \<Rightarrow> cipher_handle option" where
  "cipher_free handle = free_handle handle"

definition cipher_reset :: "cipher_handle option \<Rightarrow> u8 ptr \<Rightarrow> usize \<Rightarrow> i32 \<times> cipher_handle option" where
  "cipher_reset handle iv iv_len =
     (case and_then (handle_mut handle) (\<lambda>h. and_then (cipher_iv_size (ch_algorithm h)) (\<lambda>expected.
             and_then (input_slice iv iv_len) (\<lambda>iv.
               if length iv < expected then Err ''insufficient cipher IV''
               else Ok (h\<lparr>ch_iv := take expected iv, ch_data := []\<rparr>)))) of
        Inl e \<Rightarrow> (ffi_status (Returned (Err e)), handle)
      | Inr h \<Rightarrow> (ffi_status (Returned (Ok ())), Some h))"

definition cipher_update :: "cipher_handle option \<Rightarrow> u8 ptr \<Rightarrow> usize \<Rightarrow> i32 \<times> cipher_handle option" where
  "cipher_update handle input input_len =
     (case and_then (handle_mut handle) (\<lambda>h. and_then (input_slice input input_len)
             (\<lambda>part. Ok (h\<lparr>ch_data := ch_data h @ part\<rparr>))) of
        Inl e \<Rightarrow> (ffi_status (Returned (Err e)), handle)
      | Inr h \<Rightarrow> (ffi_status (Returned (Ok ())), Some h))"

definition cipher_final :: "prims \<Rightarrow> cipher_handle option \<Rightarrow> u8 ptr \<Rightarrow> usize \<Rightarrow> usize \<times> u8 ptr" where
  "cipher_final p handle output output_capacity =
     (case and_then (handle_mut handle) (crypt_cipher p) of
        Inl e \<Rightarrow> (ffi_length (Returned (Err e)), output)
      | Inr result \<Rightarrow> apfst (\<lambda>r. ffi_length (Returned r)) (copy_output output output_capacity result))"

definition cipher_supported :: "u32 \<Rightarrow> i32" where
  "cipher_supported algorithm = bool_i32 (is_cipher_supported algorithm)"

section \<open>AEAD\<close>

record aead_handle =
  ah_algorithm :: u32
  ah_key :: bytes
  ah_encrypt :: bool

definition aead_of :: "u32 \<Rightarrow> aead_type option" where
  "aead_of algorithm =
     (if algorithm = AES_128_GCM then Some Aes128Gcm else if algorithm = AES_192_GCM then Some Aes192Gcm
      else if algorithm = AES_256_GCM then Some Aes256Gcm
      else if algorithm = CHACHA20_POLY1305 then Some ChaCha20Poly1305 else None)"

definition aead_new :: "u32 \<Rightarrow> u8 ptr \<Rightarrow> usize \<Rightarrow> i32 \<Rightarrow> aead_handle option" where
  "aead_new algorithm key key_len encrypt =
     ffi_pointer (Returned (
       if \<not> is_aead_supported algorithm then Err ''unsupported AEAD cipher''
       else and_then (cipher_key_size algorithm) (\<lambda>expected. and_then (input_slice key key_len) (\<lambda>key.
         if length key < expected then Err ''insufficient AEAD key''
         else Ok \<lparr>ah_algorithm = algorithm, ah_key = take expected key, ah_encrypt = (encrypt \<noteq> 0)\<rparr>))))"

definition aead_free :: "aead_handle option \<Rightarrow> aead_handle option" where
  "aead_free handle = free_handle handle"

text \<open>The result of the in-place operation and the buffer it leaves.\<close>

definition encrypt_aead ::
  "prims \<Rightarrow> aead_handle \<Rightarrow> bytes \<Rightarrow> bytes \<Rightarrow> bytes \<Rightarrow> bytes sres outcome \<times> bytes" where
  "encrypt_aead p h buffer nonce additional_data =
     (case aead_of (ah_algorithm h) of
        None \<Rightarrow> (Returned (Err ''unsupported AEAD cipher''), buffer)
      | Some t \<Rightarrow>
          (case pr_aead_new p t (ah_key h) of
             Inl e \<Rightarrow> (Returned (Err e), buffer)
           | Inr _ \<Rightarrow>
               (case pr_from_slice p 12 nonce of
                  Panicked \<Rightarrow> (Panicked, buffer)
                | Returned nonce \<Rightarrow> apfst Returned (pr_aead_encrypt p t (ah_key h) nonce additional_data buffer))))"

definition decrypt_aead ::
  "prims \<Rightarrow> aead_handle \<Rightarrow> bytes \<Rightarrow> bytes \<Rightarrow> bytes \<Rightarrow> bytes \<Rightarrow> unit sres outcome \<times> bytes" where
  "decrypt_aead p h buffer nonce tag additional_data =
     (case aead_of (ah_algorithm h) of
        None \<Rightarrow> (Returned (Err ''unsupported AEAD cipher''), buffer)
      | Some t \<Rightarrow>
          (case pr_aead_new p t (ah_key h) of
             Inl e \<Rightarrow> (Returned (Err e), buffer)
           | Inr _ \<Rightarrow>
               (case bind_outcome (pr_from_slice p 12 nonce) (\<lambda>nonce. bind_outcome (pr_from_slice p 16 tag)
                        (\<lambda>tag. Returned (nonce, tag))) of
                  Panicked \<Rightarrow> (Panicked, buffer)
                | Returned (nonce, tag) \<Rightarrow>
                    apfst Returned (pr_aead_decrypt p t (ah_key h) nonce additional_data buffer tag))))"

text \<open>
  The callbacks return the status together with the output and tag buffers.  Everything
  after the copy of the input happens with that copy already in the output buffer.
\<close>

definition aead_encrypt ::
  "prims \<Rightarrow> aead_handle option \<Rightarrow> u8 ptr \<Rightarrow> usize \<Rightarrow> u8 ptr \<Rightarrow> usize \<Rightarrow> u8 ptr \<Rightarrow> usize \<Rightarrow> u8 ptr \<Rightarrow> usize \<Rightarrow>
   u8 ptr \<Rightarrow> usize \<Rightarrow> i32 \<times> u8 ptr \<times> u8 ptr" where
  "aead_encrypt p handle input input_len output output_capacity nonce nonce_len tag tag_len
     additional_data additional_data_len =
     (case and_then (handle_mut handle) (\<lambda>h.
             if \<not> ah_encrypt h \<or> output_capacity < input_len \<or> tag_len < 16
             then Err ''invalid AEAD encryption buffers''
             else and_then (input_slice input input_len) (\<lambda>input.
                  and_then (output_slice output output_capacity) (\<lambda>_. Ok (h, input)))) of
        Inl e \<Rightarrow> (ffi_status (Returned (Err e)), output, tag)
      | Inr (h, input) \<Rightarrow>
          (let copied = write_output input output
           in case and_then (input_slice nonce nonce_len) (\<lambda>nonce.
                     and_then (input_slice additional_data additional_data_len) (\<lambda>ad. Ok (nonce, ad))) of
                Inl e \<Rightarrow> (ffi_status (Returned (Err e)), copied, tag)
              | Inr (nonce, ad) \<Rightarrow>
                  (case encrypt_aead p h input nonce ad of (result, buffer) \<Rightarrow>
                     (let output = write_output buffer copied
                      in case result of
                           Panicked \<Rightarrow> (ffi_status Panicked, output, tag)
                         | Returned (Inl e) \<Rightarrow> (ffi_status (Returned (Err e)), output, tag)
                         | Returned (Inr auth_tag) \<Rightarrow>
                             (case output_slice tag tag_len of
                                Inl e \<Rightarrow> (ffi_status (Returned (Err e)), output, tag)
                              | Inr _ \<Rightarrow>
                                  if length auth_tag \<noteq> 16 then (ffi_status Panicked, output, tag)
                                  else (ffi_status (Returned (Ok ())), output, write_output auth_tag tag))))))"

definition aead_decrypt ::
  "prims \<Rightarrow> aead_handle option \<Rightarrow> u8 ptr \<Rightarrow> usize \<Rightarrow> u8 ptr \<Rightarrow> usize \<Rightarrow> u8 ptr \<Rightarrow> usize \<Rightarrow> u8 ptr \<Rightarrow> usize \<Rightarrow>
   u8 ptr \<Rightarrow> usize \<Rightarrow> i32 \<times> u8 ptr" where
  "aead_decrypt p handle input input_len output output_capacity nonce nonce_len tag tag_len
     additional_data additional_data_len =
     (case and_then (handle_mut handle) (\<lambda>h.
             if ah_encrypt h \<or> output_capacity < input_len \<or> tag_len < 16
             then Err ''invalid AEAD decryption buffers''
             else and_then (input_slice input input_len) (\<lambda>input.
                  and_then (output_slice output output_capacity) (\<lambda>_. Ok (h, input)))) of
        Inl e \<Rightarrow> (ffi_status (Returned (Err e)), output)
      | Inr (h, input) \<Rightarrow>
          (let copied = write_output input output
           in case and_then (input_slice nonce nonce_len) (\<lambda>nonce. and_then (input_slice tag tag_len) (\<lambda>tag.
                     and_then (input_slice additional_data additional_data_len) (\<lambda>ad. Ok (nonce, tag, ad)))) of
                Inl e \<Rightarrow> (ffi_status (Returned (Err e)), copied)
              | Inr (nonce, tag, ad) \<Rightarrow>
                  (case decrypt_aead p h input nonce (take 16 tag) ad of (result, buffer) \<Rightarrow>
                     (ffi_status result, write_output buffer copied))))"

definition aead_supported :: "u32 \<Rightarrow> i32" where
  "aead_supported algorithm = bool_i32 (is_aead_supported algorithm)"

lemmas crypto_helper_defs [ffi_simps] = ffi_status_def ffi_length_def ffi_pointer_def input_slice_def output_slice_def
  write_output_def copy_output_def handle_mut_def

section \<open>Buffered handles\<close>

text \<open>
  The contract the update callbacks share: they append a readable input to the handle's
  data and touch nothing else of it, and they fail without effect on a null handle or on a
  null input that is not empty.  \<open>feed\<close> passes a list of chunks, each as a whole buffer.
\<close>

definition feed :: "('h option \<Rightarrow> u8 ptr \<Rightarrow> usize \<Rightarrow> i32 \<times> 'h option) \<Rightarrow> bytes list \<Rightarrow> 'h option \<Rightarrow> 'h option" where
  "feed update chunks handle = fold (\<lambda>c h. snd (update h (Some c) (length c))) chunks handle"

locale buffered =
  fixes update :: "'h option \<Rightarrow> u8 ptr \<Rightarrow> usize \<Rightarrow> i32 \<times> 'h option"
    and data :: "'h \<Rightarrow> bytes"
    and rest :: "'h \<Rightarrow> 'r"
  assumes update_ok: "input_slice input n = Ok xs \<Longrightarrow>
      \<exists>h'. update (Some h) input n = (1, Some h') \<and> data h' = data h @ xs \<and> rest h' = rest h"
    and update_bad: "input_slice input n = Err e \<Longrightarrow> update (Some h) input n = (0, Some h)"
    and update_null: "update None input n = (0, None)"
    and handle_eq: "data h = data h' \<Longrightarrow> rest h = rest h' \<Longrightarrow> h = h'"
begin

lemma update_whole:
  "\<exists>h'. update (Some h) (Some c) (length c) = (1, Some h') \<and> data h' = data h @ c \<and> rest h' = rest h"
  by (rule update_ok) (simp add: input_slice_def)

lemma feed_data: "\<exists>h'. feed update chunks (Some h) = Some h' \<and> data h' = data h @ concat chunks \<and> rest h' = rest h"
proof (induction chunks arbitrary: h)
  case (Cons c chunks)
  obtain g where "update (Some h) (Some c) (length c) = (1, Some g)" "data g = data h @ c" "rest g = rest h"
    using update_whole by blast
  then show ?case using Cons.IH [of g] by (simp add: feed_def)
qed (simp add: feed_def)

lemma feed_concat: "feed update chunks (Some h) = feed update [concat chunks] (Some h)"
proof -
  obtain a b where "feed update chunks (Some h) = Some a" "data a = data h @ concat chunks" "rest a = rest h"
    "feed update [concat chunks] (Some h) = Some b" "data b = data h @ concat [concat chunks]" "rest b = rest h"
    using feed_data by metis
  then show ?thesis using handle_eq [of a b] by simp
qed

lemma feed_null: "feed update chunks None = None"
  by (induction chunks) (simp_all add: feed_def update_null)

end

text \<open>
  The contract of a final callback: it applies \<open>compute\<close> to the handle and copies the
  result to the output, or returns zero and leaves the output alone.
\<close>

locale finalising = buffered +
  fixes final :: "'a option \<Rightarrow> u8 ptr \<Rightarrow> usize \<Rightarrow> usize \<times> u8 ptr"
    and compute :: "'c \<Rightarrow> bytes \<Rightarrow> bytes sres"
  assumes final_ok: "compute (rest h) (data h) = Ok v \<Longrightarrow> length v \<le> capacity \<Longrightarrow> capacity \<le> length mem \<Longrightarrow>
      final (Some h) (Some mem) capacity = (length v, Some (write_prefix v mem))"
    and final_err: "compute (rest h) (data h) = Err e \<Longrightarrow> final (Some h) out capacity = (0, out)"
begin

lemma stream:
  assumes "compute (rest h) (data h @ concat chunks) = Ok v" and "length v \<le> capacity" and "capacity \<le> length mem"
  shows "final (feed update chunks (Some h)) (Some mem) capacity = (length v, Some (write_prefix v mem))"
proof -
  obtain g where "feed update chunks (Some h) = Some g" "data g = data h @ concat chunks" "rest g = rest h"
    using feed_data by blast
  with assms show ?thesis using final_ok [of g v] by simp
qed

lemma stream_error:
  assumes "compute (rest h) (data h @ concat chunks) = Err e"
  shows "final (feed update chunks (Some h)) out capacity = (0, out)"
proof -
  obtain g where "feed update chunks (Some h) = Some g" "data g = data h @ concat chunks" "rest g = rest h"
    using feed_data by blast
  with assms show ?thesis using final_err [of g e] by simp
qed

end

lemma input_slice_Ok: "input_slice (Some mem) n = Ok (take n mem)"
  by (simp add: input_slice_def)

lemma output_slice_Ok: "output_slice (Some mem) n = Ok (take n mem)"
  by (simp add: output_slice_def)

interpretation digest: finalising digest_update dh_data dh_algorithm "digest_final p" "compute_digest p" for p
  by unfold_locales (auto simp: digest_update_def digest_final_def ffi_simps split: option.splits if_splits)

interpretation hmac: finalising hmac_update hh_data "\<lambda>h. (hh_algorithm h, hh_key h)" "hmac_final p"
  "\<lambda>(algorithm, key). compute_hmac p algorithm key" for p
  by unfold_locales (auto simp: hmac_update_def hmac_final_def ffi_simps split: option.splits if_splits)

lemma cipher_handle_eta [simp]:
  "\<lparr>ch_algorithm = ch_algorithm h, ch_key = ch_key h, ch_iv = ch_iv h, ch_data = ch_data h,
    ch_encrypt = ch_encrypt h\<rparr> = (h :: cipher_handle)"
  by (cases h) simp

interpretation cipher: finalising cipher_update ch_data
  "\<lambda>h. (ch_algorithm h, ch_key h, ch_iv h, ch_encrypt h)" "cipher_final p"
  "\<lambda>(algorithm, key, iv, encrypt) data. crypt_cipher p \<lparr>ch_algorithm = algorithm, ch_key = key, ch_iv = iv,
     ch_data = data, ch_encrypt = encrypt\<rparr>" for p
  by unfold_locales (auto simp: cipher_update_def cipher_final_def ffi_simps split: option.splits if_splits)

section \<open>What the primitives promise\<close>

fun output_size :: "hash_type \<Rightarrow> nat" where
  "output_size Md4 = 16"
| "output_size Md5 = 16"
| "output_size Sha1 = 20"
| "output_size Sha224 = 28"
| "output_size Sha256 = 32"
| "output_size Sha384 = 48"
| "output_size Sha512 = 64"

fun block_size :: "block_type \<Rightarrow> nat" where
  "block_size Des = 8"
| "block_size TdesEde3 = 8"
| "block_size Blowfish = 8"
| "block_size _ = 16"

fun valid_key_size :: "block_type \<Rightarrow> nat \<Rightarrow> bool" where
  "valid_key_size Aes128 n \<longleftrightarrow> n = 16"
| "valid_key_size Aes192 n \<longleftrightarrow> n = 24"
| "valid_key_size Aes256 n \<longleftrightarrow> n = 32"
| "valid_key_size Des n \<longleftrightarrow> n = 8"
| "valid_key_size TdesEde3 n \<longleftrightarrow> n = 24"
| "valid_key_size Blowfish n \<longleftrightarrow> 4 \<le> n \<and> n \<le> 56"

fun aead_key_size :: "aead_type \<Rightarrow> nat" where
  "aead_key_size Aes128Gcm = 16"
| "aead_key_size Aes192Gcm = 24"
| "aead_key_size _ = 32"

definition hash_law :: "prims \<Rightarrow> bool" where
  "hash_law p \<longleftrightarrow>
     (\<forall>t d. length (pr_digest p t d) = output_size t) \<and>
     (\<forall>t k d. \<exists>v. pr_hmac p t k d = Ok v \<and> length v = output_size t)"

text \<open>Constructors reject keys and IVs of the wrong size; decryption undoes encryption.\<close>

definition cipher_law :: "prims \<Rightarrow> bool" where
  "cipher_law p \<longleftrightarrow>
     (\<forall>t k iv d. if valid_key_size t (length k) \<and> length iv = block_size t
        then \<exists>c. pr_cbc_encrypt p t k iv d = Ok c \<and> pr_cbc_decrypt p t k iv c = Ok d
        else (\<exists>e. pr_cbc_encrypt p t k iv d = Err e) \<and> (\<exists>e. pr_cbc_decrypt p t k iv d = Err e)) \<and>
     (\<forall>k iv d. if length k = 32 \<and> length iv = 16
        then \<exists>c. pr_ctr p k iv d = Ok c \<and> pr_ctr p k iv c = Ok d
        else \<exists>e. pr_ctr p k iv d = Err e)"

text \<open>
  The array conversion panics on a wrong length.  Encryption returns a tag of 16 bytes and
  keeps the length of the buffer; decryption accepts exactly the tag that belongs to the
  ciphertext, and a rejected buffer is left as it was.
\<close>

definition aead_law :: "prims \<Rightarrow> bool" where
  "aead_law p \<longleftrightarrow>
     (\<forall>n xs. pr_from_slice p n xs = (if length xs = n then Returned xs else Panicked)) \<and>
     (\<forall>t k. length k = aead_key_size t \<longrightarrow> pr_aead_new p t k = Ok ()) \<and>
     (\<forall>t k n ad b. length k = aead_key_size t \<and> length n = 12 \<longrightarrow>
        (\<exists>tag c. pr_aead_encrypt p t k n ad b = (Ok tag, c) \<and> length tag = 16 \<and> length c = length b \<and>
           pr_aead_decrypt p t k n ad c tag = (Ok (), b) \<and>
           (\<forall>tag'. tag' \<noteq> tag \<and> length tag' = 16 \<longrightarrow> (\<exists>e. pr_aead_decrypt p t k n ad c tag' = (Err e, c)))))"

section \<open>Tables and constructors\<close>

lemma hash_of_size: "hash_of algorithm = Some t \<Longrightarrow> digest_size_for algorithm = Ok (output_size t)"
  by (auto simp: hash_of_def digest_size_for_def split: if_splits)

lemma digest_size_hash: "digest_size_for algorithm = Ok n \<Longrightarrow> \<exists>t. hash_of algorithm = Some t \<and> n = output_size t"
  by (auto simp: hash_of_def digest_size_for_def split: if_splits)

lemma digest_new_Some:
  "digest_new algorithm = Some h \<longleftrightarrow>
     (\<exists>t. hash_of algorithm = Some t) \<and> h = \<lparr>dh_algorithm = algorithm, dh_data = []\<rparr>"
  by (cases "digest_size_for algorithm")
     (auto simp: digest_new_def ffi_pointer_def dest: hash_of_size digest_size_hash)

lemma hmac_new_Some:
  "hmac_new algorithm key n = Some h \<longleftrightarrow>
     (\<exists>t k. hash_of algorithm = Some t \<and> input_slice key n = Ok k \<and>
        h = \<lparr>hh_algorithm = algorithm, hh_key = k, hh_data = []\<rparr>)"
  by (cases "digest_size_for algorithm"; cases "input_slice key n")
     (auto simp: hmac_new_def ffi_pointer_def dest: hash_of_size digest_size_hash)

definition key_size_of :: "u32 \<Rightarrow> nat" where
  "key_size_of algorithm = (case cipher_key_size algorithm of Inr n \<Rightarrow> n | Inl _ \<Rightarrow> 0)"

definition iv_size_of :: "u32 \<Rightarrow> nat" where
  "iv_size_of algorithm = (case cipher_iv_size algorithm of Inr n \<Rightarrow> n | Inl _ \<Rightarrow> 0)"

lemma cipher_tables:
  assumes "is_cipher_supported algorithm"
  shows "cipher_key_size algorithm = Ok (key_size_of algorithm)"
    and "cipher_iv_size algorithm = Ok (iv_size_of algorithm)" and "0 < iv_size_of algorithm"
    and "(\<exists>t. block_of algorithm = Some t \<and> valid_key_size t (key_size_of algorithm) \<and>
              iv_size_of algorithm = block_size t)
         \<or> block_of algorithm = None \<and> algorithm = AES_256_CTR \<and> key_size_of algorithm = 32 \<and>
           iv_size_of algorithm = 16"
  using assms by (auto simp: is_cipher_supported_def key_size_of_def iv_size_of_def cipher_key_size_def
      cipher_iv_size_def block_of_def)

lemma aead_tables:
  assumes "is_aead_supported algorithm"
  shows "\<exists>t. aead_of algorithm = Some t \<and> cipher_key_size algorithm = Ok (aead_key_size t)"
  using assms by (auto simp: is_aead_supported_def cipher_key_size_def aead_of_def)

lemma cipher_new_Some:
  assumes "cipher_new algorithm (Some key) (length key) enc = Some h"
  shows "is_cipher_supported algorithm \<and> key_size_of algorithm \<le> length key \<and>
    h = \<lparr>ch_algorithm = algorithm, ch_key = take (key_size_of algorithm) key, ch_iv = [], ch_data = [],
         ch_encrypt = (enc \<noteq> 0)\<rparr>"
  using assms cipher_tables(1) [of algorithm]
  by (auto simp: cipher_new_def ffi_pointer_def input_slice_Ok split: if_splits)

lemma aead_new_Some:
  assumes "aead_new algorithm (Some key) (length key) enc = Some h"
  shows "\<exists>t. aead_of algorithm = Some t \<and> aead_key_size t \<le> length key \<and>
    h = \<lparr>ah_algorithm = algorithm, ah_key = take (aead_key_size t) key, ah_encrypt = (enc \<noteq> 0)\<rparr>"
  using assms aead_tables [of algorithm]
  by (auto simp: aead_new_def ffi_pointer_def input_slice_Ok split: if_splits)

lemma cipher_reset_ok:
  assumes "is_cipher_supported (ch_algorithm h)" and "iv_size_of (ch_algorithm h) \<le> length iv"
  shows "cipher_reset (Some h) (Some iv) (length iv)
     = (1, Some (h\<lparr>ch_iv := take (iv_size_of (ch_algorithm h)) iv, ch_data := []\<rparr>))"
  using assms cipher_tables(2) [OF assms(1)]
  by (simp add: cipher_reset_def handle_mut_def input_slice_Ok ffi_status_def)

text \<open>Both directions of a supported cipher with a key and IV of the right size.\<close>

lemma crypt_cipher_roundtrip:
  assumes law: "cipher_law p" and sup: "is_cipher_supported a"
    and key: "length k = key_size_of a" and iv: "length iv = iv_size_of a"
  shows "\<exists>c. crypt_cipher p \<lparr>ch_algorithm = a, ch_key = k, ch_iv = iv, ch_data = d, ch_encrypt = True\<rparr> = Ok c \<and>
             crypt_cipher p \<lparr>ch_algorithm = a, ch_key = k, ch_iv = iv, ch_data = c, ch_encrypt = False\<rparr> = Ok d"
  using cipher_tables(4) [OF sup]
proof
  assume "\<exists>t. block_of a = Some t \<and> valid_key_size t (key_size_of a) \<and> iv_size_of a = block_size t"
  then obtain t where t: "block_of a = Some t" "valid_key_size t (length k)" "length iv = block_size t"
    using key iv by auto
  then have "\<exists>c. pr_cbc_encrypt p t k iv d = Ok c \<and> pr_cbc_decrypt p t k iv c = Ok d"
    using law unfolding cipher_law_def by meson
  with t show ?thesis by (auto simp: crypt_cipher_def)
next
  assume ctr: "block_of a = None \<and> a = AES_256_CTR \<and> key_size_of a = 32 \<and> iv_size_of a = 16"
  then have "\<exists>c. pr_ctr p k iv d = Ok c \<and> pr_ctr p k iv c = Ok d"
    using law key iv unfolding cipher_law_def by metis
  with ctr show ?thesis by (auto simp: crypt_cipher_def)
qed

lemma crypt_cipher_bad_iv:
  assumes law: "cipher_law p" and sup: "is_cipher_supported (ch_algorithm h)"
    and iv: "length (ch_iv h) \<noteq> iv_size_of (ch_algorithm h)"
  shows "\<exists>e. crypt_cipher p h = Err e"
  using cipher_tables(4) [OF sup]
proof
  assume "\<exists>t. block_of (ch_algorithm h) = Some t \<and> valid_key_size t (key_size_of (ch_algorithm h)) \<and>
    iv_size_of (ch_algorithm h) = block_size t"
  then obtain t where t: "block_of (ch_algorithm h) = Some t" "length (ch_iv h) \<noteq> block_size t"
    using iv by auto
  then have "(\<exists>e. pr_cbc_encrypt p t (ch_key h) (ch_iv h) (ch_data h) = Err e) \<and>
    (\<exists>e. pr_cbc_decrypt p t (ch_key h) (ch_iv h) (ch_data h) = Err e)"
    using law unfolding cipher_law_def by meson
  with t show ?thesis by (auto simp: crypt_cipher_def)
next
  assume ctr: "block_of (ch_algorithm h) = None \<and> ch_algorithm h = AES_256_CTR \<and>
    key_size_of (ch_algorithm h) = 32 \<and> iv_size_of (ch_algorithm h) = 16"
  then have "\<exists>e. pr_ctr p (ch_key h) (ch_iv h) (ch_data h) = Err e"
    using law iv unfolding cipher_law_def by metis
  with ctr show ?thesis by (auto simp: crypt_cipher_def)
qed

section \<open>Properties\<close>

text \<open>Primitives for the witnesses: constant hashes, the identity as a cipher, a constant tag.\<close>

definition sample_prims :: prims where
  "sample_prims = \<lparr>
     pr_getrandom = (\<lambda>n. Ok (replicate n 4)),
     pr_digest = (\<lambda>t d. replicate (output_size t) 0),
     pr_hmac = (\<lambda>t k d. Ok (replicate (output_size t) 0)),
     pr_cbc_encrypt = (\<lambda>t k iv d. if valid_key_size t (length k) \<and> length iv = block_size t then Ok d else Err []),
     pr_cbc_decrypt = (\<lambda>t k iv d. if valid_key_size t (length k) \<and> length iv = block_size t then Ok d else Err []),
     pr_ctr = (\<lambda>k iv d. if length k = 32 \<and> length iv = 16 then Ok d else Err []),
     pr_aead_new = (\<lambda>t k. if length k = aead_key_size t then Ok () else Err []),
     pr_from_slice = (\<lambda>n xs. if length xs = n then Returned xs else Panicked),
     pr_aead_encrypt = (\<lambda>t k n ad b. (Ok (replicate 16 7), b)),
     pr_aead_decrypt = (\<lambda>t k n ad b tag. (if tag = replicate 16 7 then Ok () else Err [], b))\<rparr>"

lemma sample_laws: "hash_law sample_prims" "cipher_law sample_prims" "aead_law sample_prims"
  by (simp_all add: hash_law_def cipher_law_def aead_law_def sample_prims_def)

text \<open>
  A digest does not depend on how its input is cut into updates.  For every supported
  algorithm and every list of chunks, \<open>digest_final\<close> returns the size that \<open>digest_size\<close>
  reports and writes the digest of the concatenated chunks, and nothing behind it.
\<close>

theorem digest_stream:
  assumes "hash_law p" and "digest_new algorithm = Some h"
    and "digest_size (Some h) \<le> capacity" and "capacity \<le> length mem"
  shows "\<exists>t. hash_of algorithm = Some t \<and> digest_size (Some h) = output_size t \<and>
     digest_final p (feed digest_update chunks (Some h)) (Some mem) capacity =
       (digest_size (Some h), Some (write_prefix (pr_digest p t (concat chunks)) mem))"
proof -
  obtain t where t: "hash_of algorithm = Some t" and h: "h = \<lparr>dh_algorithm = algorithm, dh_data = []\<rparr>"
    using assms(2) by (auto simp: digest_new_Some)
  have size: "digest_size (Some h) = output_size t"
    by (simp add: h digest_size_def handle_mut_def hash_of_size [OF t] ffi_length_def)
  have len: "length (pr_digest p t (concat chunks)) = output_size t" using assms(1) by (simp add: hash_law_def)
  have "compute_digest p (dh_algorithm h) (dh_data h @ concat chunks) = Ok (pr_digest p t (concat chunks))"
    by (simp add: compute_digest_def t h)
  from digest.stream [OF this] show ?thesis using t size len assms(3,4) by auto
qed

theorem digest_stream_witness:
  "fst (digest_final sample_prims (feed digest_update [[1, 2], [], [3]] (digest_new SHA1))
     (Some (replicate 20 9)) 20) = 20"
proof -
  obtain h where h: "digest_new SHA1 = Some h" by (simp add: digest_new_Some hash_of_def)
  have size: "digest_size (Some h) = 20"
    using h by (auto simp: digest_new_Some digest_size_def handle_mut_def ffi_length_def digest_size_for_def)
  show ?thesis
    using digest_stream [OF sample_laws(1) h, of 20 "replicate 20 9" "[[1, 2], [], [3]]"] size h by auto
qed

text \<open>
  An HMAC covers exactly the chunks since the last reset: after any updates and a reset,
  the final value is the MAC of the later chunks under the key of the constructor.
\<close>

theorem hmac_after_reset:
  assumes "hash_law p" and "hmac_new algorithm (Some key) (length key) = Some h"
    and "hmac_size (Some h) \<le> capacity" and "capacity \<le> length mem"
    and "hmac_reset (feed hmac_update earlier (Some h)) = (status, g)"
  shows "\<exists>t v. hash_of algorithm = Some t \<and> pr_hmac p t key (concat chunks) = Ok v \<and> status = 1 \<and>
     hmac_final p (feed hmac_update chunks g) (Some mem) capacity =
       (hmac_size (Some h), Some (write_prefix v mem))"
proof -
  obtain t where t: "hash_of algorithm = Some t"
    and h: "h = \<lparr>hh_algorithm = algorithm, hh_key = key, hh_data = []\<rparr>"
    using assms(2) by (auto simp: hmac_new_Some input_slice_Ok)
  obtain f where f: "feed hmac_update earlier (Some h) = Some f" "hh_algorithm f = algorithm" "hh_key f = key"
    using hmac.feed_data [of earlier h] h by auto
  then have g: "g = Some (f\<lparr>hh_data := []\<rparr>)" "status = 1"
    using assms(5) by (auto simp: hmac_reset_def handle_mut_def ffi_status_def)
  obtain v where v: "pr_hmac p t key (concat chunks) = Ok v" "length v = output_size t"
    using assms(1) unfolding hash_law_def by blast
  have size: "hmac_size (Some h) = output_size t"
    by (simp add: h hmac_size_def handle_mut_def hash_of_size [OF t] ffi_length_def)
  have "hmac_final p (feed hmac_update chunks g) (Some mem) capacity = (length v, Some (write_prefix v mem))"
    unfolding g(1) by (rule hmac.stream) (use f t v size assms(3,4) in \<open>auto simp: compute_hmac_def\<close>)
  with t v size g show ?thesis by auto
qed

theorem hmac_after_reset_witness:
  "\<exists>h status g. hmac_new SHA256 (Some [1]) 1 = Some h \<and>
     hmac_reset (feed hmac_update [[5]] (Some h)) = (status, g) \<and> status = 1 \<and>
     fst (hmac_final sample_prims (feed hmac_update [[6], [7]] g) (Some (replicate 40 0)) 40) = 32"
proof -
  obtain h where h: "hmac_new SHA256 (Some [1]) (length [1 :: u8]) = Some h"
    by (simp add: hmac_new_Some hash_of_def input_slice_Ok)
  have size: "hmac_size (Some h) = 32"
    using h by (auto simp: hmac_new_Some hmac_size_def handle_mut_def ffi_length_def digest_size_for_def)
  obtain status g where g: "hmac_reset (feed hmac_update [[5]] (Some h)) = (status, g)" by fastforce
  show ?thesis
    using hmac_after_reset [OF sample_laws(1) h _ _ g, of 40 "replicate 40 0" "[[6], [7]]"] size h g by auto
qed

text \<open>
  C15: encrypting with one cipher handle and decrypting with another restores the data, for
  every supported cipher, any key and IV at least as long as required (longer ones are cut
  the same way on both sides), and any chunking on both sides.
\<close>

theorem cipher_roundtrip:
  assumes law: "cipher_law p"
    and enc: "cipher_new a (Some key) (length key) 1 = Some e" and dec: "cipher_new a (Some key) (length key) 0 = Some d"
    and iv: "iv_size_of a \<le> length iv"
  shows "\<exists>c. crypt_cipher p \<lparr>ch_algorithm = a, ch_key = take (key_size_of a) key, ch_iv = take (iv_size_of a) iv,
                             ch_data = concat plain, ch_encrypt = True\<rparr> = Ok c \<and>
     (length c \<le> length mem \<longrightarrow>
        cipher_final p (feed cipher_update plain (snd (cipher_reset (Some e) (Some iv) (length iv)))) (Some mem) (length mem)
          = (length c, Some (write_prefix c mem))) \<and>
     (concat chunks = c \<and> length (concat plain) \<le> length out \<longrightarrow>
        cipher_final p (feed cipher_update chunks (snd (cipher_reset (Some d) (Some iv) (length iv)))) (Some out) (length out)
          = (length (concat plain), Some (write_prefix (concat plain) out)))"
proof -
  note e = cipher_new_Some [OF enc] and d = cipher_new_Some [OF dec]
  let ?e = "e\<lparr>ch_iv := take (iv_size_of a) iv, ch_data := []\<rparr>" and ?d = "d\<lparr>ch_iv := take (iv_size_of a) iv, ch_data := []\<rparr>"
  have resets: "snd (cipher_reset (Some e) (Some iv) (length iv)) = Some ?e"
    "snd (cipher_reset (Some d) (Some iv) (length iv)) = Some ?d"
    using cipher_reset_ok [of e iv] cipher_reset_ok [of d iv] e d iv by simp_all
  obtain c where c: "crypt_cipher p \<lparr>ch_algorithm = a, ch_key = take (key_size_of a) key, ch_iv = take (iv_size_of a) iv,
       ch_data = concat plain, ch_encrypt = True\<rparr> = Ok c"
    "crypt_cipher p \<lparr>ch_algorithm = a, ch_key = take (key_size_of a) key, ch_iv = take (iv_size_of a) iv,
       ch_data = c, ch_encrypt = False\<rparr> = Ok (concat plain)"
    using crypt_cipher_roundtrip [OF law, of a "take (key_size_of a) key" "take (iv_size_of a) iv" "concat plain"] e iv
    by auto
  have "length c \<le> length mem \<longrightarrow> cipher_final p (feed cipher_update plain (Some ?e)) (Some mem) (length mem)
      = (length c, Some (write_prefix c mem))"
    using c(1) e by (intro impI cipher.stream) auto
  moreover have "concat chunks = c \<and> length (concat plain) \<le> length out \<longrightarrow>
      cipher_final p (feed cipher_update chunks (Some ?d)) (Some out) (length out)
      = (length (concat plain), Some (write_prefix (concat plain) out))"
    using c(2) d by (intro impI cipher.stream) auto
  ultimately show ?thesis using c(1) resets by auto
qed

theorem cipher_roundtrip_witness:
  "\<exists>e d c. cipher_new AES_128_CBC (Some (replicate 16 1)) 16 1 = Some e \<and>
     cipher_new AES_128_CBC (Some (replicate 16 1)) 16 0 = Some d \<and>
     cipher_final sample_prims (feed cipher_update [[5], [6]] (snd (cipher_reset (Some e) (Some (replicate 16 2)) 16)))
       (Some [0, 0, 0]) 3 = (length c, Some (write_prefix c [0, 0, 0]))"
proof -
  have new: "\<exists>h. cipher_new AES_128_CBC (Some (replicate 16 1)) (length (replicate 16 (1 :: u8))) b = Some h" for b
    by (simp add: cipher_new_def is_cipher_supported_def cipher_key_size_def input_slice_Ok ffi_pointer_def)
  then obtain e d where e: "cipher_new AES_128_CBC (Some (replicate 16 1)) (length (replicate 16 (1 :: u8))) 1 = Some e"
    and d: "cipher_new AES_128_CBC (Some (replicate 16 1)) (length (replicate 16 (1 :: u8))) 0 = Some d"
    by metis
  have iv: "iv_size_of AES_128_CBC \<le> length (replicate 16 (2 :: u8))" by (simp add: iv_size_of_def cipher_iv_size_def)
  obtain c where c: "crypt_cipher sample_prims \<lparr>ch_algorithm = AES_128_CBC,
      ch_key = take (key_size_of AES_128_CBC) (replicate 16 1), ch_iv = take (iv_size_of AES_128_CBC) (replicate 16 2),
      ch_data = concat [[5], [6]], ch_encrypt = True\<rparr> = Ok c"
    "length c \<le> length [0, 0, 0 :: u8] \<longrightarrow>
        cipher_final sample_prims (feed cipher_update [[5], [6]] (snd (cipher_reset (Some e) (Some (replicate 16 2))
          (length (replicate 16 (2 :: u8)))))) (Some [0, 0, 0]) (length [0, 0, 0 :: u8]) = (length c, Some (write_prefix c [0, 0, 0]))"
    using cipher_roundtrip [OF sample_laws(2) e d iv, of "[[5], [6]]" "[0, 0, 0]"] by blast
  have "c = [5, 6]"
    using c(1) by (simp add: crypt_cipher_def block_of_def sample_prims_def key_size_of_def cipher_key_size_def
        iv_size_of_def cipher_iv_size_def)
  with c(2) e d show ?thesis by (auto simp: numeral_3_eq_3 intro!: exI [of _ "[5, 6]"])
qed

text \<open>
  A cipher handle that was never given an IV produces nothing: \<open>cipher_final\<close> returns zero
  and leaves the output buffer alone, whatever was fed to it.
\<close>

theorem cipher_needs_iv:
  assumes "cipher_law p" and "cipher_new a (Some key) (length key) encrypt = Some h"
  shows "cipher_final p (feed cipher_update chunks (Some h)) out capacity = (0, out)"
proof -
  note h = cipher_new_Some [OF assms(2)]
  then have "\<exists>e. crypt_cipher p (h\<lparr>ch_data := concat chunks\<rparr>) = Err e"
    using cipher_tables(3) [of a] by (intro crypt_cipher_bad_iv [OF assms(1)]) auto
  then obtain e where "crypt_cipher p (h\<lparr>ch_data := concat chunks\<rparr>) = Err e" by blast
  then show ?thesis using h by (intro cipher.stream_error [where e = e]) auto
qed

theorem cipher_needs_iv_witness:
  "cipher_final sample_prims (feed cipher_update [[1]] (cipher_new DES_CBC (Some (replicate 8 3)) 8 1)) (Some [9]) 1 = (0, Some [9])"
proof -
  have "\<exists>h. cipher_new DES_CBC (Some (replicate 8 3)) (length (replicate 8 (3 :: u8))) 1 = Some h"
    by (simp add: cipher_new_def is_cipher_supported_def cipher_key_size_def input_slice_Ok ffi_pointer_def)
  then obtain h where h: "cipher_new DES_CBC (Some (replicate 8 3)) (length (replicate 8 (3 :: u8))) 1 = Some h" ..
  from cipher_needs_iv [OF sample_laws(2) h, of "[[1]]" "Some [9]" 1] h show ?thesis by simp
qed

text \<open>The callbacks on whole buffers, and what is left of them when all checks pass.\<close>

lemma aead_encrypt_whole:
  assumes "length ptxt \<le> length out" and "16 \<le> length tag" and "ah_encrypt h"
  shows "aead_encrypt p (Some h) (Some ptxt) (length ptxt) (Some out) (length out) (Some nonce) (length nonce)
      (Some tag) (length tag) (Some ad) (length ad) =
    (case encrypt_aead p h ptxt nonce ad of
       (Returned (Inr v), c) \<Rightarrow>
         if length v = 16 then (1, Some (write_prefix c (write_prefix ptxt out)), Some (write_prefix v tag))
         else (0, Some (write_prefix c (write_prefix ptxt out)), Some tag)
     | (_, c) \<Rightarrow> (0, Some (write_prefix c (write_prefix ptxt out)), Some tag))"
proof -
  obtain r c where rc: "encrypt_aead p h ptxt nonce ad = (r, c)" by fastforce
  note whole = aead_encrypt_def handle_mut_def input_slice_Ok output_slice_Ok write_output_def ffi_status_def
  show ?thesis
  proof (cases r)
    case (Returned v)
    with rc assms show ?thesis by (cases v) (simp_all add: whole)
  qed (use rc assms in \<open>simp add: whole\<close>)
qed

lemma aead_decrypt_whole:
  assumes "length ctxt \<le> length out" and "16 \<le> length tag" and "\<not> ah_encrypt h"
  shows "aead_decrypt p (Some h) (Some ctxt) (length ctxt) (Some out) (length out) (Some nonce) (length nonce)
      (Some tag) (length tag) (Some ad) (length ad) =
    (case decrypt_aead p h ctxt nonce (take 16 tag) ad of
       (r, b) \<Rightarrow> (ffi_status r, Some (write_prefix b (write_prefix ctxt out))))"
  using assms by (simp add: aead_decrypt_def handle_mut_def input_slice_Ok output_slice_Ok write_output_def)

lemma aead_law_parts:
  assumes "aead_law p" and "length k = aead_key_size t" and "length n = 12"
  shows "pr_from_slice p m xs = (if length xs = m then Returned xs else Panicked)"
    and "pr_aead_new p t k = Ok ()"
    and "\<exists>tag c. pr_aead_encrypt p t k n ad b = (Ok tag, c) \<and> length tag = 16 \<and> length c = length b \<and>
           pr_aead_decrypt p t k n ad c tag = (Ok (), b) \<and>
           (\<forall>tag'. tag' \<noteq> tag \<and> length tag' = 16 \<longrightarrow> (\<exists>e. pr_aead_decrypt p t k n ad c tag' = (Err e, c)))"
  using assms unfolding aead_law_def by blast+


lemma sample_aead: "\<exists>h. aead_new CHACHA20_POLY1305 (Some (replicate 32 1)) (length (replicate 32 (1 :: u8))) b = Some h"
  by (simp add: aead_new_def is_aead_supported_def cipher_key_size_def input_slice_Ok ffi_pointer_def)


text \<open>
  A nonce of the wrong length is caught: the conversion panics, the panic does not cross
  the boundary, and the callback reports failure.  The tag buffer is untouched; the output
  buffer already holds the copy of the input.
\<close>

theorem aead_bad_nonce:
  assumes "aead_law p" and "aead_new a (Some key) (length key) 1 = Some e" and "length nonce \<noteq> 12"
    and "length pt \<le> length out" and "16 \<le> length tag"
  shows "aead_encrypt p (Some e) (Some pt) (length pt) (Some out) (length out) (Some nonce) (length nonce)
       (Some tag) (length tag) (Some ad) (length ad) = (0, Some (write_prefix pt out), Some tag)"
proof -
  obtain t where t: "aead_of a = Some t" "aead_key_size t \<le> length key"
    and e: "e = \<lparr>ah_algorithm = a, ah_key = take (aead_key_size t) key, ah_encrypt = True\<rparr>"
    using aead_new_Some [OF assms(2)] by auto
  have "pr_from_slice p 12 nonce = Panicked" "pr_aead_new p t (take (aead_key_size t) key) = Ok ()"
    using assms(1,3) t by (auto simp: aead_law_def)
  then have "encrypt_aead p e pt nonce ad = (Panicked, pt)" by (simp add: encrypt_aead_def e t)
  then show ?thesis using assms(4,5) by (subst aead_encrypt_whole) (simp_all add: e)
qed

theorem aead_bad_nonce_witness:
  "\<exists>e. aead_new CHACHA20_POLY1305 (Some (replicate 32 1)) 32 1 = Some e \<and>
     aead_encrypt sample_prims (Some e) (Some [8]) 1 (Some [0]) 1 (Some [5]) 1 (Some (replicate 16 0)) 16 (Some []) 0
       = (0, Some (write_prefix [8] [0]), Some (replicate 16 0))"
proof -
  obtain e where e: "aead_new CHACHA20_POLY1305 (Some (replicate 32 1)) (length (replicate 32 (1 :: u8))) 1 = Some e"
    using sample_aead by metis
  have "length [5 :: u8] \<noteq> 12" "length [8 :: u8] \<le> length [0 :: u8]" "16 \<le> length (replicate 16 (0 :: u8))" by simp_all
  from aead_bad_nonce [OF sample_laws(3) e this, of "[]"] e show ?thesis by auto
qed

text \<open>
  The tables agree.  An algorithm has a key size exactly if it has an IV size and exactly
  if it is a supported cipher or AEAD, never both; it has a digest size exactly if the
  digest and the HMAC know it, and then neither of the others; and the constructors accept
  exactly the supported algorithms with a long enough key.
\<close>

theorem algorithm_tables_agree:
  "((\<exists>n. cipher_key_size a = Ok n) \<longleftrightarrow> is_cipher_supported a \<or> is_aead_supported a)
   \<and> ((\<exists>n. cipher_iv_size a = Ok n) \<longleftrightarrow> is_cipher_supported a \<or> is_aead_supported a)
   \<and> \<not> (is_cipher_supported a \<and> is_aead_supported a)
   \<and> ((\<exists>n. digest_size_for a = Ok n) \<longleftrightarrow> hash_of a \<noteq> None)
   \<and> \<not> (hash_of a \<noteq> None \<and> (is_cipher_supported a \<or> is_aead_supported a))
   \<and> (cipher_new a (Some key) (length key) b \<noteq> None \<longleftrightarrow> is_cipher_supported a \<and> key_size_of a \<le> length key)
   \<and> (aead_new a (Some key) (length key) b \<noteq> None \<longleftrightarrow> is_aead_supported a \<and> key_size_of a \<le> length key)
   \<and> (digest_new a \<noteq> None \<longleftrightarrow> hash_of a \<noteq> None)"
proof -
  have "(\<exists>n. cipher_key_size a = Ok n) \<longleftrightarrow> is_cipher_supported a \<or> is_aead_supported a"
    "(\<exists>n. cipher_iv_size a = Ok n) \<longleftrightarrow> is_cipher_supported a \<or> is_aead_supported a"
    "\<not> (is_cipher_supported a \<and> is_aead_supported a)"
    "\<not> (hash_of a \<noteq> None \<and> (is_cipher_supported a \<or> is_aead_supported a))"
    by (auto simp: cipher_key_size_def cipher_iv_size_def is_cipher_supported_def is_aead_supported_def hash_of_def
        split: if_splits)
  moreover have "(\<exists>n. digest_size_for a = Ok n) \<longleftrightarrow> hash_of a \<noteq> None"
    using hash_of_size digest_size_hash by fastforce
  moreover have "cipher_new a (Some key) (length key) b \<noteq> None \<longleftrightarrow> is_cipher_supported a \<and> key_size_of a \<le> length key"
    using cipher_tables(1) [of a] by (auto simp: cipher_new_def ffi_pointer_def input_slice_Ok)
  moreover have "aead_new a (Some key) (length key) b \<noteq> None \<longleftrightarrow> is_aead_supported a \<and> key_size_of a \<le> length key"
    using aead_tables [of a] by (auto simp: aead_new_def ffi_pointer_def input_slice_Ok key_size_of_def split: if_splits)
  moreover have "digest_new a \<noteq> None \<longleftrightarrow> hash_of a \<noteq> None"
    using digest_new_Some [of a] by blast
  ultimately show ?thesis by blast
qed

end
