(* ===== verification/Tls_Policy.thy ===== *)
theory Tls_Policy
  imports Rust_Text
begin

text \<open>
  The certificate checks of \<open>rust_backend/tls.rs\<close>: the server verifier with its choice
  between fingerprint and chain verification, the OpenVPN certificate policy, and the legacy
  name encodings.  X.509 parsing, chain building and hashing are parameters.
\<close>

unbundle bit_operations_syntax

section \<open>Parsed certificates\<close>

text \<open>
  What the policy reads from a parsed certificate.  Each common name of the subject is
  \<open>None\<close> when it is not text; the two usage extensions can be absent, or malformed with the
  parser's message.
\<close>

record extended_key_usage =
  eku_any :: bool
  eku_server_auth :: bool
  eku_client_auth :: bool
  eku_code_signing :: bool
  eku_email_protection :: bool
  eku_time_stamping :: bool
  eku_ocsp_signing :: bool
  eku_other :: "string list"

record ns_cert_type =
  ns_ssl_client :: bool
  ns_ssl_server :: bool

datatype public_key = RSA "u8 list" | EC usize | DSA "u8 list" | OtherKey usize

record x509 =
  x_common_names :: "string option list"
  x_subject :: string
  x_ns_cert_types :: "ns_cert_type list"
  x_extended_key_usage :: "(extended_key_usage option, string) result"
  x_key_usage :: "(u16 option, string) result"
  x_raw_serial :: "u8 list"
  x_public_key :: "(public_key, string) result"
  x_key_algorithm_oid :: string

section \<open>The certificate policy\<close>

abbreviation NS_CERT_NONE :: u32 where "NS_CERT_NONE \<equiv> 0"
abbreviation NS_CERT_CLIENT :: u32 where "NS_CERT_CLIENT \<equiv> 1"
abbreviation NS_CERT_SERVER :: u32 where "NS_CERT_SERVER \<equiv> 2"
abbreviation VERIFY_X509_NONE :: u32 where "VERIFY_X509_NONE \<equiv> 0"
abbreviation VERIFY_X509_SUBJECT_DN :: u32 where "VERIFY_X509_SUBJECT_DN \<equiv> 1"
abbreviation VERIFY_X509_SUBJECT_RDN :: u32 where "VERIFY_X509_SUBJECT_RDN \<equiv> 2"
abbreviation VERIFY_X509_SUBJECT_RDN_PREFIX :: u32 where "VERIFY_X509_SUBJECT_RDN_PREFIX \<equiv> 3"

record certificate_policy =
  cp_ns_cert_type :: u32
  cp_key_usages :: "u32 list"
  cp_extended_key_usage :: string
  cp_tls_remote :: string
  cp_verify_x509_name_mode :: u32
  cp_verify_x509_name :: string

definition policy_validate :: "certificate_policy \<Rightarrow> (unit, string) result" where
  "policy_validate p =
     (if cp_ns_cert_type p \<notin> {NS_CERT_NONE, NS_CERT_CLIENT, NS_CERT_SERVER}
      then Err ''invalid ns-cert-type value''
      else if cp_verify_x509_name_mode p \<notin>
          {VERIFY_X509_NONE, VERIFY_X509_SUBJECT_DN, VERIFY_X509_SUBJECT_RDN, VERIFY_X509_SUBJECT_RDN_PREFIX}
      then Err ''invalid verify-x509-name mode''
      else if cp_verify_x509_name_mode p \<noteq> VERIFY_X509_NONE \<and> cp_verify_x509_name p = []
      then Err ''verify-x509-name value is empty''
      else Ok ())"

definition extended_key_usage_matches :: "extended_key_usage \<Rightarrow> string \<Rightarrow> bool" where
  "extended_key_usage_matches usage expected \<longleftrightarrow>
     eku_any usage
     \<or> expected \<in> {''TLS Web Server Authentication'', ''1.3.6.1.5.5.7.3.1''} \<and> eku_server_auth usage
     \<or> expected \<in> {''TLS Web Client Authentication'', ''1.3.6.1.5.5.7.3.2''} \<and> eku_client_auth usage
     \<or> expected \<in> {''Code Signing'', ''1.3.6.1.5.5.7.3.3''} \<and> eku_code_signing usage
     \<or> expected \<in> {''E-mail Protection'', ''1.3.6.1.5.5.7.3.4''} \<and> eku_email_protection usage
     \<or> expected \<in> {''Time Stamping'', ''1.3.6.1.5.5.7.3.8''} \<and> eku_time_stamping usage
     \<or> expected \<in> {''OCSP Signing'', ''1.3.6.1.5.5.7.3.9''} \<and> eku_ocsp_signing usage
     \<or> expected \<in> set (eku_other usage)"

text \<open>Characters are UTF-8 sequences; only one-byte ones can be ASCII.\<close>

fun sanitize_x509_chars :: "bool \<Rightarrow> string list \<Rightarrow> string" where
  "sanitize_x509_chars leading_dash [] = []"
| "sanitize_x509_chars leading_dash (c # cs) =
     (if c = ''-'' \<and> leading_dash then CHR ''_'' # sanitize_x509_chars leading_dash cs
      else (if length c = 1 \<and> (is_ascii_alphanumeric (hd c) \<or> hd c \<in> set ''_-.@:/='') then hd c else CHR ''_'')
           # sanitize_x509_chars False cs)"

definition sanitize_x509_name :: "string \<Rightarrow> string" where
  "sanitize_x509_name value = sanitize_x509_chars True (chars value)"

definition sanitize_common_name :: "string \<Rightarrow> string" where
  "sanitize_common_name value =
     map (\<lambda>c. if length c = 1 \<and> (is_ascii_alphanumeric (hd c) \<or> hd c \<in> set ''_-.@/'') then hd c else CHR ''_'')
       (chars value)"

text \<open>The loop that turns the X.509 bit order around.\<close>

definition key_usage_encoded :: "u16 \<Rightarrow> u32" where
  "key_usage_encoded flags =
     fold (\<lambda>bit encoded. if flags AND push_bit bit 1 \<noteq> 0 then encoded OR push_bit (7 - bit) 1 else encoded) [0..<8] 0"

definition common_name :: "x509 \<Rightarrow> string" where
  "common_name cert = (case x_common_names cert of Some name # _ \<Rightarrow> name | _ \<Rightarrow> [])"

definition ns_cert_type_matches :: "u32 \<Rightarrow> ns_cert_type \<Rightarrow> bool" where
  "ns_cert_type_matches expected value \<longleftrightarrow>
     expected = NS_CERT_SERVER \<and> ns_ssl_server value \<or> expected = NS_CERT_CLIENT \<and> ns_ssl_client value"

definition check_ns_cert_type :: "certificate_policy \<Rightarrow> x509 \<Rightarrow> (unit, string) result" where
  "check_ns_cert_type p cert =
     (if cp_ns_cert_type p = NS_CERT_NONE then Ok ()
      else if list_ex (ns_cert_type_matches (cp_ns_cert_type p)) (x_ns_cert_types cert) then Ok ()
      else and_then (x_extended_key_usage cert) (\<lambda>extension.
        if (case extension of
              None \<Rightarrow> False
            | Some value \<Rightarrow> eku_any value \<or> cp_ns_cert_type p = NS_CERT_SERVER \<and> eku_server_auth value
                            \<or> cp_ns_cert_type p = NS_CERT_CLIENT \<and> eku_client_auth value)
        then Ok () else Err ''peer certificate has the wrong ns-cert-type''))"

definition check_key_usage :: "certificate_policy \<Rightarrow> x509 \<Rightarrow> (unit, string) result" where
  "check_key_usage p cert =
     (if cp_key_usages p = [] then Ok ()
      else and_then (x_key_usage cert) (\<lambda>usage.
        case usage of
          None \<Rightarrow> Err ''peer certificate has no key usage extension''
        | Some flags \<Rightarrow>
            if key_usage_encoded flags \<in> set (cp_key_usages p) then Ok ()
            else Err (''peer certificate key usage 0x'' @ hex02 (unat (key_usage_encoded flags)) @ '' is not allowed'')))"

definition check_extended_key_usage :: "certificate_policy \<Rightarrow> x509 \<Rightarrow> (unit, string) result" where
  "check_extended_key_usage p cert =
     (if cp_extended_key_usage p = [] then Ok ()
      else and_then (x_extended_key_usage cert) (\<lambda>usage.
        case usage of
          None \<Rightarrow> Err ''peer certificate has no extended key usage extension''
        | Some value \<Rightarrow>
            if extended_key_usage_matches value (cp_extended_key_usage p) then Ok ()
            else Err (''peer certificate extended key usage does not include '' @ cp_extended_key_usage p)))"

definition check_x509_name :: "certificate_policy \<Rightarrow> x509 \<Rightarrow> (unit, string) result" where
  "check_x509_name p cert =
     (if (if cp_verify_x509_name_mode p = VERIFY_X509_NONE then True
          else if cp_verify_x509_name_mode p = VERIFY_X509_SUBJECT_DN then cp_verify_x509_name p = x_subject cert
          else if cp_verify_x509_name_mode p = VERIFY_X509_SUBJECT_RDN then cp_verify_x509_name p = common_name cert
          else if cp_verify_x509_name_mode p = VERIFY_X509_SUBJECT_RDN_PREFIX
          then starts_with (common_name cert) (cp_verify_x509_name p)
          else False)
      then Ok () else Err ''verify-x509-name did not match the peer certificate'')"

definition legacy_subject :: "x509 \<Rightarrow> string" where
  "legacy_subject cert = sanitize_x509_name (''/'' @ str_replace '' + '' ''+'' (str_replace '', '' ''/'' (x_subject cert)))"

definition check_tls_remote :: "certificate_policy \<Rightarrow> x509 \<Rightarrow> (unit, string) result" where
  "check_tls_remote p cert =
     (if cp_tls_remote p = [] then Ok ()
      else if cp_tls_remote p \<noteq> legacy_subject cert \<and>
              \<not> starts_with (sanitize_common_name (common_name cert)) (cp_tls_remote p)
      then Err ''tls-remote did not match the peer certificate''
      else Ok ())"

text \<open>\<open>CertificatePolicy::verify\<close>: the five checks in the order of the code.\<close>

definition policy_verify ::
  "(u8 list \<Rightarrow> (x509, string) result) \<Rightarrow> certificate_policy \<Rightarrow> u8 list \<Rightarrow> (unit, string) result" where
  "policy_verify parse_x509_certificate p certificate =
     and_then (parse_x509_certificate certificate) (\<lambda>cert.
     and_then (check_ns_cert_type p cert) (\<lambda>_.
     and_then (check_key_usage p cert) (\<lambda>_.
     and_then (check_extended_key_usage p cert) (\<lambda>_.
     and_then (check_x509_name p cert) (\<lambda>_.
     check_tls_remote p cert)))))"

section \<open>The server verifier\<close>

text \<open>
  \<open>wp_end_entity\<close> is \<open>EndEntityCert::try_from\<close>; \<open>wp_verify_for_usage\<close> is the chain
  verification with roots, intermediates, time and the optional revocation lists.
\<close>

record 'crl webpki =
  wp_sha256 :: "u8 list \<Rightarrow> u8 list"
  wp_parse_x509 :: "u8 list \<Rightarrow> (x509, string) result"
  wp_end_entity :: "u8 list \<Rightarrow> (unit, string) result"
  wp_verify_for_usage ::
    "u8 list list \<Rightarrow> u8 list list \<Rightarrow> u64 \<Rightarrow> 'crl list option \<Rightarrow> u8 list \<Rightarrow> (unit, string) result"

record 'crl server_verifier =
  sv_roots :: "u8 list list"
  sv_crls :: "'crl list"
  sv_peer_fingerprints :: "u8 list list"
  sv_verify_chain :: bool
  sv_policy :: certificate_policy

definition map_err :: "('e \<Rightarrow> 'f) \<Rightarrow> ('a, 'e) result \<Rightarrow> ('a, 'f) result" where
  "map_err f r = map_sum f id r"

definition verify_chain ::
  "'crl webpki \<Rightarrow> 'crl server_verifier \<Rightarrow> u8 list \<Rightarrow> u8 list list \<Rightarrow> u64 \<Rightarrow> (unit, string) result" where
  "verify_chain w v end_entity intermediates now =
     and_then (map_err (\<lambda>error. ''invalid peer certificate: '' @ error) (wp_end_entity w end_entity)) (\<lambda>_.
       map_err (\<lambda>error. ''peer certificate verification failed: '' @ error)
         (wp_verify_for_usage w (sv_roots v) intermediates now
            (if sv_crls v = [] then None else Some (sv_crls v)) end_entity))"

definition verify_server_cert ::
  "'crl webpki \<Rightarrow> 'crl server_verifier \<Rightarrow> u8 list \<Rightarrow> u8 list list \<Rightarrow> u64 \<Rightarrow> (unit, string) result" where
  "verify_server_cert w v end_entity intermediates now =
     and_then
       (if sv_verify_chain v \<and> sv_peer_fingerprints v \<noteq> [] then
          if wp_sha256 w end_entity \<notin> set (sv_peer_fingerprints v)
          then Err ''peer certificate fingerprint does not match'' else Ok ()
        else if sv_verify_chain v then verify_chain w v end_entity intermediates now
        else Ok ())
       (\<lambda>_. policy_verify (wp_parse_x509 w) (sv_policy v) end_entity)"

section \<open>What acceptance means\<close>

text \<open>The policy as a condition on the parsed certificate.\<close>

definition eku_allows :: "certificate_policy \<Rightarrow> extended_key_usage \<Rightarrow> bool" where
  "eku_allows p value \<longleftrightarrow> eku_any value \<or> cp_ns_cert_type p = NS_CERT_SERVER \<and> eku_server_auth value
     \<or> cp_ns_cert_type p = NS_CERT_CLIENT \<and> eku_client_auth value"

definition policy_holds :: "certificate_policy \<Rightarrow> x509 \<Rightarrow> bool" where
  "policy_holds p cert \<longleftrightarrow>
     (cp_ns_cert_type p \<noteq> NS_CERT_NONE \<longrightarrow>
        (\<exists>value \<in> set (x_ns_cert_types cert). ns_cert_type_matches (cp_ns_cert_type p) value)
        \<or> (\<exists>value. x_extended_key_usage cert = Ok (Some value) \<and> eku_allows p value)) \<and>
     (cp_key_usages p \<noteq> [] \<longrightarrow>
        (\<exists>flags. x_key_usage cert = Ok (Some flags) \<and> key_usage_encoded flags \<in> set (cp_key_usages p))) \<and>
     (cp_extended_key_usage p \<noteq> [] \<longrightarrow>
        (\<exists>value. x_extended_key_usage cert = Ok (Some value)
                 \<and> extended_key_usage_matches value (cp_extended_key_usage p))) \<and>
     (cp_verify_x509_name_mode p \<noteq> VERIFY_X509_NONE \<longrightarrow>
        cp_verify_x509_name_mode p = VERIFY_X509_SUBJECT_DN \<and> cp_verify_x509_name p = x_subject cert
        \<or> cp_verify_x509_name_mode p = VERIFY_X509_SUBJECT_RDN \<and> cp_verify_x509_name p = common_name cert
        \<or> cp_verify_x509_name_mode p = VERIFY_X509_SUBJECT_RDN_PREFIX
          \<and> starts_with (common_name cert) (cp_verify_x509_name p)) \<and>
     (cp_tls_remote p \<noteq> [] \<longrightarrow>
        cp_tls_remote p = legacy_subject cert
        \<or> starts_with (sanitize_common_name (common_name cert)) (cp_tls_remote p))"

lemma check_ns_cert_type_Ok:
  "check_ns_cert_type p cert = Ok () \<longleftrightarrow>
     cp_ns_cert_type p = NS_CERT_NONE
     \<or> (\<exists>value \<in> set (x_ns_cert_types cert). ns_cert_type_matches (cp_ns_cert_type p) value)
     \<or> (\<exists>value. x_extended_key_usage cert = Ok (Some value) \<and> eku_allows p value)"
  by (auto simp: check_ns_cert_type_def list_ex_iff and_then_Ok_iff eku_allows_def split: option.splits)

lemma check_key_usage_Ok:
  "check_key_usage p cert = Ok () \<longleftrightarrow>
     cp_key_usages p = []
     \<or> (\<exists>flags. x_key_usage cert = Ok (Some flags) \<and> key_usage_encoded flags \<in> set (cp_key_usages p))"
  by (auto simp: check_key_usage_def and_then_Ok_iff split: option.splits)

lemma check_extended_key_usage_Ok:
  "check_extended_key_usage p cert = Ok () \<longleftrightarrow>
     cp_extended_key_usage p = []
     \<or> (\<exists>value. x_extended_key_usage cert = Ok (Some value)
                \<and> extended_key_usage_matches value (cp_extended_key_usage p))"
  by (auto simp: check_extended_key_usage_def and_then_Ok_iff split: option.splits)

lemma check_x509_name_Ok:
  "check_x509_name p cert = Ok () \<longleftrightarrow>
     cp_verify_x509_name_mode p = VERIFY_X509_NONE
     \<or> cp_verify_x509_name_mode p = VERIFY_X509_SUBJECT_DN \<and> cp_verify_x509_name p = x_subject cert
     \<or> cp_verify_x509_name_mode p = VERIFY_X509_SUBJECT_RDN \<and> cp_verify_x509_name p = common_name cert
     \<or> cp_verify_x509_name_mode p = VERIFY_X509_SUBJECT_RDN_PREFIX
       \<and> starts_with (common_name cert) (cp_verify_x509_name p)"
  by (auto simp: check_x509_name_def)

lemma check_tls_remote_Ok:
  "check_tls_remote p cert = Ok () \<longleftrightarrow>
     cp_tls_remote p = [] \<or> cp_tls_remote p = legacy_subject cert
     \<or> starts_with (sanitize_common_name (common_name cert)) (cp_tls_remote p)"
  by (simp add: check_tls_remote_def)

lemma policy_verify_Ok:
  "policy_verify parse p der = Ok () \<longleftrightarrow> (\<exists>cert. parse der = Ok cert \<and> policy_holds p cert)"
proof -
  have "policy_verify parse p der = Ok () \<longleftrightarrow> (\<exists>cert. parse der = Ok cert \<and>
      check_ns_cert_type p cert = Ok () \<and> check_key_usage p cert = Ok () \<and>
      check_extended_key_usage p cert = Ok () \<and> check_x509_name p cert = Ok () \<and> check_tls_remote p cert = Ok ())"
    by (simp add: policy_verify_def and_then_Ok_iff)
  then show ?thesis
    by (simp only: check_ns_cert_type_Ok check_key_usage_Ok check_extended_key_usage_Ok check_x509_name_Ok
        check_tls_remote_Ok policy_holds_def imp_conv_disj not_not)
qed

lemma map_err_Ok [simp]: "map_err f r = Ok a \<longleftrightarrow> r = Ok a"
  by (cases r) (simp_all add: map_err_def)

lemma verify_chain_Ok:
  "verify_chain w v der mid now = Ok () \<longleftrightarrow>
     wp_end_entity w der = Ok () \<and>
     wp_verify_for_usage w (sv_roots v) mid now (if sv_crls v = [] then None else Some (sv_crls v)) der = Ok ()"
  by (simp add: verify_chain_def and_then_Ok_iff)

text \<open>One round of the loop, and the bits after all eight.\<close>

lemma bit_single: "bit (push_bit k (1 :: u32)) n \<longleftrightarrow> n = k \<and> k < 32"
  by (auto simp: bit_exp_iff)

lemma key_usage_round:
  "bit (fold (\<lambda>b e. if flags AND push_bit b 1 \<noteq> 0 then e OR push_bit (7 - b) 1 else e) bs (e :: u32)) n \<longleftrightarrow>
     bit e n \<or> (\<exists>b \<in> set bs. bit (flags :: u16) b \<and> n = 7 - b)"
  unfolding bit_iff_and_push_bit_not_eq_0 [symmetric]
proof (induction bs arbitrary: e)
  case (Cons b bs)
  have "7 - b < 32" by simp
  with Cons show ?case by (auto simp: bit_or_iff bit_single simp del: push_bit_of_1)
qed simp

lemma key_usage_bit: "bit (key_usage_encoded flags) n \<longleftrightarrow> n < 8 \<and> bit flags (7 - n)"
proof -
  have "bit (key_usage_encoded flags) n \<longleftrightarrow> (\<exists>b \<in> {0..<8}. bit flags b \<and> n = 7 - b)"
    unfolding key_usage_encoded_def key_usage_round by simp
  also have "\<dots> \<longleftrightarrow> n < 8 \<and> bit flags (7 - n)"
  proof
    assume "n < 8 \<and> bit flags (7 - n)"
    then show "\<exists>b \<in> {0..<8}. bit flags b \<and> n = 7 - b" by (intro bexI [of _ "7 - n"]) auto
  qed auto
  finally show ?thesis .
qed

section \<open>Sanitised names\<close>

definition x509_name_char :: "char \<Rightarrow> bool" where
  "x509_name_char c \<longleftrightarrow> is_ascii_alphanumeric c \<or> c \<in> set ''_-.@:/=''"

lemma sanitize_x509_chars_out:
  "length (sanitize_x509_chars b cs) = length cs \<and> list_all x509_name_char (sanitize_x509_chars b cs)"
  by (induction b cs rule: sanitize_x509_chars.induct) (auto simp: x509_name_char_def)

lemma sanitize_x509_chars_fixed:
  "list_all x509_name_char s \<Longrightarrow> \<not> b \<or> s = [] \<or> hd s \<noteq> CHR ''-'' \<Longrightarrow>
   sanitize_x509_chars b (map (\<lambda>c. [c]) s) = s"
proof (induction s arbitrary: b)
  case (Cons c s)
  have "sanitize_x509_chars False (map (\<lambda>c. [c]) s) = s" using Cons.prems Cons.IH [of False] by simp
  with Cons.prems show ?case by (auto simp: x509_name_char_def)
qed simp

lemma x509_name_char_ascii: "x509_name_char c \<Longrightarrow> byte_val c < 128"
  by (auto simp: x509_name_char_def is_ascii_alphanumeric_def is_ascii_digit_def)

lemma sanitize_first:
  "sanitize_x509_chars True cs = [] \<or> hd (sanitize_x509_chars True cs) \<noteq> CHR ''-''"
  by (cases cs) (auto simp: length_Suc_conv)

lemma sanitize_x509_name_idem: "sanitize_x509_name (sanitize_x509_name s) = sanitize_x509_name s"
proof -
  let ?t = "sanitize_x509_chars True (chars s)"
  have "list_all x509_name_char ?t" by (simp add: sanitize_x509_chars_out)
  moreover from this have "is_ascii ?t"
    by (auto simp: is_ascii_def list_all_iff intro: x509_name_char_ascii)
  ultimately show ?thesis
    using sanitize_x509_chars_fixed [of ?t True] sanitize_first [of "chars s"]
    by (simp add: sanitize_x509_name_def chars_ascii)
qed

definition common_name_char :: "char \<Rightarrow> bool" where
  "common_name_char c \<longleftrightarrow> is_ascii_alphanumeric c \<or> c \<in> set ''_-.@/''"

lemma sanitize_common_name_out:
  "length (sanitize_common_name s) = length (chars s) \<and> list_all common_name_char (sanitize_common_name s)"
  by (auto simp: sanitize_common_name_def common_name_char_def list_all_iff)

lemma sanitize_common_name_fixed:
  assumes "list_all common_name_char s"
  shows "sanitize_common_name s = s"
proof -
  have "is_ascii s" using assms
    by (auto simp: is_ascii_def list_all_iff common_name_char_def is_ascii_alphanumeric_def is_ascii_digit_def)
  then show ?thesis
    using assms by (auto simp: sanitize_common_name_def chars_ascii list_all_iff common_name_char_def intro!: map_idI)
qed

section \<open>Properties\<close>

text \<open>
  C6: a server certificate is accepted only if it is authenticated and satisfies the policy.
  With verification on, either its SHA-256 fingerprint is one of the pinned ones, or no
  fingerprint is pinned and its chain verifies up to the configured roots with every
  configured revocation list; and in all cases the certificate parses and every configured
  policy item holds.  The converse holds as well: nothing else is demanded.
\<close>

theorem server_cert_accepted_iff:
  "verify_server_cert w v der mid now = Ok () \<longleftrightarrow>
     (sv_verify_chain v \<longrightarrow>
        (if sv_peer_fingerprints v \<noteq> [] then wp_sha256 w der \<in> set (sv_peer_fingerprints v)
         else wp_end_entity w der = Ok () \<and>
              wp_verify_for_usage w (sv_roots v) mid now (if sv_crls v = [] then None else Some (sv_crls v)) der = Ok ()))
     \<and> (\<exists>cert. wp_parse_x509 w der = Ok cert \<and> policy_holds (sv_policy v) cert)"
  by (auto simp: verify_server_cert_def and_then_Ok_iff policy_verify_Ok verify_chain_Ok)

text \<open>A parameter and a policy for the witnesses: one root, a certificate that parses as a server's.\<close>

definition sample_cert :: x509 where
  "sample_cert = \<lparr>x_common_names = [Some ''server''], x_subject = ''CN=server'', x_ns_cert_types = [],
     x_extended_key_usage = Ok None, x_key_usage = Ok (Some 5), x_raw_serial = [1], x_public_key = Ok (EC 256),
     x_key_algorithm_oid = []\<rparr>"

definition sample_webpki :: "unit webpki" where
  "sample_webpki = \<lparr>wp_sha256 = (\<lambda>der. replicate 32 0), wp_parse_x509 = (\<lambda>der. Ok sample_cert),
     wp_end_entity = (\<lambda>der. Ok ()),
     wp_verify_for_usage = (\<lambda>roots mid now crls der. if roots = [] then Err ''UnknownIssuer'' else Ok ())\<rparr>"

definition sample_policy :: certificate_policy where
  "sample_policy = \<lparr>cp_ns_cert_type = 0, cp_key_usages = [160], cp_extended_key_usage = [], cp_tls_remote = ''ser'',
     cp_verify_x509_name_mode = 2, cp_verify_x509_name = ''server''\<rparr>"

definition sample_verifier :: "unit server_verifier" where
  "sample_verifier = \<lparr>sv_roots = [[1]], sv_crls = [], sv_peer_fingerprints = [], sv_verify_chain = True,
     sv_policy = sample_policy\<rparr>"

theorem server_cert_accepted_iff_witness:
  "verify_server_cert sample_webpki (sample_verifier\<lparr>sv_roots := []\<rparr>) [7] [] 0 \<noteq> Ok ()"
  using server_cert_accepted_iff [of sample_webpki "sample_verifier\<lparr>sv_roots := []\<rparr>" "[7]" "[]" 0]
  by (simp add: sample_verifier_def sample_webpki_def)

text \<open>
  The key usage number compared with the allowed ones is the X.509 bit string read in the
  other direction: bit \<open>n\<close> of the number is bit \<open>7 - n\<close> of the extension for the eight bits
  the code looks at and nothing else, so that it fits a byte and distinguishes any two
  extensions that differ in these bits.
\<close>

theorem key_usage_is_reversal:
  "(\<forall>n. bit (key_usage_encoded flags) n \<longleftrightarrow> n < 8 \<and> bit flags (7 - n))
   \<and> unat (key_usage_encoded flags) < 256
   \<and> (key_usage_encoded flags = key_usage_encoded flags' \<longleftrightarrow> take_bit 8 flags = take_bit 8 flags')"
proof (intro conjI allI)
  show "bit (key_usage_encoded flags) n \<longleftrightarrow> n < 8 \<and> bit flags (7 - n)" for n by (rule key_usage_bit)
  have "take_bit 8 (key_usage_encoded flags) = key_usage_encoded flags"
    by (rule bit_eqI) (auto simp: bit_take_bit_iff key_usage_bit)
  then have "take_bit 8 (unat (key_usage_encoded flags)) = unat (key_usage_encoded flags)"
    by (metis unsigned_take_bit_eq)
  then show "unat (key_usage_encoded flags) < 256"
    using take_bit_nat_less_exp [of 8 "unat (key_usage_encoded flags)"] by simp
  show "key_usage_encoded flags = key_usage_encoded flags' \<longleftrightarrow> take_bit 8 flags = take_bit 8 flags'"
  proof
    assume eq: "key_usage_encoded flags = key_usage_encoded flags'"
    have "bit flags n \<longleftrightarrow> bit flags' n" if "n < 8" for n
    proof -
      have "7 - n < 8" by arith
      with that eq key_usage_bit [of flags "7 - n"] key_usage_bit [of flags' "7 - n"] show ?thesis by simp
    qed
    then show "take_bit 8 flags = take_bit 8 flags'" by (intro bit_eqI) (auto simp: bit_take_bit_iff)
  next
    assume eq: "take_bit 8 flags = take_bit 8 flags'"
    have "bit flags n \<longleftrightarrow> bit flags' n" if "n < 8" for n
      using that arg_cong [OF eq, of "\<lambda>x. bit x n"] by (simp add: bit_take_bit_iff)
    then show "key_usage_encoded flags = key_usage_encoded flags'" by (intro bit_eqI) (auto simp: key_usage_bit)
  qed
qed

text \<open>
  The legacy name encodings yield one character per character of the input and only
  characters of their alphabet, whatever Unicode the certificate holds, and encoding an
  encoded name changes nothing; an encoded subject never starts with a dash.
\<close>

theorem sanitised_names:
  "length (sanitize_x509_name s) = length (chars s) \<and> list_all x509_name_char (sanitize_x509_name s)
   \<and> sanitize_x509_name (sanitize_x509_name s) = sanitize_x509_name s
   \<and> take 1 (sanitize_x509_name s) \<noteq> ''-''
   \<and> length (sanitize_common_name s) = length (chars s) \<and> list_all common_name_char (sanitize_common_name s)
   \<and> sanitize_common_name (sanitize_common_name s) = sanitize_common_name s"
  using sanitize_x509_chars_out [of True "chars s"] sanitize_first [of "chars s"] sanitize_x509_name_idem [of s]
    sanitize_common_name_out [of s] sanitize_common_name_fixed [of "sanitize_common_name s"]
  by (cases "sanitize_x509_chars True (chars s)") (auto simp: sanitize_x509_name_def)

end
