(* ===== verification/Tls_Config.thy ===== *)
theory Tls_Config
  imports Tls_Policy Native_Data
begin

text \<open>
  Building a TLS configuration in \<open>rust_backend/tls.rs\<close>: the FFI helpers, the parsers of the
  OpenVPN options (cipher and group selectors, key usages, fingerprints, version bounds),
  the external signing key, the PEM checks, and \<open>config_new\<close> itself.  rustls, webpki and the
  PEM readers are parameters.
\<close>

section \<open>FFI helpers\<close>

definition view_bytes :: "ovpn_string_view \<Rightarrow> (string, string) result" where
  "view_bytes value =
     (if cs_len value = 0 then Ok []
      else case cs_data value of
             None \<Rightarrow> Err ''string view data pointer is null''
           | Some mem \<Rightarrow> Ok (take (cs_len value) mem))"

definition view_str :: "ovpn_string_view \<Rightarrow> (string, string) result" where
  "view_str value = and_then (view_bytes value) from_utf8"

definition tls_input_slice :: "'a ptr \<Rightarrow> usize \<Rightarrow> ('a list, string) result" where
  "tls_input_slice input len =
     (if len = 0 then Ok []
      else case input of None \<Rightarrow> Err ''input pointer is null'' | Some mem \<Rightarrow> Ok (take len mem))"

definition tls_output_slice :: "'a ptr \<Rightarrow> usize \<Rightarrow> ('a list, string) result" where
  "tls_output_slice output len =
     (if len = 0 then Ok []
      else case output of None \<Rightarrow> Err ''output pointer is null'' | Some mem \<Rightarrow> Ok (take len mem))"

definition tls_copy_output :: "'a ptr \<Rightarrow> usize \<Rightarrow> 'a list \<Rightarrow> (usize, string) result \<times> 'a ptr" where
  "tls_copy_output output capacity value =
     (case tls_output_slice output capacity of
        Inl e \<Rightarrow> (Err e, output)
      | Inr out \<Rightarrow>
          (let len = min (length out) (length value)
           in (Ok len, map_option (write_prefix (take len value)) output)))"

text \<open>\<open>write_error\<close>: a NUL follows the message when there is room for it.\<close>

definition write_error :: "char ptr \<Rightarrow> usize \<Rightarrow> string \<Rightarrow> char ptr" where
  "write_error output capacity message =
     (case tls_output_slice output capacity of
        Inl _ \<Rightarrow> output
      | Inr out \<Rightarrow>
          (let len = min (length out) (length message);
               text = take len message @ (if len < length out then [CHR 0x00] else [])
           in map_option (write_prefix text) output))"

definition tls_handle :: "'h option \<Rightarrow> ('h, string) result" where
  "tls_handle handle = (case handle of None \<Rightarrow> Err ''handle is null'' | Some h \<Rightarrow> Ok h)"

definition panic_text :: string where
  "panic_text = ''Rust TLS callback panicked''"

definition tls_ffi_pointer ::
  "char ptr \<Rightarrow> usize \<Rightarrow> ('h, string) result outcome \<Rightarrow> 'h option \<times> char ptr" where
  "tls_ffi_pointer error capacity function =
     (case function of
        Returned (Inr value) \<Rightarrow> (Some value, error)
      | Returned (Inl message) \<Rightarrow> (None, write_error error capacity message)
      | Panicked \<Rightarrow> (None, write_error error capacity panic_text))"

definition tls_ffi_io :: "char ptr \<Rightarrow> usize \<Rightarrow> (usize, string) result outcome \<Rightarrow> isize \<times> char ptr" where
  "tls_ffi_io error capacity function =
     (case function of
        Returned (Inr value) \<Rightarrow>
          (if value = USIZE_MAX then - 2 else if int value \<le> ISIZE_MAX then int value else - 1, error)
      | Returned (Inl message) \<Rightarrow> (- 3, write_error error capacity message)
      | Panicked \<Rightarrow> (- 3, write_error error capacity panic_text))"

definition tls_ffi_status :: "(unit, string) result outcome \<Rightarrow> i32" where
  "tls_ffi_status function = (case function of Returned (Inr _) \<Rightarrow> 1 | _ \<Rightarrow> 0)"

definition ffi_status_with_error ::
  "char ptr \<Rightarrow> usize \<Rightarrow> (unit, string) result outcome \<Rightarrow> i32 \<times> char ptr" where
  "ffi_status_with_error error capacity function =
     (case function of
        Returned (Inr _) \<Rightarrow> (1, error)
      | Returned (Inl message) \<Rightarrow> (0, write_error error capacity message)
      | Panicked \<Rightarrow> (0, write_error error capacity panic_text))"

definition ffi_state :: "(bool, string) result outcome \<Rightarrow> i32" where
  "ffi_state function = (case function of Returned (Inr value) \<Rightarrow> bool_i32 value | _ \<Rightarrow> 0)"

definition tls_ffi_length :: "(usize, string) result outcome \<Rightarrow> usize" where
  "tls_ffi_length function = (case function of Returned (Inr value) \<Rightarrow> value | _ \<Rightarrow> 0)"

section \<open>Option parsers\<close>

definition selector_names :: "string \<Rightarrow> string list" where
  "selector_names value =
     map (\<lambda>name. str_replace ''-'' ''_'' (to_ascii_uppercase name))
       (filter (\<lambda>name. name \<noteq> []) (map trim (split_on CHR '':'' value)))"

text \<open>
  Cipher suites of rustls: the six the code names, and every other one with the text of its
  debug format, which for a named suite is its name.
\<close>

datatype cipher_suite =
    TLS_ECDHE_RSA_WITH_AES_128_GCM_SHA256
  | TLS_ECDHE_RSA_WITH_AES_256_GCM_SHA384
  | TLS_ECDHE_ECDSA_WITH_AES_128_GCM_SHA256
  | TLS_ECDHE_ECDSA_WITH_AES_256_GCM_SHA384
  | TLS_ECDHE_RSA_WITH_CHACHA20_POLY1305_SHA256
  | TLS_ECDHE_ECDSA_WITH_CHACHA20_POLY1305_SHA256
  | OtherSuite string

fun suite_debug :: "cipher_suite \<Rightarrow> string" where
  "suite_debug TLS_ECDHE_RSA_WITH_AES_128_GCM_SHA256 = ''TLS_ECDHE_RSA_WITH_AES_128_GCM_SHA256''"
| "suite_debug TLS_ECDHE_RSA_WITH_AES_256_GCM_SHA384 = ''TLS_ECDHE_RSA_WITH_AES_256_GCM_SHA384''"
| "suite_debug TLS_ECDHE_ECDSA_WITH_AES_128_GCM_SHA256 = ''TLS_ECDHE_ECDSA_WITH_AES_128_GCM_SHA256''"
| "suite_debug TLS_ECDHE_ECDSA_WITH_AES_256_GCM_SHA384 = ''TLS_ECDHE_ECDSA_WITH_AES_256_GCM_SHA384''"
| "suite_debug TLS_ECDHE_RSA_WITH_CHACHA20_POLY1305_SHA256 = ''TLS_ECDHE_RSA_WITH_CHACHA20_POLY1305_SHA256''"
| "suite_debug TLS_ECDHE_ECDSA_WITH_CHACHA20_POLY1305_SHA256 = ''TLS_ECDHE_ECDSA_WITH_CHACHA20_POLY1305_SHA256''"
| "suite_debug (OtherSuite text) = text"

definition cipher_suite_matches :: "cipher_suite \<Rightarrow> string \<Rightarrow> bool" where
  "cipher_suite_matches suite name \<longleftrightarrow>
     suite_debug suite = name \<or>
     (suite, name) \<in> {
       (TLS_ECDHE_RSA_WITH_AES_128_GCM_SHA256, ''ECDHE_RSA_AES128_GCM_SHA256''),
       (TLS_ECDHE_RSA_WITH_AES_256_GCM_SHA384, ''ECDHE_RSA_AES256_GCM_SHA384''),
       (TLS_ECDHE_ECDSA_WITH_AES_128_GCM_SHA256, ''ECDHE_ECDSA_AES128_GCM_SHA256''),
       (TLS_ECDHE_ECDSA_WITH_AES_256_GCM_SHA384, ''ECDHE_ECDSA_AES256_GCM_SHA384''),
       (TLS_ECDHE_RSA_WITH_CHACHA20_POLY1305_SHA256, ''ECDHE_RSA_CHACHA20_POLY1305''),
       (TLS_ECDHE_ECDSA_WITH_CHACHA20_POLY1305_SHA256, ''ECDHE_ECDSA_CHACHA20_POLY1305'')}"

datatype named_group = X25519 | Secp256r1 | Secp384r1 | OtherGroup u16

definition key_exchange_group_matches :: "named_group \<Rightarrow> string \<Rightarrow> bool" where
  "key_exchange_group_matches grp name \<longleftrightarrow>
     grp = X25519 \<and> name = ''X25519''
     \<or> grp = Secp256r1 \<and> name \<in> {''SECP256R1'', ''PRIME256V1'', ''P_256''}
     \<or> grp = Secp384r1 \<and> name \<in> {''SECP384R1'', ''P_384''}"

datatype protocol_version = TLSv1_2 | TLSv1_3 | OtherVersion

record crypto_provider =
  pv_cipher_suites :: "(cipher_suite \<times> protocol_version) list"
  pv_kx_groups :: "named_group list"

definition restricts :: "string list \<Rightarrow> bool" where
  "restricts names \<longleftrightarrow> names \<noteq> [] \<and> ''DEFAULT'' \<notin> set names"

definition configure_provider ::
  "crypto_provider \<Rightarrow> string \<Rightarrow> string \<Rightarrow> string \<Rightarrow> (crypto_provider, string) result" where
  "configure_provider provider tls12 tls13 groups =
     (let tls12_names = selector_names tls12;
          tls13_names = selector_names tls13;
          suites = (if restricts tls12_names
                    then filter (\<lambda>(suite, version). version = TLSv1_3
                           \<or> list_ex (cipher_suite_matches suite) tls12_names) (pv_cipher_suites provider)
                    else pv_cipher_suites provider);
          suites = (if restricts tls13_names
                    then filter (\<lambda>(suite, version). version = TLSv1_2
                           \<or> list_ex (cipher_suite_matches suite) tls13_names) suites
                    else suites)
      in if suites = [] then Err ''configured TLS cipher lists contain no rustls-supported suites''
         else
           let group_names = selector_names groups
           in if restricts group_names
              then let kx = filter (\<lambda>grp. list_ex (key_exchange_group_matches grp) group_names) (pv_kx_groups provider)
                   in if kx = [] then Err ''configured tls-groups contains no rustls-supported group''
                      else Ok \<lparr>pv_cipher_suites = suites, pv_kx_groups = kx\<rparr>
              else Ok (provider\<lparr>pv_cipher_suites := suites\<rparr>))"

definition parse_key_usages :: "string \<Rightarrow> (u32 list, string) result" where
  "parse_key_usages value =
     collect_results (map (\<lambda>value. map_sum (\<lambda>error. ''invalid remote-cert-ku value: '' @ int_error_text error) of_nat
         (parse_unsigned (2 ^ 32 - 1) 10 value))
       (filter (\<lambda>value. value \<noteq> []) (map trim (split_on CHR '','' value))))"

abbreviation TLS_VERSION_1_2 :: u32 where "TLS_VERSION_1_2 \<equiv> 3"
abbreviation TLS_VERSION_1_3 :: u32 where "TLS_VERSION_1_3 \<equiv> 4"

definition protocol_versions :: "u32 \<Rightarrow> u32 \<Rightarrow> (protocol_version list, string) result" where
  "protocol_versions minimum maximum =
     (let minimum = (if minimum = 0 then TLS_VERSION_1_2 else max minimum TLS_VERSION_1_2);
          maximum = (if maximum = 0 then TLS_VERSION_1_3 else maximum);
          versions = (if minimum \<le> TLS_VERSION_1_3 \<and> TLS_VERSION_1_3 \<le> maximum then [TLSv1_3] else [])
                   @ (if minimum \<le> TLS_VERSION_1_2 \<and> TLS_VERSION_1_2 \<le> maximum then [TLSv1_2] else [])
      in if versions = [] then Err ''rustls supports TLS 1.2 and TLS 1.3'' else Ok versions)"

definition parse_fingerprint :: "string \<Rightarrow> (u8 list, string) result" where
  "parse_fingerprint line =
     and_then
       (collect_results (map (\<lambda>part. map_sum (\<lambda>error. ''invalid peer fingerprint: '' @ int_error_text error) of_nat
          (parse_unsigned 255 16 part)) (split_on CHR '':'' line)))
       (\<lambda>bytes. if length bytes = 32 then Ok bytes else Err ''peer fingerprint must contain 32 bytes'')"

definition parse_fingerprints :: "string \<Rightarrow> (u8 list list, string) result" where
  "parse_fingerprints value =
     collect_results (map parse_fingerprint
       (filter (\<lambda>line. line \<noteq> [] \<and> \<not> (starts_with line ''#'' \<or> starts_with line '';''))
         (map trim (str_lines value))))"

section \<open>Numbers in certificates\<close>

text \<open>\<open>u8::leading_zeros\<close>.\<close>

definition leading_zeros :: "u8 \<Rightarrow> nat" where
  "leading_zeros b = length (takeWhile (\<lambda>i. \<not> bit b (7 - i)) [0..<8])"

definition significant_bits :: "u8 list \<Rightarrow> usize" where
  "significant_bits value =
     (case dropWhile (\<lambda>b. b = 0) value of
        [] \<Rightarrow> 0
      | first # rest \<Rightarrow> length (first # rest) * 8 - leading_zeros first)"

text \<open>A big-endian byte string as a number.\<close>

definition be_number :: "u8 list \<Rightarrow> nat" where
  "be_number bs = foldl (\<lambda>n b. n * 256 + unat b) 0 bs"

definition serial_i64 :: "u8 list \<Rightarrow> i64" where
  "serial_i64 value =
     (let value = (case value of [] \<Rightarrow> [] | b # rest \<Rightarrow> if b = 0 then rest else b # rest)
      in if 8 < length value then - 1
         else let n = be_number (replicate (8 - length value) 0 @ value)
              in if int n \<le> I64_MAX then int n else - 1)"

section \<open>External signing\<close>

datatype signature_algorithm = AlgRSA | AlgECDSA | AlgED25519 | AlgED448 | AlgOther

datatype signature_scheme =
    RSA_PSS_SHA256 | RSA_PSS_SHA384 | RSA_PSS_SHA512
  | RSA_PKCS1_SHA256 | RSA_PKCS1_SHA384 | RSA_PKCS1_SHA512
  | ECDSA_NISTP256_SHA256 | ECDSA_NISTP384_SHA384 | ECDSA_NISTP521_SHA512
  | ED25519 | ED448 | OtherScheme u16

fun preferred_schemes :: "signature_algorithm \<Rightarrow> signature_scheme list" where
  "preferred_schemes AlgRSA = [RSA_PSS_SHA256, RSA_PSS_SHA384, RSA_PSS_SHA512,
     RSA_PKCS1_SHA256, RSA_PKCS1_SHA384, RSA_PKCS1_SHA512]"
| "preferred_schemes AlgECDSA = [ECDSA_NISTP256_SHA256, ECDSA_NISTP384_SHA384, ECDSA_NISTP521_SHA512]"
| "preferred_schemes AlgED25519 = [ED25519]"
| "preferred_schemes AlgED448 = [ED448]"
| "preferred_schemes AlgOther = []"

text \<open>
  The C callback: given the scheme, the message and the size of the output buffer it returns
  a length and the bytes it left in the buffer.
\<close>

type_synonym sign_callback = "signature_scheme \<Rightarrow> u8 list \<Rightarrow> usize \<Rightarrow> isize \<times> u8 list"

record external_signer =
  es_callback :: "sign_callback option"
  es_scheme :: signature_scheme

record external_signing_key =
  ek_callback :: "sign_callback option"
  ek_algorithm :: signature_algorithm

definition choose_scheme :: "external_signing_key \<Rightarrow> signature_scheme list \<Rightarrow> external_signer option" where
  "choose_scheme key offered =
     map_option (\<lambda>scheme. \<lparr>es_callback = ek_callback key, es_scheme = scheme\<rparr>)
       (find (\<lambda>scheme. scheme \<in> set offered) (preferred_schemes (ek_algorithm key)))"

definition SIGNATURE_CAPACITY :: usize where
  "SIGNATURE_CAPACITY = 8192"

definition sign :: "external_signer \<Rightarrow> u8 list \<Rightarrow> (u8 list, string) result" where
  "sign signer message =
     (case es_callback signer of
        None \<Rightarrow> Err ''external signing callback is unavailable''
      | Some callback \<Rightarrow>
          (case callback (es_scheme signer) message SIGNATURE_CAPACITY of (len, buffer) \<Rightarrow>
             if len < 0 then Err ''external private key signing failed''
             else if len = 0 \<or> int SIGNATURE_CAPACITY < len then Err ''external private key signing failed''
             else Ok (take (nat len) buffer)))"

section \<open>The libraries as a parameter\<close>

text \<open>
  \<open>tl_pem_certs\<close>, \<open>tl_pem_crls\<close> and \<open>tl_pem_private_key\<close> are the PEM readers (their results
  collected); \<open>tl_secret_from_pem\<close>, \<open>tl_encrypted_from_der\<close> and \<open>tl_decrypt\<close> the PKCS\#8
  functions; \<open>tl_add_root\<close> the trust-anchor check of \<open>RootCertStore::add\<close>; the last two the
  checks of the rustls configuration builder.
\<close>

record 'crl tls_lib =
  tl_default_provider :: crypto_provider
  tl_pem_certs :: "string \<Rightarrow> (u8 list list, string) result"
  tl_pem_crls :: "string \<Rightarrow> (u8 list list, string) result"
  tl_pem_private_key :: "string \<Rightarrow> (u8 list option, string) result"
  tl_secret_from_pem :: "string \<Rightarrow> (u8 list, string) result"
  tl_encrypted_from_der :: "u8 list \<Rightarrow> (u8 list, string) result"
  tl_decrypt :: "u8 list \<Rightarrow> string \<Rightarrow> (u8 list, string) result"
  tl_add_root :: "u8 list \<Rightarrow> (unit, string) result"
  tl_crl_from_der :: "u8 list \<Rightarrow> ('crl, string) result"
  tl_parse_x509 :: "u8 list \<Rightarrow> (x509, string) result"
  tl_with_protocol_versions :: "crypto_provider \<Rightarrow> protocol_version list \<Rightarrow> (unit, string) result"
  tl_with_client_auth_cert :: "u8 list list \<Rightarrow> u8 list \<Rightarrow> (unit, string) result"

section \<open>PEM material\<close>

definition parse_certificates :: "'crl tls_lib \<Rightarrow> string \<Rightarrow> (u8 list list, string) result" where
  "parse_certificates lib value = (if value = [] then Ok [] else tl_pem_certs lib value)"

definition parse_crls :: "'crl tls_lib \<Rightarrow> string \<Rightarrow> (u8 list list, string) result" where
  "parse_crls lib value = (if value = [] then Ok [] else tl_pem_crls lib value)"

definition parse_private_key :: "'crl tls_lib \<Rightarrow> string \<Rightarrow> string \<Rightarrow> (u8 list, string) result" where
  "parse_private_key lib value password =
     (if value = [] then Err ''private key is empty''
      else if str_contains value ''BEGIN ENCRYPTED PRIVATE KEY'' then
        and_then (from_utf8 value) (\<lambda>pem.
        and_then (tl_secret_from_pem lib pem) (\<lambda>document.
        and_then (tl_encrypted_from_der lib document) (\<lambda>encrypted.
          map_err (\<lambda>error. ''failed to decrypt private key: '' @ error) (tl_decrypt lib encrypted password))))
      else
        and_then (tl_pem_private_key lib value) (\<lambda>key.
          case key of None \<Rightarrow> Err ''no supported private key found'' | Some key \<Rightarrow> Ok key))"

abbreviation PK_UNKNOWN :: u32 where "PK_UNKNOWN \<equiv> 0"
abbreviation PK_NONE :: u32 where "PK_NONE \<equiv> 1"
abbreviation PK_DSA :: u32 where "PK_DSA \<equiv> 2"
abbreviation PK_RSA :: u32 where "PK_RSA \<equiv> 3"
abbreviation PK_ECDSA :: u32 where "PK_ECDSA \<equiv> 5"

definition certificate_key_info :: "'crl tls_lib \<Rightarrow> u8 list \<Rightarrow> (u32 \<times> usize, string) result" where
  "certificate_key_info lib certificate =
     and_then (tl_parse_x509 lib certificate) (\<lambda>cert.
     and_then (x_public_key cert) (\<lambda>public_key.
       Ok (case public_key of
             RSA modulus \<Rightarrow> (PK_RSA, significant_bits modulus)
           | EC key_size \<Rightarrow> (PK_ECDSA, key_size)
           | DSA key \<Rightarrow> (PK_DSA, significant_bits key)
           | OtherKey key_size \<Rightarrow> (PK_UNKNOWN, key_size))))"

definition certificate_signature_algorithm :: "'crl tls_lib \<Rightarrow> u8 list \<Rightarrow> (signature_algorithm, string) result" where
  "certificate_signature_algorithm lib certificate =
     and_then (tl_parse_x509 lib certificate) (\<lambda>cert.
     and_then (x_public_key cert) (\<lambda>public_key.
       case public_key of
         RSA _ \<Rightarrow> Ok AlgRSA
       | EC _ \<Rightarrow> Ok AlgECDSA
       | _ \<Rightarrow>
           (if x_key_algorithm_oid cert = ''1.3.101.112'' then Ok AlgED25519
            else if x_key_algorithm_oid cert = ''1.3.101.113'' then Ok AlgED448
            else Err (''unsupported external private key algorithm '' @ x_key_algorithm_oid cert))))"

abbreviation PEM_CERT :: u32 where "PEM_CERT \<equiv> 1"
abbreviation PEM_CERT_LIST :: u32 where "PEM_CERT_LIST \<equiv> 2"
abbreviation PEM_PRIVATE_KEY :: u32 where "PEM_PRIVATE_KEY \<equiv> 3"
abbreviation PEM_CRL :: u32 where "PEM_CRL \<equiv> 4"
abbreviation PEM_DH :: u32 where "PEM_DH \<equiv> 5"

definition validate_body :: "'crl tls_lib \<Rightarrow> u32 \<Rightarrow> string \<Rightarrow> string \<Rightarrow> (unit, string) result" where
  "validate_body lib kind value password =
     (if kind = PEM_CERT then
        and_then (parse_certificates lib value) (\<lambda>certs.
          if length certs \<noteq> 1 then Err ''expected exactly one certificate'' else Ok ())
      else if kind = PEM_CERT_LIST then
        and_then (parse_certificates lib value) (\<lambda>certs.
          if certs = [] then Err ''certificate list is empty'' else Ok ())
      else if kind = PEM_PRIVATE_KEY then and_then (parse_private_key lib value password) (\<lambda>_. Ok ())
      else if kind = PEM_CRL then
        and_then (parse_crls lib value) (\<lambda>crls.
          if crls = [] then Err ''certificate revocation list is empty'' else Ok ())
      else if kind = PEM_DH then
        (if \<not> str_contains value ''BEGIN DH PARAMETERS'' then Err ''invalid DH parameters PEM'' else Ok ())
      else Err ''unknown PEM validation type'')"

definition validate ::
  "'crl tls_lib \<Rightarrow> u32 \<Rightarrow> ovpn_string_view \<Rightarrow> ovpn_string_view \<Rightarrow> char ptr \<Rightarrow> usize \<Rightarrow> i32 \<times> char ptr" where
  "validate lib kind value password error error_capacity =
     ffi_status_with_error error error_capacity (Returned (
       and_then (view_bytes value) (\<lambda>value. and_then (view_bytes password) (\<lambda>password.
         validate_body lib kind value password))))"

text \<open>\<open>key_info\<close>: the status and what the two output pointers hold afterwards.\<close>

definition key_info ::
  "'crl tls_lib \<Rightarrow> ovpn_string_view \<Rightarrow> u32 option \<Rightarrow> usize option \<Rightarrow> i32 \<times> u32 option \<times> usize option" where
  "key_info lib cert key_type key_bits =
     (if key_type = None \<or> key_bits = None then (tls_ffi_status (Returned (Err ''key info output pointer is null'')), key_type, key_bits)
      else
        case and_then (view_bytes cert) (\<lambda>cert. and_then (parse_certificates lib cert) (\<lambda>certificates.
               case certificates of [] \<Rightarrow> Ok (PK_NONE, 0) | certificate # _ \<Rightarrow> certificate_key_info lib certificate)) of
          Inl e \<Rightarrow> (tls_ffi_status (Returned (Err e)), key_type, key_bits)
        | Inr (kind, bits) \<Rightarrow> (tls_ffi_status (Returned (Ok ())), Some kind, Some bits))"

section \<open>The configuration\<close>

abbreviation NO_VERIFY_PEER :: u32 where "NO_VERIFY_PEER \<equiv> push_bit 1 1"
abbreviation VERIFY_PEER_FINGERPRINT :: u32 where "VERIFY_PEER_FINGERPRINT \<equiv> push_bit 8 1"

datatype client_auth =
    NoClientAuth
  | ClientKey "u8 list list" "u8 list"
  | ExternalKey "u8 list list" external_signing_key

record 'crl tls_config =
  tc_provider :: crypto_provider
  tc_versions :: "protocol_version list"
  tc_verifier :: "'crl server_verifier"
  tc_client_auth :: client_auth
  tc_enable_sni :: bool

text \<open>The arguments of \<open>config_new\<close>.\<close>

record config_args =
  ca_ca :: ovpn_string_view
  ca_crl :: ovpn_string_view
  ca_cert :: ovpn_string_view
  ca_extra_certs :: ovpn_string_view
  ca_private_key :: ovpn_string_view
  ca_private_key_password :: ovpn_string_view
  ca_peer_fingerprints :: ovpn_string_view
  ca_ns_cert_type :: u32
  ca_key_usage_selector :: ovpn_string_view
  ca_extended_usage_selector :: ovpn_string_view
  ca_tls_remote :: ovpn_string_view
  ca_verify_x509_name_mode :: u32
  ca_verify_x509_name :: ovpn_string_view
  ca_tls_cipher_list :: ovpn_string_view
  ca_tls_ciphersuite_list :: ovpn_string_view
  ca_tls_groups :: ovpn_string_view
  ca_tls_version_min :: u32
  ca_tls_version_max :: u32
  ca_flags :: u32
  ca_local_cert_enabled :: i32
  ca_external_sign :: "sign_callback option"

definition parse_policy :: "config_args \<Rightarrow> (certificate_policy, string) result" where
  "parse_policy a =
     and_then (and_then (view_str (ca_key_usage_selector a)) parse_key_usages) (\<lambda>key_usages.
     and_then (view_str (ca_extended_usage_selector a)) (\<lambda>extended_key_usage.
     and_then (view_str (ca_tls_remote a)) (\<lambda>tls_remote.
     and_then (view_str (ca_verify_x509_name a)) (\<lambda>verify_x509_name.
       let policy = \<lparr>cp_ns_cert_type = ca_ns_cert_type a, cp_key_usages = key_usages,
              cp_extended_key_usage = extended_key_usage, cp_tls_remote = tls_remote,
              cp_verify_x509_name_mode = ca_verify_x509_name_mode a, cp_verify_x509_name = verify_x509_name\<rparr>
       in and_then (policy_validate policy) (\<lambda>_. Ok policy)))))"

text \<open>The verifier part: roots, the check that there is something to verify against, the revocation lists.\<close>

definition make_verifier ::
  "'crl tls_lib \<Rightarrow> u32 \<Rightarrow> string \<Rightarrow> string \<Rightarrow> u8 list list \<Rightarrow> certificate_policy \<Rightarrow> ('crl server_verifier, string) result" where
  "make_verifier lib flags ca crl peer_fingerprints policy =
     and_then (parse_certificates lib ca) (\<lambda>root_certs.
     and_then (collect_results (map (\<lambda>root. map_sum (\<lambda>error. ''invalid CA certificate: '' @ error) (\<lambda>_. root)
                 (tl_add_root lib root)) root_certs)) (\<lambda>roots.
       if flags AND NO_VERIFY_PEER = 0 \<and> peer_fingerprints = [] \<and> roots = []
       then Err ''CA certificate is required when peer verification is enabled''
       else
         and_then (parse_crls lib crl) (\<lambda>values.
         and_then (collect_results (map (\<lambda>value. map_err (\<lambda>error. ''invalid certificate revocation list: '' @ error)
                     (tl_crl_from_der lib value)) values)) (\<lambda>crls.
           Ok \<lparr>sv_roots = roots, sv_crls = crls, sv_peer_fingerprints = peer_fingerprints,
               sv_verify_chain = (flags AND NO_VERIFY_PEER = 0 \<or> flags AND VERIFY_PEER_FINGERPRINT \<noteq> 0),
               sv_policy = policy\<rparr>))))"

definition make_client_auth ::
  "'crl tls_lib \<Rightarrow> config_args \<Rightarrow> string \<Rightarrow> string \<Rightarrow> string \<Rightarrow> string \<Rightarrow> (client_auth, string) result" where
  "make_client_auth lib a cert extra_certs private_key password =
     (if ca_local_cert_enabled a = 0 then Ok NoClientAuth
      else
        and_then (parse_certificates lib cert) (\<lambda>own.
        and_then (parse_certificates lib extra_certs) (\<lambda>extra.
          let chain = own @ extra
          in case chain of
               [] \<Rightarrow> Err ''client certificate is required''
             | leaf # _ \<Rightarrow>
                 (case ca_external_sign a of
                    Some callback \<Rightarrow>
                      and_then (certificate_signature_algorithm lib leaf) (\<lambda>algorithm.
                        Ok (ExternalKey chain \<lparr>ek_callback = ca_external_sign a, ek_algorithm = algorithm\<rparr>))
                  | None \<Rightarrow>
                      and_then (parse_private_key lib private_key password) (\<lambda>key.
                      and_then (map_err (\<lambda>error. ''invalid client certificate/private key: '' @ error)
                                  (tl_with_client_auth_cert lib chain key)) (\<lambda>_.
                        Ok (ClientKey chain key)))))))"

definition config_new_body :: "'crl tls_lib \<Rightarrow> config_args \<Rightarrow> ('crl tls_config, string) result" where
  "config_new_body lib a =
     and_then (view_str (ca_tls_cipher_list a)) (\<lambda>tls12.
     and_then (view_str (ca_tls_ciphersuite_list a)) (\<lambda>tls13.
     and_then (view_str (ca_tls_groups a)) (\<lambda>groups.
     and_then (configure_provider (tl_default_provider lib) tls12 tls13 groups) (\<lambda>provider.
     and_then (protocol_versions (ca_tls_version_min a) (ca_tls_version_max a)) (\<lambda>versions.
     and_then (view_bytes (ca_ca a)) (\<lambda>ca.
     and_then (view_bytes (ca_crl a)) (\<lambda>crl.
     and_then (view_bytes (ca_cert a)) (\<lambda>cert.
     and_then (view_bytes (ca_extra_certs a)) (\<lambda>extra_certs.
     and_then (view_bytes (ca_private_key a)) (\<lambda>private_key.
     and_then (view_bytes (ca_private_key_password a)) (\<lambda>password.
     and_then (and_then (view_str (ca_peer_fingerprints a)) parse_fingerprints) (\<lambda>peer_fingerprints.
     and_then (parse_policy a) (\<lambda>policy.
     and_then (make_verifier lib (ca_flags a) ca crl peer_fingerprints policy) (\<lambda>verifier.
     and_then (tl_with_protocol_versions lib provider versions) (\<lambda>_.
     and_then (make_client_auth lib a cert extra_certs private_key password) (\<lambda>client_auth.
       Ok \<lparr>tc_provider = provider, tc_versions = versions, tc_verifier = verifier,
           tc_client_auth = client_auth, tc_enable_sni = False\<rparr>))))))))))))))))"

definition config_new ::
  "'crl tls_lib \<Rightarrow> config_args \<Rightarrow> char ptr \<Rightarrow> usize \<Rightarrow> 'crl tls_config option \<times> char ptr" where
  "config_new lib a error error_capacity =
     tls_ffi_pointer error error_capacity (Returned (config_new_body lib a))"

definition config_free :: "'crl tls_config option \<Rightarrow> 'crl tls_config option" where
  "config_free handle = None"

section \<open>Lemmas\<close>

subsection \<open>Lines and trimming\<close>

text \<open>The lines of joined text, up to a carriage return at their ends.\<close>

lemma str_lines_join:
  assumes "\<forall>w\<in>set ws. newline \<notin> set w" "\<forall>w\<in>set ws. w \<noteq> []" "\<forall>w\<in>set ws. f (strip_cr w) = f w"
  shows "map f (str_lines (join_with [newline] ws)) = map f ws"
proof (cases "ws = []")
  case True
  then show ?thesis by (simp add: str_lines_def)
next
  case False
  then have ws: "ws = butlast ws @ [last ws]" by simp
  have "map f (str_lines (join_with [newline] ws)) = map f (map strip_cr (butlast ws)) @ [f (last ws)]"
    using split_on_join [OF False assms(1)] assms(2) False by (simp add: str_lines_def Let_def)
  also have "map f (map strip_cr (butlast ws)) = map f (butlast ws)"
    using assms(3) by (auto dest: in_set_butlastD)
  also have "map f (butlast ws) @ [f (last ws)] = map f ws"
    by (subst (3) ws) simp
  finally show ?thesis .
qed

subsection \<open>Fingerprints\<close>

definition print_fingerprint :: "u8 list \<Rightarrow> string" where
  "print_fingerprint fp = join_with '':'' (map (\<lambda>b. hex02 (unat b)) fp)"

text \<open>A line of a fingerprint file: a comment or a fingerprint.\<close>

fun fingerprint_line :: "string + u8 list \<Rightarrow> string" where
  "fingerprint_line (Inl comment) = CHR ''#'' # comment"
| "fingerprint_line (Inr fp) = print_fingerprint fp"

definition keep_line :: "string \<Rightarrow> bool" where
  "keep_line line \<longleftrightarrow> line \<noteq> [] \<and> \<not> (starts_with line ''#'' \<or> starts_with line '';'')"

definition line_result :: "string \<Rightarrow> (u8 list, string) result list" where
  "line_result line = (if keep_line (trim line) then [parse_fingerprint (trim line)] else [])"

lemma parse_fingerprints_alt:
  "parse_fingerprints value = collect_results (concat (map line_result (str_lines value)))"
proof -
  have "map parse_fingerprint (filter keep_line (map trim ls)) = concat (map line_result ls)" for ls
    by (induction ls) (auto simp: line_result_def)
  then show ?thesis by (simp add: parse_fingerprints_def keep_line_def [abs_def])
qed

definition fp_char :: "char \<Rightarrow> bool" where
  "fp_char c \<longleftrightarrow> is_ascii_alphanumeric c \<or> c = CHR '':''"

lemma fp_char_props:
  assumes "fp_char c"
  shows "byte_val c < 128" "\<not> is_whitespace [c]" "c \<noteq> newline" "c \<noteq> CHR 0x0D" "c \<noteq> CHR ''#''" "c \<noteq> CHR '';''"
proof -
  have b: "48 \<le> byte_val c" "byte_val c < 128" "byte_val c \<noteq> 59"
    using assms by (auto simp: fp_char_def is_ascii_alphanumeric_def is_ascii_digit_def)
  show "byte_val c < 128" by (rule b)
  show "c \<noteq> newline" "c \<noteq> CHR 0x0D" "c \<noteq> CHR ''#''" "c \<noteq> CHR '';''" using b by auto
  have "c \<noteq> char_of n" if "n \<in> {9, 10, 11, 12, 13, 32}" for n :: nat
    using b(1) that by auto
  then show "\<not> is_whitespace [c]" by (auto simp: is_whitespace_def)
qed

lemma hex_digit_chars: "d < 16 \<Longrightarrow> fp_char (hex_digit d) \<and> hex_digit d \<noteq> CHR '':''"
  using byte_val_hex_digit [of d]
  by (auto simp: fp_char_def is_ascii_alphanumeric_def is_ascii_digit_def split: if_splits)

lemma hex02_chars:
  fixes b :: u8
  shows "list_all fp_char (hex02 (unat b))" "CHR '':'' \<notin> set (hex02 (unat b))" "hex02 (unat b) \<noteq> []"
proof -
  have "unat b < 256" using unsigned_less [of b] by simp
  moreover from this have "unat b div 16 < 16" "unat b mod 16 < 16" by auto
  ultimately show "list_all fp_char (hex02 (unat b))" "CHR '':'' \<notin> set (hex02 (unat b))" "hex02 (unat b) \<noteq> []"
    using hex_digit_chars [of "unat b div 16"] hex_digit_chars [of "unat b mod 16"] by (auto simp: hex02_byte)
qed

lemma join_with_chars:
  "list_all P sep \<Longrightarrow> list_all (list_all P) ws \<Longrightarrow> list_all P (join_with sep ws)"
  by (induction sep ws rule: join_with.induct) auto

lemma print_fingerprint_chars: "list_all fp_char (print_fingerprint fp)"
  unfolding print_fingerprint_def
  by (rule join_with_chars) (auto simp: fp_char_def list_all_iff dest: hex02_chars(1) [unfolded list_all_iff, rule_format])

lemma print_fingerprint_not_Nil: "fp \<noteq> [] \<Longrightarrow> print_fingerprint fp \<noteq> []"
  by (cases fp; cases "tl fp") (auto simp: print_fingerprint_def hex02_chars(3))

lemma parse_print_fingerprint: "length fp = 32 \<Longrightarrow> parse_fingerprint (print_fingerprint fp) = Ok fp"
proof -
  assume len: "length fp = 32"
  let ?ws = "map (\<lambda>b. hex02 (unat b)) fp"
  have "split_on CHR '':'' (print_fingerprint fp) = ?ws"
    unfolding print_fingerprint_def by (rule split_on_join) (use len hex02_chars(2) in auto)
  moreover have "parse_unsigned 255 16 (hex02 (unat b)) = Ok (unat b)" for b :: u8
    using parse_hex02 [of "unat b"] unsigned_less [of b] by simp
  ultimately show ?thesis using len by (simp add: parse_fingerprint_def comp_def)
qed

lemma trim_print_fingerprint: "trim (print_fingerprint fp) = print_fingerprint fp"
  using print_fingerprint_chars [of fp]
  by (intro trim_id) (auto simp: is_ascii_def list_all_iff fp_char_props)

lemma line_result_comment: "line_result (CHR ''#'' # comment) = []"
proof -
  have "utf8_scan (CHR ''#'' # comment) = (1, True)" by (simp add: utf8_scan_def safe_get_def)
  then have "chars (CHR ''#'' # comment) = ''#'' # chars comment" by (simp add: chars_def)
  moreover have "\<not> is_whitespace ''#''" by (auto simp: is_whitespace_def char_of_def)
  ultimately obtain rest where "trim (CHR ''#'' # comment) = ''#'' @ rest" using trim_first_kept by metis
  then show ?thesis by (simp add: line_result_def keep_line_def starts_with_def)
qed

lemma line_result_fingerprint:
  assumes "length fp = 32"
  shows "line_result (print_fingerprint fp) = [Ok fp]"
proof -
  have ne: "print_fingerprint fp \<noteq> []" by (rule print_fingerprint_not_Nil) (use assms in auto)
  then have "fp_char (hd (print_fingerprint fp))" using print_fingerprint_chars [of fp] by (simp add: list_all_iff)
  from fp_char_props(5,6) [OF this] ne have "keep_line (print_fingerprint fp)"
    by (cases "print_fingerprint fp") (auto simp: keep_line_def starts_with_def)
  with assms show ?thesis by (simp add: line_result_def trim_print_fingerprint parse_print_fingerprint)
qed

lemma line_result_strip_cr: "case_sum (\<lambda>_. True) (\<lambda>fp. length fp = 32) item \<Longrightarrow>
   line_result (strip_cr (fingerprint_line item)) = line_result (fingerprint_line item)"
proof (cases item)
  case (Inl comment)
  have "\<exists>rest. strip_cr (CHR ''#'' # comment) = CHR ''#'' # rest" by (auto simp: strip_cr_def)
  with Inl show ?thesis by (auto simp: line_result_comment)
next
  case (Inr fp)
  have "CHR 0x0D \<notin> set (print_fingerprint fp)"
    using print_fingerprint_chars [of fp] fp_char_props(4) by (auto simp: list_all_iff)
  with Inr show ?thesis by (simp add: strip_cr_id)
qed

subsection \<open>Numbers\<close>

lemma be_number_snoc: "be_number (bs @ [b]) = be_number bs * 256 + unat b"
  by (simp add: be_number_def)

lemma be_number_Cons: "be_number (b # bs) = unat b * 256 ^ length bs + be_number bs"
  by (induction bs rule: rev_induct)
     (simp_all add: be_number_snoc append_Cons [symmetric] algebra_simps del: append_Cons, simp add: be_number_def)

lemma be_number_less: "be_number bs < 256 ^ length bs"
proof (induction bs)
  case (Cons b bs)
  have "unat b < 256" using unsigned_less [of b, where 'a = nat] by simp
  then have "unat b \<le> 255" by simp
  then have "unat b * 256 ^ length bs \<le> 255 * 256 ^ length bs" by (rule mult_le_mono1)
  moreover have "(256 :: nat) ^ length (b # bs) = 255 * 256 ^ length bs + 256 ^ length bs" by simp
  ultimately show ?case using Cons unfolding be_number_Cons by linarith
qed (simp add: be_number_def)

lemma be_number_zeros [simp]: "be_number (replicate n 0 @ bs) = be_number bs"
  by (induction n) (simp_all add: be_number_Cons)

lemma be_number_dropWhile [simp]: "be_number (dropWhile (\<lambda>b. b = 0) bs) = be_number bs"
  by (induction bs) (simp_all add: be_number_Cons)

text \<open>The leading zeros of a non-zero byte locate its highest set bit.\<close>

lemma takeWhile_upt:
  assumes "k < n" "P k" "\<And>i. i < k \<Longrightarrow> \<not> P i"
  shows "takeWhile (\<lambda>i. \<not> P i) [0..<n] = [0..<k]"
proof -
  have "[0..<n] = [0..<k] @ k # [Suc k..<n]"
    using assms(1) by (metis le_add_diff_inverse less_imp_le_nat plus_nat.add_0 upt_add_eq_append upt_conv_Cons zero_le)
  with assms(2,3) show ?thesis by (simp add: takeWhile_append)
qed

lemma leading_zeros_bounds:
  fixes b :: u8
  assumes "b \<noteq> 0"
  shows "leading_zeros b < 8" "2 ^ (7 - leading_zeros b) \<le> unat b" "unat b < 2 ^ (8 - leading_zeros b)"
proof -
  have "\<exists>i<8. bit b (7 - i)"
  proof (rule ccontr)
    assume none: "\<not> ?thesis"
    have "\<not> bit b n" if "n < 8" for n
    proof -
      have "7 - n < 8" "7 - (7 - n) = n" using that by auto
      with none show ?thesis by metis
    qed
    then have "b = 0" by (intro bit_word_eqI) auto
    with assms show False ..
  qed
  then have least: "(LEAST i. i < 8 \<and> bit b (7 - i)) < 8 \<and> bit b (7 - (LEAST i. i < 8 \<and> bit b (7 - i)))"
    by (rule LeastI_ex)
  define k where "k = (LEAST i. i < 8 \<and> bit b (7 - i))"
  have k: "k < 8" "bit b (7 - k)" using least by (simp_all add: k_def)
  have "\<not> bit b (7 - i)" if "i < k" for i
    using not_less_Least [of i "\<lambda>i. i < 8 \<and> bit b (7 - i)"] that k(1) by (simp add: k_def)
  note k = k this
  have lz: "leading_zeros b = k"
    unfolding leading_zeros_def using takeWhile_upt [of k 8 "\<lambda>i. bit b (7 - i)"] k by simp
  show "leading_zeros b < 8" using k lz by simp
  have ub: "bit (unat b) n \<longleftrightarrow> bit b n" for n by (simp add: bit_unsigned_iff)
  have "(2 :: nat) ^ (7 - k) = push_bit (7 - k) 1" by simp
  have "take_bit (8 - k) (unat b) = unat b"
  proof (rule bit_eqI)
    fix n
    have "\<not> bit b n" if "8 - k \<le> n"
    proof (cases "n < 8")
      case True
      then have "\<not> bit b (7 - (7 - n))" using that k(1) by (intro k(3)) auto
      with True show ?thesis by simp
    next
      case False
      then show ?thesis using bit_word.rep_eq by (metis bit_imp_le_length len_bit0 len_num1 linorder_not_less mult.right_neutral numeral_Bit0_eq_double)
    qed
    then show "bit (take_bit (8 - k) (unat b)) n = bit (unat b) n"
      by (cases "n < 8 - k") (simp_all add: bit_take_bit_iff ub)
  qed
  then show "unat b < 2 ^ (8 - leading_zeros b)"
    using take_bit_nat_less_exp [of "8 - k" "unat b"] lz by simp
  have "odd (unat b div 2 ^ (7 - k))" using k(2) ub by (simp add: bit_iff_odd)
  then have "0 < unat b div 2 ^ (7 - k)" by (metis odd_pos)
  then show "2 ^ (7 - leading_zeros b) \<le> unat b" using lz by (simp add: div_greater_zero_iff)
qed

lemma significant_bits_bounds:
  "(be_number bs = 0 \<longleftrightarrow> significant_bits bs = 0) \<and>
   (be_number bs \<noteq> 0 \<longrightarrow> 2 ^ (significant_bits bs - 1) \<le> be_number bs \<and> be_number bs < 2 ^ significant_bits bs)"
proof (cases "dropWhile (\<lambda>b. b = 0) bs")
  case Nil
  then have "be_number bs = be_number []" by (metis be_number_dropWhile)
  then have "be_number bs = 0" by (simp add: be_number_def)
  moreover have "significant_bits bs = 0" unfolding significant_bits_def Nil by simp
  ultimately show ?thesis by simp
next
  case (Cons b rest)
  then have b: "b \<noteq> 0" using hd_dropWhile [of "\<lambda>b. b = 0" bs] by simp
  note lz = leading_zeros_bounds [OF b]
  let ?n = "length rest" and ?z = "leading_zeros b"
  have num: "be_number bs = unat b * 256 ^ ?n + be_number rest"
    using be_number_dropWhile [of bs] Cons by (simp add: be_number_Cons)
  have bits: "significant_bits bs = 8 - ?z + 8 * ?n" using Cons lz(1) by (simp add: significant_bits_def)
  have pow: "(2 :: nat) ^ (k + 8 * ?n) = 2 ^ k * 256 ^ ?n" for k by (simp add: power_add power_mult)
  have "2 ^ (7 - ?z + 8 * ?n) \<le> be_number bs" unfolding pow num using lz(2) by (simp add: trans_le_add1)
  moreover have "be_number bs < 2 ^ (8 - ?z + 8 * ?n)"
  proof -
    have "be_number bs < Suc (unat b) * 256 ^ ?n" using num be_number_less [of rest] by simp
    also have "\<dots> \<le> 2 ^ (8 - ?z) * 256 ^ ?n" using lz(3) by (intro mult_le_mono1) simp
    finally show ?thesis unfolding pow .
  qed
  moreover have "significant_bits bs - 1 = 7 - ?z + 8 * ?n" using bits lz(1) by simp
  moreover have "0 < be_number bs" using calculation(1) by (metis gr0I less_le_not_le zero_less_numeral zero_less_power)
  ultimately show ?thesis using bits lz(1) by simp
qed

definition strip_zero :: "u8 list \<Rightarrow> u8 list" where
  "strip_zero value = (case value of [] \<Rightarrow> [] | b # rest \<Rightarrow> if b = 0 then rest else b # rest)"

lemma be_number_strip_zero [simp]: "be_number (strip_zero value) = be_number value"
  by (auto simp: strip_zero_def be_number_Cons split: list.splits)

lemma serial_i64_exact:
  "serial_i64 value = (if length (strip_zero value) \<le> 8 \<and> be_number value < 2 ^ 63 then int (be_number value) else - 1)"
  by (simp add: serial_i64_def strip_zero_def [symmetric] I64_MAX_def Let_def)

subsection \<open>Protocol versions and providers\<close>

lemma protocol_versions_Ok_iff:
  "protocol_versions mn mx = Ok vs \<longleftrightarrow>
     vs \<noteq> [] \<and> vs = (if mn \<le> 4 \<and> (mx = 0 \<or> 4 \<le> mx) then [TLSv1_3] else [])
                   @ (if mn \<le> 3 \<and> (mx = 0 \<or> 3 \<le> mx) then [TLSv1_2] else [])"
proof -
  have "(if mn = 0 then 3 else max mn 3) \<le> 4 \<longleftrightarrow> mn \<le> 4" "(if mn = 0 then 3 else max mn 3) \<le> 3 \<longleftrightarrow> mn \<le> 3"
    by (auto simp: max_def split: if_splits intro: order_trans)
  then show ?thesis by (auto simp: protocol_versions_def Let_def split: if_splits)
qed

text \<open>The suites a configuration allows: each selector speaks about its own protocol version.\<close>

definition suite_allowed :: "string \<Rightarrow> string \<Rightarrow> cipher_suite \<times> protocol_version \<Rightarrow> bool" where
  "suite_allowed tls12 tls13 sv \<longleftrightarrow>
     (restricts (selector_names tls12) \<and> snd sv \<noteq> TLSv1_3 \<longrightarrow> list_ex (cipher_suite_matches (fst sv)) (selector_names tls12))
   \<and> (restricts (selector_names tls13) \<and> snd sv \<noteq> TLSv1_2 \<longrightarrow> list_ex (cipher_suite_matches (fst sv)) (selector_names tls13))"

definition group_allowed :: "string \<Rightarrow> named_group \<Rightarrow> bool" where
  "group_allowed groups g \<longleftrightarrow>
     (restricts (selector_names groups) \<longrightarrow> list_ex (key_exchange_group_matches g) (selector_names groups))"

lemma configure_provider_suites:
  "(if restricts (selector_names tls13)
    then filter (\<lambda>(suite, version). version = TLSv1_2 \<or> list_ex (cipher_suite_matches suite) (selector_names tls13))
           (if restricts (selector_names tls12)
            then filter (\<lambda>(suite, version). version = TLSv1_3 \<or> list_ex (cipher_suite_matches suite) (selector_names tls12)) ss
            else ss)
    else (if restricts (selector_names tls12)
          then filter (\<lambda>(suite, version). version = TLSv1_3 \<or> list_ex (cipher_suite_matches suite) (selector_names tls12)) ss
          else ss)) = filter (suite_allowed tls12 tls13) ss"
  by (auto simp: suite_allowed_def [abs_def] split_def intro!: filter_cong)

lemma configure_provider_groups:
  "group_allowed groups g \<longleftrightarrow> \<not> restricts (selector_names groups)
     \<or> list_ex (key_exchange_group_matches g) (selector_names groups)"
  by (simp add: group_allowed_def)

lemma configure_provider_Ok_iff:
  "configure_provider p tls12 tls13 groups = Ok q \<longleftrightarrow>
     q = \<lparr>pv_cipher_suites = filter (suite_allowed tls12 tls13) (pv_cipher_suites p),
          pv_kx_groups = filter (group_allowed groups) (pv_kx_groups p)\<rparr>
     \<and> pv_cipher_suites q \<noteq> [] \<and> (restricts (selector_names groups) \<longrightarrow> pv_kx_groups q \<noteq> [])"
  unfolding configure_provider_def Let_def configure_provider_suites
  by (cases p) (auto simp: configure_provider_groups [abs_def])

text \<open>A list of names without separators selects exactly these names.\<close>

lemma str_replace_none: "\<not> str_contains s p \<Longrightarrow> p \<noteq> [] \<Longrightarrow> str_replace p r s = s"
proof -
  have "\<forall>i\<le>length s. \<not> starts_with (drop i s) p \<Longrightarrow> p \<noteq> [] \<Longrightarrow> split_str_acc p acc s = [rev acc @ s]" for acc
  proof (induction p acc s rule: split_str_acc.induct)
    case (2 p acc c s)
    from 2(3) [rule_format, of 0] have "\<not> starts_with (c # s) p" by simp
    moreover have "\<forall>i\<le>length s. \<not> starts_with (drop i s) p"
      using 2(3) by (metis Suc_le_mono drop_Suc_Cons length_Cons)
    ultimately show ?case using 2 by simp
  qed simp
  then show "\<not> str_contains s p \<Longrightarrow> p \<noteq> [] \<Longrightarrow> str_replace p r s = s"
    by (auto simp: str_contains_def str_replace_def split_str_def list_ex_iff less_Suc_eq_le simp del: upt_Suc)
qed

subsection \<open>The configuration\<close>

lemma parse_policy_Ok: "parse_policy a = Ok p \<Longrightarrow> policy_validate p = Ok ()"
  by (auto simp: parse_policy_def and_then_Ok_iff Let_def)

lemma add_roots_Ok:
  "collect_results (map (\<lambda>root. map_sum f (\<lambda>_. root) (add root)) certs) = Ok roots \<longleftrightarrow>
     roots = certs \<and> (\<forall>root \<in> set certs. add root = Ok ())"
proof -
  have "map_sum f (\<lambda>_. root) (add root) = Inr r \<longleftrightarrow> r = root \<and> add root = Ok ()" for root r
    by (cases "add root") auto
  then show ?thesis
    unfolding collect_results_Ok_iff by (induction certs arbitrary: roots) (auto simp: Cons_eq_map_conv)
qed

lemma make_verifier_Ok:
  assumes "make_verifier lib flags ca crl fps policy = Ok v"
  shows "parse_certificates lib ca = Ok (sv_roots v)" "\<forall>root \<in> set (sv_roots v). tl_add_root lib root = Ok ()"
    "sv_peer_fingerprints v = fps" "sv_policy v = policy"
    "sv_verify_chain v \<longleftrightarrow> flags AND NO_VERIFY_PEER = 0 \<or> flags AND VERIFY_PEER_FINGERPRINT \<noteq> 0"
    "flags AND NO_VERIFY_PEER = 0 \<Longrightarrow> fps \<noteq> [] \<or> sv_roots v \<noteq> []"
  using assms by (auto simp: make_verifier_def and_then_Ok_iff add_roots_Ok split: if_splits)

lemma config_new_body_Ok:
  assumes "config_new_body lib a = Ok cfg"
  shows "\<exists>tls12 tls13 groups. view_str (ca_tls_cipher_list a) = Ok tls12 \<and> view_str (ca_tls_ciphersuite_list a) = Ok tls13
           \<and> view_str (ca_tls_groups a) = Ok groups
           \<and> configure_provider (tl_default_provider lib) tls12 tls13 groups = Ok (tc_provider cfg)"
    "protocol_versions (ca_tls_version_min a) (ca_tls_version_max a) = Ok (tc_versions cfg)"
    "\<exists>ca crl fps policy. view_bytes (ca_ca a) = Ok ca \<and> view_bytes (ca_crl a) = Ok crl
       \<and> and_then (view_str (ca_peer_fingerprints a)) parse_fingerprints = Ok fps
       \<and> parse_policy a = Ok policy \<and> make_verifier lib (ca_flags a) ca crl fps policy = Ok (tc_verifier cfg)"
    "\<not> tc_enable_sni cfg"
    "\<exists>cert extra key password. view_bytes (ca_cert a) = Ok cert
       \<and> make_client_auth lib a cert extra key password = Ok (tc_client_auth cfg)"
  using assms unfolding config_new_body_def and_then_Ok_iff by (auto, blast)

section \<open>Properties\<close>


text \<open>A library and arguments for the witnesses: one CA certificate, everything else empty.\<close>

definition sample_provider :: crypto_provider where
  "sample_provider = \<lparr>pv_cipher_suites = [(OtherSuite ''TLS13_AES_256_GCM_SHA384'', TLSv1_3),
       (TLS_ECDHE_RSA_WITH_AES_256_GCM_SHA384, TLSv1_2)], pv_kx_groups = [X25519]\<rparr>"

definition sample_lib :: "unit tls_lib" where
  "sample_lib = \<lparr>tl_default_provider = sample_provider,
     tl_pem_certs = (\<lambda>pem. Ok [[1]]), tl_pem_crls = (\<lambda>pem. Ok []), tl_pem_private_key = (\<lambda>pem. Ok None),
     tl_secret_from_pem = (\<lambda>pem. Err ''pem''), tl_encrypted_from_der = (\<lambda>der. Err ''der''),
     tl_decrypt = (\<lambda>der password. Err ''password''), tl_add_root = (\<lambda>der. Ok ()), tl_crl_from_der = (\<lambda>der. Ok ()),
     tl_parse_x509 = (\<lambda>der. Ok sample_cert), tl_with_protocol_versions = (\<lambda>provider versions. Ok ()),
     tl_with_client_auth_cert = (\<lambda>chain key. Ok ())\<rparr>"

abbreviation no_text :: ovpn_string_view where "no_text \<equiv> \<lparr>cs_data = None, cs_len = 0\<rparr>"

definition sample_args :: config_args where
  "sample_args = \<lparr>ca_ca = \<lparr>cs_data = Some ''x'', cs_len = 1\<rparr>, ca_crl = no_text, ca_cert = no_text,
     ca_extra_certs = no_text, ca_private_key = no_text, ca_private_key_password = no_text,
     ca_peer_fingerprints = no_text, ca_ns_cert_type = 0, ca_key_usage_selector = no_text,
     ca_extended_usage_selector = no_text, ca_tls_remote = no_text, ca_verify_x509_name_mode = 0,
     ca_verify_x509_name = no_text, ca_tls_cipher_list = no_text, ca_tls_ciphersuite_list = no_text,
     ca_tls_groups = no_text, ca_tls_version_min = 0, ca_tls_version_max = 0, ca_flags = 0,
     ca_local_cert_enabled = 0, ca_external_sign = None\<rparr>"

lemmas option_eval = view_str_def view_bytes_def from_utf8_def utf8_valid_def selector_names_def restricts_def
  parse_key_usages_def parse_fingerprints_def str_lines_def trim_def chars_def

definition sample_config :: "unit tls_config" where
  "sample_config = \<lparr>tc_provider = sample_provider, tc_versions = [TLSv1_3, TLSv1_2],
     tc_verifier = \<lparr>sv_roots = [[1]], sv_crls = [], sv_peer_fingerprints = [], sv_verify_chain = True,
       sv_policy = \<lparr>cp_ns_cert_type = 0, cp_key_usages = [], cp_extended_key_usage = [], cp_tls_remote = [],
         cp_verify_x509_name_mode = 0, cp_verify_x509_name = []\<rparr>\<rparr>,
     tc_client_auth = NoClientAuth, tc_enable_sni = False\<rparr>"

lemma sample_config_new: "config_new_body sample_lib sample_args = Ok sample_config"
  by (simp add: config_new_body_def sample_args_def option_eval configure_provider_def sample_lib_def
      protocol_versions_def parse_policy_def policy_validate_def make_verifier_def parse_certificates_def
      parse_crls_def make_client_auth_def sample_config_def sample_provider_def Let_def)


text \<open>
  A fingerprint file, any mixture of comment lines and fingerprints printed as thirty-two
  colon-separated hexadecimal bytes, one per line, parses to exactly its fingerprints in
  their order.
\<close>

theorem fingerprints_roundtrip:
  assumes "\<forall>item \<in> set items. case item of Inl comment \<Rightarrow> newline \<notin> set comment | Inr fp \<Rightarrow> length fp = 32"
  shows "parse_fingerprints (join_with [newline] (map fingerprint_line items)) =
           Ok (concat (map (case_sum (\<lambda>_. []) (\<lambda>fp. [fp])) items))"
proof -
  have lines: "newline \<notin> set (fingerprint_line item) \<and> fingerprint_line item \<noteq> []
      \<and> line_result (strip_cr (fingerprint_line item)) = line_result (fingerprint_line item)
      \<and> line_result (fingerprint_line item) = map Ok (case_sum (\<lambda>_. []) (\<lambda>fp. [fp]) item)"
    if "item \<in> set items" for item
  proof (cases item)
    case (Inl comment)
    with assms that show ?thesis using line_result_strip_cr [of item] by (auto simp: line_result_comment)
  next
    case (Inr fp)
    with assms that have "length fp = 32" by auto
    moreover from this have "fp \<noteq> []" by auto
    moreover have "newline \<notin> set (print_fingerprint fp)"
      using print_fingerprint_chars [of fp] fp_char_props(3) by (auto simp: list_all_iff)
    ultimately show ?thesis
      using Inr line_result_strip_cr [of item] by (simp add: line_result_fingerprint print_fingerprint_not_Nil)
  qed
  have "map line_result (str_lines (join_with [newline] (map fingerprint_line items)))
      = map line_result (map fingerprint_line items)"
    by (rule str_lines_join) (use lines in auto)
  also have "\<dots> = map (\<lambda>item. map Ok (case_sum (\<lambda>_. []) (\<lambda>fp. [fp]) item)) items" using lines by simp
  finally have "concat (map line_result (str_lines (join_with [newline] (map fingerprint_line items))))
      = map Ok (concat (map (case_sum (\<lambda>_. []) (\<lambda>fp. [fp])) items))"
    by (simp add: map_concat comp_def)
  then show ?thesis by (simp add: parse_fingerprints_alt)
qed

theorem fingerprints_roundtrip_witness:
  "parse_fingerprints (join_with [newline] (map fingerprint_line [Inl '' pinned'', Inr (replicate 32 171)])) =
     Ok [replicate 32 171]"
  using fingerprints_roundtrip [of "[Inl '' pinned'', Inr (replicate 32 171)]"] by simp

text \<open>
  C36: the cipher and group selectors restrict the provider exactly as intended: the suites kept
  are those allowed, in the provider's order, where the TLS 1.2 selector leaves every TLS 1.3
  suite alone and the other way round, an empty selector or one naming DEFAULT restricts
  nothing, and the configuration is refused exactly when no suite or no requested group is
  left.
\<close>

theorem configure_provider_exact:
  "configure_provider p tls12 tls13 groups = Ok q \<longleftrightarrow>
     pv_cipher_suites q \<noteq> [] \<and> (restricts (selector_names groups) \<longrightarrow> pv_kx_groups q \<noteq> [])
     \<and> q = \<lparr>pv_cipher_suites = filter (suite_allowed tls12 tls13) (pv_cipher_suites p),
            pv_kx_groups = filter (group_allowed groups) (pv_kx_groups p)\<rparr>"
  using configure_provider_Ok_iff by blast

theorem configure_provider_exact_witness:
  "configure_provider sample_provider [] [] [] = Ok sample_provider"
  using configure_provider_exact [of sample_provider "[]" "[]" "[]" sample_provider]
  by (simp add: suite_allowed_def group_allowed_def selector_names_def restricts_def trim_def chars_def
      sample_provider_def)

text \<open>
  C29: a TLS 1.3 suite selector written with the standard suite names switches TLS 1.3 off.
  rustls calls its TLS 1.3 suites \<open>TLS13_\<dots>\<close> and the selector compares that text, so a
  restricting selector none of whose names starts that way leaves no TLS 1.3 suite, and
  keeps every TLS 1.2 suite: the connection silently falls back to TLS 1.2.
\<close>

theorem tls13_standard_names_disable_tls13:
  assumes rustls: "\<forall>(suite, version) \<in> set (pv_cipher_suites p).
                     version = TLSv1_3 \<longrightarrow> starts_with (suite_debug suite) ''TLS13_''"
    and versions: "\<forall>(suite, version) \<in> set (pv_cipher_suites p). version = TLSv1_2 \<or> version = TLSv1_3"
    and tls13: "restricts (selector_names tls13)" "\<forall>name \<in> set (selector_names tls13). \<not> starts_with name ''TLS13_''"
    and ok: "configure_provider p [] tls13 [] = Ok q"
  shows "pv_cipher_suites q = filter (\<lambda>(suite, version). version = TLSv1_2) (pv_cipher_suites p)"
proof -
  have named: "\<not> cipher_suite_matches suite name"
    if "starts_with (suite_debug suite) ''TLS13_''" "\<not> starts_with name ''TLS13_''" for suite name
    using that by (cases suite) (auto simp: cipher_suite_matches_def starts_with_def)
  have none: "\<not> restricts (selector_names [])" by (simp add: selector_names_def restricts_def trim_def chars_def)
  have "suite_allowed [] tls13 sv \<longleftrightarrow> (case sv of (suite, version) \<Rightarrow> version = TLSv1_2)"
    if sv: "sv \<in> set (pv_cipher_suites p)" for sv
  proof (cases "snd sv = TLSv1_2")
    case True
    then show ?thesis by (simp add: suite_allowed_def none split_def)
  next
    case False
    with versions sv have "snd sv = TLSv1_3" by (auto simp: split_def)
    with rustls sv have "starts_with (suite_debug (fst sv)) ''TLS13_''" by (auto simp: split_def)
    then have "\<not> list_ex (cipher_suite_matches (fst sv)) (selector_names tls13)"
      using named tls13(2) by (auto simp: list_ex_iff)
    with False tls13(1) show ?thesis by (simp add: suite_allowed_def split_def)
  qed
  with ok show ?thesis by (auto simp: configure_provider_Ok_iff intro!: filter_cong)
qed

lemma tls13_selector_sample: "selector_names ''TLS_AES_256_GCM_SHA384'' = [''TLS_AES_256_GCM_SHA384'']"
  by code_simp

theorem tls13_standard_names_disable_tls13_witness:
  "\<exists>q. configure_provider sample_provider [] ''TLS_AES_256_GCM_SHA384'' [] = Ok q
     \<and> pv_cipher_suites q = [(TLS_ECDHE_RSA_WITH_AES_256_GCM_SHA384, TLSv1_2)]"
proof -
  let ?q = "\<lparr>pv_cipher_suites = [(TLS_ECDHE_RSA_WITH_AES_256_GCM_SHA384, TLSv1_2)], pv_kx_groups = [X25519]\<rparr>"
  have ok: "configure_provider sample_provider [] ''TLS_AES_256_GCM_SHA384'' [] = Ok ?q" by code_simp
  have "pv_cipher_suites ?q = filter (\<lambda>(suite, version). version = TLSv1_2) (pv_cipher_suites sample_provider)"
    by (rule tls13_standard_names_disable_tls13 [OF _ _ _ _ ok])
       (simp_all add: sample_provider_def starts_with_def tls13_selector_sample restricts_def)
  with ok show ?thesis by auto
qed

text \<open>
  C40: the numbers reported for a certificate are exact.  The key size is the bit length of the
  modulus read as a big-endian number, whatever its padding; the serial number is the number
  itself when it fits a signed 64-bit integer after at most one padding byte, and \<open>-1\<close>
  otherwise.
\<close>

theorem certificate_numbers:
  "(be_number bs = 0 \<longleftrightarrow> significant_bits bs = 0)
   \<and> (be_number bs \<noteq> 0 \<longrightarrow> 2 ^ (significant_bits bs - 1) \<le> be_number bs \<and> be_number bs < 2 ^ significant_bits bs)
   \<and> serial_i64 bs = (if length (strip_zero bs) \<le> 8 \<and> be_number bs < 2 ^ 63 then int (be_number bs) else - 1)"
  using significant_bits_bounds [of bs] serial_i64_exact [of bs] by blast

theorem certificate_numbers_witness:
  "2 ^ (significant_bits [0, 5, 0] - 1) \<le> be_number [0, 5, 0] \<and> serial_i64 [0, 5, 0] = 1280"
  using certificate_numbers [of "[0, 5, 0]"] by (simp add: be_number_def strip_zero_def)

text \<open>
  External signing.  The scheme chosen is one the server offered and one the key's
  algorithm prefers, and no scheme preferred over it was offered; there is a signer exactly
  when there is such a scheme.  A signature is returned only when the callback exists and
  reports a length between 1 and the size of its buffer, and then it is that many bytes of
  the buffer; every other answer is an error.
\<close>

theorem external_signing:
  "(choose_scheme key offered = None \<longleftrightarrow> set (preferred_schemes (ek_algorithm key)) \<inter> set offered = {})
   \<and> (\<forall>signer. choose_scheme key offered = Some signer \<longrightarrow>
        es_callback signer = ek_callback key \<and> es_scheme signer \<in> set offered
        \<and> (\<exists>better worse. preferred_schemes (ek_algorithm key) = better @ es_scheme signer # worse
             \<and> set better \<inter> set offered = {}))
   \<and> (\<forall>signer signature. sign signer message = Ok signature \<longleftrightarrow>
        (\<exists>callback len buffer. es_callback signer = Some callback
           \<and> callback (es_scheme signer) message SIGNATURE_CAPACITY = (len, buffer)
           \<and> 0 < len \<and> len \<le> int SIGNATURE_CAPACITY \<and> signature = take (nat len) buffer))"
proof (intro conjI allI)
  show "choose_scheme key offered = None \<longleftrightarrow> set (preferred_schemes (ek_algorithm key)) \<inter> set offered = {}"
    by (auto simp: choose_scheme_def find_None_iff)
  show "choose_scheme key offered = Some signer \<longrightarrow>
      es_callback signer = ek_callback key \<and> es_scheme signer \<in> set offered
      \<and> (\<exists>better worse. preferred_schemes (ek_algorithm key) = better @ es_scheme signer # worse
           \<and> set better \<inter> set offered = {})" for signer
  proof
    assume "choose_scheme key offered = Some signer"
    then obtain scheme where f: "find (\<lambda>scheme. scheme \<in> set offered) (preferred_schemes (ek_algorithm key)) = Some scheme"
      and s: "signer = \<lparr>es_callback = ek_callback key, es_scheme = scheme\<rparr>" by (auto simp: choose_scheme_def)
    from f obtain i where i: "i < length (preferred_schemes (ek_algorithm key))"
      "preferred_schemes (ek_algorithm key) ! i = scheme" "scheme \<in> set offered"
      "\<forall>j<i. preferred_schemes (ek_algorithm key) ! j \<notin> set offered" by (auto simp: find_Some_iff)
    have "set (take i (preferred_schemes (ek_algorithm key))) \<inter> set offered = {}"
      using i by (auto simp: in_set_conv_nth)
    with i s show "es_callback signer = ek_callback key \<and> es_scheme signer \<in> set offered
      \<and> (\<exists>better worse. preferred_schemes (ek_algorithm key) = better @ es_scheme signer # worse
           \<and> set better \<inter> set offered = {})"
      using id_take_nth_drop [OF i(1)] by auto
  qed
  show "sign signer message = Ok signature \<longleftrightarrow>
        (\<exists>callback len buffer. es_callback signer = Some callback
           \<and> callback (es_scheme signer) message SIGNATURE_CAPACITY = (len, buffer)
           \<and> 0 < len \<and> len \<le> int SIGNATURE_CAPACITY \<and> signature = take (nat len) buffer)" for signer signature
    by (auto simp: sign_def split: option.splits prod.splits)
qed

theorem external_signing_witness:
  "\<exists>signer. choose_scheme \<lparr>ek_callback = None, ek_algorithm = AlgECDSA\<rparr> [ED25519, ECDSA_NISTP384_SHA384] = Some signer
     \<and> es_scheme signer = ECDSA_NISTP384_SHA384"
  using external_signing [of "\<lparr>ek_callback = None, ek_algorithm = AlgECDSA\<rparr>" "[ED25519, ECDSA_NISTP384_SHA384]"]
  by (auto simp: choose_scheme_def)

end
