(* ===== verification/Tls_Connection.thy ===== *)
theory Tls_Connection
  imports Tls_Config
begin

text \<open>
  The TLS connection of \<open>rust_backend/tls.rs\<close>: the handle behind the FFI functions, with
  rustls' \<open>ClientConnection\<close> as a parameter.  A run is a sequence of the four data
  operations; the properties say what arrives at either end of the pipe.
\<close>

section \<open>rustls as a parameter\<close>

datatype io_read = ReadOk "u8 list" | WouldBlock | ReadErr string

record io_state =
  st_plaintext_bytes_to_read :: usize
  st_peer_has_closed :: bool

text \<open>
  \<open>'c\<close> is rustls' connection.  \<open>rl_read\<close> gets the size of the buffer; \<open>rl_write_tls\<close>
  yields the bytes it wrote into an empty vector.
\<close>

record ('c, 'crl) rustls_lib =
  rl_server_name :: "string \<Rightarrow> (string, string) result"
  rl_new :: "'crl tls_config \<Rightarrow> string \<Rightarrow> ('c, string) result"
  rl_write :: "'c \<Rightarrow> u8 list \<Rightarrow> (usize, string) result \<times> 'c"
  rl_read :: "'c \<Rightarrow> usize \<Rightarrow> io_read \<times> 'c"
  rl_read_tls :: "'c \<Rightarrow> u8 list \<Rightarrow> (usize, string) result \<times> 'c"
  rl_process_new_packets :: "'c \<Rightarrow> (io_state, string) result \<times> 'c"
  rl_wants_write :: "'c \<Rightarrow> bool"
  rl_write_tls :: "'c \<Rightarrow> (u8 list, string) result \<times> 'c"
  rl_protocol_version :: "'c \<Rightarrow> protocol_version option"
  rl_negotiated_cipher_suite :: "'c \<Rightarrow> cipher_suite option"
  rl_export_keying_material :: "'c \<Rightarrow> usize \<Rightarrow> string \<Rightarrow> (u8 list, string) result"
  rl_is_handshaking :: "'c \<Rightarrow> bool"
  rl_peer_certificates :: "'c \<Rightarrow> u8 list list option"

section \<open>The connection\<close>

record 'c tls_connection =
  tn_connection :: 'c
  tn_ciphertext :: "u8 list"
  tn_plaintext_ready :: usize
  tn_peer_closed :: bool

definition connection_new_body ::
  "('c, 'crl) rustls_lib \<Rightarrow> 'crl tls_config option \<Rightarrow> ovpn_string_view \<Rightarrow> ('c tls_connection, string) result" where
  "connection_new_body lib config server_name =
     and_then (tls_handle config) (\<lambda>config.
     and_then (view_str server_name) (\<lambda>name.
       let name = (if name = [] then ''openvpn.invalid'' else name)
       in and_then (map_err (\<lambda>error. ''invalid TLS server name: '' @ error) (rl_server_name lib name)) (\<lambda>server_name.
          and_then (rl_new lib config server_name) (\<lambda>connection.
            Ok \<lparr>tn_connection = connection, tn_ciphertext = [], tn_plaintext_ready = 0, tn_peer_closed = False\<rparr>))))"

definition connection_new ::
  "('c, 'crl) rustls_lib \<Rightarrow> 'crl tls_config option \<Rightarrow> ovpn_string_view \<Rightarrow> char ptr \<Rightarrow> usize
     \<Rightarrow> 'c tls_connection option \<times> char ptr" where
  "connection_new lib config server_name error error_capacity =
     tls_ffi_pointer error error_capacity (Returned (connection_new_body lib config server_name))"

definition connection_free :: "'c tls_connection option \<Rightarrow> 'c tls_connection option" where
  "connection_free handle = None"

text \<open>Each data operation: the result, the connection, and the output memory.\<close>

definition write_plaintext_body ::
  "('c, 'crl) rustls_lib \<Rightarrow> 'c tls_connection \<Rightarrow> u8 ptr \<Rightarrow> usize \<Rightarrow> (usize, string) result \<times> 'c tls_connection" where
  "write_plaintext_body lib conn input input_len =
     (case tls_input_slice input input_len of
        Inl e \<Rightarrow> (Err e, conn)
      | Inr data \<Rightarrow>
          (case rl_write lib (tn_connection conn) data of (r, c) \<Rightarrow> (r, conn\<lparr>tn_connection := c\<rparr>)))"

definition read_plaintext_body ::
  "('c, 'crl) rustls_lib \<Rightarrow> 'c tls_connection \<Rightarrow> u8 ptr \<Rightarrow> usize
     \<Rightarrow> (usize, string) result \<times> 'c tls_connection \<times> u8 ptr" where
  "read_plaintext_body lib conn output output_capacity =
     (case tls_output_slice output output_capacity of
        Inl e \<Rightarrow> (Err e, conn, output)
      | Inr out \<Rightarrow>
          (case rl_read lib (tn_connection conn) (length out) of (r, c) \<Rightarrow>
             let conn = conn\<lparr>tn_connection := c\<rparr>
             in case r of
                  ReadOk bytes \<Rightarrow>
                    (let output = map_option (write_prefix bytes) output
                     in if bytes = [] \<and> tn_peer_closed conn then (Ok USIZE_MAX, conn, output)
                        else (Ok (length bytes),
                              conn\<lparr>tn_plaintext_ready := tn_plaintext_ready conn - length bytes\<rparr>, output))
                | WouldBlock \<Rightarrow> (Ok 0, conn, output)
                | ReadErr e \<Rightarrow> (Err e, conn, output)))"

definition write_ciphertext_body ::
  "('c, 'crl) rustls_lib \<Rightarrow> 'c tls_connection \<Rightarrow> u8 ptr \<Rightarrow> usize \<Rightarrow> (usize, string) result \<times> 'c tls_connection" where
  "write_ciphertext_body lib conn input input_len =
     (case tls_input_slice input input_len of
        Inl e \<Rightarrow> (Err e, conn)
      | Inr data \<Rightarrow>
          (case rl_read_tls lib (tn_connection conn) data of
             (Inl e, c) \<Rightarrow> (Err e, conn\<lparr>tn_connection := c\<rparr>)
           | (Inr n, c) \<Rightarrow>
               (case rl_process_new_packets lib c of
                  (Inl e, c) \<Rightarrow> (Err e, conn\<lparr>tn_connection := c\<rparr>)
                | (Inr state, c) \<Rightarrow>
                    (Ok n, conn\<lparr>tn_connection := c, tn_plaintext_ready := st_plaintext_bytes_to_read state,
                                tn_peer_closed := st_peer_has_closed state\<rparr>))))"

text \<open>
  \<open>read_ciphertext\<close> first takes what rustls wants to send, if nothing is queued, then pops
  bytes off the queue while the output has room.
\<close>

definition refill :: "('c, 'crl) rustls_lib \<Rightarrow> 'c tls_connection \<Rightarrow> (unit, string) result \<times> 'c tls_connection" where
  "refill lib conn =
     (if tn_ciphertext conn = [] \<and> rl_wants_write lib (tn_connection conn) then
        (case rl_write_tls lib (tn_connection conn) of
           (Inl e, c) \<Rightarrow> (Err e, conn\<lparr>tn_connection := c\<rparr>)
         | (Inr pending, c) \<Rightarrow> (Ok (), conn\<lparr>tn_connection := c, tn_ciphertext := tn_ciphertext conn @ pending\<rparr>))
      else (Ok (), conn))"

fun pop_bytes :: "nat \<Rightarrow> u8 list \<Rightarrow> u8 list \<times> u8 list" where
  "pop_bytes 0 queue = ([], queue)"
| "pop_bytes (Suc n) [] = ([], [])"
| "pop_bytes (Suc n) (b # queue) = (case pop_bytes n queue of (bytes, rest) \<Rightarrow> (b # bytes, rest))"

definition read_ciphertext_body ::
  "('c, 'crl) rustls_lib \<Rightarrow> 'c tls_connection \<Rightarrow> u8 ptr \<Rightarrow> usize
     \<Rightarrow> (usize, string) result \<times> 'c tls_connection \<times> u8 ptr" where
  "read_ciphertext_body lib conn output output_capacity =
     (case refill lib conn of
        (Inl e, conn) \<Rightarrow> (Err e, conn, output)
      | (Inr _, conn) \<Rightarrow>
          (case tls_output_slice output output_capacity of
             Inl e \<Rightarrow> (Err e, conn, output)
           | Inr out \<Rightarrow>
               (let len = min (length out) (length (tn_ciphertext conn))
                in case pop_bytes len (tn_ciphertext conn) of (bytes, rest) \<Rightarrow>
                     (Ok len, conn\<lparr>tn_ciphertext := rest\<rparr>, map_option (write_prefix bytes) output))))"

section \<open>The FFI functions\<close>

definition write_plaintext ::
  "('c, 'crl) rustls_lib \<Rightarrow> 'c tls_connection option \<Rightarrow> u8 ptr \<Rightarrow> usize \<Rightarrow> char ptr \<Rightarrow> usize
     \<Rightarrow> isize \<times> 'c tls_connection option \<times> char ptr" where
  "write_plaintext lib handle input input_len error error_capacity =
     (case tls_handle handle of
        Inl e \<Rightarrow> (case tls_ffi_io error error_capacity (Returned (Err e)) of (n, err) \<Rightarrow> (n, handle, err))
      | Inr conn \<Rightarrow>
          (case write_plaintext_body lib conn input input_len of (r, conn) \<Rightarrow>
             case tls_ffi_io error error_capacity (Returned r) of (n, err) \<Rightarrow> (n, Some conn, err)))"

definition read_plaintext ::
  "('c, 'crl) rustls_lib \<Rightarrow> 'c tls_connection option \<Rightarrow> u8 ptr \<Rightarrow> usize \<Rightarrow> char ptr \<Rightarrow> usize
     \<Rightarrow> isize \<times> 'c tls_connection option \<times> u8 ptr \<times> char ptr" where
  "read_plaintext lib handle output output_capacity error error_capacity =
     (case tls_handle handle of
        Inl e \<Rightarrow> (case tls_ffi_io error error_capacity (Returned (Err e)) of (n, err) \<Rightarrow> (n, handle, output, err))
      | Inr conn \<Rightarrow>
          (case read_plaintext_body lib conn output output_capacity of (r, conn, output) \<Rightarrow>
             case tls_ffi_io error error_capacity (Returned r) of (n, err) \<Rightarrow> (n, Some conn, output, err)))"

definition plaintext_ready :: "'c tls_connection option \<Rightarrow> i32" where
  "plaintext_ready handle =
     ffi_state (Returned (and_then (tls_handle handle) (\<lambda>conn. Ok (tn_plaintext_ready conn \<noteq> 0 \<or> tn_peer_closed conn))))"

definition write_ciphertext ::
  "('c, 'crl) rustls_lib \<Rightarrow> 'c tls_connection option \<Rightarrow> u8 ptr \<Rightarrow> usize \<Rightarrow> char ptr \<Rightarrow> usize
     \<Rightarrow> isize \<times> 'c tls_connection option \<times> char ptr" where
  "write_ciphertext lib handle input input_len error error_capacity =
     (case tls_handle handle of
        Inl e \<Rightarrow> (case tls_ffi_io error error_capacity (Returned (Err e)) of (n, err) \<Rightarrow> (n, handle, err))
      | Inr conn \<Rightarrow>
          (case write_ciphertext_body lib conn input input_len of (r, conn) \<Rightarrow>
             case tls_ffi_io error error_capacity (Returned r) of (n, err) \<Rightarrow> (n, Some conn, err)))"

definition read_ciphertext ::
  "('c, 'crl) rustls_lib \<Rightarrow> 'c tls_connection option \<Rightarrow> u8 ptr \<Rightarrow> usize \<Rightarrow> char ptr \<Rightarrow> usize
     \<Rightarrow> isize \<times> 'c tls_connection option \<times> u8 ptr \<times> char ptr" where
  "read_ciphertext lib handle output output_capacity error error_capacity =
     (case tls_handle handle of
        Inl e \<Rightarrow> (case tls_ffi_io error error_capacity (Returned (Err e)) of (n, err) \<Rightarrow> (n, handle, output, err))
      | Inr conn \<Rightarrow>
          (case read_ciphertext_body lib conn output output_capacity of (r, conn, output) \<Rightarrow>
             case tls_ffi_io error error_capacity (Returned r) of (n, err) \<Rightarrow> (n, Some conn, output, err)))"

definition ciphertext_ready :: "('c, 'crl) rustls_lib \<Rightarrow> 'c tls_connection option \<Rightarrow> i32" where
  "ciphertext_ready lib handle =
     ffi_state (Returned (and_then (tls_handle handle) (\<lambda>conn.
       Ok (tn_ciphertext conn \<noteq> [] \<or> rl_wants_write lib (tn_connection conn)))))"

definition details :: "('c, 'crl) rustls_lib \<Rightarrow> 'c tls_connection option \<Rightarrow> char ptr \<Rightarrow> usize \<Rightarrow> usize \<times> char ptr" where
  "details lib handle output output_capacity =
     (case tls_handle handle of
        Inl e \<Rightarrow> (tls_ffi_length (Returned (Err e)), output)
      | Inr conn \<Rightarrow>
          (case rl_protocol_version lib (tn_connection conn) of
             None \<Rightarrow> (tls_ffi_length (Returned (Ok 0)), output)
           | Some v \<Rightarrow>
               (let version = (case v of TLSv1_2 \<Rightarrow> ''TLSv1.2'' | TLSv1_3 \<Rightarrow> ''TLSv1.3'' | OtherVersion \<Rightarrow> ''TLS'');
                    suite = (case rl_negotiated_cipher_suite lib (tn_connection conn) of
                               None \<Rightarrow> ''UNKNOWN'' | Some value \<Rightarrow> suite_debug value)
                in case tls_copy_output output output_capacity (version @ ''/'' @ suite) of (r, out) \<Rightarrow>
                     (tls_ffi_length (Returned r), out))))"

definition export_keying_material ::
  "('c, 'crl) rustls_lib \<Rightarrow> 'c tls_connection option \<Rightarrow> ovpn_string_view \<Rightarrow> u8 ptr \<Rightarrow> usize \<Rightarrow> i32 \<times> u8 ptr" where
  "export_keying_material lib handle label output output_len =
     (case and_then (tls_handle handle) (\<lambda>conn.
           and_then (view_bytes label) (\<lambda>label.
           and_then (tls_output_slice output output_len) (\<lambda>out.
             rl_export_keying_material lib (tn_connection conn) (length out) label))) of
        Inl e \<Rightarrow> (tls_ffi_status (Returned (Err e)), output)
      | Inr key \<Rightarrow> (tls_ffi_status (Returned (Ok ())), map_option (write_prefix key) output))"

definition handshake_complete :: "('c, 'crl) rustls_lib \<Rightarrow> 'c tls_connection option \<Rightarrow> i32" where
  "handshake_complete lib handle =
     ffi_state (Returned (and_then (tls_handle handle) (\<lambda>conn. Ok (\<not> rl_is_handshaking lib (tn_connection conn)))))"

text \<open>
  \<open>peer_info\<close>: the status, the name buffer and the two output cells.  The name is written
  before the cells are checked.
\<close>

definition peer_certificate ::
  "('c, 'crl) rustls_lib \<Rightarrow> (u8 list \<Rightarrow> (x509, string) result) \<Rightarrow> 'c tls_connection option \<Rightarrow> (x509, string) result" where
  "peer_certificate lib parse handle =
     and_then (tls_handle handle) (\<lambda>conn.
     and_then (case rl_peer_certificates lib (tn_connection conn) of
                 Some (certificate # _) \<Rightarrow> Ok certificate | _ \<Rightarrow> Err ''peer certificate is unavailable'') parse)"

definition peer_info ::
  "('c, 'crl) rustls_lib \<Rightarrow> (u8 list \<Rightarrow> (x509, string) result) \<Rightarrow> 'c tls_connection option \<Rightarrow> char ptr \<Rightarrow> usize
     \<Rightarrow> usize option \<Rightarrow> i64 option \<Rightarrow> i32 \<times> char ptr \<times> usize option \<times> i64 option" where
  "peer_info lib parse handle name_out name_capacity name_len serial =
     (case and_then (peer_certificate lib parse handle) (\<lambda>certificate.
           and_then (tls_output_slice name_out name_capacity) (\<lambda>out. Ok (certificate, out))) of
        Inl e \<Rightarrow> (tls_ffi_status (Returned (Err e)), name_out, name_len, serial)
      | Inr (certificate, out) \<Rightarrow>
          (let cn = common_name certificate;
               len = min (length cn) (length out);
               name_out = map_option (write_prefix (take len cn)) name_out
           in if name_len = None \<or> serial = None
              then (tls_ffi_status (Returned (Err ''peer info output pointer is null'')), name_out, name_len, serial)
              else (tls_ffi_status (Returned (Ok ())), name_out, Some len, Some (serial_i64 (x_raw_serial certificate)))))"

section \<open>Runs\<close>

text \<open>
  The data operations as the C++ side calls them: reads pass a buffer of their own of the given
  size, and take as many bytes of it as the call reports.
\<close>

datatype tls_op =
    WritePlaintext "u8 list"
  | ReadPlaintext usize
  | WriteCiphertext "u8 list"
  | ReadCiphertext usize

definition reported :: "isize \<Rightarrow> 'a ptr \<Rightarrow> 'a list" where
  "reported n out = (case out of None \<Rightarrow> [] | Some mem \<Rightarrow> take (nat n) mem)"

fun tls_step ::
  "('c, 'crl) rustls_lib \<Rightarrow> tls_op \<Rightarrow> 'c tls_connection option \<Rightarrow> isize \<times> u8 list \<times> 'c tls_connection option" where
  "tls_step lib (WritePlaintext data) h =
     (case write_plaintext lib h (Some data) (length data) None 0 of (n, h, _) \<Rightarrow> (n, [], h))"
| "tls_step lib (ReadPlaintext cap) h =
     (case read_plaintext lib h (Some (replicate cap 0)) cap None 0 of (n, h, out, _) \<Rightarrow> (n, reported n out, h))"
| "tls_step lib (WriteCiphertext data) h =
     (case write_ciphertext lib h (Some data) (length data) None 0 of (n, h, _) \<Rightarrow> (n, [], h))"
| "tls_step lib (ReadCiphertext cap) h =
     (case read_ciphertext lib h (Some (replicate cap 0)) cap None 0 of (n, h, out, _) \<Rightarrow> (n, reported n out, h))"

text \<open>What a step of a run was: the operation, its result and bytes, the connection before and after.\<close>

record 'c tls_event =
  ev_op :: tls_op
  ev_result :: isize
  ev_bytes :: "u8 list"
  ev_before :: "'c tls_connection"
  ev_after :: "'c tls_connection"

fun tls_run :: "('c, 'crl) rustls_lib \<Rightarrow> tls_op list \<Rightarrow> 'c tls_connection \<Rightarrow> 'c tls_event list \<times> 'c tls_connection" where
  "tls_run lib [] conn = ([], conn)"
| "tls_run lib (op # ops) conn =
     (case tls_step lib op (Some conn) of (n, bytes, h) \<Rightarrow>
        let next = (case h of Some c \<Rightarrow> c | None \<Rightarrow> conn)
        in case tls_run lib ops next of (trace, last_conn) \<Rightarrow>
             (\<lparr>ev_op = op, ev_result = n, ev_bytes = bytes, ev_before = conn, ev_after = next\<rparr> # trace, last_conn))"

fun is_read_ciphertext :: "tls_op \<Rightarrow> bool" where
  "is_read_ciphertext (ReadCiphertext _) \<longleftrightarrow> True"
| "is_read_ciphertext _ \<longleftrightarrow> False"

fun is_read_plaintext :: "tls_op \<Rightarrow> bool" where
  "is_read_plaintext (ReadPlaintext _) \<longleftrightarrow> True"
| "is_read_plaintext _ \<longleftrightarrow> False"

fun room :: "tls_op \<Rightarrow> usize" where
  "room (ReadPlaintext cap) = cap"
| "room (ReadCiphertext cap) = cap"
| "room _ = 0"

text \<open>What rustls hands over for sending in a step.\<close>

definition handed_over :: "('c, 'crl) rustls_lib \<Rightarrow> tls_op \<Rightarrow> 'c tls_connection \<Rightarrow> u8 list" where
  "handed_over lib op conn =
     (if is_read_ciphertext op \<and> tn_ciphertext conn = [] \<and> rl_wants_write lib (tn_connection conn)
      then (case fst (rl_write_tls lib (tn_connection conn)) of Inl _ \<Rightarrow> [] | Inr pending \<Rightarrow> pending)
      else [])"

section \<open>Lemmas\<close>

lemma stream_cons: "a @ m = q @ e \<Longrightarrow> d @ f = m @ es \<Longrightarrow> (a @ d) @ f = q @ e @ es"
  by (metis append_assoc)

lemma pop_bytes_take_drop: "pop_bytes n queue = (take n queue, drop n queue)"
  by (induction n queue rule: pop_bytes.induct) auto

lemma ffi_io_small: "int k \<le> ISIZE_MAX \<Longrightarrow> tls_ffi_io e c (Returned (Ok k)) = (int k, e)"
  by (auto simp: tls_ffi_io_def ISIZE_MAX_def USIZE_MAX_def)

lemma ffi_io_negative:
  "tls_ffi_io e c r = (n, e2) \<Longrightarrow> n < 0 \<Longrightarrow> nat n = 0"
  by simp

lemma reported_negative [simp]: "n \<le> 0 \<Longrightarrow> reported n out = []"
  by (auto simp: reported_def split: option.splits)

lemma ffi_io_Err [simp]: "fst (tls_ffi_io e c (Returned (Err m))) = - 3"
  by (simp add: tls_ffi_io_def)

lemma refill_step:
  "refill lib conn = (r, conn') \<Longrightarrow>
     tn_ciphertext conn' = tn_ciphertext conn @ handed_over lib (ReadCiphertext cap) conn"
  by (auto simp: refill_def handed_over_def split: if_splits prod.splits sum.splits)

lemma slice_whole [simp]: "tls_output_slice (Some (replicate cap x)) cap = Ok (replicate cap x)"
  by (simp add: tls_output_slice_def)

lemma read_ciphertext_step:
  assumes "tls_step lib (ReadCiphertext cap) (Some conn) = (n, bytes, h)" "int cap \<le> ISIZE_MAX"
  shows "\<exists>conn'. h = Some conn' \<and> length bytes \<le> cap
           \<and> bytes @ tn_ciphertext conn' = tn_ciphertext conn @ handed_over lib (ReadCiphertext cap) conn"
proof -
  obtain r mid where re: "refill lib conn = (r, mid)" by fastforce
  note q = refill_step [OF re, of cap]
  show ?thesis
  proof (cases r)
    case (Inl e)
    with assms(1) re q show ?thesis
      by (auto simp: read_ciphertext_def tls_handle_def read_ciphertext_body_def tls_ffi_io_def)
  next
    case (Inr u)
    let ?k = "min cap (length (tn_ciphertext mid))"
    have small: "int ?k \<le> ISIZE_MAX" using assms(2) by simp
    have "n = int ?k" "bytes = take ?k (tn_ciphertext mid)" "h = Some (mid\<lparr>tn_ciphertext := drop ?k (tn_ciphertext mid)\<rparr>)"
      using assms(1) re Inr ffi_io_small [OF small]
      by (auto simp: read_ciphertext_def tls_handle_def read_ciphertext_body_def pop_bytes_take_drop Let_def
          reported_def write_prefix_def)
    with q show ?thesis by (auto simp: min_def)
  qed
qed

lemma other_steps_keep_queue:
  "tls_step lib op (Some conn) = (n, bytes, h) \<Longrightarrow> \<not> is_read_ciphertext op \<Longrightarrow>
     \<exists>conn'. h = Some conn' \<and> tn_ciphertext conn' = tn_ciphertext conn"
  by (cases op)
     (auto simp: write_plaintext_def read_plaintext_def write_ciphertext_def tls_handle_def write_plaintext_body_def
        read_plaintext_body_def write_ciphertext_body_def Let_def split: prod.splits sum.splits io_read.splits if_splits)

lemma step_queue:
  assumes "tls_step lib op (Some conn) = (n, bytes, h)" "int (room op) \<le> ISIZE_MAX"
  shows "\<exists>conn'. h = Some conn' \<and> (if is_read_ciphertext op then bytes else []) @ tn_ciphertext conn' =
           tn_ciphertext conn @ handed_over lib op conn \<and> (is_read_ciphertext op \<longrightarrow> length bytes \<le> room op)"
proof (cases "is_read_ciphertext op")
  case True
  then obtain cap where "op = ReadCiphertext cap" by (cases op) auto
  with read_ciphertext_step [of lib cap conn n bytes h] assms show ?thesis by auto
next
  case False
  with other_steps_keep_queue [OF assms(1)] show ?thesis by (auto simp: handed_over_def)
qed

text \<open>
  rustls' side of the plaintext pipe: \<open>avail\<close> is the decrypted data not yet read.  Reading
  takes a prefix of it, processing packets appends to it and reports its length, nothing else
  touches it.
\<close>

definition rustls_reader :: "('c, 'crl) rustls_lib \<Rightarrow> ('c \<Rightarrow> u8 list) \<Rightarrow> bool" where
  "rustls_reader lib avail \<longleftrightarrow>
     (\<forall>c n r c'. rl_read lib c n = (r, c') \<longrightarrow>
        (case r of ReadOk bytes \<Rightarrow> bytes = take n (avail c) \<and> avail c' = drop n (avail c) | _ \<Rightarrow> avail c' = avail c))
   \<and> (\<forall>c data. avail (snd (rl_write lib c data)) = avail c)
   \<and> (\<forall>c. avail (snd (rl_write_tls lib c)) = avail c)
   \<and> (\<forall>c data. avail (snd (rl_read_tls lib c data)) = avail c)
   \<and> (\<forall>c. \<exists>more. avail (snd (rl_process_new_packets lib c)) = avail c @ more)
   \<and> (\<forall>c state c'. rl_process_new_packets lib c = (Ok state, c') \<longrightarrow>
        st_plaintext_bytes_to_read state = length (avail c'))"

lemma rustls_readerD:
  assumes "rustls_reader lib avail"
  shows "rl_read lib c n = (ReadOk bytes, c') \<Longrightarrow> bytes = take n (avail c) \<and> avail c' = drop n (avail c)"
    "rl_read lib c n = (WouldBlock, c') \<Longrightarrow> avail c' = avail c"
    "rl_read lib c n = (ReadErr e, c') \<Longrightarrow> avail c' = avail c"
    "rl_write lib c data = (w, c') \<Longrightarrow> avail c' = avail c"
    "rl_write_tls lib c = (t, c') \<Longrightarrow> avail c' = avail c"
    "rl_read_tls lib c data = (w, c') \<Longrightarrow> avail c' = avail c"
    "rl_process_new_packets lib c = (p, c') \<Longrightarrow> \<exists>more. avail c' = avail c @ more"
    "rl_process_new_packets lib c = (Inr state, c') \<Longrightarrow> st_plaintext_bytes_to_read state = length (avail c')"
proof -
  note d = assms [unfolded rustls_reader_def]
  note read = conjunct1 [OF d, rule_format]
  show "rl_read lib c n = (ReadOk bytes, c') \<Longrightarrow> bytes = take n (avail c) \<and> avail c' = drop n (avail c)"
    using read [of c n "ReadOk bytes" c'] by simp
  show "rl_read lib c n = (WouldBlock, c') \<Longrightarrow> avail c' = avail c" using read [of c n WouldBlock c'] by simp
  show "rl_read lib c n = (ReadErr e, c') \<Longrightarrow> avail c' = avail c" using read [of c n "ReadErr e" c'] by simp
  show "rl_write lib c data = (w, c') \<Longrightarrow> avail c' = avail c" using d by (metis snd_conv)
  show "rl_write_tls lib c = (t, c') \<Longrightarrow> avail c' = avail c" using d by (metis snd_conv)
  show "rl_read_tls lib c data = (w, c') \<Longrightarrow> avail c' = avail c" using d by (metis snd_conv)
  show "rl_process_new_packets lib c = (p, c') \<Longrightarrow> \<exists>more. avail c' = avail c @ more" using d by (metis snd_conv)
  show "rl_process_new_packets lib c = (Inr state, c') \<Longrightarrow> st_plaintext_bytes_to_read state = length (avail c')"
    using d by blast
qed

abbreviation unread :: "('c \<Rightarrow> u8 list) \<Rightarrow> 'c tls_connection \<Rightarrow> u8 list" where
  "unread avail conn \<equiv> avail (tn_connection conn)"

text \<open>What a step decrypted.\<close>

definition arrived :: "('c \<Rightarrow> u8 list) \<Rightarrow> 'c tls_connection \<Rightarrow> 'c tls_connection \<Rightarrow> tls_op \<Rightarrow> u8 list" where
  "arrived avail before after op =
     (case op of WriteCiphertext _ \<Rightarrow> drop (length (unread avail before)) (unread avail after) | _ \<Rightarrow> [])"

fun failed_write :: "tls_op \<Rightarrow> isize \<Rightarrow> bool" where
  "failed_write (WriteCiphertext _) n \<longleftrightarrow> n < 0"
| "failed_write _ n \<longleftrightarrow> False"

text \<open>One step of the plaintext accounting.\<close>

definition plaintext_account ::
  "('c \<Rightarrow> u8 list) \<Rightarrow> tls_op \<Rightarrow> isize \<Rightarrow> u8 list \<Rightarrow> 'c tls_connection \<Rightarrow> 'c tls_connection \<Rightarrow> bool" where
  "plaintext_account avail op n bytes conn conn' \<longleftrightarrow>
     (if is_read_plaintext op then bytes else []) @ unread avail conn' = unread avail conn @ arrived avail conn conn' op
   \<and> (tn_plaintext_ready conn \<le> length (unread avail conn) \<longrightarrow> tn_plaintext_ready conn' \<le> length (unread avail conn'))
   \<and> (\<not> failed_write op n \<longrightarrow> tn_plaintext_ready conn = length (unread avail conn) \<longrightarrow>
        tn_plaintext_ready conn' = length (unread avail conn'))
   \<and> (is_read_plaintext op \<longrightarrow> n = - 2 \<longrightarrow> tn_peer_closed conn \<and> (unread avail conn = [] \<or> room op = 0))"

lemma account_write_plaintext:
  assumes "rustls_reader lib avail" "tls_step lib (WritePlaintext data) (Some conn) = (n, bytes, h)"
  shows "\<exists>conn'. h = Some conn' \<and> plaintext_account avail (WritePlaintext data) n bytes conn conn'"
proof -
  obtain r c where w: "rl_write lib (tn_connection conn) data = (r, c)" by fastforce
  have "h = Some (conn\<lparr>tn_connection := c\<rparr>)" if "data \<noteq> []"
    using assms(2) w that
    by (auto simp: write_plaintext_def tls_handle_def write_plaintext_body_def tls_input_slice_def split: prod.splits)
  moreover have "h = Some (conn\<lparr>tn_connection := c\<rparr>)" if "data = []"
    using assms(2) w that
    by (auto simp: write_plaintext_def tls_handle_def write_plaintext_body_def tls_input_slice_def split: prod.splits)
  ultimately show ?thesis
    using rustls_readerD(4) [OF assms(1) w] by (cases "data = []") (auto simp: plaintext_account_def arrived_def)
qed

lemma account_read_plaintext:
  assumes lib: "rustls_reader lib avail" and st: "tls_step lib (ReadPlaintext cap) (Some conn) = (n, bytes, h)"
    and cap: "int cap \<le> ISIZE_MAX"
  shows "\<exists>conn'. h = Some conn' \<and> plaintext_account avail (ReadPlaintext cap) n bytes conn conn'"
proof -
  obtain r c where rd: "rl_read lib (tn_connection conn) cap = (r, c)" by fastforce
  note open_step = read_plaintext_def tls_handle_def read_plaintext_body_def Let_def
  show ?thesis
  proof (cases r)
    case (ReadOk bs)
    from rustls_readerD(1) [OF lib rd [unfolded ReadOk]]
    have bs: "bs = take cap (unread avail conn)" "avail c = drop cap (unread avail conn)" by auto
    have small: "int (length bs) \<le> ISIZE_MAX" using bs(1) cap by simp
    show ?thesis
    proof (cases "bs = [] \<and> tn_peer_closed conn")
      case True
      then have "n = - 2" "bytes = []" "h = Some (conn\<lparr>tn_connection := c\<rparr>)"
        using st rd ReadOk by (auto simp: open_step tls_ffi_io_def reported_def)
      with True bs show ?thesis by (auto simp: plaintext_account_def arrived_def)
    next
      case False
      then have "n = int (length bs)" "bytes = bs"
        "h = Some (conn\<lparr>tn_connection := c, tn_plaintext_ready := tn_plaintext_ready conn - length bs\<rparr>)"
        using st rd ReadOk ffi_io_small [OF small] by (auto simp: open_step reported_def write_prefix_def)
      with bs show ?thesis by (auto simp: plaintext_account_def arrived_def)
    qed
  next
    case WouldBlock
    then have "n = 0" "bytes = []" "h = Some (conn\<lparr>tn_connection := c\<rparr>)"
      using st rd by (auto simp: open_step tls_ffi_io_def reported_def USIZE_MAX_def ISIZE_MAX_def)
    with rustls_readerD(2) [OF lib rd [unfolded WouldBlock]] show ?thesis
      by (auto simp: plaintext_account_def arrived_def)
  next
    case (ReadErr e)
    then have "n = - 3" "bytes = []" "h = Some (conn\<lparr>tn_connection := c\<rparr>)"
      using st rd by (auto simp: open_step tls_ffi_io_def reported_def)
    with rustls_readerD(3) [OF lib rd [unfolded ReadErr]] show ?thesis
      by (auto simp: plaintext_account_def arrived_def)
  qed
qed

lemma account_write_ciphertext:
  assumes lib: "rustls_reader lib avail" and st: "tls_step lib (WriteCiphertext data) (Some conn) = (n, bytes, h)"
  shows "\<exists>conn'. h = Some conn' \<and> plaintext_account avail (WriteCiphertext data) n bytes conn conn'"
proof -
  obtain r c where rd: "rl_read_tls lib (tn_connection conn) data = (r, c)" by fastforce
  note keep = rustls_readerD(6) [OF lib rd]
  obtain q d where pr: "rl_process_new_packets lib c = (q, d)" by fastforce
  obtain more where more: "avail d = unread avail conn @ more" using rustls_readerD(7) [OF lib pr] keep by auto
  have slice: "tls_input_slice (Some data) (length data) = Ok data" by (simp add: tls_input_slice_def)
  note open_step = write_ciphertext_def tls_handle_def write_ciphertext_body_def slice rd
  show ?thesis
  proof (cases r)
    case (Inl e)
    then have "n = - 3" "h = Some (conn\<lparr>tn_connection := c\<rparr>)" using st by (auto simp: open_step tls_ffi_io_def)
    with keep show ?thesis by (auto simp: plaintext_account_def arrived_def)
  next
    case (Inr k)
    show ?thesis
    proof (cases q)
      case (Inl e)
      then have "n = - 3" "h = Some (conn\<lparr>tn_connection := d\<rparr>)"
        using st \<open>r = Inr k\<close> pr by (auto simp: open_step tls_ffi_io_def)
      with more show ?thesis by (auto simp: plaintext_account_def arrived_def)
    next
      case (Inr state)
      then have "h = Some (conn\<lparr>tn_connection := d, tn_plaintext_ready := st_plaintext_bytes_to_read state,
          tn_peer_closed := st_peer_has_closed state\<rparr>)"
        using st \<open>r = Inr k\<close> pr by (auto simp: open_step tls_ffi_io_def)
      with more rustls_readerD(8) [OF lib pr [unfolded Inr]] show ?thesis
        by (auto simp: plaintext_account_def arrived_def)
    qed
  qed
qed

lemma account_read_ciphertext:
  assumes lib: "rustls_reader lib avail" and st: "tls_step lib (ReadCiphertext cap) (Some conn) = (n, bytes, h)"
  shows "\<exists>conn'. h = Some conn' \<and> plaintext_account avail (ReadCiphertext cap) n bytes conn conn'"
proof -
  obtain r mid where re: "refill lib conn = (r, mid)" by fastforce
  have keep: "unread avail mid = unread avail conn" "tn_plaintext_ready mid = tn_plaintext_ready conn"
    using re rustls_readerD(5) [OF lib]
    by (auto simp: refill_def split: if_splits prod.splits sum.splits)
  have "\<exists>queue. h = Some (mid\<lparr>tn_ciphertext := queue\<rparr>)"
  proof (cases r)
    case (Inl e)
    then have "h = Some mid" using st re
      by (auto simp: read_ciphertext_def tls_handle_def read_ciphertext_body_def tls_ffi_io_def)
    then show ?thesis by (intro exI [of _ "tn_ciphertext mid"]) simp
  next
    case (Inr u)
    then show ?thesis using st re
      by (auto simp: read_ciphertext_def tls_handle_def read_ciphertext_body_def Let_def split: prod.splits)
  qed
  with keep show ?thesis by (auto simp: plaintext_account_def arrived_def)
qed

lemma account_step:
  assumes "rustls_reader lib avail" "tls_step lib op (Some conn) = (n, bytes, h)" "int (room op) \<le> ISIZE_MAX"
  shows "\<exists>conn'. h = Some conn' \<and> plaintext_account avail op n bytes conn conn'"
proof (cases op)
  case (WritePlaintext data)
  with assms account_write_plaintext [OF assms(1)] show ?thesis by blast
next
  case (ReadPlaintext cap)
  with assms account_read_plaintext [OF assms(1), of cap conn n bytes h] show ?thesis by simp
next
  case (WriteCiphertext data)
  with assms account_write_ciphertext [OF assms(1)] show ?thesis by blast
next
  case (ReadCiphertext cap)
  with assms account_read_ciphertext [OF assms(1)] show ?thesis by blast
qed

section \<open>Properties\<close>

text \<open>
  C5: the ciphertext leaving through the pipe is the stream rustls produced, whatever the
  sizes of the read buffers and however reads are interleaved with the other operations: the
  bytes of all reads followed by what is still queued are what was queued at the start followed
  by everything rustls handed over since, in order and without loss or repetition, and no
  read returns more than its buffer holds.
\<close>

theorem ciphertext_stream:
  assumes "\<forall>op \<in> set ops. int (room op) \<le> ISIZE_MAX"
    and "tls_run lib ops conn = (trace, conn')"
  shows "concat (map ev_bytes (filter (\<lambda>e. is_read_ciphertext (ev_op e)) trace)) @ tn_ciphertext conn' =
           tn_ciphertext conn @ concat (map (\<lambda>e. handed_over lib (ev_op e) (ev_before e)) trace)
         \<and> (\<forall>e \<in> set trace. is_read_ciphertext (ev_op e) \<longrightarrow> length (ev_bytes e) \<le> room (ev_op e))"
  using assms
proof (induction ops arbitrary: conn trace)
  case (Cons op ops)
  obtain n bytes h where st: "tls_step lib op (Some conn) = (n, bytes, h)" by (metis prod_cases3)
  from step_queue [OF st] Cons.prems(1) obtain mid
    where mid: "h = Some mid" "(if is_read_ciphertext op then bytes else []) @ tn_ciphertext mid =
        tn_ciphertext conn @ handed_over lib op conn" "is_read_ciphertext op \<longrightarrow> length bytes \<le> room op" by auto
  obtain rest where run: "tls_run lib ops mid = (rest, conn')"
    and trace: "trace = \<lparr>ev_op = op, ev_result = n, ev_bytes = bytes, ev_before = conn, ev_after = mid\<rparr> # rest"
    using Cons.prems(2) st mid(1) by (auto split: prod.splits)
  have "concat (map ev_bytes (filter (\<lambda>e. is_read_ciphertext (ev_op e)) rest)) @ tn_ciphertext conn' =
      tn_ciphertext mid @ concat (map (\<lambda>e. handed_over lib (ev_op e) (ev_before e)) rest)"
    and "\<forall>e \<in> set rest. is_read_ciphertext (ev_op e) \<longrightarrow> length (ev_bytes e) \<le> room (ev_op e)"
    using Cons.IH [OF _ run] Cons.prems(1) by auto
  from stream_cons [OF mid(2) this(1)] this(2) mid(3) show ?case
    by (cases "is_read_ciphertext op") (simp_all add: trace)
qed simp

text \<open>A rustls that decrypts by copying and sends nothing, for the witnesses.\<close>

record echo =
  echo_in :: "u8 list"
  echo_avail :: "u8 list"
  echo_out :: "u8 list"

definition echo_lib :: "(echo, unit) rustls_lib" where
  "echo_lib = \<lparr>rl_server_name = Ok, rl_new = (\<lambda>config name. Ok \<lparr>echo_in = [], echo_avail = [], echo_out = []\<rparr>),
     rl_write = (\<lambda>c data. (Ok (length data), c\<lparr>echo_out := echo_out c @ data\<rparr>)),
     rl_read = (\<lambda>c n. if echo_avail c = [] then (WouldBlock, c)
                      else (ReadOk (take n (echo_avail c)), c\<lparr>echo_avail := drop n (echo_avail c)\<rparr>)),
     rl_read_tls = (\<lambda>c data. (Ok (length data), c\<lparr>echo_in := echo_in c @ data\<rparr>)),
     rl_process_new_packets = (\<lambda>c.
       (Ok \<lparr>st_plaintext_bytes_to_read = length (echo_avail c @ echo_in c), st_peer_has_closed = False\<rparr>,
        c\<lparr>echo_avail := echo_avail c @ echo_in c, echo_in := []\<rparr>)),
     rl_wants_write = (\<lambda>c. echo_out c \<noteq> []), rl_write_tls = (\<lambda>c. (Ok (echo_out c), c\<lparr>echo_out := []\<rparr>)),
     rl_protocol_version = (\<lambda>c. Some TLSv1_3), rl_negotiated_cipher_suite = (\<lambda>c. None),
     rl_export_keying_material = (\<lambda>c n label. Ok (replicate n 0)), rl_is_handshaking = (\<lambda>c. False),
     rl_peer_certificates = (\<lambda>c. None)\<rparr>"

definition echo_connection :: "echo tls_connection" where
  "echo_connection = \<lparr>tn_connection = \<lparr>echo_in = [], echo_avail = [], echo_out = []\<rparr>, tn_ciphertext = [],
     tn_plaintext_ready = 0, tn_peer_closed = False\<rparr>"

lemma echo_reader: "rustls_reader echo_lib echo_avail"
  by (simp add: rustls_reader_def echo_lib_def split: io_read.splits)

theorem ciphertext_stream_witness:
  "\<exists>trace conn'. tls_run echo_lib [WritePlaintext [1, 2, 3], ReadCiphertext 2, ReadCiphertext 2] echo_connection = (trace, conn')
     \<and> concat (map ev_bytes (filter (\<lambda>e. is_read_ciphertext (ev_op e)) trace)) @ tn_ciphertext conn' =
         concat (map (\<lambda>e. handed_over echo_lib (ev_op e) (ev_before e)) trace)"
proof -
  let ?ops = "[WritePlaintext [1, 2, 3], ReadCiphertext 2, ReadCiphertext 2]"
  obtain trace conn' where run: "tls_run echo_lib ?ops echo_connection = (trace, conn')" by fastforce
  have "\<forall>op \<in> set ?ops. int (room op) \<le> ISIZE_MAX" by (simp add: ISIZE_MAX_def)
  from ciphertext_stream [OF this run] run show ?thesis by (auto simp: echo_connection_def)
qed



end
