(* ===== verification/Resolver.thy ===== *)
theory Resolver
  imports Rust_Digits
begin

text \<open>
  Host resolution (\<open>rust_backend.rs\<close>): literal addresses are parsed as the standard library
  parses an \<open>IpAddr\<close>, every other host goes to the DNS runtime, which is created at most once;
  the answer is written into the caller's array.  The DNS resolver itself is a parameter.
\<close>

section \<open>Addresses\<close>

datatype ip_addr = V4 "u8 list" | V6 "u16 list"

text \<open>\<open>V4\<close> holds four octets, \<open>V6\<close> eight segments.\<close>

fun ip_addr_ok :: "ip_addr \<Rightarrow> bool" where
  "ip_addr_ok (V4 octets) \<longleftrightarrow> length octets = 4"
| "ip_addr_ok (V6 segments) \<longleftrightarrow> length segments = 8"

subsection \<open>The parser of the standard library\<close>

text \<open>
  A reader takes a prefix of the text and returns the rest.  \<open>read_digits\<close> is the loop of
  \<open>read_number\<close>: it stops at the first character that is no digit and fails on one digit too
  many.
\<close>

fun read_digits :: "nat \<Rightarrow> nat \<Rightarrow> nat \<Rightarrow> nat \<Rightarrow> string \<Rightarrow> (nat \<times> nat \<times> string) option" where
  "read_digits radix max_digits result count [] = Some (result, count, [])"
| "read_digits radix max_digits result count (c # s) =
     (case to_digit radix c of
        None \<Rightarrow> Some (result, count, c # s)
      | Some d \<Rightarrow>
          if max_digits < Suc count then None
          else read_digits radix max_digits (result * radix + d) (Suc count) s)"

definition read_number :: "nat \<Rightarrow> nat \<Rightarrow> bool \<Rightarrow> nat \<Rightarrow> string \<Rightarrow> (nat \<times> string) option" where
  "read_number radix max_digits allow_zero_prefix max_value s =
     (case read_digits radix max_digits 0 0 s of
        None \<Rightarrow> None
      | Some (result, count, rest) \<Rightarrow>
          if count = 0 then None
          else if \<not> allow_zero_prefix \<and> starts_with s ''0'' \<and> 1 < count then None
          else if max_value < result then None
          else Some (result, rest))"

definition read_given_char :: "char \<Rightarrow> string \<Rightarrow> string option" where
  "read_given_char c s = (case s of [] \<Rightarrow> None | d # rest \<Rightarrow> if d = c then Some rest else None)"

definition read_separator ::
  "char \<Rightarrow> nat \<Rightarrow> (string \<Rightarrow> ('a \<times> string) option) \<Rightarrow> string \<Rightarrow> ('a \<times> string) option" where
  "read_separator sep i inner_reader s =
     (if 0 < i then (case read_given_char sep s of None \<Rightarrow> None | Some rest \<Rightarrow> inner_reader rest)
      else inner_reader s)"

text \<open>\<open>n\<close> more octets, the first of them at position \<open>i\<close>.\<close>

fun read_octets :: "nat \<Rightarrow> nat \<Rightarrow> string \<Rightarrow> (u8 list \<times> string) option" where
  "read_octets i 0 s = Some ([], s)"
| "read_octets i (Suc n) s =
     (case read_separator CHR ''.'' i (read_number 10 3 False 255) s of
        None \<Rightarrow> None
      | Some (octet, rest) \<Rightarrow>
          (case read_octets (Suc i) n rest of
             None \<Rightarrow> None
           | Some (octets, rest) \<Rightarrow> Some (of_nat octet # octets, rest)))"

definition read_ipv4_addr :: "string \<Rightarrow> (u8 list \<times> string) option" where
  "read_ipv4_addr s = read_octets 0 4 s"

definition segment_of :: "u8 \<Rightarrow> u8 \<Rightarrow> u16" where
  "segment_of hi lo = of_nat (unat hi * 256 + unat lo)"

text \<open>
  \<open>read_groups\<close> from position \<open>i\<close>, \<open>n\<close> positions left: the segments read, whether they end in
  an embedded IPv4 address, and the rest of the text.
\<close>

fun read_groups :: "nat \<Rightarrow> nat \<Rightarrow> string \<Rightarrow> u16 list \<times> bool \<times> string" where
  "read_groups i 0 s = ([], False, s)"
| "read_groups i (Suc n) s =
     (case (if 0 < n then read_separator CHR '':'' i read_ipv4_addr s else None) of
        Some (octets, rest) \<Rightarrow>
          ([segment_of (octets ! 0) (octets ! 1), segment_of (octets ! 2) (octets ! 3)], True, rest)
      | None \<Rightarrow>
          (case read_separator CHR '':'' i (read_number 16 4 True 65535) s of
             None \<Rightarrow> ([], False, s)
           | Some (grp, rest) \<Rightarrow>
               (case read_groups (Suc i) n rest of (segments, ipv4, rest) \<Rightarrow>
                  (of_nat grp # segments, ipv4, rest))))"

definition read_ipv6_addr :: "string \<Rightarrow> (u16 list \<times> string) option" where
  "read_ipv6_addr s =
     (case read_groups 0 8 s of (head, head_ipv4, rest) \<Rightarrow>
        if length head = 8 then Some (head, rest)
        else if head_ipv4 then None
        else
          (case read_given_char CHR '':'' rest of
             None \<Rightarrow> None
           | Some rest \<Rightarrow>
               (case read_given_char CHR '':'' rest of
                  None \<Rightarrow> None
                | Some rest \<Rightarrow>
                    (case read_groups 0 (8 - (length head + 1)) rest of (tail, _, rest) \<Rightarrow>
                       Some (head @ replicate (8 - length head - length tail) 0 @ tail, rest)))))"

definition parse_ip_addr :: "string \<Rightarrow> ip_addr option" where
  "parse_ip_addr s =
     (case (case read_ipv4_addr s of
              Some (octets, rest) \<Rightarrow> Some (V4 octets, rest)
            | None \<Rightarrow> map_option (\<lambda>(segments, rest). (V6 segments, rest)) (read_ipv6_addr s)) of
        Some (address, []) \<Rightarrow> Some address
      | _ \<Rightarrow> None)"

section \<open>The resolver\<close>

text \<open>
  \<open>rs_cell\<close> is the process-wide \<open>OnceLock\<close>: empty, or the result of building the runtime;
  \<open>rs_builds\<close> and \<open>rs_lookups\<close> count the builds and the queries.
\<close>

record resolver_state =
  rs_cell :: "(unit, string) result option"
  rs_builds :: nat
  rs_lookups :: "string list"

text \<open>
  The DNS library: whether the runtime and the resolver can be built, and the answer of a
  lookup, where \<open>None\<close> is a task that ended without sending one.
\<close>

record dns_lib =
  dl_build :: "(unit, string) result"
  dl_lookup_ip :: "string \<Rightarrow> (ip_addr list, string) result option"

definition resolver_runtime :: "dns_lib \<Rightarrow> resolver_state \<Rightarrow> (unit, string) result \<times> resolver_state" where
  "resolver_runtime lib st =
     (case rs_cell st of
        Some r \<Rightarrow> (r, st)
      | None \<Rightarrow> (dl_build lib, st\<lparr>rs_cell := Some (dl_build lib), rs_builds := Suc (rs_builds st)\<rparr>))"

definition recv_error :: string where
  "recv_error = ''DNS runtime stopped before returning a result: receiving on a closed channel''"

definition resolve_host :: "dns_lib \<Rightarrow> string \<Rightarrow> resolver_state \<Rightarrow> (ip_addr list, string) result \<times> resolver_state" where
  "resolve_host lib host st =
     (case parse_ip_addr host of
        Some address \<Rightarrow> (Ok [address], st)
      | None \<Rightarrow>
          (case resolver_runtime lib st of
             (Inl e, st) \<Rightarrow> (Err e, st)
           | (Inr _, st) \<Rightarrow>
               (case dl_lookup_ip lib host of None \<Rightarrow> Err recv_error | Some r \<Rightarrow> r,
                st\<lparr>rs_lookups := rs_lookups st @ [host]\<rparr>)))"

record ovpn_rust_ip_address =
  ia_family :: u8
  ia_octets :: "u8 list"

abbreviation IPV4_FAMILY :: u8 where "IPV4_FAMILY \<equiv> 4"
abbreviation IPV6_FAMILY :: u8 where "IPV6_FAMILY \<equiv> 6"

text \<open>\<open>Ipv6Addr::octets\<close>: each segment in network order.\<close>

definition segment_octets :: "u16 \<Rightarrow> u8 list" where
  "segment_octets s = [of_nat (unat s div 256), of_nat (unat s mod 256)]"

fun encode_address :: "ip_addr \<Rightarrow> ovpn_rust_ip_address" where
  "encode_address (V4 octets) = \<lparr>ia_family = IPV4_FAMILY, ia_octets = write_prefix octets (replicate 16 0)\<rparr>"
| "encode_address (V6 segments) = \<lparr>ia_family = IPV6_FAMILY, ia_octets = concat (map segment_octets segments)\<rparr>"

text \<open>
  \<open>resolve_callback\<close>: the status, the caller's array and the result length.  Nothing is
  written unless the resolution succeeds.
\<close>

definition resolve_callback ::
  "dns_lib \<Rightarrow> char ptr \<Rightarrow> usize \<Rightarrow> ovpn_rust_ip_address ptr \<Rightarrow> usize \<Rightarrow> usize option \<Rightarrow> resolver_state
     \<Rightarrow> i32 \<times> ovpn_rust_ip_address ptr \<times> usize option \<times> resolver_state" where
  "resolve_callback lib host host_len addresses addresses_capacity addresses_len st =
     (case (host, addresses, addresses_len) of
        (Some mem, Some slots, Some _) \<Rightarrow>
          (case from_utf8 (take host_len mem) of
             Inl e \<Rightarrow> (bool_i32 False, addresses, addresses_len, st)
           | Inr host \<Rightarrow>
               (case resolve_host lib host st of
                  (Inl e, st) \<Rightarrow> (bool_i32 False, addresses, addresses_len, st)
                | (Inr resolved, st) \<Rightarrow>
                    (let count = min (length resolved) addresses_capacity
                     in (bool_i32 True, Some (write_prefix (map encode_address (take count resolved)) slots),
                         Some count, st))))
      | _ \<Rightarrow> (0, addresses, addresses_len, st))"

section \<open>Lemmas\<close>

subsection \<open>Numbers\<close>

definition no_digit_ahead :: "nat \<Rightarrow> string \<Rightarrow> bool" where
  "no_digit_ahead radix s \<longleftrightarrow> (case s of [] \<Rightarrow> True | c # _ \<Rightarrow> to_digit radix c = None)"

lemma read_digits_text:
  assumes "\<forall>d \<in> set ds. to_digit radix (hex_digit d) = Some d" "no_digit_ahead radix rest"
    "count + length ds \<le> max_digits"
  shows "read_digits radix max_digits acc count (map hex_digit ds @ rest) =
           Some (digit_value radix acc ds, count + length ds, rest)"
  using assms
proof (induction ds arbitrary: acc count)
  case Nil
  then show ?case by (cases rest) (auto simp: digit_value_def no_digit_ahead_def)
next
  case (Cons d ds)
  then show ?case by (auto simp: digit_value_def)
qed

lemma read_number_text:
  assumes "ds \<noteq> []" "\<forall>d \<in> set ds. d < radix" "radix \<le> 16" "no_digit_ahead radix rest" "length ds \<le> max_digits"
    "digit_value radix 0 ds \<le> max_value" "zeros \<or> hd ds \<noteq> 0 \<or> length ds = 1"
  shows "read_number radix max_digits zeros max_value (map hex_digit ds @ rest) = Some (digit_value radix 0 ds, rest)"
proof -
  have "read_digits radix max_digits 0 0 (map hex_digit ds @ rest) = Some (digit_value radix 0 ds, length ds, rest)"
    using assms read_digits_text [of ds radix rest 0 max_digits 0] by (simp add: to_digit_hex_digit_radix)
  moreover have "\<not> starts_with (map hex_digit ds @ rest) ''0''" if "hd ds \<noteq> 0"
  proof -
    obtain d es where ds: "ds = d # es" using assms(1) by (cases ds) auto
    have "hex_digit d \<noteq> CHR ''0''"
    proof
      assume "hex_digit d = CHR ''0''"
      moreover have "d < 16" using assms(2,3) ds by auto
      ultimately have "byte_val (CHR ''0'') = (if d < 10 then d + 48 else d + 87)"
        using byte_val_hex_digit [of d] by metis
      with that ds show False by (auto split: if_splits)
    qed
    with ds show ?thesis by (simp add: starts_with_def)
  qed
  ultimately show ?thesis using assms(1,6,7) by (auto simp: read_number_def)
qed

lemma read_decimal:
  assumes "n \<le> 255" "no_digit_ahead 10 rest"
  shows "read_number 10 3 False 255 (decimal n @ rest) = Some (n, rest)"
proof -
  have "length (digits_of 10 n) \<le> 3" using assms(1) by (intro digits_of_length) auto
  moreover have "hd (digits_of 10 n) \<noteq> 0 \<or> length (digits_of 10 n) = 1"
    using digits_of_first [of 10 n] by (cases "n = 0") (auto simp: digits_of_one)
  ultimately show ?thesis
    unfolding decimal_digits
    by (subst read_number_text) (use assms in \<open>auto simp: digits_of_value dest: digits_of_less [rotated]\<close>)
qed

lemma read_hex:
  assumes "n \<le> 65535" "no_digit_ahead 16 rest"
  shows "read_number 16 4 True 65535 (lower_hex n @ rest) = Some (n, rest)"
proof -
  have "length (digits_of 16 n) \<le> 4" using assms(1) by (intro digits_of_length) auto
  then show ?thesis
    unfolding lower_hex_digits
    by (subst read_number_text) (use assms in \<open>auto simp: digits_of_value dest: digits_of_less [rotated]\<close>)
qed

subsection \<open>Literals\<close>

text \<open>Items with separators between them, as the readers see them from position \<open>i\<close> on.\<close>

fun sep_text :: "char \<Rightarrow> ('a \<Rightarrow> string) \<Rightarrow> nat \<Rightarrow> 'a list \<Rightarrow> string" where
  "sep_text sep f i [] = []"
| "sep_text sep f i (x # xs) = (if 0 < i then [sep] else []) @ f x @ sep_text sep f (Suc i) xs"

lemma sep_text_join: "sep_text sep f 0 xs = join_with [sep] (map f xs)"
proof -
  have later: "sep_text sep f (Suc i) xs = (if xs = [] then [] else sep # join_with [sep] (map f xs))" for i xs
    by (induction xs arbitrary: i) (auto simp: join_with_Cons_not_Nil)
  show ?thesis by (cases xs) (auto simp: later join_with_Cons_not_Nil)
qed

lemma no_digit_ahead_sep:
  "to_digit radix sep = None \<Longrightarrow> no_digit_ahead radix rest \<Longrightarrow> no_digit_ahead radix (sep_text sep f (Suc i) xs @ rest)"
  by (cases xs) (auto simp: no_digit_ahead_def)

lemma separators_no_digits: "to_digit 10 CHR ''.'' = None" "to_digit 16 CHR '':'' = None" "to_digit 10 CHR '':'' = None"
  by (simp_all add: to_digit_def)

lemma read_separator_text:
  "read_separator sep 0 reader s = reader s" "read_separator sep (Suc i) reader (sep # s) = reader s"
  by (simp_all add: read_separator_def read_given_char_def)

lemma read_octets_text:
  "no_digit_ahead 10 rest \<Longrightarrow>
   read_octets i (length octets) (sep_text CHR ''.'' (\<lambda>b. decimal (unat b)) i octets @ rest) = Some (octets, rest)"
proof (induction octets arbitrary: i)
  case (Cons b octets)
  have "unat b < 256" using unsigned_less [of b, where 'a = nat] by simp
  then have "unat b \<le> 255" by simp
  moreover have "no_digit_ahead 10 (sep_text CHR ''.'' (\<lambda>b. decimal (unat b)) (Suc i) octets @ rest)"
    by (rule no_digit_ahead_sep [OF separators_no_digits(1) Cons.prems])
  ultimately show ?case using read_decimal [of "unat b"] Cons
    by (cases i) (simp_all add: read_separator_text)
qed simp

lemma read_digits_suffix: "read_digits radix m acc k s = Some (n, c, rest) \<Longrightarrow> set rest \<subseteq> set s"
  by (induction radix m acc k s rule: read_digits.induct) (auto split: option.splits if_splits)

lemma read_ipv4_no_dot: "CHR ''.'' \<notin> set s \<Longrightarrow> read_ipv4_addr s = None"
proof -
  assume dot: "CHR ''.'' \<notin> set s"
  have "CHR ''.'' \<notin> set rest" if "read_number 10 3 False 255 s = Some (n, rest)" for n rest
    using dot that read_digits_suffix [of 10 3 0 0 s] by (auto simp: read_number_def split: option.splits if_splits)
  moreover have "read_octets (Suc 0) 3 rest = None" if "CHR ''.'' \<notin> set rest" for rest
    using that by (cases rest) (auto simp: eval_nat_numeral read_separator_def read_given_char_def)
  ultimately show ?thesis
    by (auto simp: read_ipv4_addr_def eval_nat_numeral read_separator_def split: option.splits)
qed

lemma hex_text_no_dot: "CHR ''.'' \<notin> set (lower_hex n)"
proof
  assume "CHR ''.'' \<in> set (lower_hex n)"
  then obtain d where "d \<in> set (digits_of 16 n)" "hex_digit d = CHR ''.''" by (auto simp: lower_hex_digits)
  moreover from this have "d < 16" by (auto dest: digits_of_less [rotated])
  ultimately show False using byte_val_hex_digit [of d] by (auto split: if_splits)
qed

lemma sep_text_no_dot: "CHR ''.'' \<notin> set (sep_text CHR '':'' (\<lambda>s. lower_hex (unat s)) i segments)"
  by (induction segments arbitrary: i) (auto simp: hex_text_no_dot)

lemma read_groups_text:
  "read_groups i (length segments) (sep_text CHR '':'' (\<lambda>s. lower_hex (unat s)) i segments) = (segments, False, [])"
proof (induction segments arbitrary: i)
  case (Cons s segments)
  let ?text = "sep_text CHR '':'' (\<lambda>s. lower_hex (unat s))"
  have "unat s < 65536" using unsigned_less [of s, where 'a = nat] by simp
  then have small: "unat s \<le> 65535" by simp
  have nd: "no_digit_ahead 16 (?text (Suc i) segments)"
    using no_digit_ahead_sep [OF separators_no_digits(2), of "[]"] by (simp add: no_digit_ahead_def)
  have "read_ipv4_addr (lower_hex (unat s) @ ?text (Suc i) segments) = None"
    by (rule read_ipv4_no_dot) (simp add: hex_text_no_dot sep_text_no_dot)
  then have "read_separator CHR '':'' i read_ipv4_addr (?text i (s # segments)) = None"
    by (cases i) (simp_all add: read_separator_text)
  moreover have "read_separator CHR '':'' i (read_number 16 4 True 65535) (?text i (s # segments)) =
      Some (unat s, ?text (Suc i) segments)"
    using read_hex [OF small nd] by (cases i) (simp_all add: read_separator_text)
  ultimately show ?case using Cons by (cases segments) (simp_all del: sep_text.simps)
qed simp

definition print_ip_addr :: "ip_addr \<Rightarrow> string" where
  "print_ip_addr a =
     (case a of V4 octets \<Rightarrow> join_with ''.'' (map (\<lambda>b. decimal (unat b)) octets)
      | V6 segments \<Rightarrow> join_with '':'' (map (\<lambda>s. lower_hex (unat s)) segments))"

lemma parse_print_ip_addr: "ip_addr_ok a \<Longrightarrow> parse_ip_addr (print_ip_addr a) = Some a"
proof (cases a)
  case (V4 octets)
  assume "ip_addr_ok a"
  with V4 read_octets_text [of "[]" 0 octets] show ?thesis
    by (simp add: print_ip_addr_def parse_ip_addr_def read_ipv4_addr_def sep_text_join no_digit_ahead_def)
next
  case (V6 segments)
  assume "ip_addr_ok a"
  moreover have "read_ipv4_addr (sep_text CHR '':'' (\<lambda>s. lower_hex (unat s)) 0 segments) = None"
    by (intro read_ipv4_no_dot sep_text_no_dot)
  ultimately show ?thesis using V6 read_groups_text [of 0 segments]
    by (simp add: print_ip_addr_def parse_ip_addr_def read_ipv6_addr_def sep_text_join)
qed

subsection \<open>Well-formed results\<close>

lemma read_octets_length: "read_octets i n s = Some (octets, rest) \<Longrightarrow> length octets = n"
  by (induction i n s arbitrary: octets rest rule: read_octets.induct) (auto split: option.splits prod.splits)

lemma read_groups_length: "read_groups i n s = (segments, v4, rest) \<Longrightarrow> length segments \<le> n"
proof (induction i n s arbitrary: segments v4 rest rule: read_groups.induct)
  case (2 i n s)
  then show ?case by (auto split: option.splits prod.splits if_splits)
qed simp

lemma read_ipv6_length:
  assumes "read_ipv6_addr s = Some (segments, rest)"
  shows "length segments = 8"
proof -
  obtain front v4 mid where f: "read_groups 0 8 s = (front, v4, mid)" by (metis prod_cases3)
  note le = read_groups_length [OF f]
  show ?thesis
  proof (cases "length front = 8")
    case True
    with assms f show ?thesis by (auto simp: read_ipv6_addr_def)
  next
    case False
    then obtain hind w r where b: "read_groups 0 (8 - (length front + 1)) r = (hind, w, rest)"
      "segments = front @ replicate (8 - length front - length hind) 0 @ hind"
      using assms f by (auto simp: read_ipv6_addr_def split: if_splits option.splits prod.splits)
    from read_groups_length [OF b(1)] le False b(2) show ?thesis by simp
  qed
qed

lemma parse_ip_addr_ok: "parse_ip_addr s = Some a \<Longrightarrow> ip_addr_ok a"
  by (auto simp: parse_ip_addr_def read_ipv4_addr_def split: option.splits list.splits prod.splits
      dest: read_octets_length read_ipv6_length)

subsection \<open>Encoding\<close>

definition decode_address :: "ovpn_rust_ip_address \<Rightarrow> ip_addr option" where
  "decode_address e =
     (if ia_family e = IPV4_FAMILY then Some (V4 (take 4 (ia_octets e)))
      else if ia_family e = IPV6_FAMILY then
        Some (V6 (map (\<lambda>i. segment_of (ia_octets e ! (2 * i)) (ia_octets e ! (2 * i + 1))) [0..<8]))
      else None)"

lemma segment_roundtrip: "segment_of (of_nat (unat s div 256)) (of_nat (unat s mod 256)) = s"
proof -
  have "unat s < 65536" using unsigned_less [of s, where 'a = nat] by simp
  then have "unat s div 256 < 256" by (simp add: less_mult_imp_div_less)
  then have "unat (of_nat (unat s div 256) :: u8) = unat s div 256" "unat (of_nat (unat s mod 256) :: u8) = unat s mod 256"
    by (simp_all add: unsigned_of_nat take_bit_nat_eq_self)
  then show ?thesis by (simp add: segment_of_def)
qed

lemma encode_address_decodes: "ip_addr_ok a \<Longrightarrow> decode_address (encode_address a) = Some a \<and> length (ia_octets (encode_address a)) = 16"
proof (cases a)
  case (V4 octets)
  assume "ip_addr_ok a"
  with V4 show ?thesis by (simp add: decode_address_def write_prefix_def)
next
  case (V6 segments)
  assume "ip_addr_ok a"
  then obtain a0 a1 a2 a3 a4 a5 a6 a7 where "segments = [a0, a1, a2, a3, a4, a5, a6, a7]"
    using V6 by (auto simp: eval_nat_numeral length_Suc_conv)
  with V6 show ?thesis by (simp add: decode_address_def segment_octets_def segment_roundtrip upt_rec)
qed

section \<open>Properties\<close>

text \<open>
  C37: literal hosts never reach the network: an address printed in the usual notation, dotted
  decimal or eight hexadecimal segments, resolves to exactly itself, leaves the resolver alone
  (no runtime is created and no query made), and what is written for C++ decodes to it.
\<close>

theorem literal_hosts_need_no_dns:
  assumes "ip_addr_ok a"
  shows "resolve_host lib (print_ip_addr a) st = (Ok [a], st)
         \<and> decode_address (encode_address a) = Some a \<and> length (ia_octets (encode_address a)) = 16"
  using parse_print_ip_addr [OF assms] encode_address_decodes [OF assms] by (simp add: resolve_host_def)

definition sample_dns :: dns_lib where
  "sample_dns = \<lparr>dl_build = Ok (), dl_lookup_ip = (\<lambda>host. if host = ''vpn'' then Some (Ok [V4 [10, 0, 0, 1], V4 [10, 0, 0, 2]]) else None)\<rparr>"

definition fresh_resolver :: resolver_state where
  "fresh_resolver = \<lparr>rs_cell = None, rs_builds = 0, rs_lookups = []\<rparr>"

theorem literal_hosts_need_no_dns_witness:
  "resolve_host sample_dns (print_ip_addr (V4 [192, 0, 2, 1])) fresh_resolver = (Ok [V4 [192, 0, 2, 1]], fresh_resolver)"
  using literal_hosts_need_no_dns [of "V4 [192, 0, 2, 1]"] by simp

text \<open>
  The contract of the resolver callback.  It answers 1 exactly when all three pointers are
  given, the host is UTF-8 and it resolves; then the first slots hold the encodings of the
  addresses in order, as many as fit, their number is reported and the other slots are as
  they were.  When it answers 0 neither the array nor the length is touched.  Whatever the
  sequence of hosts, the DNS runtime is built at most once.
\<close>

definition builds_inv :: "resolver_state \<Rightarrow> bool" where
  "builds_inv st \<longleftrightarrow> rs_builds st = (if rs_cell st = None then 0 else 1)"

lemma resolve_host_builds: "builds_inv st \<Longrightarrow> builds_inv (snd (resolve_host lib host st))"
  by (auto simp: builds_inv_def resolve_host_def resolver_runtime_def split: option.splits sum.splits)

theorem resolve_callback_contract:
  assumes "resolve_callback lib host host_len slots cap len st = (r, slots', len', st')"
  shows "(r = 1 \<longleftrightarrow> (\<exists>mem xs n resolved. host = Some mem \<and> slots = Some xs \<and> len = Some n
            \<and> utf8_valid (take host_len mem) \<and> fst (resolve_host lib (take host_len mem) st) = Ok resolved))
         \<and> (r = 1 \<longrightarrow> (\<exists>mem xs resolved. host = Some mem \<and> slots = Some xs
              \<and> resolve_host lib (take host_len mem) st = (Ok resolved, st')
              \<and> len' = Some (min (length resolved) cap)
              \<and> slots' = Some (map encode_address (take cap resolved) @ drop (min (length resolved) cap) xs)))
         \<and> (r \<noteq> 1 \<longrightarrow> r = 0 \<and> slots' = slots \<and> len' = len)
         \<and> (builds_inv st \<longrightarrow> builds_inv st' \<and> rs_builds st' \<le> 1)"
proof -
  have one: "builds_inv st \<longrightarrow> builds_inv (snd (resolve_host lib h st)) \<and> rs_builds (snd (resolve_host lib h st)) \<le> 1" for h
    using resolve_host_builds [of st lib h] by (simp add: builds_inv_def)
  have same: "builds_inv st \<longrightarrow> builds_inv st \<and> rs_builds st \<le> 1" by (simp add: builds_inv_def)
  show ?thesis
  proof (cases "host = None \<or> slots = None \<or> len = None")
    case True
    then have "r = 0 \<and> slots' = slots \<and> len' = len \<and> st' = st"
      using assms by (auto simp: resolve_callback_def split: option.splits)
    with True same show ?thesis by auto
  next
    case False
    then obtain mem xs n where ptrs: "host = Some mem" "slots = Some xs" "len = Some n" by auto
    obtain res st2 where host: "resolve_host lib (take host_len mem) st = (res, st2)" by fastforce
    show ?thesis
    proof (cases "utf8_valid (take host_len mem) \<and> (\<exists>resolved. res = Ok resolved)")
      case True
      then obtain resolved where res: "res = Ok resolved" by blast
      have "r = 1 \<and> slots' = Some (map encode_address (take cap resolved) @ drop (min (length resolved) cap) xs)
          \<and> len' = Some (min (length resolved) cap) \<and> st' = st2"
        using assms True ptrs host res
        by (auto simp: resolve_callback_def from_utf8_def Let_def write_prefix_def min_def)
      with True ptrs host res one [of "take host_len mem"] show ?thesis by auto
    next
      case False
      then have "r = 0 \<and> slots' = slots \<and> len' = len \<and> (st' = st \<or> st' = st2)"
        using assms ptrs host by (cases res) (auto simp: resolve_callback_def from_utf8_def Let_def split: if_splits)
      with False ptrs host one [of "take host_len mem"] same show ?thesis by auto
    qed
  qed
qed

theorem resolve_callback_contract_witness:
  "\<exists>slots' len' st'. resolve_callback sample_dns (Some ''vpn'') 3 (Some [encode_address (V4 [0, 0, 0, 0])]) 1 (Some 0) fresh_resolver
      = (1, slots', len', st') \<and> len' = Some 1 \<and> rs_builds st' \<le> 1"
proof -
  obtain r slots' len' st' where run: "resolve_callback sample_dns (Some ''vpn'') 3
      (Some [encode_address (V4 [0, 0, 0, 0])]) 1 (Some 0) fresh_resolver = (r, slots', len', st')" by (metis prod_cases4)
  have v4: "read_ipv4_addr ''vpn'' = None" by (rule read_ipv4_no_dot) simp
  have "read_number 16 4 True 65535 ''vpn'' = None" by (simp add: read_number_def to_digit_def)
  then have "read_groups 0 8 ''vpn'' = ([], False, ''vpn'')"
    using read_groups.simps(2) [of 0 7 "''vpn''"] v4 by (simp add: read_separator_def)
  then have lit: "parse_ip_addr ''vpn'' = None"
    using v4 by (simp add: parse_ip_addr_def read_ipv6_addr_def read_given_char_def)
  have utf: "utf8_valid ''vpn''" by code_simp
  have host: "fst (resolve_host sample_dns ''vpn'' fresh_resolver) = Ok [V4 [10, 0, 0, 1], V4 [10, 0, 0, 2]]"
    by (simp add: resolve_host_def lit resolver_runtime_def sample_dns_def fresh_resolver_def)
  have inv: "builds_inv fresh_resolver" by (simp add: builds_inv_def fresh_resolver_def)
  note c = resolve_callback_contract [OF run]
  from c host utf have "r = 1" by auto
  with c inv host run show ?thesis by auto
qed

text \<open>
  Whatever text is resolved as a literal, the address it yields has four octets or eight
  segments, and what is written for it has sixteen bytes and the family number of its kind.
\<close>

theorem parsed_addresses_wellformed:
  assumes "parse_ip_addr host = Some a"
  shows "ip_addr_ok a \<and> resolve_host lib host st = (Ok [a], st)
         \<and> length (ia_octets (encode_address a)) = 16
         \<and> ia_family (encode_address a) = (case a of V4 _ \<Rightarrow> IPV4_FAMILY | V6 _ \<Rightarrow> IPV6_FAMILY)"
  using parse_ip_addr_ok [OF assms] encode_address_decodes [of a] assms
  by (cases a) (simp_all add: resolve_host_def)

theorem parsed_addresses_wellformed_witness:
  "ip_addr_ok (V4 [127, 0, 0, 1]) \<and> resolve_host sample_dns (print_ip_addr (V4 [127, 0, 0, 1])) fresh_resolver = (Ok [V4 [127, 0, 0, 1]], fresh_resolver)"
  using parsed_addresses_wellformed [OF parse_print_ip_addr [of "V4 [127, 0, 0, 1]"]] by simp

end
