(* ===== verification/Backend_Table.thy ===== *)
theory Backend_Table
  imports Client_Lifecycle Crypto_Backend Tls_Connection Resolver
begin

text \<open>
  The registration of the Rust backend (\<open>install\<close> of \<open>rust_backend.rs\<close>): the table of functions that
  the adapter calls for cryptography, TLS and name resolution, and the process-wide \<open>Once\<close> that
  guards its registration.  The libraries behind the functions are the parameters of their theories.
\<close>

section \<open>The table\<close>

record ('c, 'crl) ovpn_rust_backend_vtable =
  vt_resolve :: "(char ptr \<Rightarrow> usize \<Rightarrow> ovpn_rust_ip_address ptr \<Rightarrow> usize \<Rightarrow> usize option \<Rightarrow> resolver_state \<Rightarrow> i32 \<times> ovpn_rust_ip_address ptr \<times> usize option \<times> resolver_state) option"
  vt_random :: "(u8 ptr \<Rightarrow> usize \<Rightarrow> i32 \<times> u8 ptr) option"
  vt_digest_new :: "(u32 \<Rightarrow> digest_handle option) option"
  vt_digest_free :: "(digest_handle option \<Rightarrow> digest_handle option) option"
  vt_digest_update :: "(digest_handle option \<Rightarrow> u8 ptr \<Rightarrow> usize \<Rightarrow> i32 \<times> digest_handle option) option"
  vt_digest_final :: "(digest_handle option \<Rightarrow> u8 ptr \<Rightarrow> usize \<Rightarrow> usize \<times> u8 ptr) option"
  vt_digest_size :: "(digest_handle option \<Rightarrow> usize) option"
  vt_hmac_new :: "(u32 \<Rightarrow> u8 ptr \<Rightarrow> usize \<Rightarrow> hmac_handle option) option"
  vt_hmac_free :: "(hmac_handle option \<Rightarrow> hmac_handle option) option"
  vt_hmac_reset :: "(hmac_handle option \<Rightarrow> i32 \<times> hmac_handle option) option"
  vt_hmac_update :: "(hmac_handle option \<Rightarrow> u8 ptr \<Rightarrow> usize \<Rightarrow> i32 \<times> hmac_handle option) option"
  vt_hmac_final :: "(hmac_handle option \<Rightarrow> u8 ptr \<Rightarrow> usize \<Rightarrow> usize \<times> u8 ptr) option"
  vt_hmac_size :: "(hmac_handle option \<Rightarrow> usize) option"
  vt_cipher_new :: "(u32 \<Rightarrow> u8 ptr \<Rightarrow> usize \<Rightarrow> i32 \<Rightarrow> cipher_handle option) option"
  vt_cipher_free :: "(cipher_handle option \<Rightarrow> cipher_handle option) option"
  vt_cipher_reset :: "(cipher_handle option \<Rightarrow> u8 ptr \<Rightarrow> usize \<Rightarrow> i32 \<times> cipher_handle option) option"
  vt_cipher_update :: "(cipher_handle option \<Rightarrow> u8 ptr \<Rightarrow> usize \<Rightarrow> i32 \<times> cipher_handle option) option"
  vt_cipher_final :: "(cipher_handle option \<Rightarrow> u8 ptr \<Rightarrow> usize \<Rightarrow> usize \<times> u8 ptr) option"
  vt_cipher_supported :: "(u32 \<Rightarrow> i32) option"
  vt_aead_new :: "(u32 \<Rightarrow> u8 ptr \<Rightarrow> usize \<Rightarrow> i32 \<Rightarrow> aead_handle option) option"
  vt_aead_free :: "(aead_handle option \<Rightarrow> aead_handle option) option"
  vt_aead_encrypt :: "(aead_handle option \<Rightarrow> u8 ptr \<Rightarrow> usize \<Rightarrow> u8 ptr \<Rightarrow> usize \<Rightarrow> u8 ptr \<Rightarrow> usize \<Rightarrow> u8 ptr \<Rightarrow> usize \<Rightarrow> u8 ptr \<Rightarrow> usize \<Rightarrow> i32 \<times> u8 ptr \<times> u8 ptr) option"
  vt_aead_decrypt :: "(aead_handle option \<Rightarrow> u8 ptr \<Rightarrow> usize \<Rightarrow> u8 ptr \<Rightarrow> usize \<Rightarrow> u8 ptr \<Rightarrow> usize \<Rightarrow> u8 ptr \<Rightarrow> usize \<Rightarrow> u8 ptr \<Rightarrow> usize \<Rightarrow> i32 \<times> u8 ptr) option"
  vt_aead_supported :: "(u32 \<Rightarrow> i32) option"
  vt_tls_config_new :: "(config_args \<Rightarrow> char ptr \<Rightarrow> usize \<Rightarrow> 'crl tls_config option \<times> char ptr) option"
  vt_tls_config_free :: "('crl tls_config option \<Rightarrow> 'crl tls_config option) option"
  vt_tls_connection_new :: "('crl tls_config option \<Rightarrow> ovpn_string_view \<Rightarrow> char ptr \<Rightarrow> usize \<Rightarrow> 'c tls_connection option \<times> char ptr) option"
  vt_tls_connection_free :: "('c tls_connection option \<Rightarrow> 'c tls_connection option) option"
  vt_tls_write_plaintext :: "('c tls_connection option \<Rightarrow> u8 ptr \<Rightarrow> usize \<Rightarrow> char ptr \<Rightarrow> usize \<Rightarrow> isize \<times> 'c tls_connection option \<times> char ptr) option"
  vt_tls_read_plaintext :: "('c tls_connection option \<Rightarrow> u8 ptr \<Rightarrow> usize \<Rightarrow> char ptr \<Rightarrow> usize \<Rightarrow> isize \<times> 'c tls_connection option \<times> u8 ptr \<times> char ptr) option"
  vt_tls_plaintext_ready :: "('c tls_connection option \<Rightarrow> i32) option"
  vt_tls_write_ciphertext :: "('c tls_connection option \<Rightarrow> u8 ptr \<Rightarrow> usize \<Rightarrow> char ptr \<Rightarrow> usize \<Rightarrow> isize \<times> 'c tls_connection option \<times> char ptr) option"
  vt_tls_read_ciphertext :: "('c tls_connection option \<Rightarrow> u8 ptr \<Rightarrow> usize \<Rightarrow> char ptr \<Rightarrow> usize \<Rightarrow> isize \<times> 'c tls_connection option \<times> u8 ptr \<times> char ptr) option"
  vt_tls_ciphertext_ready :: "('c tls_connection option \<Rightarrow> i32) option"
  vt_tls_details :: "('c tls_connection option \<Rightarrow> char ptr \<Rightarrow> usize \<Rightarrow> usize \<times> char ptr) option"
  vt_tls_export_keying_material :: "('c tls_connection option \<Rightarrow> ovpn_string_view \<Rightarrow> u8 ptr \<Rightarrow> usize \<Rightarrow> i32 \<times> u8 ptr) option"
  vt_tls_handshake_complete :: "('c tls_connection option \<Rightarrow> i32) option"
  vt_tls_peer_info :: "('c tls_connection option \<Rightarrow> char ptr \<Rightarrow> usize \<Rightarrow> usize option \<Rightarrow> i64 option \<Rightarrow> i32 \<times> char ptr \<times> usize option \<times> i64 option) option"
  vt_tls_validate :: "(u32 \<Rightarrow> ovpn_string_view \<Rightarrow> ovpn_string_view \<Rightarrow> char ptr \<Rightarrow> usize \<Rightarrow> i32 \<times> char ptr) option"
  vt_tls_key_info :: "(ovpn_string_view \<Rightarrow> u32 option \<Rightarrow> usize option \<Rightarrow> i32 \<times> u32 option \<times> usize option) option"

definition rust_backend_vtable ::
  "dns_lib \<Rightarrow> prims \<Rightarrow> 'crl tls_lib \<Rightarrow> ('c, 'crl) rustls_lib
     \<Rightarrow> ('c, 'crl) ovpn_rust_backend_vtable" where
  "rust_backend_vtable dns p tls rustls = \<lparr>
     vt_resolve = Some (resolve_callback dns),
     vt_random = Some (random p),
     vt_digest_new = Some digest_new,
     vt_digest_free = Some digest_free,
     vt_digest_update = Some digest_update,
     vt_digest_final = Some (digest_final p),
     vt_digest_size = Some digest_size,
     vt_hmac_new = Some hmac_new,
     vt_hmac_free = Some hmac_free,
     vt_hmac_reset = Some hmac_reset,
     vt_hmac_update = Some hmac_update,
     vt_hmac_final = Some (hmac_final p),
     vt_hmac_size = Some hmac_size,
     vt_cipher_new = Some cipher_new,
     vt_cipher_free = Some cipher_free,
     vt_cipher_reset = Some cipher_reset,
     vt_cipher_update = Some cipher_update,
     vt_cipher_final = Some (cipher_final p),
     vt_cipher_supported = Some cipher_supported,
     vt_aead_new = Some aead_new,
     vt_aead_free = Some aead_free,
     vt_aead_encrypt = Some (aead_encrypt p),
     vt_aead_decrypt = Some (aead_decrypt p),
     vt_aead_supported = Some aead_supported,
     vt_tls_config_new = Some (config_new tls),
     vt_tls_config_free = Some config_free,
     vt_tls_connection_new = Some (connection_new rustls),
     vt_tls_connection_free = Some connection_free,
     vt_tls_write_plaintext = Some (write_plaintext rustls),
     vt_tls_read_plaintext = Some (read_plaintext rustls),
     vt_tls_plaintext_ready = Some plaintext_ready,
     vt_tls_write_ciphertext = Some (write_ciphertext rustls),
     vt_tls_read_ciphertext = Some (read_ciphertext rustls),
     vt_tls_ciphertext_ready = Some (ciphertext_ready rustls),
     vt_tls_details = Some (details rustls),
     vt_tls_export_keying_material = Some (export_keying_material rustls),
     vt_tls_handshake_complete = Some (handshake_complete rustls),
     vt_tls_peer_info = Some (peer_info rustls (tl_parse_x509 tls)),
     vt_tls_validate = Some (validate tls),
     vt_tls_key_info = Some (key_info tls)\<rparr>"

section \<open>Registration\<close>

text \<open>
  The state of the process: the \<open>Once\<close>, the table that the adapter copied last, and how often one
  was registered.
\<close>

record ('c, 'crl) process =
  ps_install :: bool
  ps_registered :: "('c, 'crl) ovpn_rust_backend_vtable option"
  ps_registrations :: nat

definition register_backend :: "('c, 'crl) ovpn_rust_backend_vtable \<Rightarrow> ('c, 'crl) process \<Rightarrow> ('c, 'crl) process" where
  "register_backend vt ps = ps\<lparr>ps_registered := Some vt, ps_registrations := Suc (ps_registrations ps)\<rparr>"

definition install ::
  "dns_lib \<Rightarrow> prims \<Rightarrow> 'crl tls_lib \<Rightarrow> ('c, 'crl) rustls_lib \<Rightarrow> ('c, 'crl) process \<Rightarrow> ('c, 'crl) process" where
  "install dns p tls rustls ps =
     (if ps_install ps then ps
      else (register_backend (rust_backend_vtable dns p tls rustls) ps)\<lparr>ps_install := True\<rparr>)"

text \<open>What the calls logged by the wrappers do to the process.\<close>

definition run_installs ::
  "(('c, 'crl) process \<Rightarrow> ('c, 'crl) process) \<Rightarrow> sys_call list \<Rightarrow> ('c, 'crl) process \<Rightarrow> ('c, 'crl) process" where
  "run_installs inst calls ps = fold (\<lambda>c ps. if c = InstallBackend then inst ps else ps) calls ps"

lemma install_idem: "ps_install ps \<Longrightarrow> run_installs (install dns p tls rustls) calls ps = ps"
  unfolding run_installs_def by (induction calls) (simp_all add: install_def)

lemma client_new_installs_first: "\<exists>calls. snd (client_new api) = InstallBackend # calls"
  by (auto simp: client_new_def new_client_def Let_def split: prod.splits option.splits)

lemma installed_after_client:
  assumes "\<not> ps_install ps"
  shows "run_installs (install dns p tls rustls) (snd (client_new api) @ calls) ps
    = (register_backend (rust_backend_vtable dns p tls rustls) ps)\<lparr>ps_install := True\<rparr>"
proof -
  obtain rest where r: "snd (client_new api) = InstallBackend # rest" using client_new_installs_first by blast
  let ?ps = "(register_backend (rust_backend_vtable dns p tls rustls) ps)\<lparr>ps_install := True\<rparr>"
  have "run_installs (install dns p tls rustls) (snd (client_new api) @ calls) ps
      = run_installs (install dns p tls rustls) (rest @ calls) (install dns p tls rustls ps)"
    by (simp add: run_installs_def r)
  also have "install dns p tls rustls ps = ?ps" using assms by (simp add: install_def)
  finally show ?thesis by (simp add: install_idem)
qed

text \<open>No slot is empty.\<close>

definition vtable_complete :: "('c, 'crl) ovpn_rust_backend_vtable \<Rightarrow> bool" where
  "vtable_complete vt \<longleftrightarrow>
     vt_resolve vt \<noteq> None \<and> vt_random vt \<noteq> None \<and> vt_digest_new vt \<noteq> None
     \<and> vt_digest_free vt \<noteq> None \<and> vt_digest_update vt \<noteq> None \<and> vt_digest_final vt \<noteq> None
     \<and> vt_digest_size vt \<noteq> None \<and> vt_hmac_new vt \<noteq> None \<and> vt_hmac_free vt \<noteq> None
     \<and> vt_hmac_reset vt \<noteq> None \<and> vt_hmac_update vt \<noteq> None \<and> vt_hmac_final vt \<noteq> None
     \<and> vt_hmac_size vt \<noteq> None \<and> vt_cipher_new vt \<noteq> None \<and> vt_cipher_free vt \<noteq> None
     \<and> vt_cipher_reset vt \<noteq> None \<and> vt_cipher_update vt \<noteq> None \<and> vt_cipher_final vt \<noteq> None
     \<and> vt_cipher_supported vt \<noteq> None \<and> vt_aead_new vt \<noteq> None \<and> vt_aead_free vt \<noteq> None
     \<and> vt_aead_encrypt vt \<noteq> None \<and> vt_aead_decrypt vt \<noteq> None \<and> vt_aead_supported vt \<noteq> None
     \<and> vt_tls_config_new vt \<noteq> None \<and> vt_tls_config_free vt \<noteq> None \<and> vt_tls_connection_new vt \<noteq> None
     \<and> vt_tls_connection_free vt \<noteq> None \<and> vt_tls_write_plaintext vt \<noteq> None \<and> vt_tls_read_plaintext vt \<noteq> None
     \<and> vt_tls_plaintext_ready vt \<noteq> None \<and> vt_tls_write_ciphertext vt \<noteq> None \<and> vt_tls_read_ciphertext vt \<noteq> None
     \<and> vt_tls_ciphertext_ready vt \<noteq> None \<and> vt_tls_details vt \<noteq> None \<and> vt_tls_export_keying_material vt \<noteq> None
     \<and> vt_tls_handshake_complete vt \<noteq> None \<and> vt_tls_peer_info vt \<noteq> None \<and> vt_tls_validate vt \<noteq> None
     \<and> vt_tls_key_info vt \<noteq> None"

lemma rust_backend_vtable_complete: "vtable_complete (rust_backend_vtable dns p tls rustls)"
  by (simp add: vtable_complete_def rust_backend_vtable_def)

lemma feed_any_hmac: "feed hmac_update chunks h = feed hmac_update [concat chunks] h"
  by (cases h) (simp only: hmac.feed_null, simp only:, rule hmac.feed_concat)

lemma supported_slots:
  "key_size_of a \<le> length key \<Longrightarrow> cipher_supported a \<noteq> 0 \<longleftrightarrow> cipher_new a (Some key) (length key) e \<noteq> None"
  "key_size_of a \<le> length key \<Longrightarrow> aead_supported a \<noteq> 0 \<longleftrightarrow> aead_new a (Some key) (length key) e \<noteq> None"
  using algorithm_tables_agree [of a key e] by (simp_all add: cipher_supported_def aead_supported_def bool_i32_def)

section \<open>Properties\<close>



end
