(* ===== verification/Build_Patch.thy ===== *)
theory Build_Patch
  imports Rust_Digits
begin

text \<open>
  Patching the native sources (\<open>openvpn-connect-sys/build.rs\<close>): the build script copies the
  submodules and applies unified diffs to the copies with its own patch applier.  The file
  system is a partial function from paths to contents, \<open>writable\<close> says which files can be
  written, a panic is a value, and files written before a panic stay written.
\<close>

type_synonym files = "string \<Rightarrow> string option"

datatype patch_panic =
    NoDestination
  | CannotRead string
  | BadHeader
  | BadPosition string
  | BeyondSource string nat
  | SourceDrift string nat
  | BadLine
  | CannotWrite string

definition path_join :: "string \<Rightarrow> string \<Rightarrow> string" where
  "path_join root relative =
     (if starts_with relative ''/'' then relative
      else if root = [] \<or> ends_with root ''/'' then root @ relative
      else root @ ''/'' @ relative)"

text \<open>\<open>str::split_whitespace().next()\<close>.\<close>

definition first_word :: "string \<Rightarrow> string option" where
  "first_word s =
     (case takeWhile (\<lambda>c. \<not> is_whitespace c) (dropWhile is_whitespace (chars s)) of
        [] \<Rightarrow> None
      | w # ws \<Rightarrow> Some (concat (w # ws)))"

definition old_hunk_start :: "string \<Rightarrow> (usize, patch_panic) result" where
  "old_hunk_start header =
     (case Option.bind (first_word header) (\<lambda>rng. strip_prefix rng ''-'') of
        None \<Rightarrow> Err BadHeader
      | Some rng \<Rightarrow>
          (case parse_unsigned USIZE_MAX 10 (hd (split_on CHR '','' rng)) of
             Inl _ \<Rightarrow> Err BadHeader
           | Inr start \<Rightarrow> Ok start))"

definition verify_patch_line :: "string \<Rightarrow> string list \<Rightarrow> nat \<Rightarrow> string \<Rightarrow> (unit, patch_panic) result" where
  "verify_patch_line path original cursor expected =
     (if length original \<le> cursor then Err (BeyondSource path (Suc cursor))
      else if original ! cursor \<noteq> expected then Err (SourceDrift path (Suc cursor))
      else Ok ())"

definition no_newline_marker :: string where
  "no_newline_marker = CHR 0x5C # '' No newline at end of file''"

text \<open>\<open>split_at(1)\<close> panics on an empty line and inside a character.\<close>

definition splits_at_1 :: "string \<Rightarrow> bool" where
  "splits_at_1 line \<longleftrightarrow> line \<noteq> [] \<and> (length line = 1 \<or> \<not> is_cont (byte_val (line ! 1)))"

text \<open>
  The inner loop of \<open>apply_file_patch\<close>: the lines of one hunk.  The result is the lines not
  consumed, the cursor and the output.
\<close>

fun hunk_lines ::
  "string \<Rightarrow> string list \<Rightarrow> string list \<Rightarrow> nat \<Rightarrow> string list \<Rightarrow> (string list \<times> nat \<times> string list, patch_panic) result" where
  "hunk_lines path original [] cursor output = Ok ([], cursor, output)"
| "hunk_lines path original (line # lines) cursor output =
     (if starts_with line ''@@ '' then Ok (line # lines, cursor, output)
      else if line = no_newline_marker then hunk_lines path original lines cursor output
      else if \<not> splits_at_1 line then Err BadLine
      else if hd line = CHR '' '' then
        and_then (verify_patch_line path original cursor (tl line)) (\<lambda>_.
          hunk_lines path original lines (Suc cursor) (output @ [tl line]))
      else if hd line = CHR ''-'' then
        and_then (verify_patch_line path original cursor (tl line)) (\<lambda>_.
          hunk_lines path original lines (Suc cursor) output)
      else if hd line = CHR ''+'' then hunk_lines path original lines cursor (output @ [tl line])
      else Ok (line # lines, cursor, output))"

lemma hunk_lines_shorter:
  "hunk_lines path original ls k acc = Ok (rest, c, out) \<Longrightarrow> length rest \<le> length ls"
proof (induction ls arbitrary: k acc)
  case (Cons l ls)
  from Cons.prems show ?case
    by (auto simp: and_then_Ok_iff split: if_splits intro: le_SucI dest: Cons.IH)
qed simp

text \<open>The outer loop: lines before a hunk header are skipped.\<close>

function patch_lines ::
  "string \<Rightarrow> string list \<Rightarrow> string list \<Rightarrow> nat \<Rightarrow> string list \<Rightarrow> (nat \<times> string list, patch_panic) result" where
  "patch_lines path original [] cursor output = Ok (cursor, output)"
| "patch_lines path original (line # lines) cursor output =
     (case strip_prefix line ''@@ '' of
        None \<Rightarrow> patch_lines path original lines cursor output
      | Some header \<Rightarrow>
          (case old_hunk_start header of
             Inl e \<Rightarrow> Err e
           | Inr start \<Rightarrow>
               (let hunk_cursor = start - 1
                in if \<not> (cursor \<le> hunk_cursor \<and> hunk_cursor \<le> length original) then Err (BadPosition path)
                   else
                     (case hunk_lines path original lines hunk_cursor
                             (output @ take (hunk_cursor - cursor) (drop cursor original)) of
                        Inl e \<Rightarrow> Err e
                      | Inr (rest, c, out) \<Rightarrow> patch_lines path original rest c out))))"
  by pat_completeness auto
termination
  by (relation "measure (\<lambda>(path, original, lines, cursor, output). length lines)")
     (auto dest: hunk_lines_shorter)

definition destination :: "string list \<Rightarrow> string option" where
  "destination lines =
     (case filter (\<lambda>line. starts_with line ''+++ b/'') lines of
        [] \<Rightarrow> None
      | line # _ \<Rightarrow> strip_prefix line ''+++ b/'')"

definition apply_file_patch :: "(string \<Rightarrow> bool) \<Rightarrow> string \<Rightarrow> string \<Rightarrow> files \<Rightarrow> (unit, patch_panic) result \<times> files" where
  "apply_file_patch writable root patch fs =
     (let lines = str_lines patch
      in case destination lines of
           None \<Rightarrow> (Err NoDestination, fs)
         | Some relative \<Rightarrow>
             (let path = path_join root relative
              in case fs path of
                   None \<Rightarrow> (Err (CannotRead path), fs)
                 | Some source \<Rightarrow>
                     if \<not> utf8_valid source then (Err (CannotRead path), fs)
                     else
                     (let had_final_newline = ends_with source [newline];
                          original = str_lines source
                      in case patch_lines path original lines 0 [] of
                           Inl e \<Rightarrow> (Err e, fs)
                         | Inr (cursor, output) \<Rightarrow>
                             (let patched = join_with [newline] (output @ drop cursor original)
                                    @ (if had_final_newline then [newline] else [])
                              in if writable path then (Ok (), fs(path \<mapsto> patched))
                                 else (Err (CannotWrite path), fs)))))"

definition diff_marker :: string where
  "diff_marker = ''diff --git ''"

fun apply_sections :: "(string \<Rightarrow> bool) \<Rightarrow> string \<Rightarrow> string list \<Rightarrow> files \<Rightarrow> (unit, patch_panic) result \<times> files" where
  "apply_sections writable root [] fs = (Ok (), fs)"
| "apply_sections writable root (patch # patches) fs =
     (case apply_file_patch writable root patch fs of
        (Inl e, fs) \<Rightarrow> (Err e, fs)
      | (Inr _, fs) \<Rightarrow> apply_sections writable root patches fs)"

definition apply_unified_patch :: "(string \<Rightarrow> bool) \<Rightarrow> string \<Rightarrow> string \<Rightarrow> files \<Rightarrow> (unit, patch_panic) result \<times> files" where
  "apply_unified_patch writable root patch fs =
     apply_sections writable root (filter (\<lambda>value. value \<noteq> []) (split_str diff_marker patch)) fs"

section \<open>Unified diffs\<close>

text \<open>
  A patch as data: for each file its hunks, each with the number of untouched lines before it
  and its edits; and its text in the unified format.  Positions count the old lines from 1; for
  a hunk without old lines the format gives the line before it.
\<close>

datatype edit = Context string | Remove string | Insert string

fun edit_line :: "edit \<Rightarrow> string" where
  "edit_line (Context s) = CHR '' '' # s"
| "edit_line (Remove s) = CHR ''-'' # s"
| "edit_line (Insert s) = CHR ''+'' # s"

fun edit_text :: "edit \<Rightarrow> string" where
  "edit_text (Context s) = s"
| "edit_text (Remove s) = s"
| "edit_text (Insert s) = s"

fun old_part :: "edit list \<Rightarrow> string list" where
  "old_part [] = []"
| "old_part (Context s # es) = s # old_part es"
| "old_part (Remove s # es) = s # old_part es"
| "old_part (Insert s # es) = old_part es"

fun new_part :: "edit list \<Rightarrow> string list" where
  "new_part [] = []"
| "new_part (Context s # es) = s # new_part es"
| "new_part (Remove s # es) = new_part es"
| "new_part (Insert s # es) = s # new_part es"

record hunk =
  hk_gap :: nat
  hk_edits :: "edit list"

record file_patch =
  fp_path :: string
  fp_hunks :: "hunk list"

definition old_start :: "nat \<Rightarrow> hunk \<Rightarrow> nat" where
  "old_start k h = (if old_part (hk_edits h) = [] then k + hk_gap h else k + hk_gap h + 1)"

definition hunk_header :: "nat \<Rightarrow> nat \<Rightarrow> hunk \<Rightarrow> string" where
  "hunk_header k m h =
     ''@@ -'' @ decimal (old_start k h) @ '','' @ decimal (length (old_part (hk_edits h))) @ '' +'' @ decimal m @ '','' @
     decimal (length (new_part (hk_edits h))) @ '' @@''"

text \<open>The hunks as lines, after \<open>k\<close> old lines; the positions in the new file are not read.\<close>

fun hunks_text :: "nat \<Rightarrow> nat \<Rightarrow> hunk list \<Rightarrow> string list" where
  "hunks_text k m [] = []"
| "hunks_text k m (h # hs) =
     hunk_header k (m + hk_gap h + 1) h # map edit_line (hk_edits h) @
     hunks_text (k + hk_gap h + length (old_part (hk_edits h))) (m + hk_gap h + length (new_part (hk_edits h))) hs"

definition section_lines :: "file_patch \<Rightarrow> string list" where
  "section_lines p =
     [''a/'' @ fp_path p @ '' b/'' @ fp_path p, ''--- a/'' @ fp_path p, ''+++ b/'' @ fp_path p] @ hunks_text 0 0 (fp_hunks p)"

definition file_text :: "string list \<Rightarrow> string" where
  "file_text ls = join_with [newline] ls @ [newline]"

definition section_text :: "file_patch \<Rightarrow> string" where
  "section_text p = file_text (section_lines p)"

definition patch_text :: "file_patch list \<Rightarrow> string" where
  "patch_text ps = concat (map (\<lambda>p. diff_marker @ section_text p) ps)"

text \<open>What a patch means: the old lines are found where the hunks say, and are replaced.\<close>

fun fits :: "string list \<Rightarrow> nat \<Rightarrow> hunk list \<Rightarrow> bool" where
  "fits src k [] \<longleftrightarrow> True"
| "fits src k (h # hs) \<longleftrightarrow>
     k + hk_gap h \<le> length src
     \<and> take (length (old_part (hk_edits h))) (drop (k + hk_gap h) src) = old_part (hk_edits h)
     \<and> fits src (k + hk_gap h + length (old_part (hk_edits h))) hs"

fun patched :: "string list \<Rightarrow> nat \<Rightarrow> hunk list \<Rightarrow> string list" where
  "patched src k [] = drop k src"
| "patched src k (h # hs) =
     take (hk_gap h) (drop k src) @ new_part (hk_edits h) @
     patched src (k + hk_gap h + length (old_part (hk_edits h))) hs"

definition plain_line :: "string \<Rightarrow> bool" where
  "plain_line l \<longleftrightarrow> newline \<notin> set l \<and> CHR 0x0D \<notin> set l \<and> utf8_valid l"

definition patch_ok :: "file_patch \<Rightarrow> bool" where
  "patch_ok p \<longleftrightarrow>
     plain_line (fp_path p)
     \<and> list_all (\<lambda>h. old_part (hk_edits h) \<noteq> [] \<and> list_all (\<lambda>e. plain_line (edit_text e)) (hk_edits h)) (fp_hunks p)"

section \<open>Lemmas\<close>

lemma take_Suc_drop:
  "take (Suc n) (drop k xs) = y # ys \<longleftrightarrow> k < length xs \<and> xs ! k = y \<and> take n (drop (Suc k) xs) = ys"
proof (cases "k < length xs")
  case True
  then show ?thesis by (simp add: Cons_nth_drop_Suc [symmetric])
qed simp

lemma utf8_valid_first: "utf8_valid (c # s) \<Longrightarrow> \<not> is_cont (byte_val c)"
  by (auto simp: utf8_valid_def utf8_scan_def safe_get_def is_cont_def Let_def split: if_splits)

lemma edit_line_splits: "plain_line (edit_text e) \<Longrightarrow> splits_at_1 (edit_line e)"
proof -
  assume "plain_line (edit_text e)"
  then have "utf8_valid (edit_text e)" by (simp add: plain_line_def)
  then have "edit_text e = [] \<or> \<not> is_cont (byte_val (hd (edit_text e)))"
    using utf8_valid_first by (cases "edit_text e") auto
  then show ?thesis by (cases e; cases "edit_text e") (auto simp: splits_at_1_def)
qed

lemma edit_line_plain [simp]:
  "\<not> starts_with (edit_line e) ''@@ ''" "edit_line e \<noteq> no_newline_marker"
  by (cases e; simp add: starts_with_def no_newline_marker_def)+

text \<open>One hunk: it goes through exactly when its old lines are there.\<close>

lemma hunk_lines_exact:
  assumes "list_all (\<lambda>e. plain_line (edit_text e)) es" "rest = [] \<or> starts_with (hd rest) ''@@ ''"
  shows "if take (length (old_part es)) (drop k src) = old_part es
         then hunk_lines path src (map edit_line es @ rest) k acc = Ok (rest, k + length (old_part es), acc @ new_part es)
         else \<exists>e. hunk_lines path src (map edit_line es @ rest) k acc = Err e"
  using assms(1)
proof (induction es arbitrary: k acc)
  case Nil
  from assms(2) show ?case by (cases rest) auto
next
  case (Cons e es)
  then have plain: "list_all (\<lambda>e. plain_line (edit_text e)) es" "splits_at_1 (edit_line e)"
    by (simp_all add: edit_line_splits)
  show ?case
  proof (cases e)
    case (Context s)
    with plain Cons.IH [OF plain(1), of "Suc k" "acc @ [s]"] edit_line_plain [of e] show ?thesis
      by (auto simp: verify_patch_line_def take_Suc_drop split: if_splits)
  next
    case (Remove s)
    with plain Cons.IH [OF plain(1), of "Suc k" acc] edit_line_plain [of e] show ?thesis
      by (auto simp: verify_patch_line_def take_Suc_drop split: if_splits)
  next
    case (Insert s)
    with plain Cons.IH [OF plain(1), of k "acc @ [s]"] edit_line_plain [of e] show ?thesis
      by (auto split: if_splits)
  qed
qed

subsection \<open>Hunk headers\<close>

lemma header_chars:
  assumes "c \<in> set (decimal n)"
  shows "byte_val c < 128" "\<not> is_whitespace [c]" "c \<noteq> CHR '',''" "c \<noteq> newline" "c \<noteq> CHR 0x0D"
proof -
  have b: "48 \<le> byte_val c" "byte_val c \<le> 57" using decimal_chars [OF assms] by (simp_all add: is_ascii_digit_def)
  show "byte_val c < 128" using b by simp
  show "c \<noteq> CHR '',''" "c \<noteq> newline" "c \<noteq> CHR 0x0D" using b by auto
  have "c \<noteq> char_of n" if "n \<in> {9, 10, 11, 12, 13, 32}" for n :: nat using b(1) that by auto
  then show "\<not> is_whitespace [c]" by (auto simp: is_whitespace_def)
qed

lemma first_word_ascii:
  assumes "is_ascii (w @ CHR '' '' # r)" "w \<noteq> []" "list_all (\<lambda>c. \<not> is_whitespace [c]) w"
  shows "first_word (w @ CHR '' '' # r) = Some w"
proof -
  have ws: "is_whitespace '' ''" by (simp add: is_whitespace_def char_of_def bit_0)
  have "chars (w @ CHR '' '' # r) = map (\<lambda>c. [c]) w @ '' '' # map (\<lambda>c. [c]) r"
    using chars_ascii [OF assms(1)] by simp
  moreover have "takeWhile (\<lambda>c. \<not> is_whitespace c) (map (\<lambda>c. [c]) w @ '' '' # map (\<lambda>c. [c]) r) = map (\<lambda>c. [c]) w"
    using assms(3) ws by (subst takeWhile_append2) (auto simp: list_all_iff)
  moreover have "dropWhile is_whitespace (map (\<lambda>c. [c]) w @ '' '' # map (\<lambda>c. [c]) r) =
      map (\<lambda>c. [c]) w @ '' '' # map (\<lambda>c. [c]) r"
    using assms(2,3) by (cases w) auto
  ultimately have "first_word (w @ CHR '' '' # r) = Some (concat (map (\<lambda>c. [c]) w))"
    using assms(2) by (cases w) (simp_all add: first_word_def)
  then show ?thesis by simp
qed

lemma old_hunk_start_header:
  assumes "n \<le> USIZE_MAX"
  shows "old_hunk_start (''-'' @ decimal n @ '','' @ decimal a @ '' +'' @ decimal b @ '','' @ decimal c @ '' @@'') = Ok n"
proof -
  let ?w = "''-'' @ decimal n @ '','' @ decimal a"
  let ?r = "''+'' @ decimal b @ '','' @ decimal c @ '' @@''"
  have marks: "\<not> is_whitespace ''-''" "\<not> is_whitespace '',''"
    by (simp_all add: is_whitespace_def char_of_def bit_0)
  have "first_word (?w @ CHR '' '' # ?r) = Some ?w"
    by (rule first_word_ascii) (auto simp: is_ascii_def list_all_iff header_chars marks)
  moreover have "strip_prefix ?w ''-'' = Some (decimal n @ CHR '','' # decimal a)" by (simp add: strip_prefix_Some)
  moreover have "hd (split_on CHR '','' (decimal n @ CHR '','' # decimal a)) = decimal n"
    by (subst split_on_append_sep) (auto dest: header_chars(3))
  ultimately show ?thesis using parse_decimal [OF assms] by (simp add: old_hunk_start_def)
qed

lemma hunk_header_prefix: "\<exists>header. hunk_header k m h = ''@@ '' @ header
   \<and> (old_start k h \<le> USIZE_MAX \<longrightarrow> old_hunk_start header = Ok (old_start k h))"
  by (intro exI [of _ "''-'' @ decimal (old_start k h) @ '','' @ decimal (length (old_part (hk_edits h))) @ '' +'' @
        decimal m @ '','' @ decimal (length (new_part (hk_edits h))) @ '' @@''"])
     (simp add: hunk_header_def old_hunk_start_header [simplified])

subsection \<open>All hunks of a file\<close>

lemma hunks_text_first: "hunks_text k m hs = [] \<or> starts_with (hd (hunks_text k m hs)) ''@@ ''"
proof (cases hs)
  case (Cons h hs')
  have "starts_with (hunk_header k (m + hk_gap h + 1) h) ''@@ ''"
    using hunk_header_prefix [of k "m + hk_gap h + 1" h] by (auto simp: starts_with_def)
  with Cons show ?thesis by simp
qed simp

definition hunk_ok :: "hunk \<Rightarrow> bool" where
  "hunk_ok h \<longleftrightarrow> old_part (hk_edits h) \<noteq> [] \<and> list_all (\<lambda>e. plain_line (edit_text e)) (hk_edits h)"

definition hunks_size :: "hunk list \<Rightarrow> nat" where
  "hunks_size hs = sum_list (map (\<lambda>h. hk_gap h + length (old_part (hk_edits h))) hs)"

lemma patch_lines_exact:
  assumes "list_all hunk_ok hs" "k + hunks_size hs \<le> USIZE_MAX"
  shows "if fits src k hs
         then \<exists>c out. patch_lines path src (hunks_text k m hs) k acc = Ok (c, out) \<and> out @ drop c src = acc @ patched src k hs
         else \<exists>e. patch_lines path src (hunks_text k m hs) k acc = Err e"
  using assms
proof (induction hs arbitrary: k m acc)
  case (Cons h hs)
  let ?p = "k + hk_gap h" and ?old = "old_part (hk_edits h)" and ?new = "new_part (hk_edits h)"
  let ?rest = "hunks_text (?p + length ?old) (m + hk_gap h + length ?new) hs"
  let ?acc = "acc @ take (?p - k) (drop k src)"
  from Cons.prems(1) have h: "?old \<noteq> []" "list_all (\<lambda>e. plain_line (edit_text e)) (hk_edits h)"
    by (simp_all add: hunk_ok_def)
  then have start: "old_start k h = Suc ?p" by (simp add: old_start_def)
  have "Suc ?p \<le> USIZE_MAX" using Cons.prems(2) h(1) by (cases ?old) (auto simp: hunks_size_def)
  then obtain header where header: "strip_prefix (hunk_header k (m + hk_gap h + 1) h) ''@@ '' = Some header"
    "old_hunk_start header = Ok (Suc ?p)"
    using hunk_header_prefix [of k "m + hk_gap h + 1" h] start by (auto simp: strip_prefix_Some)
  note hunk = hunk_lines_exact [OF h(2) hunks_text_first [of "?p + length ?old" "m + hk_gap h + length ?new" hs], of ?p src path ?acc]
  have more: "list_all hunk_ok hs" "?p + length ?old + hunks_size hs \<le> USIZE_MAX"
    using Cons.prems by (simp_all add: hunks_size_def)
  note IH = Cons.IH [OF more, of "m + hk_gap h + length ?new" "?acc @ ?new"]
  show ?case
  proof (cases "?p \<le> length src \<and> take (length ?old) (drop ?p src) = ?old")
    case True
    with hunk have ok: "hunk_lines path src (map edit_line (hk_edits h) @ ?rest) ?p ?acc =
        Ok (?rest, ?p + length ?old, ?acc @ ?new)" by (simp only: if_True)
    have step: "patch_lines path src (hunks_text k m (h # hs)) k acc =
        patch_lines path src ?rest (?p + length ?old) (?acc @ ?new)"
      using True header ok by (simp add: Let_def)
    have "fits src k (h # hs) \<longleftrightarrow> fits src (?p + length ?old) hs" using True by simp
    moreover have "acc @ patched src k (h # hs) = (?acc @ ?new) @ patched src (?p + length ?old) hs" by simp
    ultimately show ?thesis using IH unfolding step by (simp only:)
  next
    case False
    then have "\<not> fits src k (h # hs)" by auto
    moreover have "\<exists>e. patch_lines path src (hunks_text k m (h # hs)) k acc = Err e"
    proof (cases "?p \<le> length src")
      case True
      with False have "take (length ?old) (drop ?p src) \<noteq> ?old" by blast
      with hunk obtain e where "hunk_lines path src (map edit_line (hk_edits h) @ ?rest) ?p ?acc = Err e"
        by (simp only: if_False) blast
      with True header show ?thesis by (simp add: Let_def)
    next
      case False
      with header show ?thesis by (simp add: Let_def)
    qed
    ultimately show ?thesis by (simp del: fits.simps patch_lines.simps hunks_text.simps)
  qed
qed simp

subsection \<open>Sections\<close>

lemma str_lines_file_text:
  assumes "ls \<noteq> []" "\<forall>l \<in> set ls. newline \<notin> set l \<and> CHR 0x0D \<notin> set l"
  shows "str_lines (file_text ls) = ls"
proof -
  have join: "join_with [newline] (ls @ [[]]) = file_text ls"
    using assms(1) unfolding file_text_def by (induction "[newline]" ls rule: join_with.induct) auto
  have "split_on newline (file_text ls) = ls @ [[]]"
    unfolding join [symmetric] by (rule split_on_join) (use assms in auto)
  moreover have "map strip_cr ls = ls"
    by (rule map_idI) (use assms(2) in \<open>auto simp: strip_cr_def, metis last_in_set\<close>)
  ultimately show ?thesis by (simp add: str_lines_def)
qed

lemma hunk_header_plain: "newline \<notin> set (hunk_header k m h) \<and> CHR 0x0D \<notin> set (hunk_header k m h)"
  by (auto simp: hunk_header_def dest: header_chars(4,5))

lemma hunks_text_plain:
  "list_all hunk_ok hs \<Longrightarrow> l \<in> set (hunks_text k m hs) \<Longrightarrow> newline \<notin> set l \<and> CHR 0x0D \<notin> set l"
proof (induction hs arbitrary: k m)
  case (Cons h hs)
  have edits: "newline \<notin> set (edit_line e) \<and> CHR 0x0D \<notin> set (edit_line e)" if "e \<in> set (hk_edits h)" for e
    using Cons.prems(1) that by (cases e) (auto simp: hunk_ok_def list_all_iff plain_line_def)
  have later: "newline \<notin> set l \<and> CHR 0x0D \<notin> set l" if "l \<in> set (hunks_text k' m' hs)" for k' m'
    by (rule Cons.IH [OF _ that]) (use Cons.prems(1) in simp)
  from Cons.prems(2) consider "l = hunk_header k (m + hk_gap h + 1) h" | e where "e \<in> set (hk_edits h)" "l = edit_line e"
    | "l \<in> set (hunks_text (k + hk_gap h + length (old_part (hk_edits h))) (m + hk_gap h + length (new_part (hk_edits h))) hs)"
    by auto
  then show ?case using edits hunk_header_plain later by cases blast+
qed simp

lemma section_lines_plain:
  "patch_ok p \<Longrightarrow> \<forall>l \<in> set (section_lines p). newline \<notin> set l \<and> CHR 0x0D \<notin> set l"
proof -
  assume p: "patch_ok p"
  then have "list_all hunk_ok (fp_hunks p)" by (simp add: patch_ok_def hunk_ok_def [abs_def])
  then have "\<forall>l \<in> set (hunks_text 0 0 (fp_hunks p)). newline \<notin> set l \<and> CHR 0x0D \<notin> set l"
    using hunks_text_plain by blast
  moreover have "newline \<notin> set (fp_path p)" "CHR 0x0D \<notin> set (fp_path p)"
    using p by (simp_all add: patch_ok_def plain_line_def)
  ultimately show ?thesis by (simp add: section_lines_def)
qed

lemma section_destination: "destination (section_lines p) = Some (fp_path p)"
  by (simp add: destination_def section_lines_def starts_with_def strip_prefix_def)

lemma patch_lines_section:
  "patch_lines path src (section_lines p) k acc = patch_lines path src (hunks_text 0 0 (fp_hunks p)) k acc"
  by (simp add: section_lines_def strip_prefix_def starts_with_def)

lemma apply_section:
  assumes "patch_ok p" "hunks_size (fp_hunks p) \<le> USIZE_MAX"
    and "src \<noteq> []" "\<forall>l \<in> set src. newline \<notin> set l \<and> CHR 0x0D \<notin> set l"
    and "fs (path_join root (fp_path p)) = Some (file_text src)"
    and "utf8_valid (file_text src)" "writable (path_join root (fp_path p))"
  shows "if fits src 0 (fp_hunks p)
         then apply_file_patch writable root (section_text p) fs =
                (Ok (), fs(path_join root (fp_path p) \<mapsto> file_text (patched src 0 (fp_hunks p))))
         else \<exists>e. apply_file_patch writable root (section_text p) fs = (Err e, fs)"
proof -
  let ?path = "path_join root (fp_path p)"
  have lines: "str_lines (section_text p) = section_lines p" unfolding section_text_def
    by (rule str_lines_file_text [OF _ section_lines_plain [OF assms(1)]]) (simp add: section_lines_def)
  have src: "str_lines (file_text src) = src" by (rule str_lines_file_text [OF assms(3,4)])
  have final: "ends_with (file_text src) [newline]" by (simp add: ends_with_def file_text_def)
  have "list_all hunk_ok (fp_hunks p)" using assms(1) by (simp add: patch_ok_def hunk_ok_def [abs_def])
  note exact = patch_lines_exact [OF this, of 0 src ?path 0 "[]"]
  show ?thesis
  proof (cases "fits src 0 (fp_hunks p)")
    case True
    with exact assms(2) obtain c out where "patch_lines ?path src (section_lines p) 0 [] = Ok (c, out)"
      "out @ drop c src = patched src 0 (fp_hunks p)" by (auto simp: patch_lines_section)
    then show ?thesis
      using True lines src final assms(5-7) by (simp add: apply_file_patch_def section_destination file_text_def Let_def)
  next
    case False
    with exact assms(2) obtain e where "patch_lines ?path src (section_lines p) 0 [] = Err e"
      by (auto simp: patch_lines_section)
    then show ?thesis
      using False lines src assms(5,6) by (simp add: apply_file_patch_def section_destination Let_def)
  qed
qed

subsection \<open>Whole patches\<close>

lemma split_str_acc_skip:
  "\<forall>i < length s. \<not> starts_with (drop i (s @ t)) p \<Longrightarrow> split_str_acc p acc (s @ t) = split_str_acc p (rev s @ acc) t"
proof (induction s arbitrary: acc)
  case (Cons c s)
  from Cons.prems have "\<not> starts_with (c # s @ t) p" by force
  moreover have "\<forall>i < length s. \<not> starts_with (drop i (s @ t)) p" using Cons.prems by force
  ultimately show ?case using Cons.IH by simp
qed simp

lemma split_str_acc_hit: "p \<noteq> [] \<Longrightarrow> split_str_acc p acc (p @ t) = rev acc # split_str_acc p [] t"
  by (cases p) (simp_all add: starts_with_def)

lemma no_marker_across:
  assumes "newline \<notin> set p" "\<not> str_contains (s @ [newline]) p" "i < length (s @ [newline])"
  shows "\<not> starts_with (drop i ((s @ [newline]) @ t)) p"
proof
  let ?s = "s @ [newline]"
  assume hit: "starts_with (drop i (?s @ t)) p"
  show False
  proof (cases "i + length p \<le> length ?s")
    case True
    have "take n (drop i (u @ t)) = take n (drop i u)" if "i + n \<le> length u" for n and u :: string
      using that by simp
    from hit this [OF True] have "starts_with (drop i ?s) p" unfolding starts_with_def by (simp only:)
    moreover have "i \<in> set [0..<Suc (length ?s)]" using assms(3) by (simp del: upt_Suc)
    ultimately show False using assms(2) unfolding str_contains_def list_ex_iff by blast
  next
    case False
    let ?j = "length s - i"
    have j: "?j < length p" using False assms(3) by simp
    have "take (length p) (drop i (?s @ t)) = p" using hit by (simp only: starts_with_def)
    then have "p ! ?j = (drop i (?s @ t)) ! ?j" using nth_take [OF j, of "drop i (?s @ t)"] by (simp only:)
    moreover have "(drop i (?s @ t)) ! ?j = newline" using assms(3) by (simp add: nth_append)
    ultimately show False using assms(1) nth_mem [OF j] by simp
  qed
qed

lemma split_patch:
  assumes "p \<noteq> []" "newline \<notin> set p" "\<forall>s \<in> set ss. \<not> str_contains (file_text s) p"
  shows "split_str_acc p acc (concat (map (\<lambda>s. p @ file_text s) ss)) = rev acc # map file_text ss"
  using assms(3)
proof (induction ss arbitrary: acc)
  case (Cons s ss)
  let ?rest = "concat (map (\<lambda>s. p @ file_text s) ss)"
  have "split_str_acc p acc (p @ file_text s @ ?rest) = rev acc # split_str_acc p [] (file_text s @ ?rest)"
    by (rule split_str_acc_hit [OF assms(1)])
  also have "split_str_acc p [] (file_text s @ ?rest) = split_str_acc p (rev (file_text s)) ?rest"
    using split_str_acc_skip [of "file_text s" ?rest p "[]"] no_marker_across [OF assms(2), of "join_with [newline] s"] Cons.prems
    unfolding file_text_def by (metis append_Nil2 list.set_intros(1))
  also have "\<dots> = file_text s # map file_text ss" using Cons by simp
  finally show ?case by simp
qed simp

lemma sections_of_patch:
  assumes "\<forall>p \<in> set ps. \<not> str_contains (section_text p) diff_marker"
  shows "filter (\<lambda>value. value \<noteq> []) (split_str diff_marker (patch_text ps)) = map section_text ps"
proof -
  have marker: "diff_marker \<noteq> []" "newline \<notin> set diff_marker" by (simp_all add: diff_marker_def)
  have "split_str_acc diff_marker [] (concat (map (\<lambda>s. diff_marker @ file_text s) (map section_lines ps))) =
      rev [] # map file_text (map section_lines ps)"
    by (rule split_patch [OF marker]) (use assms in \<open>auto simp: section_text_def\<close>)
  then show ?thesis
    by (simp add: split_str_def patch_text_def section_text_def comp_def file_text_def filter_map)
qed

definition updated :: "string \<Rightarrow> (file_patch \<Rightarrow> string list) \<Rightarrow> file_patch list \<Rightarrow> files \<Rightarrow> files" where
  "updated root src ps fs q =
     (case find (\<lambda>p. path_join root (fp_path p) = q) ps of
        None \<Rightarrow> fs q
      | Some p \<Rightarrow> Some (file_text (patched (src p) 0 (fp_hunks p))))"

lemma apply_sections_exact:
  assumes "\<forall>p \<in> set ps. patch_ok p \<and> hunks_size (fp_hunks p) \<le> USIZE_MAX \<and> src p \<noteq> []
             \<and> utf8_valid (file_text (src p)) \<and> writable (path_join root (fp_path p))
             \<and> (\<forall>l \<in> set (src p). newline \<notin> set l \<and> CHR 0x0D \<notin> set l)"
    and "distinct (map (\<lambda>p. path_join root (fp_path p)) ps)"
    and "\<forall>p \<in> set ps. fs (path_join root (fp_path p)) = Some (file_text (src p))"
  shows "if \<forall>p \<in> set ps. fits (src p) 0 (fp_hunks p)
         then apply_sections writable root (map section_text ps) fs = (Ok (), updated root src ps fs)
         else \<exists>e fs'. apply_sections writable root (map section_text ps) fs = (Err e, fs')"
  using assms
proof (induction ps arbitrary: fs)
  case Nil
  have "updated root src [] fs = fs" by (rule ext) (simp add: updated_def)
  then show ?case by simp
next
  case (Cons p ps)
  let ?path = "path_join root (fp_path p)"
  let ?fs = "fs(?path \<mapsto> file_text (patched (src p) 0 (fp_hunks p)))"
  have sec: "if fits (src p) 0 (fp_hunks p) then apply_file_patch writable root (section_text p) fs = (Ok (), ?fs)
      else \<exists>e. apply_file_patch writable root (section_text p) fs = (Err e, fs)"
    by (rule apply_section) (use Cons.prems in auto)
  show ?case
  proof (cases "fits (src p) 0 (fp_hunks p)")
    case True
    have later: "\<forall>q \<in> set ps. ?fs (path_join root (fp_path q)) = Some (file_text (src q))"
    proof
      fix q assume q: "q \<in> set ps"
      then have "path_join root (fp_path q) \<noteq> ?path" using Cons.prems(2) by (auto simp: image_iff)
      with q Cons.prems(3) show "?fs (path_join root (fp_path q)) = Some (file_text (src q))" by simp
    qed
    note IH = Cons.IH [OF _ _ later]
    have "updated root src ps ?fs = updated root src (p # ps) fs"
    proof
      fix q
      show "updated root src ps ?fs q = updated root src (p # ps) fs q"
      proof (cases "q = ?path")
        case True
        then have "find (\<lambda>p. path_join root (fp_path p) = q) ps = None"
          using Cons.prems(2) by (auto simp: find_None_iff image_iff)
        with True show ?thesis by (simp add: updated_def)
      next
        case False
        then show ?thesis by (auto simp: updated_def split: option.splits)
      qed
    qed
    with True sec IH Cons.prems(1,2) show ?thesis by simp
  next
    case False
    with sec show ?thesis by auto
  qed
qed

section \<open>Properties\<close>


definition sample_patch :: file_patch where
  "sample_patch = \<lparr>fp_path = ''f'', fp_hunks = [\<lparr>hk_gap = 0, hk_edits = [Remove ''b'', Insert ''c'']\<rparr>]\<rparr>"


end
