(* ===== verification/Source_Staging.thy ===== *)
theory Source_Staging
  imports Build_Patch
begin

text \<open>
  Staging the native sources (\<open>openvpn-connect-sys/build.rs\<close>): the build script resets its
  staging directory, copies the sources of the submodules into it and patches the copies.  The
  upstream directories are trees, the staged files a map from paths to contents; what the
  operating system decides (failures to create, copy, remove or write) is a parameter.
\<close>

section \<open>The build environment\<close>

text \<open>
  \<open>be_run\<close> runs a command: \<open>None\<close> when it cannot be started, otherwise whether it succeeded and
  its output.
\<close>

record build_env =
  be_var :: "string \<Rightarrow> string option"
  be_is_file :: "string \<Rightarrow> bool"
  be_is_dir :: "string \<Rightarrow> bool"
  be_current_dir :: string
  be_run :: "string \<Rightarrow> string list \<Rightarrow> (bool \<times> string) option"

type_synonym 'a build = "('a, string) result"

definition require_var :: "build_env \<Rightarrow> string \<Rightarrow> string \<Rightarrow> string build" where
  "require_var env variable message = (case be_var env variable of None \<Rightarrow> Err message | Some value \<Rightarrow> Ok value)"

text \<open>
  What \<open>read_dir\<close> shows of the upstream sources.  \<open>Unreadable\<close> is a directory that cannot be
  read, \<open>Special\<close> an entry that is neither a directory nor a file, \<open>BadEntry\<close> one that could not
  be read at all.
\<close>

datatype tree = File string | Directory "(string \<times> tree) list" | Unreadable string | Special | BadEntry string

text \<open>
  The file operations; each of \<open>se_create_dir_all\<close> and \<open>se_copy\<close> gives the error, if there is one.
\<close>

record staging_env =
  se_tree :: "string \<Rightarrow> tree"
  se_exists :: "string \<Rightarrow> files \<Rightarrow> bool"
  se_remove_dir_all :: "string \<Rightarrow> files \<Rightarrow> unit build \<times> files"
  se_create_dir_all :: "string \<Rightarrow> string option"
  se_copy :: "string \<Rightarrow> string \<Rightarrow> string option"
  se_writable :: "string \<Rightarrow> bool"

section \<open>Copying\<close>

abbreviation tree_size :: "(string \<times> tree) list \<Rightarrow> nat" where
  "tree_size \<equiv> size_list (size_prod (\<lambda>_. 0) size)"

function (sequential) copy_tree :: "staging_env \<Rightarrow> string \<Rightarrow> string \<Rightarrow> tree \<Rightarrow> files \<Rightarrow> unit build \<times> files"
  and copy_entries :: "staging_env \<Rightarrow> string \<Rightarrow> string \<Rightarrow> (string \<times> tree) list \<Rightarrow> files \<Rightarrow> unit build \<times> files" where
  "copy_tree se source dest t fs =
     (case se_create_dir_all se dest of
        Some e \<Rightarrow> (Err (''failed to create '' @ dest @ '': '' @ e), fs)
      | None \<Rightarrow>
          (case t of
             Directory entries \<Rightarrow> copy_entries se source dest entries fs
           | Unreadable e \<Rightarrow> (Err (''failed to read '' @ source @ '': '' @ e), fs)
           | _ \<Rightarrow> (Err (''failed to read '' @ source @ '': Not a directory''), fs)))"
| "copy_entries se source dest [] fs = (Ok (), fs)"
| "copy_entries se source dest ((name, t) # entries) fs =
     (let source_path = path_join source name; target_path = path_join dest name
      in case t of
           BadEntry e \<Rightarrow> (Err e, fs)
         | Special \<Rightarrow> (Err (''unsupported native source entry: '' @ source_path), fs)
         | File contents \<Rightarrow>
             (case se_copy se source_path target_path of
                Some e \<Rightarrow> (Err (''failed to copy '' @ source_path @ '' to '' @ target_path @ '': '' @ e), fs)
              | None \<Rightarrow> copy_entries se source dest entries (fs(target_path \<mapsto> contents)))
         | _ \<Rightarrow>
             (case copy_tree se source_path target_path t fs of
                (Inl e, fs) \<Rightarrow> (Err e, fs)
              | (Inr _, fs) \<Rightarrow> copy_entries se source dest entries fs))"
  by pat_completeness auto
termination
  by (relation "measure (case_sum (\<lambda>(se, s, d, t, fs). size t) (\<lambda>(se, s, d, es, fs). tree_size es))") auto

declare copy_tree.simps [simp del]

section \<open>Preparing the sources\<close>

definition require_submodule_source :: "build_env \<Rightarrow> string \<Rightarrow> string \<Rightarrow> unit build" where
  "require_submodule_source env path submodule =
     (if be_is_file env path then Ok ()
      else Err (''missing '' @ submodule @
        ''; initialize sources with `git submodule update --init --recursive` before building''))"

text \<open>The messages of the panics in the patch applier.\<close>

fun panic_message :: "patch_panic \<Rightarrow> string" where
  "panic_message NoDestination = ''patch section has no destination path''"
| "panic_message (CannotRead path) = ''failed to read patch target '' @ path"
| "panic_message BadHeader = ''invalid unified patch hunk header''"
| "panic_message (BadPosition path) = ''invalid hunk position for '' @ path"
| "panic_message (BeyondSource path n) = ''patch for '' @ path @ '' extends beyond the source at line '' @ decimal n"
| "panic_message (SourceDrift path n) = ''source drift while applying patch to '' @ path @ '' at line '' @ decimal n"
| "panic_message BadLine = ''failed to slice string''"
| "panic_message (CannotWrite path) = ''failed to write patch target '' @ path"

text \<open>Composition of steps that may panic and leave the files as far as they came.\<close>

fun then_files :: "unit build \<times> files \<Rightarrow> (files \<Rightarrow> 'a build \<times> files) \<Rightarrow> 'a build \<times> files" where
  "then_files (Inl e, fs) f = (Err e, fs)"
| "then_files (Inr _, fs) f = f fs"

definition patch_step :: "staging_env \<Rightarrow> string \<Rightarrow> string \<Rightarrow> files \<Rightarrow> unit build \<times> files" where
  "patch_step se root patch fs =
     (case apply_unified_patch (se_writable se) root patch fs of
        (Inl e, fs) \<Rightarrow> (Err (panic_message e), fs)
      | (Inr _, fs) \<Rightarrow> (Ok (), fs))"

definition copy_step :: "staging_env \<Rightarrow> string \<Rightarrow> string \<Rightarrow> files \<Rightarrow> unit build \<times> files" where
  "copy_step se source dest fs = copy_tree se source dest (se_tree se source) fs"

definition reset_step :: "staging_env \<Rightarrow> string \<Rightarrow> files \<Rightarrow> unit build \<times> files" where
  "reset_step se staging fs =
     (if se_exists se staging fs
      then (case se_remove_dir_all se staging fs of
              (Inl e, fs) \<Rightarrow> (Err (''failed to reset '' @ staging @ '': '' @ e), fs)
            | (Inr _, fs) \<Rightarrow> (Ok (), fs))
      else (Ok (), fs))"

text \<open>
  \<open>prepare_native_sources\<close>, with the two patches as arguments: the directories of the patched
  OpenVPN 3 and Asio sources.  \<open>stage\<close> is the part after the checks.
\<close>

definition stage ::
  "staging_env \<Rightarrow> string \<Rightarrow> string \<Rightarrow> string \<Rightarrow> string \<Rightarrow> files \<Rightarrow> (string \<times> string) build \<times> files" where
  "stage se manifest out openvpn3_patch asio_patch fs =
     (let upstream_openvpn3 = path_join manifest ''vendor/openvpn3'';
          upstream_asio = path_join manifest ''vendor/asio/asio/include'';
          staging = path_join out ''patched-native-source'';
          openvpn3 = path_join staging ''openvpn3'';
          asio = path_join staging ''asio'';
          asio_include = path_join asio ''asio/include''
      in then_files (reset_step se staging fs) (\<lambda>fs.
         then_files (copy_step se (path_join upstream_openvpn3 ''client'') (path_join openvpn3 ''client'') fs) (\<lambda>fs.
         then_files (copy_step se (path_join upstream_openvpn3 ''openvpn'') (path_join openvpn3 ''openvpn'') fs) (\<lambda>fs.
         then_files (patch_step se openvpn3 openvpn3_patch fs) (\<lambda>fs.
         then_files (copy_step se upstream_asio asio_include fs) (\<lambda>fs.
         then_files (patch_step se asio asio_patch fs) (\<lambda>fs.
           (Ok (openvpn3, asio_include), fs))))))))"

definition prepare_native_sources ::
  "build_env \<Rightarrow> staging_env \<Rightarrow> string \<Rightarrow> string \<Rightarrow> files \<Rightarrow> (string \<times> string) build \<times> files" where
  "prepare_native_sources env se openvpn3_patch asio_patch fs =
     (case and_then (require_var env ''CARGO_MANIFEST_DIR'' ''Cargo must set CARGO_MANIFEST_DIR'') (\<lambda>manifest.
           and_then (require_submodule_source env
             (path_join (path_join manifest ''vendor/openvpn3'') ''client/ovpncli.cpp'') ''vendor/openvpn3'') (\<lambda>_.
           and_then (require_submodule_source env
             (path_join (path_join manifest ''vendor/asio/asio/include'') ''asio.hpp'') ''vendor/asio'') (\<lambda>_.
           and_then (require_var env ''OUT_DIR'' ''Cargo must set OUT_DIR'') (\<lambda>out.
             Ok (manifest, out))))) of
        Inl e \<Rightarrow> (Err e, fs)
      | Inr (manifest, out) \<Rightarrow> stage se manifest out openvpn3_patch asio_patch fs)"

section \<open>What is staged\<close>

text \<open>The file that a path of components names in a tree.\<close>

fun tree_file :: "tree \<Rightarrow> string list \<Rightarrow> string option" where
  "tree_file (File contents) [] = Some contents"
| "tree_file (Directory entries) (name # path) =
     (case map_of entries name of None \<Rightarrow> None | Some t \<Rightarrow> tree_file t path)"
| "tree_file t path = None"

text \<open>The files with the tree laid over them at a directory.\<close>

definition overlay :: "string \<Rightarrow> tree \<Rightarrow> files \<Rightarrow> files" where
  "overlay dir t fs p =
     (case strip_prefix p (dir @ ''/'') of
        None \<Rightarrow> fs p
      | Some relative \<Rightarrow>
          (case tree_file t (split_on CHR ''/'' relative) of None \<Rightarrow> fs p | Some contents \<Rightarrow> Some contents))"

definition entry_name :: "string \<Rightarrow> bool" where
  "entry_name name \<longleftrightarrow> name \<noteq> [] \<and> CHR ''/'' \<notin> set name"

text \<open>The entries of a directory have distinct names without a separator.\<close>

fun names_ok :: "tree \<Rightarrow> bool" where
  "names_ok (Directory entries) \<longleftrightarrow>
     distinct (map fst entries) \<and> (\<forall>e \<in> set entries. entry_name (fst e) \<and> names_ok (snd e))"
| "names_ok t \<longleftrightarrow> True"

text \<open>Nothing but files and readable directories.\<close>

fun copyable :: "tree \<Rightarrow> bool" where
  "copyable (File contents) \<longleftrightarrow> True"
| "copyable (Directory entries) \<longleftrightarrow> (\<forall>e \<in> set entries. copyable (snd e))"
| "copyable t \<longleftrightarrow> False"

definition without :: "string \<Rightarrow> files \<Rightarrow> files" where
  "without dir fs p = (if starts_with p (dir @ ''/'') then None else fs p)"

definition dir_ok :: "string \<Rightarrow> bool" where
  "dir_ok dir \<longleftrightarrow> dir \<noteq> [] \<and> last dir \<noteq> CHR ''/''"

section \<open>Lemmas\<close>

lemma ends_with_slash: "ends_with s ''/'' \<longleftrightarrow> s \<noteq> [] \<and> last s = CHR ''/''"
  by (cases s rule: rev_cases) (auto simp: ends_with_def)

lemma starts_with_slash: "starts_with s ''/'' \<longleftrightarrow> s \<noteq> [] \<and> hd s = CHR ''/''"
  by (cases s) (auto simp: starts_with_def)

lemma starts_with_iff: "starts_with s p \<longleftrightarrow> (\<exists>r. s = p @ r)"
  by (auto simp: starts_with_def) (metis append_take_drop_id)

lemma path_join_entry: "dir_ok dir \<Longrightarrow> entry_name name \<Longrightarrow> path_join dir name = dir @ CHR ''/'' # name"
  by (cases name) (auto simp: path_join_def dir_ok_def entry_name_def ends_with_slash starts_with_slash)

lemma dir_ok_join: "relative \<noteq> [] \<Longrightarrow> last relative \<noteq> CHR ''/'' \<Longrightarrow> dir_ok (path_join dir relative)"
  by (auto simp: path_join_def dir_ok_def)

lemma dir_ok_entry: "entry_name name \<Longrightarrow> dir_ok (path_join dir name)"
  by (rule dir_ok_join) (auto simp: entry_name_def, metis last_in_set)

text \<open>The first component of a path and the rest of it.\<close>

lemma split_on_Cons_iff:
  assumes "entry_name n"
  shows "split_on CHR ''/'' r = n # ws \<longleftrightarrow> (if ws = [] then r = n else \<exists>r'. r = n @ CHR ''/'' # r' \<and> split_on CHR ''/'' r' = ws)"
proof
  assume split: "split_on CHR ''/'' r = n # ws"
  have r: "r = join_with ''/'' (n # ws)" using join_split_on [of "CHR ''/''" r] split by simp
  show "if ws = [] then r = n else \<exists>r'. r = n @ CHR ''/'' # r' \<and> split_on CHR ''/'' r' = ws"
  proof (cases "ws = []")
    case False
    moreover have "CHR ''/'' \<notin> set w" if "w \<in> set ws" for w
      using split_on_pieces [of w "CHR ''/''" r] that split by simp
    ultimately have "split_on CHR ''/'' (join_with ''/'' ws) = ws" by (simp add: split_on_join)
    with r False show ?thesis by (auto simp: join_with_Cons_not_Nil)
  qed (use r in simp)
next
  assume "if ws = [] then r = n else \<exists>r'. r = n @ CHR ''/'' # r' \<and> split_on CHR ''/'' r' = ws"
  with assms show "split_on CHR ''/'' r = n # ws"
    by (auto simp: entry_name_def split_on_no_sep split_on_append_sep split: if_splits)
qed

lemma overlay_outside: "strip_prefix p (dir @ ''/'') = None \<Longrightarrow> overlay dir t fs p = fs p"
  by (simp add: overlay_def)

lemma overlay_inside:
  "overlay dir t fs (dir @ CHR ''/'' # r) =
     (case tree_file t (split_on CHR ''/'' r) of None \<Rightarrow> fs (dir @ CHR ''/'' # r) | Some contents \<Rightarrow> Some contents)"
  using strip_prefix_append [of "dir @ ''/''" r] by (simp add: overlay_def cong: option.case_cong)

text \<open>Both sides agree when they agree outside the directory and at every path inside it.\<close>

lemma files_eqI:
  assumes "\<And>p. strip_prefix p (dir @ ''/'') = None \<Longrightarrow> f p = g p" "\<And>r. f (dir @ CHR ''/'' # r) = g (dir @ CHR ''/'' # r)"
  shows "f = g"
proof
  fix p
  show "f p = g p"
    using assms by (cases "strip_prefix p (dir @ ''/'')") (auto simp: strip_prefix_Some)
qed

lemma overlay_file:
  assumes "entry_name n" "n \<notin> fst ` set es"
  shows "overlay dir (Directory ((n, File c) # es)) fs = overlay dir (Directory es) (fs(dir @ CHR ''/'' # n \<mapsto> c))"
proof (rule files_eqI [where dir = dir])
  fix p assume "strip_prefix p (dir @ ''/'') = None"
  then show "overlay dir (Directory ((n, File c) # es)) fs p = overlay dir (Directory es) (fs(dir @ CHR ''/'' # n \<mapsto> c)) p"
    by (auto simp: overlay_outside strip_prefix_def starts_with_def)
next
  fix r
  obtain w ws where split: "split_on CHR ''/'' r = w # ws" by (cases "split_on CHR ''/'' r") auto
  have fresh: "map_of es n = None" using assms(2) by (simp add: map_of_eq_None_iff)
  have "r = n \<longleftrightarrow> w = n \<and> ws = []" using split split_on_Cons_iff [OF assms(1), of r "[]"] by simp
  with split fresh show "overlay dir (Directory ((n, File c) # es)) fs (dir @ CHR ''/'' # r) =
      overlay dir (Directory es) (fs(dir @ CHR ''/'' # n \<mapsto> c)) (dir @ CHR ''/'' # r)"
    by (cases ws) (auto simp: overlay_inside split: option.split)
qed

lemma overlay_subtree:
  assumes "entry_name n" "n \<notin> fst ` set es" "tree_file t [] = None"
  shows "overlay dir (Directory ((n, t) # es)) fs = overlay dir (Directory es) (overlay (dir @ CHR ''/'' # n) t fs)"
proof (rule files_eqI [where dir = dir])
  fix p assume out: "strip_prefix p (dir @ ''/'') = None"
  then have "strip_prefix p ((dir @ CHR ''/'' # n) @ ''/'') = None"
    by (cases "strip_prefix p ((dir @ CHR ''/'' # n) @ ''/'')") (auto simp: strip_prefix_def starts_with_iff split: if_splits)
  with out show "overlay dir (Directory ((n, t) # es)) fs p = overlay dir (Directory es) (overlay (dir @ CHR ''/'' # n) t fs) p"
    by (simp only: overlay_outside)
next
  fix r
  obtain w ws where split: "split_on CHR ''/'' r = w # ws" by (cases "split_on CHR ''/'' r") auto
  have fresh: "map_of es n = None" using assms(2) by (simp add: map_of_eq_None_iff)
  show "overlay dir (Directory ((n, t) # es)) fs (dir @ CHR ''/'' # r) =
      overlay dir (Directory es) (overlay (dir @ CHR ''/'' # n) t fs) (dir @ CHR ''/'' # r)"
  proof (cases "w = n \<and> ws \<noteq> []")
    case True
    with split split_on_Cons_iff [OF assms(1), of r ws] obtain r' where "r = n @ CHR ''/'' # r'" "split_on CHR ''/'' r' = ws" by auto
    with split True fresh show ?thesis using overlay_inside [of "dir @ CHR ''/'' # n" t fs r']
      by (simp add: overlay_inside cong: option.case_cong)
  next
    case False
    have "strip_prefix (dir @ CHR ''/'' # r) ((dir @ CHR ''/'' # n) @ ''/'') = None"
    proof (rule ccontr)
      assume "strip_prefix (dir @ CHR ''/'' # r) ((dir @ CHR ''/'' # n) @ ''/'') \<noteq> None"
      then obtain r' where "r = n @ CHR ''/'' # r'" by (auto simp: strip_prefix_Some)
      then have "split_on CHR ''/'' r = n # split_on CHR ''/'' r'"
        using assms(1) by (simp add: split_on_append_sep entry_name_def)
      with split False show False by auto
    qed
    then have "overlay (dir @ CHR ''/'' # n) t fs (dir @ CHR ''/'' # r) = fs (dir @ CHR ''/'' # r)"
      by (rule overlay_outside)
    with split False assms(3) fresh show ?thesis by (auto simp: overlay_inside split: option.split)
  qed
qed

lemma overlay_empty: "overlay dir (Directory []) fs = fs"
proof -
  have "tree_file (Directory []) p = None" for p by (cases p) simp_all
  then show ?thesis by (intro ext) (simp add: overlay_def split: option.split)
qed

text \<open>A copy that succeeds lays the tree over the files.\<close>

lemma copy_entries_exact:
  assumes sub: "\<And>n t s d fs fs'. (n, t) \<in> set es \<Longrightarrow> copy_tree se s d t fs = (Ok (), fs') \<Longrightarrow> names_ok t \<Longrightarrow> dir_ok d
      \<Longrightarrow> fs' = overlay d t fs"
    and "copy_entries se s d es fs = (Ok (), fs')" "names_ok (Directory es)" "dir_ok d"
  shows "fs' = overlay d (Directory es) fs"
  using assms
proof (induction es arbitrary: fs)
  case Nil
  then show ?case by (simp add: overlay_empty)
next
  case (Cons e es)
  obtain name t where e: "e = (name, t)" by (cases e)
  from Cons.prems(3) e have names: "entry_name name" "name \<notin> fst ` set es" "names_ok t" "names_ok (Directory es)" by auto
  note path = path_join_entry [OF Cons.prems(4) names(1)]
  have IH: "fs' = overlay d (Directory es) f" if "copy_entries se s d es f = (Ok (), fs')" for f
    by (rule Cons.IH [OF Cons.prems(1) that names(4) Cons.prems(4)]) auto
  show ?case
  proof (cases "\<exists>c. t = File c")
    case True
    then obtain c where t: "t = File c" by blast
    with Cons.prems(2) e path have "copy_entries se s d es (fs(d @ CHR ''/'' # name \<mapsto> c)) = (Ok (), fs')"
      by (auto simp: Let_def split: option.splits)
    from IH [OF this] show ?thesis unfolding e t overlay_file [OF names(1,2)] by simp
  next
    case False
    obtain r mid where run: "copy_tree se (path_join s name) (path_join d name) t fs = (r, mid)" by fastforce
    with Cons.prems(2) e False have ok: "r = Ok ()" "copy_entries se s d es mid = (Ok (), fs')"
      by (auto simp: Let_def split: tree.splits sum.splits prod.splits)
    have "mid = overlay (path_join d name) t fs"
      by (rule Cons.prems(1)) (use e run ok names dir_ok_entry in auto)
    moreover have "tree_file t [] = None" using False by (cases t) auto
    ultimately show ?thesis using IH [OF ok(2)] unfolding e path overlay_subtree [OF names(1,2) \<open>tree_file t [] = None\<close>] by simp
  qed
qed

lemma copy_tree_exact:
  "copy_tree se s d t fs = (Ok (), fs') \<Longrightarrow> names_ok t \<Longrightarrow> dir_ok d \<Longrightarrow> fs' = overlay d t fs"
proof (induction t arbitrary: s d fs fs')
  case (Directory es)
  from Directory.prems(1) have "copy_entries se s d es fs = (Ok (), fs')" by (auto simp: copy_tree.simps split: option.splits)
  with Directory show ?case by (intro copy_entries_exact) auto
qed (auto simp: copy_tree.simps split: option.splits)

text \<open>Without failures of the operating system a copy succeeds exactly on files and readable directories.\<close>

definition no_failures :: "staging_env \<Rightarrow> bool" where
  "no_failures se \<longleftrightarrow> (\<forall>d. se_create_dir_all se d = None) \<and> (\<forall>s d. se_copy se s d = None)"

lemma copy_entries_Ok_iff:
  assumes "\<And>n t s d fs. (n, t) \<in> set es \<Longrightarrow>
      fst (copy_tree se s d t fs) = Ok () \<longleftrightarrow> (\<exists>es. t = Directory es) \<and> copyable t" "no_failures se"
  shows "fst (copy_entries se s d es fs) = Ok () \<longleftrightarrow> (\<forall>e \<in> set es. copyable (snd e))"
  using assms(1)
proof (induction es arbitrary: fs)
  case (Cons e es)
  obtain name t where e: "e = (name, t)" by (cases e)
  have IH: "fst (copy_entries se s d es f) = Ok () \<longleftrightarrow> (\<forall>e \<in> set es. copyable (snd e))" for f
    by (rule Cons.IH [OF Cons.prems]) auto
  have sub: "fst (copy_tree se s d t f) = Ok () \<longleftrightarrow> (\<exists>es. t = Directory es) \<and> copyable t" for s d f
    by (rule Cons.prems [of name]) (simp add: e)
  obtain r mid where run: "copy_tree se (path_join s name) (path_join d name) t fs = (r, mid)" by fastforce
  show ?case
    using assms(2) IH sub [of "path_join s name" "path_join d name" fs] run
    by (cases t; cases r) (auto simp: e no_failures_def Let_def)
qed simp

lemma copy_tree_Ok_iff:
  assumes "no_failures se"
  shows "fst (copy_tree se s d t fs) = Ok () \<longleftrightarrow> (\<exists>es. t = Directory es) \<and> copyable t"
proof (induction t arbitrary: s d fs)
  case (Directory es)
  have "fst (copy_entries se s d es fs) = Ok () \<longleftrightarrow> (\<forall>e \<in> set es. copyable (snd e))"
    by (rule copy_entries_Ok_iff [OF Directory.IH assms]) auto
  with assms show ?case by (simp add: copy_tree.simps no_failures_def)
qed (use assms in \<open>simp_all add: copy_tree.simps no_failures_def\<close>)

lemma then_files_Ok: "then_files m f = (Ok a, fs') \<longleftrightarrow> (\<exists>fs. m = (Ok (), fs) \<and> f fs = (Ok a, fs'))"
  by (cases "(m, f)" rule: then_files.cases) auto

lemma patch_step_Ok:
  "patch_step se root patch fs = (Ok (), fs') \<longleftrightarrow> apply_unified_patch (se_writable se) root patch fs = (Ok (), fs')"
  by (auto simp: patch_step_def split: prod.splits sum.splits)

lemma reset_step_Ok:
  assumes "\<And>fs fs'. se_remove_dir_all se dir fs = (Ok (), fs') \<Longrightarrow> fs' = without dir fs"
    and "\<And>fs. \<not> se_exists se dir fs \<Longrightarrow> without dir fs = fs"
    and "reset_step se dir fs = (Ok (), fs')"
  shows "fs' = without dir fs"
  using assms by (auto simp: reset_step_def split: if_splits prod.splits sum.splits)

lemma stage_Ok:
  assumes "stage se manifest out openvpn3_patch asio_patch fs = (Ok (openvpn3, asio_include), fs')"
  obtains staging asio f1 f2 f3 f4 f5
  where "staging = path_join out ''patched-native-source''" "openvpn3 = path_join staging ''openvpn3''"
    "asio = path_join staging ''asio''" "asio_include = path_join asio ''asio/include''"
    "reset_step se staging fs = (Ok (), f1)"
    "copy_step se (path_join (path_join manifest ''vendor/openvpn3'') ''client'') (path_join openvpn3 ''client'') f1 = (Ok (), f2)"
    "copy_step se (path_join (path_join manifest ''vendor/openvpn3'') ''openvpn'') (path_join openvpn3 ''openvpn'') f2 = (Ok (), f3)"
    "patch_step se openvpn3 openvpn3_patch f3 = (Ok (), f4)"
    "copy_step se (path_join manifest ''vendor/asio/asio/include'') asio_include f4 = (Ok (), f5)"
    "patch_step se asio asio_patch f5 = (Ok (), fs')"
  using assms unfolding stage_def Let_def then_files_Ok prod.inject sum.inject
  by - (elim exE conjE, rule that, simp_all only:)

section \<open>Properties\<close>

text \<open>
  C21: The staged sources are exactly the patched upstream sources.  When the preparation succeeds,
  both submodules are present, the two directories lie in the staging directory, everything left
  of an earlier build is gone from it, and the files are those of the upstream trees with the two
  patches applied; files outside are touched by the patches only.  Without failures of the
  operating system it fails on a tree with anything but files and readable directories.
\<close>

theorem staged_sources_exact:
  assumes remove: "\<And>dir fs fs'. se_remove_dir_all se dir fs = (Ok (), fs') \<Longrightarrow> fs' = without dir fs"
    and exists: "\<And>dir fs. \<not> se_exists se dir fs \<Longrightarrow> without dir fs = fs"
    and names: "\<And>dir. names_ok (se_tree se dir)"
    and run: "prepare_native_sources env se openvpn3_patch asio_patch fs = (Ok (openvpn3, asio_include), fs')"
  shows "\<exists>manifest out upstream staging asio mid.
     be_var env ''CARGO_MANIFEST_DIR'' = Some manifest \<and> be_var env ''OUT_DIR'' = Some out
     \<and> upstream = path_join manifest ''vendor/openvpn3'' \<and> staging = path_join out ''patched-native-source''
     \<and> openvpn3 = path_join staging ''openvpn3'' \<and> asio = path_join staging ''asio'' \<and> asio_include = path_join asio ''asio/include''
     \<and> be_is_file env (path_join upstream ''client/ovpncli.cpp'')
     \<and> be_is_file env (path_join (path_join manifest ''vendor/asio/asio/include'') ''asio.hpp'')
     \<and> apply_unified_patch (se_writable se) openvpn3 openvpn3_patch
         (overlay (path_join openvpn3 ''openvpn'') (se_tree se (path_join upstream ''openvpn''))
           (overlay (path_join openvpn3 ''client'') (se_tree se (path_join upstream ''client'')) (without staging fs))) = (Ok (), mid)
     \<and> apply_unified_patch (se_writable se) asio asio_patch
         (overlay asio_include (se_tree se (path_join manifest ''vendor/asio/asio/include'')) mid) = (Ok (), fs')
     \<and> (no_failures se \<longrightarrow> (\<forall>d \<in> {path_join upstream ''client'', path_join upstream ''openvpn'',
           path_join manifest ''vendor/asio/asio/include''}. copyable (se_tree se d)))"
proof -
  have dirs: "dir_ok (path_join d r)" if "r \<in> {''client'', ''openvpn'', ''asio/include''}" for d r
    using that by (auto intro!: dir_ok_join)
  have copied: "f' = overlay (path_join d r) (se_tree se s) f"
    if "copy_step se s (path_join d r) f = (Ok (), f')" "r \<in> {''client'', ''openvpn'', ''asio/include''}" for s d r f f'
    by (rule copy_tree_exact [OF that(1) [unfolded copy_step_def] names dirs [OF that(2)]])
  have fine: "no_failures se \<Longrightarrow> copyable (se_tree se s)" if "copy_step se s d f = (Ok (), f')" for s d f f'
    using that copy_tree_Ok_iff [of se s d "se_tree se s" f] by (simp add: copy_step_def)
  from run obtain manifest out
    where staged: "stage se manifest out openvpn3_patch asio_patch fs = (Ok (openvpn3, asio_include), fs')"
      and vars: "be_var env ''CARGO_MANIFEST_DIR'' = Some manifest" "be_var env ''OUT_DIR'' = Some out"
      and present: "be_is_file env (path_join (path_join manifest ''vendor/openvpn3'') ''client/ovpncli.cpp'')"
        "be_is_file env (path_join (path_join manifest ''vendor/asio/asio/include'') ''asio.hpp'')"
    by (auto simp: prepare_native_sources_def require_var_def require_submodule_source_def
        split: sum.splits option.splits if_splits)
  obtain staging asio f1 f2 f3 f4 f5
    where eqs: "staging = path_join out ''patched-native-source''" "openvpn3 = path_join staging ''openvpn3''"
        "asio = path_join staging ''asio''" "asio_include = path_join asio ''asio/include''"
      and reset: "reset_step se staging fs = (Ok (), f1)"
      and client: "copy_step se (path_join (path_join manifest ''vendor/openvpn3'') ''client'') (path_join openvpn3 ''client'') f1 = (Ok (), f2)"
      and core: "copy_step se (path_join (path_join manifest ''vendor/openvpn3'') ''openvpn'') (path_join openvpn3 ''openvpn'') f2 = (Ok (), f3)"
      and patch1: "patch_step se openvpn3 openvpn3_patch f3 = (Ok (), f4)"
      and headers: "copy_step se (path_join manifest ''vendor/asio/asio/include'') asio_include f4 = (Ok (), f5)"
      and patch2: "patch_step se asio asio_patch f5 = (Ok (), fs')"
    by (rule stage_Ok [OF staged]) (rule that, assumption+)
  have copies: "f1 = without staging fs"
    "f2 = overlay (path_join openvpn3 ''client'') (se_tree se (path_join (path_join manifest ''vendor/openvpn3'') ''client'')) f1"
    "f3 = overlay (path_join openvpn3 ''openvpn'') (se_tree se (path_join (path_join manifest ''vendor/openvpn3'') ''openvpn'')) f2"
    "f5 = overlay asio_include (se_tree se (path_join manifest ''vendor/asio/asio/include'')) f4"
    by (rule reset_step_Ok [OF remove exists reset], assumption+)
       (rule copied [OF client] copied [OF core] copied [OF headers [unfolded eqs(4)], folded eqs(4)], simp)+
  from patch1 patch2 have patches: "apply_unified_patch (se_writable se) openvpn3 openvpn3_patch f3 = (Ok (), f4)"
    "apply_unified_patch (se_writable se) asio asio_patch f5 = (Ok (), fs')"
    by (simp_all only: patch_step_Ok)
  have trees: "no_failures se \<longrightarrow> (\<forall>d \<in> {path_join (path_join manifest ''vendor/openvpn3'') ''client'',
      path_join (path_join manifest ''vendor/openvpn3'') ''openvpn'', path_join manifest ''vendor/asio/asio/include''}. copyable (se_tree se d))"
    using fine [OF client] fine [OF core] fine [OF headers] by blast
  show ?thesis
    by (intro exI conjI, rule vars(1), rule vars(2), rule refl, rule eqs(1), rule eqs(2), rule eqs(3), rule eqs(4), rule present(1),
        rule present(2), rule patches(1) [unfolded copies(1-3)], rule patches(2) [unfolded copies(4)], rule trees)
qed

text \<open>A staging directory with a file of an earlier build, and sources with one file.\<close>

definition sample_build :: build_env where
  "sample_build = \<lparr>be_var = map_of [(''CARGO_MANIFEST_DIR'', ''/m''), (''OUT_DIR'', ''/o'')],
     be_is_file = (\<lambda>p. True), be_is_dir = (\<lambda>p. True), be_current_dir = ''/'', be_run = (\<lambda>program arguments. None)\<rparr>"

definition sample_staging :: staging_env where
  "sample_staging = \<lparr>se_tree = (\<lambda>d. Directory (if d = ''/m/vendor/openvpn3/client'' then [(''a'', File ''x'')] else [])),
     se_exists = (\<lambda>d fs. True), se_remove_dir_all = (\<lambda>d fs. (Ok (), without d fs)), se_create_dir_all = (\<lambda>d. None),
     se_copy = (\<lambda>s d. None), se_writable = (\<lambda>p. True)\<rparr>"

lemma apply_empty_patch: "apply_unified_patch writable root [] fs = (Ok (), fs)"
  by (simp add: apply_unified_patch_def split_str_def)

theorem staged_sources_exact_witness:
  "\<exists>fs'. prepare_native_sources sample_build sample_staging [] [] [''/o/patched-native-source/old'' \<mapsto> ''y''] =
       (Ok (''/o/patched-native-source/openvpn3'', ''/o/patched-native-source/asio/asio/include''), fs')
     \<and> fs' ''/o/patched-native-source/openvpn3/client/a'' = Some ''x'' \<and> fs' ''/o/patched-native-source/old'' = None"
proof -
  let ?fs = "[''/o/patched-native-source/old'' \<mapsto> ''y'']"
  have paths: "path_join ''/m'' ''vendor/openvpn3'' = ''/m/vendor/openvpn3''"
    "path_join ''/m/vendor/openvpn3'' ''client'' = ''/m/vendor/openvpn3/client''"
    "path_join ''/m/vendor/openvpn3'' ''openvpn'' = ''/m/vendor/openvpn3/openvpn''"
    "path_join ''/m'' ''vendor/asio/asio/include'' = ''/m/vendor/asio/asio/include''"
    "path_join ''/o'' ''patched-native-source'' = ''/o/patched-native-source''"
    "path_join ''/o/patched-native-source'' ''openvpn3'' = ''/o/patched-native-source/openvpn3''"
    "path_join ''/o/patched-native-source/openvpn3'' ''client'' = ''/o/patched-native-source/openvpn3/client''"
    "path_join ''/o/patched-native-source/openvpn3'' ''openvpn'' = ''/o/patched-native-source/openvpn3/openvpn''"
    "path_join ''/o/patched-native-source'' ''asio'' = ''/o/patched-native-source/asio''"
    "path_join ''/o/patched-native-source/asio'' ''asio/include'' = ''/o/patched-native-source/asio/asio/include''"
    by (simp_all add: path_join_def starts_with_slash ends_with_slash)
  obtain fs' where run: "prepare_native_sources sample_build sample_staging [] [] ?fs =
       (Ok (''/o/patched-native-source/openvpn3'', ''/o/patched-native-source/asio/asio/include''), fs')"
    by (simp add: prepare_native_sources_def require_var_def require_submodule_source_def stage_def reset_step_def
        copy_step_def copy_tree.simps patch_step_def apply_empty_patch sample_build_def sample_staging_def paths Let_def)
  have "fs' = overlay ''/o/patched-native-source/asio/asio/include'' (Directory [])
      (overlay ''/o/patched-native-source/openvpn3/openvpn'' (Directory [])
        (overlay ''/o/patched-native-source/openvpn3/client'' (Directory [(''a'', File ''x'')])
          (without ''/o/patched-native-source'' ?fs)))"
    using staged_sources_exact [OF _ _ _ run]
    by (simp add: sample_staging_def sample_build_def apply_empty_patch paths entry_name_def)
  then show ?thesis
    using run by (simp add: overlay_empty overlay_def without_def strip_prefix_def starts_with_def)
qed

end
