(* ===== verification/Platform_Build.thy ===== *)
theory Platform_Build
  imports Source_Staging
begin

text \<open>
  The rest of the build script: the target and its platform (\<open>build/platform/*.rs\<close>), dependency
  discovery, the CMake configuration and the link directives (\<open>build.rs\<close>).  The environment, the
  file system, and the tools \<open>cmake\<close>, \<open>xcrun\<close> and the target compiler are parameters; what the
  script prints for Cargo is a list of lines and a panic is an error value.
\<close>

section \<open>Targets and link modes\<close>

datatype link_mode = Static | Dynamic

definition detect :: "build_env \<Rightarrow> link_mode" where
  "detect env = (if be_var env ''CARGO_FEATURE_VENDOR'' \<noteq> None then Static else Dynamic)"

fun cmake_type :: "link_mode \<Rightarrow> string" where
  "cmake_type Static = ''STATIC''"
| "cmake_type Dynamic = ''SHARED''"

fun cargo_kind :: "link_mode \<Rightarrow> string" where
  "cargo_kind Static = ''static''"
| "cargo_kind Dynamic = ''dylib''"

record build_target =
  bt_triple :: string
  bt_host :: string
  bt_os :: string
  bt_environment :: string
  bt_arch :: string

text \<open>A panic carries its message.\<close>

definition from_env :: "build_env \<Rightarrow> build_target build" where
  "from_env env =
     and_then (require_var env ''TARGET'' ''Cargo must set TARGET'') (\<lambda>triple.
     and_then (require_var env ''HOST'' ''Cargo must set HOST'') (\<lambda>host.
     and_then (require_var env ''CARGO_CFG_TARGET_OS'' ''Cargo must set target OS'') (\<lambda>os.
     and_then (require_var env ''CARGO_CFG_TARGET_ARCH'' ''Cargo must set target architecture'') (\<lambda>arch.
       Ok \<lparr>bt_triple = triple, bt_host = host, bt_os = os,
           bt_environment = (case be_var env ''CARGO_CFG_TARGET_ENV'' of None \<Rightarrow> [] | Some v \<Rightarrow> v),
           bt_arch = arch\<rparr>))))"

definition is_host :: "build_target \<Rightarrow> bool" where
  "is_host target \<longleftrightarrow> bt_triple target = bt_host target"

definition unix_library_filename :: "link_mode \<Rightarrow> string" where
  "unix_library_filename mode = (case mode of Static \<Rightarrow> ''libopenvpn3_core.a'' | Dynamic \<Rightarrow> ''libopenvpn3_core.so'')"

definition apple_library_filename :: "link_mode \<Rightarrow> string" where
  "apple_library_filename mode = (case mode of Static \<Rightarrow> ''libopenvpn3_core.a'' | Dynamic \<Rightarrow> ''libopenvpn3_core.dylib'')"

definition link_lib :: "string \<Rightarrow> string" where
  "link_lib name = ''cargo:rustc-link-lib='' @ name"

definition emit_apple_static_link_libraries :: "bool \<Rightarrow> string list" where
  "emit_apple_static_link_libraries include_uikit =
     link_lib ''c++'' #
     map (\<lambda>framework. link_lib (''framework='' @ framework))
       [''CoreFoundation'', ''IOKit'', ''CoreServices'', ''SystemConfiguration''] @
     (if include_uikit then [link_lib ''framework=UIKit''] else [])"

definition warn_for_cross_target :: "build_target \<Rightarrow> string list" where
  "warn_for_cross_target target =
     (if is_host target then []
      else [''cargo:warning=building '' @ bt_triple target @
            '' requires a working Cargo/CMake cross compiler and target dependencies''])"

section \<open>The platforms\<close>

text \<open>
  A platform is a record of its trait methods.  \<open>pb_configure_cmake\<close> yields the definitions it
  adds and the lines it prints; \<open>pb_finish\<close> the files it copies.
\<close>

type_synonym cmake_vars = "(string \<times> string) list"

record platform_build =
  pb_configure_cmake :: "build_env \<Rightarrow> build_target \<Rightarrow> link_mode \<Rightarrow> (cmake_vars \<times> string list) build"
  pb_uses_tun_builder :: "build_target \<Rightarrow> bool"
  pb_library_filename :: "build_target \<Rightarrow> link_mode \<Rightarrow> string"
  pb_finish :: "build_env \<Rightarrow> string \<Rightarrow> build_target \<Rightarrow> (string \<times> string) list build"
  pb_supports_rpath :: "build_target \<Rightarrow> bool"
  pb_emit_static_link_libraries :: "build_target \<Rightarrow> string list"

text \<open>The default methods of the trait, with the two required ones as arguments.\<close>

definition default_platform ::
  "(build_target \<Rightarrow> link_mode \<Rightarrow> string) \<Rightarrow> (build_target \<Rightarrow> string list) \<Rightarrow> platform_build" where
  "default_platform filename static_libraries =
     \<lparr>pb_configure_cmake = (\<lambda>env target mode. Ok ([], warn_for_cross_target target)),
      pb_uses_tun_builder = (\<lambda>target. False), pb_library_filename = filename,
      pb_finish = (\<lambda>env lib_dir target. Ok []), pb_supports_rpath = (\<lambda>target. False),
      pb_emit_static_link_libraries = static_libraries\<rparr>"

subsection \<open>Linux, other Unix, macOS and Windows\<close>

definition Unix :: platform_build where
  "Unix = default_platform (\<lambda>target mode. unix_library_filename mode) (\<lambda>target. [link_lib ''stdc++'', link_lib ''pthread''])"

definition Linux :: platform_build where
  "Linux = (default_platform (\<lambda>target mode. unix_library_filename mode) (\<lambda>target. [link_lib ''stdc++'', link_lib ''pthread'']))
     \<lparr>pb_supports_rpath := (\<lambda>target. True)\<rparr>"

definition MacOs :: platform_build where
  "MacOs = (default_platform (\<lambda>target mode. apple_library_filename mode) (\<lambda>target. emit_apple_static_link_libraries False))
     \<lparr>pb_supports_rpath := (\<lambda>target. True)\<rparr>"

definition windows_library_filename :: "build_target \<Rightarrow> link_mode \<Rightarrow> string" where
  "windows_library_filename target mode =
     (if bt_environment target = ''msvc'' then ''openvpn3_core.lib''
      else case mode of Static \<Rightarrow> ''libopenvpn3_core.a'' | Dynamic \<Rightarrow> ''libopenvpn3_core.dll.a'')"

definition Windows :: platform_build where
  "Windows = default_platform windows_library_filename
     (\<lambda>target. map link_lib [''fwpuclnt'', ''iphlpapi'', ''wininet'', ''setupapi'', ''rpcrt4'', ''wtsapi32'', ''ws2_32'', ''wsock32''] @
        (if bt_environment target \<noteq> ''msvc'' then [link_lib ''stdc++'', link_lib ''winpthread''] else []))"

subsection \<open>Android\<close>

definition android_abi :: "string \<Rightarrow> string build" where
  "android_abi arch =
     (if arch = ''aarch64'' then Ok ''arm64-v8a''
      else if arch = ''arm'' then Ok ''armeabi-v7a''
      else if arch = ''x86_64'' then Ok ''x86_64''
      else if arch = ''x86'' then Ok ''x86''
      else Err (''unsupported Android architecture: '' @ arch))"

fun android_ndk_from :: "build_env \<Rightarrow> string list \<Rightarrow> string build" where
  "android_ndk_from env [] =
     Err ''Android NDK is not configured; set ANDROID_NDK_HOME, ANDROID_NDK_ROOT, or NDK_HOME''"
| "android_ndk_from env (variable # variables) =
     (case be_var env variable of
        None \<Rightarrow> android_ndk_from env variables
      | Some root \<Rightarrow>
          if be_is_file env (path_join root ''build/cmake/android.toolchain.cmake'') then Ok root
          else Err (variable @ ''='' @ root @ '' is not a complete Android NDK root''))"

definition android_ndk :: "build_env \<Rightarrow> string build" where
  "android_ndk env = android_ndk_from env [''ANDROID_NDK_HOME'', ''ANDROID_NDK_ROOT'', ''NDK_HOME'']"

definition Android :: platform_build where
  "Android =
     \<lparr>pb_configure_cmake = (\<lambda>env target mode.
        and_then (android_ndk env) (\<lambda>ndk.
        and_then (android_abi (bt_arch target)) (\<lambda>abi.
          Ok ([(''CMAKE_TOOLCHAIN_FILE'', path_join ndk ''build/cmake/android.toolchain.cmake''),
               (''ANDROID_ABI'', abi),
               (''ANDROID_PLATFORM'', case be_var env ''ANDROID_PLATFORM'' of None \<Rightarrow> ''android-24'' | Some v \<Rightarrow> v),
               (''ANDROID_STL'', if mode = Static then ''c++_static'' else ''c++_shared'')], [])))),
      pb_uses_tun_builder = (\<lambda>target. True),
      pb_library_filename = (\<lambda>target mode. unix_library_filename mode),
      pb_finish = (\<lambda>env lib_dir target. Ok []),
      pb_supports_rpath = (\<lambda>target. False),
      pb_emit_static_link_libraries = (\<lambda>target. [link_lib ''c++_static'', link_lib ''c++abi''])\<rparr>"

subsection \<open>iOS\<close>

definition apple_sdk :: "build_target \<Rightarrow> string" where
  "apple_sdk target =
     (if ends_with (bt_triple target) ''-ios-sim'' \<or> bt_arch target = ''x86_64'' then ''iphonesimulator'' else ''iphoneos'')"

definition apple_arch :: "string \<Rightarrow> string build" where
  "apple_arch arch =
     (if arch = ''aarch64'' then Ok ''arm64'' else if arch = ''x86_64'' then Ok ''x86_64''
      else Err (''unsupported Apple architecture: '' @ arch))"

definition tool_variables :: "string \<Rightarrow> string \<Rightarrow> string list" where
  "tool_variables tool target =
     [tool @ ''_'' @ target, tool @ ''_'' @ str_replace ''-'' ''_'' target, ''TARGET_'' @ tool, tool]"

definition target_tool_override :: "build_env \<Rightarrow> string \<Rightarrow> string \<Rightarrow> string option" where
  "target_tool_override env tool target =
     (case filter (\<lambda>variable. be_var env variable \<noteq> None) (tool_variables tool target) of
        [] \<Rightarrow> None
      | variable # _ \<Rightarrow> be_var env variable)"

definition xcrun_sdk_tool :: "build_env \<Rightarrow> string \<Rightarrow> string \<Rightarrow> string build" where
  "xcrun_sdk_tool env sdk tool =
     (case be_run env ''xcrun'' [''--sdk'', sdk, ''--find'', tool] of
        None \<Rightarrow> Err (''failed to invoke xcrun for '' @ sdk @ '' '' @ tool)
      | Some (success, output) \<Rightarrow>
          if \<not> success then Err (''xcrun could not locate '' @ tool @ '' in the '' @ sdk @ '' SDK'')
          else if \<not> utf8_valid output then Err ''xcrun returned a non-UTF-8 tool path''
          else if \<not> be_is_file env (trim output) then Err (''xcrun returned a missing '' @ tool @ '' path: '' @ trim output)
          else Ok (trim output))"

definition tool_or_xcrun :: "build_env \<Rightarrow> build_target \<Rightarrow> string \<Rightarrow> string \<Rightarrow> string build" where
  "tool_or_xcrun env target variable tool =
     (case target_tool_override env variable (bt_triple target) of
        Some path \<Rightarrow> Ok path
      | None \<Rightarrow> xcrun_sdk_tool env (apple_sdk target) tool)"

definition Ios :: platform_build where
  "Ios =
     \<lparr>pb_configure_cmake = (\<lambda>env target mode.
        and_then (tool_or_xcrun env target ''CC'' ''clang'') (\<lambda>c_compiler.
        and_then (tool_or_xcrun env target ''CXX'' ''clang++'') (\<lambda>cxx_compiler.
        and_then (apple_arch (bt_arch target)) (\<lambda>arch.
          Ok ([(''CMAKE_SYSTEM_NAME'', ''iOS''), (''CMAKE_OSX_ARCHITECTURES'', arch),
               (''CMAKE_OSX_SYSROOT'', apple_sdk target), (''CMAKE_C_COMPILER'', c_compiler),
               (''CMAKE_CXX_COMPILER'', cxx_compiler), (''CMAKE_OBJCXX_COMPILER'', cxx_compiler)] @
              (case be_var env ''IPHONEOS_DEPLOYMENT_TARGET'' of
                 None \<Rightarrow> [] | Some version \<Rightarrow> [(''CMAKE_OSX_DEPLOYMENT_TARGET'', version)]), []))))),
      pb_uses_tun_builder = (\<lambda>target. True),
      pb_library_filename = (\<lambda>target mode. apple_library_filename mode),
      pb_finish = (\<lambda>env lib_dir target. Ok []),
      pb_supports_rpath = (\<lambda>target. False),
      pb_emit_static_link_libraries = (\<lambda>target. emit_apple_static_link_libraries True)\<rparr>"

subsection \<open>OpenHarmony\<close>

definition SDK_NATIVE_ENV :: string where
  "SDK_NATIVE_ENV = ''OHOS_SDK_NATIVE''"

definition sdk_candidate :: "build_env \<Rightarrow> (string \<times> string) build" where
  "sdk_candidate env =
     (case be_var env SDK_NATIVE_ENV of
        Some path \<Rightarrow> Ok (path, SDK_NATIVE_ENV)
      | None \<Rightarrow>
          (case be_var env ''OHOS_NDK_HOME'' of
             Some root \<Rightarrow>
               (let native = path_join root ''native''
                in Ok (if be_is_dir env (path_join native ''sysroot'') then native else root, ''OHOS_NDK_HOME''))
           | None \<Rightarrow> Err (''OpenHarmony Native SDK is not configured; set '' @ SDK_NATIVE_ENV @ '' or OHOS_NDK_HOME'')))"

definition sdk_native :: "build_env \<Rightarrow> string build" where
  "sdk_native env =
     and_then (sdk_candidate env) (\<lambda>(candidate, source).
       if be_is_dir env (path_join candidate ''sysroot'')
          \<and> be_is_file env (path_join candidate ''build/cmake/ohos.toolchain.cmake'')
       then Ok candidate
       else Err (source @ ''='' @ candidate @ '' is not a complete OpenHarmony Native SDK root''))"

definition ohos_arch :: "string \<Rightarrow> string build" where
  "ohos_arch arch =
     (if arch = ''aarch64'' then Ok ''arm64-v8a'' else if arch = ''arm'' then Ok ''armeabi-v7a''
      else if arch = ''x86_64'' then Ok ''x86_64''
      else Err (''unsupported OpenHarmony architecture: '' @ arch))"

definition target_c_compiler :: "build_target \<Rightarrow> string \<Rightarrow> string build" where
  "target_c_compiler target sdk =
     (if bt_arch target = ''aarch64'' then Ok (path_join sdk ''llvm/bin/aarch64-unknown-linux-ohos-clang'')
      else if bt_arch target = ''arm'' then Ok (path_join sdk ''llvm/bin/armv7-unknown-linux-ohos-clang'')
      else if bt_arch target = ''x86_64'' then Ok (path_join sdk ''llvm/bin/x86_64-unknown-linux-ohos-clang'')
      else Err (''unsupported OpenHarmony compiler architecture: '' @ bt_arch target))"

definition install_atomic_compatibility_archive ::
  "build_env \<Rightarrow> string \<Rightarrow> build_target \<Rightarrow> (string \<times> string) list build" where
  "install_atomic_compatibility_archive env lib_dir target =
     and_then (sdk_native env) (\<lambda>sdk.
     and_then (target_c_compiler target sdk) (\<lambda>compiler.
       case be_run env compiler [''-print-libgcc-file-name''] of
         None \<Rightarrow> Err (''failed to query '' @ compiler)
       | Some (success, output) \<Rightarrow>
           if \<not> success then Err (compiler @ '' could not locate its compiler runtime'')
           else if \<not> utf8_valid output then Err ''target compiler returned a non-UTF-8 runtime path''
           else if \<not> be_is_file env (trim output)
           then Err (''target compiler runtime does not exist: '' @ trim output)
           else Ok [(trim output, path_join lib_dir ''libatomic.a'')]))"

definition OpenHarmony :: platform_build where
  "OpenHarmony =
     \<lparr>pb_configure_cmake = (\<lambda>env target mode.
        and_then (sdk_native env) (\<lambda>sdk.
        and_then (ohos_arch (bt_arch target)) (\<lambda>arch.
          Ok ([(''CMAKE_TOOLCHAIN_FILE'', path_join sdk ''build/cmake/ohos.toolchain.cmake''), (''OHOS_ARCH'', arch),
               (''OHOS_STL'', if mode = Static then ''c++_static'' else ''c++_shared'')], [])))),
      pb_uses_tun_builder = (\<lambda>target. True),
      pb_library_filename = (\<lambda>target mode. unix_library_filename mode),
      pb_finish = (\<lambda>env lib_dir target.
        if bt_arch target = ''arm'' then install_atomic_compatibility_archive env lib_dir target else Ok []),
      pb_supports_rpath = (\<lambda>target. True),
      pb_emit_static_link_libraries = (\<lambda>target. map link_lib [''c++_static'', ''c++abi'', ''unwind'', ''pthread''])\<rparr>"

definition for_target :: "build_target \<Rightarrow> platform_build" where
  "for_target target =
     (if bt_environment target = ''ohos'' then OpenHarmony
      else if bt_os target = ''android'' then Android
      else if bt_os target = ''ios'' then Ios
      else if bt_os target = ''linux'' then Linux
      else if bt_os target = ''macos'' then MacOs
      else if bt_os target = ''windows'' then Windows
      else Unix)"

section \<open>Dependencies\<close>

record dependency_paths =
  dp_asio_include :: string
  dp_lz4_include :: string
  dp_lz4_lib :: "string option"

definition absolute :: "build_env \<Rightarrow> string \<Rightarrow> string" where
  "absolute env path = (if starts_with path ''/'' then path else path_join (be_current_dir env) path)"

definition assert_header :: "build_env \<Rightarrow> string \<Rightarrow> string \<Rightarrow> string \<Rightarrow> unit build" where
  "assert_header env prefix header env_var =
     (if be_is_file env (path_join (path_join prefix ''include'') header) then Ok ()
      else Err (env_var @ ''='' @ prefix @ '' does not contain include/'' @ header))"

definition dependency_prefix_override :: "build_env \<Rightarrow> string \<Rightarrow> string \<Rightarrow> string option build" where
  "dependency_prefix_override env env_var header =
     (case be_var env env_var of
        None \<Rightarrow> Ok None
      | Some prefix \<Rightarrow> and_then (assert_header env prefix header env_var) (\<lambda>_. Ok (Some prefix)))"

definition cargo_metadata_path :: "build_env \<Rightarrow> string \<Rightarrow> string \<Rightarrow> string build" where
  "cargo_metadata_path env variable dependency =
     require_var env variable (''Cargo did not provide '' @ variable @ '' from '' @ dependency @
       ''; the `vendor` feature requires its source-built native metadata'')"

text \<open>The Homebrew candidates in the order of the two nested loops.\<close>

definition homebrew_prefixes :: "string list \<Rightarrow> string list" where
  "homebrew_prefixes mac_formulae =
     concat (map (\<lambda>root. map (path_join root) mac_formulae) [''/opt/homebrew/opt'', ''/usr/local/opt''])"

definition dependency_prefix ::
  "build_env \<Rightarrow> string \<Rightarrow> string \<Rightarrow> string \<Rightarrow> bool \<Rightarrow> string list \<Rightarrow> string build" where
  "dependency_prefix env env_var header target_os host_build mac_formulae =
     and_then (dependency_prefix_override env env_var header) (\<lambda>override.
       case override of
         Some prefix \<Rightarrow> Ok prefix
       | None \<Rightarrow>
           (case find (\<lambda>prefix. be_is_file env (path_join (path_join prefix ''include'') header))
                   ((if host_build \<and> (target_os = ''macos'' \<or> target_os = ''ios'') then homebrew_prefixes mac_formulae else []) @
                    (if host_build then [''/usr''] else [])) of
              Some prefix \<Rightarrow> Ok prefix
            | None \<Rightarrow> Err (''could not find '' @ header @ '' for '' @ target_os @
                ''; install its development package, set '' @ env_var @
                '' to the target dependency prefix, or enable the `vendor` feature'')))"

definition library_dir :: "build_env \<Rightarrow> string \<Rightarrow> string option" where
  "library_dir env prefix = find (be_is_dir env) [path_join prefix ''lib'', path_join prefix ''lib64'']"

definition library_dir_or_root :: "build_env \<Rightarrow> string \<Rightarrow> string option" where
  "library_dir_or_root env prefix =
     (case library_dir env prefix of
        Some path \<Rightarrow> Some path
      | None \<Rightarrow> if be_is_dir env prefix then Some prefix else None)"

definition vendored :: "build_env \<Rightarrow> string \<Rightarrow> dependency_paths build" where
  "vendored env patched_asio_include =
     and_then (cargo_metadata_path env ''DEP_LZ4_INCLUDE'' ''lz4-sys'') (\<lambda>lz4_include.
     and_then (cargo_metadata_path env ''DEP_LZ4_ROOT'' ''lz4-sys'') (\<lambda>lz4_root.
       Ok \<lparr>dp_asio_include = absolute env patched_asio_include, dp_lz4_include = absolute env lz4_include,
           dp_lz4_lib = map_option (absolute env) (library_dir_or_root env lz4_root)\<rparr>))"

definition discover :: "build_env \<Rightarrow> string \<Rightarrow> bool \<Rightarrow> link_mode \<Rightarrow> string \<Rightarrow> dependency_paths build" where
  "discover env target_os host_build mode patched_asio_include =
     (if mode = Static then vendored env patched_asio_include
      else
        and_then (dependency_prefix_override env ''OPENVPN3_ASIO_DIR'' ''asio.hpp'') (\<lambda>override.
        and_then (dependency_prefix env ''OPENVPN3_LZ4_DIR'' ''lz4.h'' target_os host_build [''lz4'', ''lz4'']) (\<lambda>lz4.
          Ok \<lparr>dp_asio_include = absolute env (case override of
                None \<Rightarrow> patched_asio_include | Some prefix \<Rightarrow> path_join prefix ''include''),
              dp_lz4_include = absolute env (path_join lz4 ''include''),
              dp_lz4_lib = map_option (absolute env) (library_dir env lz4)\<rparr>)))"

section \<open>Compiling and linking\<close>

record native_features =
  nf_dco :: bool
  nf_external_transport :: bool
  nf_external_tun :: bool

definition on_off :: "bool \<Rightarrow> string" where
  "on_off b = (if b then ''ON'' else ''OFF'')"

definition cmake_defines ::
  "build_target \<Rightarrow> platform_build \<Rightarrow> link_mode \<Rightarrow> native_features \<Rightarrow> dependency_paths \<Rightarrow> string \<Rightarrow> cmake_vars" where
  "cmake_defines target platform mode features dependencies openvpn3_source =
     [(''OPENVPN_CONNECT_LIBRARY_TYPE'', cmake_type mode),
      (''OPENVPN_CONNECT_OPENVPN3_DIR'', openvpn3_source),
      (''OPENVPN_CONNECT_ASIO_INCLUDE'', dp_asio_include dependencies),
      (''OPENVPN_CONNECT_LZ4_INCLUDE'', dp_lz4_include dependencies),
      (''OPENVPN_CONNECT_FORCE_NULL_TUN'', ''OFF''),
      (''OPENVPN_CONNECT_ENABLE_DCO'', on_off (nf_dco features)),
      (''OPENVPN_CONNECT_EXTERNAL_TRANSPORT'', on_off (nf_external_transport features)),
      (''OPENVPN_CONNECT_EXTERNAL_TUN'', on_off (nf_external_tun features)),
      (''OPENVPN_CONNECT_USE_TUN_BUILDER'', on_off (pb_uses_tun_builder platform target))] @
     (case dp_lz4_lib dependencies of None \<Rightarrow> [] | Some path \<Rightarrow> [(''OPENVPN_CONNECT_LZ4_LIBRARY_DIR'', path)])"

record native_library =
  nl_lib_dir :: string
  nl_runtime_dir :: "string option"
  nl_library_file :: string

text \<open>
  \<open>compile_openvpn\<close>: \<open>cmake\<close> is the build with a list of definitions, which yields the
  destination directory.  The result is the library, the lines printed and the copies made.
\<close>

definition compile_openvpn ::
  "build_env \<Rightarrow> (cmake_vars \<Rightarrow> string build) \<Rightarrow> build_target \<Rightarrow> platform_build \<Rightarrow> link_mode \<Rightarrow> native_features \<Rightarrow> dependency_paths
     \<Rightarrow> string \<Rightarrow> (native_library \<times> string list \<times> (string \<times> string) list) build" where
  "compile_openvpn env cmake target platform mode features dependencies openvpn3_source =
     and_then (pb_configure_cmake platform env target mode) (\<lambda>(defs, lines).
     and_then (cmake (cmake_defines target platform mode features dependencies openvpn3_source @ defs)) (\<lambda>destination.
       let lib_dir = path_join destination ''lib''
       in and_then (pb_finish platform env lib_dir target) (\<lambda>copies.
          let runtime = path_join destination ''bin'';
              library_file = path_join lib_dir (pb_library_filename platform target mode)
          in if \<not> be_is_file env library_file then Err (''CMake completed but did not produce '' @ library_file)
             else Ok (\<lparr>nl_lib_dir = lib_dir, nl_runtime_dir = (if be_is_dir env runtime then Some runtime else None),
                       nl_library_file = library_file\<rparr>, lines, copies))))"

definition emit_rpath :: "string \<Rightarrow> string" where
  "emit_rpath path = ''cargo:rustc-link-arg=-Wl,-rpath,'' @ path"

definition emit_native_link :: "native_library \<Rightarrow> build_target \<Rightarrow> platform_build \<Rightarrow> link_mode \<Rightarrow> string list" where
  "emit_native_link native target platform mode =
     [''cargo:rustc-link-search=native='' @ nl_lib_dir native,
      ''cargo:rustc-link-lib='' @ cargo_kind mode @ ''=openvpn3_core''] @
     (if mode = Dynamic then
        (if pb_supports_rpath platform target then
           emit_rpath (nl_lib_dir native) #
           (case nl_runtime_dir native of None \<Rightarrow> [] | Some runtime \<Rightarrow> [emit_rpath runtime])
         else [])
      else pb_emit_static_link_libraries platform target)"

definition emit_discovered_dependency_paths :: "dependency_paths \<Rightarrow> string list" where
  "emit_discovered_dependency_paths dependencies =
     (case dp_lz4_lib dependencies of None \<Rightarrow> [] | Some path \<Rightarrow> [''cargo:rustc-link-search=native='' @ path])"

definition emit_target_tool_rerun_rules :: "string \<Rightarrow> string list" where
  "emit_target_tool_rerun_rules target =
     concat (map (\<lambda>tool. map (\<lambda>variable. ''cargo:rerun-if-env-changed='' @ variable) (tool_variables tool target))
       [''CC'', ''CXX''])"

definition emit_rerun_rules :: "string list" where
  "emit_rerun_rules =
     map (\<lambda>path. ''cargo:rerun-if-changed='' @ path)
       [''build/platform'', ''CMakeLists.txt'', ''src/wrapper.h'', ''src/bridge.cpp'', ''patches/openvpn3.patch'',
        ''patches/asio.patch'', ''vendor/asio/asio/include'', ''vendor/openvpn3/client'', ''vendor/openvpn3/openvpn''] @
     map (\<lambda>variable. ''cargo:rerun-if-env-changed='' @ variable) [''OPENVPN3_ASIO_DIR'', ''OPENVPN3_LZ4_DIR''] @
     map (\<lambda>variable. ''cargo:rerun-if-env-changed='' @ variable)
       [''OHOS_NDK_HOME'', SDK_NATIVE_ENV, ''ANDROID_NDK_HOME'', ''ANDROID_NDK_ROOT'', ''NDK_HOME'', ''ANDROID_PLATFORM'',
        ''DEVELOPER_DIR'', ''SDKROOT'', ''IPHONEOS_DEPLOYMENT_TARGET'', ''DEP_LZ4_INCLUDE'', ''DEP_LZ4_ROOT'']"

definition features_of :: "build_env \<Rightarrow> native_features" where
  "features_of env =
     \<lparr>nf_dco = (be_var env ''CARGO_FEATURE_DCO'' \<noteq> None),
      nf_external_transport = (be_var env ''CARGO_FEATURE_EXTERNAL_TRANSPORT'' \<noteq> None),
      nf_external_tun = (be_var env ''CARGO_FEATURE_EXTERNAL_TUN'' \<noteq> None)\<rparr>"

text \<open>The tools: \<open>bindgen\<close>, the file it writes, and the CMake build of the staged sources.\<close>

record build_tools =
  bl_bindgen :: "string option"
  bl_write_to_file :: "string \<Rightarrow> string \<Rightarrow> bool"
  bl_cmake :: "files \<Rightarrow> cmake_vars \<Rightarrow> string build"

definition generate_bindings :: "build_env \<Rightarrow> build_tools \<Rightarrow> unit build" where
  "generate_bindings env tools =
     (case bl_bindgen tools of
        None \<Rightarrow> Err ''failed to generate OpenVPN C ABI bindings; is libclang installed?''
      | Some bindings \<Rightarrow>
          and_then (require_var env ''OUT_DIR'' ''Cargo must set OUT_DIR'') (\<lambda>out.
            if bl_write_to_file tools (path_join out ''bindings.rs'') bindings then Ok ()
            else Err ''failed to write generated OpenVPN bindings''))"

text \<open>\<open>main\<close>: the lines for Cargo in the order they are printed.\<close>

definition build_main ::
  "build_env \<Rightarrow> staging_env \<Rightarrow> build_tools \<Rightarrow> string \<Rightarrow> string \<Rightarrow> files \<Rightarrow> string list build" where
  "build_main env se tools openvpn3_patch asio_patch fs =
     and_then (generate_bindings env tools) (\<lambda>_.
     case prepare_native_sources env se openvpn3_patch asio_patch fs of
       (Inl e, _) \<Rightarrow> Err e
     | (Inr (openvpn3, asio_include), staged) \<Rightarrow>
         and_then (from_env env) (\<lambda>target.
         let platform = for_target target; mode = detect env
         in and_then (discover env (bt_os target) (is_host target) mode asio_include) (\<lambda>dependencies.
            and_then (compile_openvpn env (bl_cmake tools staged) target platform mode (features_of env) dependencies openvpn3)
              (\<lambda>(native, lines, copies).
                Ok (emit_rerun_rules @ emit_target_tool_rerun_rules (bt_triple target) @ lines @
                    emit_discovered_dependency_paths dependencies @ emit_native_link native target platform mode)))))"

section \<open>What every platform promises\<close>

lemma starts_with_simps [simp]:
  "starts_with s []" "\<not> starts_with [] (d # p)" "starts_with (c # s) (d # p) \<longleftrightarrow> c = d \<and> starts_with s p"
  by (simp_all add: starts_with_def)

lemma starts_with_trans: "starts_with p q \<Longrightarrow> starts_with s p \<Longrightarrow> starts_with s q"
  by (auto simp: starts_with_iff)

abbreviation ours :: "string \<Rightarrow> bool" where
  "ours key \<equiv> starts_with key ''OPENVPN_CONNECT_''"

locale linkable_platform =
  fixes pf :: platform_build
  assumes static_directives:
      "list_all (\<lambda>l. starts_with l ''cargo:rustc-link-lib='') (pb_emit_static_link_libraries pf target)"
    and static_libraries_given: "pb_emit_static_link_libraries pf target \<noteq> []"
    and configure_directives:
      "pb_configure_cmake pf env target mode = Ok (defs, lines) \<Longrightarrow> list_all (\<lambda>l. starts_with l ''cargo:warning='') lines"
    and own_definitions: "pb_configure_cmake pf env target mode = Ok (defs, lines) \<Longrightarrow> list_all (\<lambda>d. \<not> ours (fst d)) defs"
    and static_archive:
      "ends_with (pb_library_filename pf target Static) ''.a'' \<or> ends_with (pb_library_filename pf target Static) ''.lib''"
begin

lemma link_directives: "list_all (\<lambda>l. starts_with l ''cargo:'') (emit_native_link native target pf mode)"
proof -
  have "list_all (\<lambda>l. starts_with l ''cargo:'') (pb_emit_static_link_libraries pf target)"
    using static_directives [of target] starts_with_trans [of "''cargo:rustc-link-lib=''" "''cargo:''"]
    by (auto simp: list_all_iff)
  then show ?thesis by (auto simp: emit_native_link_def emit_rpath_def split: option.splits)
qed

lemma static_link_has_no_arguments:
  "list_all (\<lambda>l. \<not> starts_with l ''cargo:rustc-link-arg='') (emit_native_link native target pf Static)"
proof -
  have "\<not> starts_with l ''cargo:rustc-link-arg=''" if "starts_with l ''cargo:rustc-link-lib=''" for l
    using that by (auto simp: starts_with_iff)
  then show ?thesis using static_directives [of target] by (auto simp: emit_native_link_def list_all_iff)
qed

lemma script_definitions_stand:
  assumes "pb_configure_cmake pf env target mode = Ok (defs, lines)" "ours key"
  shows "filter (\<lambda>d. fst d = key) (base @ defs) = filter (\<lambda>d. fst d = key) base"
  using own_definitions [OF assms(1)] assms(2) by (auto simp: list_all_iff filter_empty_conv)

end

lemma link_lib_directive [simp]: "starts_with (link_lib name) ''cargo:rustc-link-lib=''"
  by (simp add: link_lib_def)

lemma warn_directives: "list_all (\<lambda>l. starts_with l ''cargo:warning='') (warn_for_cross_target target)"
  by (simp add: warn_for_cross_target_def)

lemma default_platform_linkable:
  assumes "\<And>target. list_all (\<lambda>l. starts_with l ''cargo:rustc-link-lib='') (libs target)" "\<And>target. libs target \<noteq> []"
    and "\<And>target. ends_with (filename target Static) ''.a'' \<or> ends_with (filename target Static) ''.lib''"
  shows "linkable_platform (default_platform filename libs)"
    and "linkable_platform ((default_platform filename libs)\<lparr>pb_supports_rpath := rpath\<rparr>)"
  using assms by (unfold_locales; auto simp: default_platform_def warn_directives)+

lemma archive_names:
  "ends_with (unix_library_filename Static) ''.a''" "ends_with (apple_library_filename Static) ''.a''"
  "ends_with (windows_library_filename target Static) ''.a'' \<or> ends_with (windows_library_filename target Static) ''.lib''"
  by (simp_all add: unix_library_filename_def apple_library_filename_def windows_library_filename_def ends_with_def)

lemma apple_directives:
  "list_all (\<lambda>l. starts_with l ''cargo:rustc-link-lib='') (emit_apple_static_link_libraries b)"
  "emit_apple_static_link_libraries b \<noteq> []"
  by (simp_all add: emit_apple_static_link_libraries_def list_all_iff)

interpretation unix: linkable_platform Unix
  unfolding Unix_def by (rule default_platform_linkable) (simp_all add: archive_names)

interpretation linux: linkable_platform Linux
  unfolding Linux_def by (rule default_platform_linkable) (simp_all add: archive_names)

interpretation macos: linkable_platform MacOs
  unfolding MacOs_def by (rule default_platform_linkable) (simp_all add: archive_names apple_directives)

interpretation windows: linkable_platform Windows
  unfolding Windows_def by (rule default_platform_linkable) (simp_all add: archive_names)

interpretation android: linkable_platform Android
  by unfold_locales (auto simp: Android_def archive_names and_then_Ok_iff)

interpretation ios: linkable_platform Ios
  by unfold_locales (auto simp: Ios_def archive_names apple_directives and_then_Ok_iff split: option.splits)

interpretation openharmony: linkable_platform OpenHarmony
  by unfold_locales (auto simp: OpenHarmony_def archive_names and_then_Ok_iff)

lemma for_target_linkable: "linkable_platform (for_target target)"
  unfolding for_target_def
  by (simp add: unix.linkable_platform_axioms linux.linkable_platform_axioms macos.linkable_platform_axioms
      windows.linkable_platform_axioms android.linkable_platform_axioms ios.linkable_platform_axioms
      openharmony.linkable_platform_axioms)

section \<open>The whole build\<close>

lemma absolute_path_join: "starts_with d ''/'' \<Longrightarrow> starts_with (path_join d p) ''/''"
  by (auto simp: path_join_def starts_with_iff)

lemma absolute_is_absolute: "starts_with (be_current_dir env) ''/'' \<Longrightarrow> starts_with (absolute env p) ''/''"
  by (simp add: absolute_def absolute_path_join)

lemma discover_absolute:
  assumes "discover env os host mode asio = Ok deps" "starts_with (be_current_dir env) ''/''"
  shows "starts_with (dp_asio_include deps) ''/''" "starts_with (dp_lz4_include deps) ''/''"
    "dp_lz4_lib deps = Some path \<Longrightarrow> starts_with path ''/''"
  using assms
  by (auto simp: discover_def vendored_def and_then_Ok_iff absolute_is_absolute split: if_splits)

lemma rerun_directives:
  "list_all (\<lambda>l. starts_with l ''cargo:rerun-if-'') emit_rerun_rules"
  "list_all (\<lambda>l. starts_with l ''cargo:rerun-if-'') (emit_target_tool_rerun_rules triple)"
  by (simp_all add: emit_rerun_rules_def emit_target_tool_rerun_rules_def tool_variables_def)

lemma directive_kinds:
  "starts_with l ''cargo:rerun-if-'' \<or> starts_with l ''cargo:warning='' \<or> starts_with l ''cargo:rustc-link-search=native='' \<Longrightarrow>
     starts_with l ''cargo:'' \<and> \<not> starts_with l ''cargo:rustc-link-arg=''"
  by (auto simp: starts_with_iff)

lemma compile_openvpn_Ok:
  assumes "compile_openvpn env cmake target pf mode features deps src = Ok (native, lines, copies)"
  shows "\<exists>defs dest. pb_configure_cmake pf env target mode = Ok (defs, lines)
           \<and> cmake (cmake_defines target pf mode features deps src @ defs) = Ok dest
           \<and> nl_lib_dir native = path_join dest ''lib''
           \<and> be_is_file env (path_join (nl_lib_dir native) (pb_library_filename pf target mode))"
  using assms by (auto simp: compile_openvpn_def and_then_Ok_iff Let_def split: if_splits prod.splits)

text \<open>The lines of a build, and the definitions given to CMake.\<close>

lemma script_lines:
  assumes "list_all (\<lambda>l. starts_with l ''cargo:warning='') lines"
  shows "list_all (\<lambda>l. starts_with l ''cargo:'' \<and> \<not> starts_with l ''cargo:rustc-link-arg='')
           (emit_rerun_rules @ emit_target_tool_rerun_rules triple @ lines @ emit_discovered_dependency_paths deps)"
  using assms rerun_directives(1) rerun_directives(2) [of triple] directive_kinds
  by (auto simp: list_all_iff emit_discovered_dependency_paths_def split: option.splits)

lemma script_definition:
  "filter (\<lambda>d. fst d = ''OPENVPN_CONNECT_LIBRARY_TYPE'') (cmake_defines target pf mode features deps src) =
     [(''OPENVPN_CONNECT_LIBRARY_TYPE'', cmake_type mode)]"
  "filter (\<lambda>d. fst d = ''OPENVPN_CONNECT_OPENVPN3_DIR'') (cmake_defines target pf mode features deps src) =
     [(''OPENVPN_CONNECT_OPENVPN3_DIR'', src)]"
  by (simp_all add: cmake_defines_def split: option.splits)


text \<open>A Linux host that builds the vendored library.\<close>

definition sample_env :: build_env where
  "sample_env = \<lparr>be_var = map_of [(''TARGET'', ''t''), (''HOST'', ''t''), (''CARGO_CFG_TARGET_OS'', ''linux''),
       (''CARGO_CFG_TARGET_ARCH'', ''x86_64''), (''CARGO_FEATURE_VENDOR'', ''1''),
       (''DEP_LZ4_INCLUDE'', ''/l''), (''DEP_LZ4_ROOT'', ''/l''), (''CARGO_MANIFEST_DIR'', ''/m''), (''OUT_DIR'', ''/o'')],
     be_is_file = (\<lambda>p. True), be_is_dir = (\<lambda>p. False), be_current_dir = ''/'',
     be_run = (\<lambda>program arguments. None)\<rparr>"

definition sample_tools :: build_tools where
  "sample_tools = \<lparr>bl_bindgen = Some [], bl_write_to_file = (\<lambda>p t. True), bl_cmake = (\<lambda>fs defs. Ok ''/o'')\<rparr>"

lemma sample_prepare: "\<exists>a b fs'. prepare_native_sources sample_env sample_staging [] [] Map.empty = (Ok (a, b), fs')"
  by (simp add: prepare_native_sources_def require_var_def require_submodule_source_def stage_def reset_step_def copy_step_def
      copy_tree.simps patch_step_def apply_empty_patch sample_env_def sample_staging_def Let_def)


end
