(* ===== verification/Xtask.thy ===== *)
theory Xtask
  imports Build_Patch
begin

text \<open>
  The packaging task (\<open>xtask/src/main.rs\<close>): it checks the pinned submodules, packages the sys
  crate, audits the archive and lists the upper crate.  Running a command is a parameter; a run
  keeps a log of the commands with what they returned.
\<close>

section \<open>Commands\<close>

record command =
  cm_program :: string
  cm_args :: "string list"
  cm_dir :: "string option"

text \<open>A command could not be started, or it ended with a status and an output.\<close>

type_synonym command_output = "(bool \<times> string, string) result"

record 'w xstate =
  xs_world :: 'w
  xs_log :: "(command \<times> command_output) list"

record 'w xtask_env =
  xe_run :: "command \<Rightarrow> 'w \<Rightarrow> command_output \<times> 'w"
  xe_read_to_string :: "string \<Rightarrow> (string, string) result"
  xe_workspace_root :: "string option"

definition run_logged :: "'w xtask_env \<Rightarrow> command \<Rightarrow> 'w xstate \<Rightarrow> command_output \<times> 'w xstate" where
  "run_logged env cmd st =
     (case xe_run env cmd (xs_world st) of (out, w) \<Rightarrow>
        (out, st\<lparr>xs_world := w, xs_log := xs_log st @ [(cmd, out)]\<rparr>))"

section \<open>The constants\<close>

definition REQUIRED_SYS_SOURCES :: "string list" where
  "REQUIRED_SYS_SOURCES =
     [''CMakeLists.txt'', ''build.rs'', ''build/platform/android.rs'', ''build/platform/ios.rs'',
      ''build/platform/linux.rs'', ''build/platform/macos.rs'', ''build/platform/mod.rs'', ''build/platform/ohos.rs'',
      ''build/platform/unix.rs'', ''build/platform/windows.rs'', ''src/bridge.cpp'', ''src/lib.rs'', ''src/wrapper.h'',
      ''patches/asio.patch'', ''patches/openvpn3.patch'', ''vendor/asio/asio/include/asio.hpp'',
      ''vendor/asio/asio/LICENSE_1_0.txt'', ''vendor/openvpn3/client/ovpncli.cpp'',
      ''vendor/openvpn3/client/ovpncli.hpp'', ''vendor/openvpn3/LICENSE.md'']"

definition SUBMODULES :: "(string \<times> string) list" where
  "SUBMODULES =
     [(''openvpn-connect-sys/vendor/openvpn3'', ''18edfae7e7fd8051c93bd4746ec69be91eb02dbb''),
      (''openvpn-connect-sys/vendor/asio'', ''147f7225a96d45a2807a64e443177f621844e51c'')]"

section \<open>The steps\<close>

definition rev_parse :: "string \<Rightarrow> string \<Rightarrow> command" where
  "rev_parse workspace relative =
     \<lparr>cm_program = ''git'', cm_args = [''-C'', path_join workspace relative, ''rev-parse'', ''HEAD''], cm_dir = None\<rparr>"

fun verify_submodules_from ::
  "'w xtask_env \<Rightarrow> string \<Rightarrow> (string \<times> string) list \<Rightarrow> 'w xstate \<Rightarrow> (unit, string) result \<times> 'w xstate" where
  "verify_submodules_from env workspace [] st = (Ok (), st)"
| "verify_submodules_from env workspace ((relative, expected) # modules) st =
     (case run_logged env (rev_parse workspace relative) st of
        (Inl e, st) \<Rightarrow> (Err (''failed to inspect submodule '' @ relative @ '': '' @ e), st)
      | (Inr (success, output), st) \<Rightarrow>
          if \<not> success
          then (Err (''submodule '' @ relative @ '' is missing; run `git submodule update --init --recursive`''), st)
          else if trim (from_utf8_lossy output) \<noteq> expected
          then (Err (''submodule '' @ relative @ '' is at '' @ trim (from_utf8_lossy output) @ '', expected '' @ expected), st)
          else verify_submodules_from env workspace modules st)"

definition verify_submodules :: "'w xtask_env \<Rightarrow> string \<Rightarrow> 'w xstate \<Rightarrow> (unit, string) result \<times> 'w xstate" where
  "verify_submodules env workspace st = verify_submodules_from env workspace SUBMODULES st"

definition list_command :: "string \<Rightarrow> bool \<Rightarrow> command" where
  "list_command workspace allow_dirty =
     \<lparr>cm_program = ''cargo'', cm_args = [''package'', ''--package'', ''openvpn-connect'', ''--list''] @
        (if allow_dirty then [''--allow-dirty''] else []), cm_dir = Some workspace\<rparr>"

definition list_upper_crate :: "'w xtask_env \<Rightarrow> string \<Rightarrow> bool \<Rightarrow> 'w xstate \<Rightarrow> (unit, string) result \<times> 'w xstate" where
  "list_upper_crate env workspace allow_dirty st =
     (case run_logged env (list_command workspace allow_dirty) st of
        (Inl e, st) \<Rightarrow> (Err (''failed to inspect openvpn-connect package: '' @ e), st)
      | (Inr (success, _), st) \<Rightarrow>
          (if success then Ok () else Err ''could not produce the openvpn-connect package file list'', st))"

definition package_command :: "string \<Rightarrow> string \<Rightarrow> bool \<Rightarrow> bool \<Rightarrow> command" where
  "package_command workspace crate allow_dirty no_verify =
     \<lparr>cm_program = ''cargo'', cm_args = [''package'', ''--package'', crate] @
        (if allow_dirty then [''--allow-dirty''] else []) @ (if no_verify then [''--no-verify''] else []),
      cm_dir = Some workspace\<rparr>"

definition cargo_package ::
  "'w xtask_env \<Rightarrow> string \<Rightarrow> string \<Rightarrow> bool \<Rightarrow> bool \<Rightarrow> 'w xstate \<Rightarrow> (unit, string) result \<times> 'w xstate" where
  "cargo_package env workspace crate allow_dirty no_verify st =
     (case run_logged env (package_command workspace crate allow_dirty no_verify) st of
        (Inl e, st) \<Rightarrow> (Err (''failed to start cargo package: '' @ e), st)
      | (Inr (success, _), st) \<Rightarrow> (if success then Ok () else Err (''cargo package failed for '' @ crate), st))"

text \<open>\<open>str::trim_matches\<close> on one character.\<close>

definition trim_matches :: "char \<Rightarrow> string \<Rightarrow> string" where
  "trim_matches c s = rev (dropWhile (\<lambda>d. d = c) (rev (dropWhile (\<lambda>d. d = c) s)))"

definition version_in :: "string \<Rightarrow> string option" where
  "version_in manifest =
     (let section_lines = takeWhile (\<lambda>line. \<not> starts_with (trim line) ''['')
            (drop 1 (dropWhile (\<lambda>line. trim line \<noteq> ''[workspace.package]'') (str_lines manifest)))
      in case filter (\<lambda>line. starts_with (trim line) ''version = '') section_lines of
           [] \<Rightarrow> None
         | line # _ \<Rightarrow> map_option (trim_matches (CHR 0x22)) (strip_prefix (trim line) ''version = ''))"

definition workspace_version :: "'w xtask_env \<Rightarrow> string \<Rightarrow> (string, string) result" where
  "workspace_version env workspace =
     (case xe_read_to_string env (path_join workspace ''Cargo.toml'') of
        Inl e \<Rightarrow> Err (''failed to read workspace Cargo.toml: '' @ e)
      | Inr manifest \<Rightarrow>
          (case version_in manifest of None \<Rightarrow> Err ''workspace package version is missing'' | Some v \<Rightarrow> Ok v))"

definition native_artifact :: "string \<Rightarrow> bool" where
  "native_artifact entry \<longleftrightarrow>
     str_contains (to_ascii_lowercase entry) ''/prebuilt/''
     \<or> list_ex (ends_with (to_ascii_lowercase entry)) [''.a'', ''.so'', ''.dylib'', ''.dll'', ''.lib'']"

fun missing_source :: "string \<Rightarrow> string list \<Rightarrow> string list \<Rightarrow> string option" where
  "missing_source prefix entries [] = None"
| "missing_source prefix entries (source # sources) =
     (if prefix @ source \<in> set entries then missing_source prefix entries sources else Some source)"

definition audit_listing :: "string \<Rightarrow> string \<Rightarrow> (unit, string) result" where
  "audit_listing version listing =
     (case missing_source (''openvpn-connect-sys-'' @ version @ ''/'') (str_lines listing) REQUIRED_SYS_SOURCES of
        Some source \<Rightarrow> Err (''source package is missing '' @ source)
      | None \<Rightarrow>
          (case find native_artifact (str_lines listing) of
             Some entry \<Rightarrow> Err (''source package contains native artifact: '' @ entry)
           | None \<Rightarrow> Ok ()))"

definition archive_path :: "string \<Rightarrow> string \<Rightarrow> string" where
  "archive_path workspace version =
     path_join (path_join workspace ''target/package'') (''openvpn-connect-sys-'' @ version @ ''.crate'')"

definition tar_command :: "string \<Rightarrow> command" where
  "tar_command archive = \<lparr>cm_program = ''tar'', cm_args = [''-tzf'', archive], cm_dir = None\<rparr>"

definition audit_sys_archive :: "'w xtask_env \<Rightarrow> string \<Rightarrow> 'w xstate \<Rightarrow> (unit, string) result \<times> 'w xstate" where
  "audit_sys_archive env workspace st =
     (case workspace_version env workspace of
        Inl e \<Rightarrow> (Err e, st)
      | Inr version \<Rightarrow>
          (case run_logged env (tar_command (archive_path workspace version)) st of
             (Inl e, st) \<Rightarrow> (Err (''failed to inspect '' @ archive_path workspace version @ '': '' @ e), st)
           | (Inr (success, output), st) \<Rightarrow>
               if \<not> success then (Err (''could not read source archive '' @ archive_path workspace version), st)
               else
                 (case from_utf8 output of
                    Inl e \<Rightarrow> (Err (''archive listing was not UTF-8: '' @ e), st)
                  | Inr listing \<Rightarrow> (audit_listing version listing, st))))"

section \<open>The command line\<close>

datatype package_options = Help | Options bool bool

fun package_arguments :: "bool \<Rightarrow> bool \<Rightarrow> string list \<Rightarrow> (package_options, string) result" where
  "package_arguments allow_dirty no_verify [] = Ok (Options allow_dirty no_verify)"
| "package_arguments allow_dirty no_verify (argument # arguments) =
     (if argument = ''--allow-dirty'' then package_arguments True no_verify arguments
      else if argument = ''--no-verify'' then package_arguments allow_dirty True arguments
      else if argument = ''--help'' \<or> argument = ''-h'' then Ok Help
      else Err (''unknown package option: '' @ argument))"

definition package :: "'w xtask_env \<Rightarrow> string list \<Rightarrow> 'w xstate \<Rightarrow> (unit, string) result \<times> 'w xstate" where
  "package env arguments st =
     (case package_arguments False False arguments of
        Inl e \<Rightarrow> (Err e, st)
      | Inr Help \<Rightarrow> (Ok (), st)
      | Inr (Options allow_dirty no_verify) \<Rightarrow>
          (case xe_workspace_root env of
             None \<Rightarrow> (Err ''xtask is not inside the workspace'', st)
           | Some workspace \<Rightarrow>
               (case verify_submodules env workspace st of
                  (Inl e, st) \<Rightarrow> (Err e, st)
                | (Inr _, st) \<Rightarrow>
                    (case cargo_package env workspace ''openvpn-connect-sys'' allow_dirty no_verify st of
                       (Inl e, st) \<Rightarrow> (Err e, st)
                     | (Inr _, st) \<Rightarrow>
                         (case audit_sys_archive env workspace st of
                            (Inl e, st) \<Rightarrow> (Err e, st)
                          | (Inr _, st) \<Rightarrow> list_upper_crate env workspace allow_dirty st)))))"

definition xtask_run :: "'w xtask_env \<Rightarrow> string list \<Rightarrow> 'w xstate \<Rightarrow> (unit, string) result \<times> 'w xstate" where
  "xtask_run env arguments st =
     (case arguments of
        [] \<Rightarrow> (Ok (), st)
      | cmd # rest \<Rightarrow>
          if cmd = ''package'' then package env rest st
          else if cmd = ''--help'' \<or> cmd = ''-h'' then (Ok (), st)
          else (Err (''unknown command: '' @ cmd), st))"

section \<open>Lemmas\<close>

lemma run_logged_log: "run_logged env cmd st = (out, st') \<Longrightarrow> xs_log st' = xs_log st @ [(cmd, out)]"
  by (auto simp: run_logged_def split: prod.splits)

lemma missing_source_None: "missing_source prefix entries sources = None \<longleftrightarrow> (\<forall>s \<in> set sources. prefix @ s \<in> set entries)"
  by (induction sources) auto

text \<open>A listing passes the audit exactly when it has every required source and no native artifact.\<close>

definition listing_ok :: "string \<Rightarrow> string \<Rightarrow> bool" where
  "listing_ok version listing \<longleftrightarrow>
     (\<forall>s \<in> set REQUIRED_SYS_SOURCES. ''openvpn-connect-sys-'' @ version @ ''/'' @ s \<in> set (str_lines listing))
     \<and> (\<forall>entry \<in> set (str_lines listing). \<not> native_artifact entry)"

lemma audit_listing_Ok: "audit_listing version listing = Ok () \<longleftrightarrow> listing_ok version listing"
proof (cases "missing_source (''openvpn-connect-sys-'' @ version @ ''/'') (str_lines listing) REQUIRED_SYS_SOURCES")
  case None
  then have "\<forall>s \<in> set REQUIRED_SYS_SOURCES. ''openvpn-connect-sys-'' @ version @ ''/'' @ s \<in> set (str_lines listing)"
    by (simp only: missing_source_None append_assoc)
  then have "listing_ok version listing \<longleftrightarrow> find native_artifact (str_lines listing) = None"
    unfolding listing_ok_def find_None_iff by blast
  with None show ?thesis unfolding audit_listing_def
    by (cases "find native_artifact (str_lines listing)") simp_all
next
  case (Some source)
  then have "\<not> (\<forall>s \<in> set REQUIRED_SYS_SOURCES. ''openvpn-connect-sys-'' @ version @ ''/'' @ s \<in> set (str_lines listing))"
    using missing_source_None [of "''openvpn-connect-sys-'' @ version @ ''/''" "str_lines listing" REQUIRED_SYS_SOURCES]
    by (simp only: append_assoc option.distinct simp_thms)
  with Some show ?thesis unfolding audit_listing_def listing_ok_def by simp
qed

definition pinned :: "string \<times> string \<Rightarrow> string \<Rightarrow> bool" where
  "pinned m output \<longleftrightarrow> trim (from_utf8_lossy output) = snd m"

definition checked :: "string \<Rightarrow> string \<times> string \<Rightarrow> string \<Rightarrow> command \<times> command_output" where
  "checked workspace m output = (rev_parse workspace (fst m), Ok (True, output))"

lemma verify_submodules_from_Ok:
  "verify_submodules_from env workspace ms st = (Ok (), st') \<Longrightarrow>
     \<exists>outs. list_all2 pinned ms outs \<and> xs_log st' = xs_log st @ map2 (checked workspace) ms outs"
proof (induction ms arbitrary: st)
  case (Cons m ms)
  obtain r e where m: "m = (r, e)" by (cases m)
  obtain out mid where run: "run_logged env (rev_parse workspace r) st = (out, mid)" by fastforce
  from Cons.prems m run obtain o1 where out: "out = Ok (True, o1)" "trim (from_utf8_lossy o1) = e"
    and rest: "verify_submodules_from env workspace ms mid = (Ok (), st')"
    by (cases out) (auto split: prod.splits if_splits)
  from Cons.IH [OF rest] obtain outs where "list_all2 pinned ms outs" "xs_log st' = xs_log mid @ map2 (checked workspace) ms outs"
    by blast
  moreover have "pinned m o1" "(rev_parse workspace r, out) = checked workspace m o1"
    using out m by (simp_all add: pinned_def checked_def)
  ultimately show ?case
    using run_logged_log [OF run] by (intro exI [of _ "o1 # outs"]) simp
qed simp

lemma cargo_package_Ok:
  assumes "cargo_package env workspace crate d n st = (Ok (), st')"
  shows "\<exists>out. xs_log st' = xs_log st @ [(package_command workspace crate d n, Ok (True, out))]"
  using assms run_logged_log [of env "package_command workspace crate d n" st]
  by (auto simp: cargo_package_def split: prod.splits sum.splits if_splits)

lemma list_upper_crate_Ok:
  assumes "list_upper_crate env workspace d st = (Ok (), st')"
  shows "\<exists>out. xs_log st' = xs_log st @ [(list_command workspace d, Ok (True, out))]"
  using assms run_logged_log [of env "list_command workspace d" st]
  by (auto simp: list_upper_crate_def split: prod.splits sum.splits if_splits)

lemma audit_sys_archive_Ok:
  assumes "audit_sys_archive env workspace st = (Ok (), st')"
  shows "\<exists>version listing. workspace_version env workspace = Ok version \<and> listing_ok version listing
           \<and> xs_log st' = xs_log st @ [(tar_command (archive_path workspace version), Ok (True, listing))]"
proof -
  from assms obtain version where v: "workspace_version env workspace = Ok version"
    by (auto simp: audit_sys_archive_def split: sum.splits)
  obtain out mid where run: "run_logged env (tar_command (archive_path workspace version)) st = (out, mid)" by fastforce
  from assms v run obtain listing where "out = Ok (True, listing)" "audit_listing version listing = Ok ()" "st' = mid"
    by (auto simp: audit_sys_archive_def from_utf8_def split: sum.splits prod.splits if_splits)
  with v run_logged_log [OF run] show ?thesis by (auto simp: audit_listing_Ok)
qed

section \<open>The package command\<close>

text \<open>
  C23: A packaging run that succeeds has run, in this order and nothing else, the revision check of
  every submodule, the packaging of the sys crate, the listing of the archive of the workspace
  version and the listing of the upper crate, all of them successfully; every submodule stood at its
  pinned commit, and the archive listed every required source and no native artifact.
\<close>

theorem package_is_audited:
  assumes "xtask_run env (''package'' # arguments) st = (Ok (), st')" "package_arguments False False arguments \<noteq> Ok Help"
  shows "\<exists>workspace allow_dirty no_verify revisions version listing o1 o2.
     xe_workspace_root env = Some workspace
     \<and> package_arguments False False arguments = Ok (Options allow_dirty no_verify)
     \<and> list_all2 pinned SUBMODULES revisions
     \<and> workspace_version env workspace = Ok version \<and> listing_ok version listing
     \<and> xs_log st' = xs_log st @ map2 (checked workspace) SUBMODULES revisions @
         [(package_command workspace ''openvpn-connect-sys'' allow_dirty no_verify, Ok (True, o1)),
          (tar_command (archive_path workspace version), Ok (True, listing)),
          (list_command workspace allow_dirty, Ok (True, o2))]"
proof -
  from assms(2) assms(1) obtain d n ws s1 s2 s3
    where opts: "package_arguments False False arguments = Ok (Options d n)" "xe_workspace_root env = Some ws"
      and v: "verify_submodules_from env ws SUBMODULES st = (Ok (), s1)"
      and p: "cargo_package env ws ''openvpn-connect-sys'' d n s1 = (Ok (), s2)"
      and a: "audit_sys_archive env ws s2 = (Ok (), s3)"
      and l: "list_upper_crate env ws d s3 = (Ok (), st')"
    by (auto simp: xtask_run_def package_def verify_submodules_def
        split: sum.splits prod.splits option.splits package_options.splits)
  from verify_submodules_from_Ok [OF v] cargo_package_Ok [OF p] audit_sys_archive_Ok [OF a] list_upper_crate_Ok [OF l]
  show ?thesis using opts by fastforce
qed

text \<open>A workspace at the pinned commits whose archive holds exactly the required sources.\<close>

definition sample_listing :: string where
  "sample_listing = file_text (map (append ''openvpn-connect-sys-1/'') REQUIRED_SYS_SOURCES)"

definition sample_xtask :: "unit xtask_env" where
  "sample_xtask = \<lparr>xe_run = (\<lambda>cmd w.
       (Ok (True, if cm_program cmd = ''git'' then the (map_of (map (\<lambda>(r, e). (''/w/'' @ r, e)) SUBMODULES) (cm_args cmd ! 1))
                  else if cm_program cmd = ''tar'' then sample_listing else []), w)),
     xe_read_to_string = (\<lambda>p. Ok ([CHR ''['']  @ ''workspace.package]'' @ [newline] @ ''version = '' @ [CHR 0x22, CHR ''1'', CHR 0x22])),
     xe_workspace_root = Some ''/w''\<rparr>"

lemma sample_sources_clean:
  "list_all (\<lambda>e. newline \<notin> set e \<and> CHR 0x0D \<notin> set e \<and> is_ascii e) REQUIRED_SYS_SOURCES"
  by (simp add: REQUIRED_SYS_SOURCES_def is_ascii_def)

lemma sample_sources_no_artifact:
  "list_all (\<lambda>e. \<not> native_artifact (''openvpn-connect-sys-1/'' @ e)) REQUIRED_SYS_SOURCES"
  by (simp add: REQUIRED_SYS_SOURCES_def native_artifact_def to_ascii_lowercase_def to_lower_def ends_with_def
      str_contains_Cons str_contains_Nil starts_with_Cons)

lemma sample_listing_ok: "audit_listing ''1'' sample_listing = Ok ()" "from_utf8 sample_listing = Ok sample_listing"
proof -
  have lines: "str_lines sample_listing = map (append ''openvpn-connect-sys-1/'') REQUIRED_SYS_SOURCES"
    unfolding sample_listing_def
    by (rule str_lines_file_text) (use sample_sources_clean in \<open>auto simp: list_all_iff REQUIRED_SYS_SOURCES_def\<close>)
  show "audit_listing ''1'' sample_listing = Ok ()"
    using sample_sources_no_artifact unfolding audit_listing_Ok listing_ok_def lines list_all_iff by simp
  have "is_ascii sample_listing"
    using sample_sources_clean
    by (auto simp: sample_listing_def file_text_def is_ascii_def list_all_iff dest!: set_join_with [THEN subsetD])
  then show "from_utf8 sample_listing = Ok sample_listing" by (simp add: from_utf8_def utf8_valid_ascii)
qed

lemma sample_revision: "m \<in> set SUBMODULES \<Longrightarrow> trim (from_utf8_lossy (snd m)) = snd m"
proof -
  assume m: "m \<in> set SUBMODULES"
  then have "is_ascii (snd m)" by (auto simp: SUBMODULES_def is_ascii_def)
  moreover have "list_all (\<lambda>c. \<not> is_whitespace [c]) (snd m)"
    using m by (auto simp: SUBMODULES_def is_whitespace_byte)
  ultimately show ?thesis by (simp add: trim_id from_utf8_lossy_valid utf8_valid_ascii)
qed

lemma sample_submodules:
  "\<exists>mid. verify_submodules sample_xtask ''/w'' \<lparr>xs_world = (), xs_log = []\<rparr> = (Ok (), mid)"
  using sample_revision [of "SUBMODULES ! 0"] sample_revision [of "SUBMODULES ! 1"]
  by (simp add: verify_submodules_def SUBMODULES_def run_logged_def rev_parse_def sample_xtask_def path_join_def
      starts_with_def ends_with_def)

lemma sample_version: "workspace_version sample_xtask ''/w'' = Ok ''1''"
proof -
  have "version_in ([CHR ''['']  @ ''workspace.package]'' @ [newline] @ ''version = '' @ [CHR 0x22, CHR ''1'', CHR 0x22]) = Some ''1''"
    by code_simp
  then show ?thesis by (simp add: workspace_version_def sample_xtask_def)
qed

theorem package_is_audited_witness:
  "\<exists>st'. xtask_run sample_xtask [''package'', ''--no-verify''] \<lparr>xs_world = (), xs_log = []\<rparr> = (Ok (), st')
     \<and> length (xs_log st') = 5"
proof -
  from sample_submodules obtain mid
    where "verify_submodules sample_xtask ''/w'' \<lparr>xs_world = (), xs_log = []\<rparr> = (Ok (), mid)" by blast
  moreover have "cm_program (package_command w c d n) = ''cargo''" "cm_program (list_command w d) = ''cargo''"
    "cm_program (tar_command a) = ''tar''" for w c d n a
    by (simp_all add: package_command_def list_command_def tar_command_def)
  moreover have "xe_workspace_root sample_xtask = Some ''/w''" by (simp add: sample_xtask_def)
  ultimately obtain st'
    where run: "xtask_run sample_xtask [''package'', ''--no-verify''] \<lparr>xs_world = (), xs_log = []\<rparr> = (Ok (), st')"
    using sample_version sample_listing_ok
    by (fastforce simp: xtask_run_def package_def cargo_package_def audit_sys_archive_def list_upper_crate_def
        run_logged_def sample_xtask_def)
  obtain revisions where "list_all2 pinned SUBMODULES revisions" "length (xs_log st') = length (zip SUBMODULES revisions) + 3"
    using package_is_audited [OF run] by fastforce
  then have "length (xs_log st') = 5" by (auto dest!: list_all2_lengthD simp: SUBMODULES_def)
  with run show ?thesis by blast
qed

end
