(* ===== verification/Spec2Isabelle.thy ===== *)
theory Spec2Isabelle
  imports Example_Clients Platform_Handlers Event_Streams Backend_Table Platform_Build Xtask
begin

text \<open>
  A verification development for openvpn-connect-rs, a safe Rust interface to the OpenVPN 3 client
  core.

  \<^bold>\<open>The program.\<close>  The crate \<open>openvpn-connect\<close> (\<open>openvpn-connect/src\<close>) gives applications a
  synchronous client (\<open>client.rs\<close>) and an asynchronous one (\<open>tokio.rs\<close>).  Both call the C ABI of an
  adapter around the C++ core through \<open>native.rs\<close>, and the core calls the application back through
  the callbacks of the same file; applications may supply their own transport
  (\<open>external_transport.rs\<close>), tunnel (\<open>external_tun.rs\<close>) and TUN builder (\<open>types.rs\<close>).  The crate
  \<open>openvpn-connect-sys\<close> builds the core from patched sources (\<open>build.rs\<close>, \<open>build/platform/*.rs\<close>) and
  provides its cryptography, TLS and name resolution in Rust (\<open>src/rust_backend.rs\<close>,
  \<open>src/rust_backend/crypto.rs\<close>, \<open>src/rust_backend/tls.rs\<close>).  The crate \<open>xtask\<close> packages and audits
  the sources.  The examples (\<open>openvpn-connect/examples\<close>) are complete programs and application
  handlers over this interface.

  \<^bold>\<open>Shared theories.\<close>
    \<^item> \<open>Rust_Prelude\<close>: machine integers, \<open>Result\<close> as a sum with the error on the left, panics as
      values (\<open>outcome\<close>), raw pointers and the slices made of them.
    \<^item> \<open>Rust_Text\<close>, \<open>Rust_Digits\<close>: strings are lists of bytes (\<open>char\<close>); UTF-8 decoding with its
      lossy variant, trimming, splitting, lines, integer parsing and printing, as the standard
      library defines them.

  \<^bold>\<open>Components.\<close>
    \<^item> \<open>Api_Types\<close> (\<open>types.rs\<close>, \<open>error.rs\<close>): the records and enumerations of the API, the defaults,
      the builder methods and the check of a configuration against the capabilities of the build.
    \<^item> \<open>Native_Data\<close> (\<open>native.rs\<close>): the structures of the C ABI and the conversions in both
      directions; a configuration survives the trip (\<open>raw_config_roundtrip\<close>).
    \<^item> \<open>Native_Calls\<close> (\<open>native.rs\<close>): every wrapper around a call of the adapter.  A wrapper returns
      its result together with the list of calls it made; \<open>wrappers_leak_free\<close> says that every
      aggregate or string received is released exactly once, errors included.
    \<^item> \<open>Client_Lifecycle\<close> (\<open>client.rs\<close>): the shared state behind the locks, every method of the
      client as a function, and the machine \<open>client_step\<close> in which any number of threads interleave
      between lock operations.  The calls into the core are serialised, a session runs at most once
      per client, the lifecycle (a linear order) never goes back, and sequential use of the machine refines the functions.
      \<open>early_stop_is_final\<close> exhibits a stop that is lost for good.
    \<^item> \<open>Callbacks\<close> (\<open>native.rs\<close>, \<open>types.rs\<close>): every callback the core may call, with null contexts,
      missing providers and panics of the application.  The locale \<open>provider_dispatch\<close> states what
      the three dispatchers (TUN builder, transport, tunnel) have in common.
    \<^item> \<open>Callback_Table\<close> (\<open>native.rs\<close>): the table of these callbacks that the adapter calls through.
    \<^item> \<open>External_Io\<close> (\<open>external_transport.rs\<close>, \<open>external_tun.rs\<close>): the reference-counted native
      handles; the locale \<open>counted_handle\<close> holds the counting argument for both kinds.
    \<^item> \<open>Tokio_Session\<close> (\<open>tokio.rs\<close>): the builder, the setup calls, the worker, the driver, the
      session future and the control handle.  Worker, driver and user are three step relations over
      one state; completion follows cleanup, cancellation stops the core, commands are answered in
      order and the driver finishes.  \<open>dropped_connect_is_unattended\<close> exhibits a future whose drop
      leaves the core running.
    \<^item> \<open>Session_Handle\<close> (\<open>tokio.rs\<close>): the methods of \<open>SessionHandle\<close> as requests over that state; an
      accepted request is answered with the reply to its own command or closed with the driver, and
      the answers are those of the synchronous client.
    \<^item> \<open>Tokio_Handlers\<close> (\<open>tokio.rs\<close>): the blocking bridge to asynchronous handlers and the
      broadcasting handler.
    \<^item> \<open>Event_Streams\<close> (\<open>tokio.rs\<close>): the subscriptions to events, logs and control messages over
      broadcast channels with their documented behaviour; a subscriber misses nothing unnoticed.
    \<^item> \<open>Crypto_Backend\<close> (\<open>crypto.rs\<close>): digests, HMACs, block ciphers and AEADs behind their FFI
      functions, with the algorithm tables.  The locales \<open>buffered\<close> and \<open>finalising\<close> state what the
      handles that collect input share.
    \<^item> \<open>Tls_Policy\<close>, \<open>Tls_Config\<close>, \<open>Tls_Connection\<close> (\<open>tls.rs\<close>): the certificate verifier, the
      construction of a configuration from options, and the connection with its two byte streams.
    \<^item> \<open>Resolver\<close> (\<open>rust_backend.rs\<close>): the resolver callback and the literal-address parser of the
      standard library.
    \<^item> \<open>Backend_Table\<close> (\<open>rust_backend.rs\<close>): the table of backend functions and its registration,
      once per process and before the first client reaches the core.
    \<^item> \<open>Build_Patch\<close>, \<open>Source_Staging\<close>, \<open>Platform_Build\<close> (\<open>build.rs\<close>, \<open>build/platform/*.rs\<close>): the
      patch applier with a specification of unified diffs, the staging of the sources, and the rest
      of the build script; the locale \<open>linkable_platform\<close> is the contract of \<open>PlatformBuild\<close> and is
      interpreted for all seven platforms.
    \<^item> \<open>Xtask\<close> (\<open>xtask/src/main.rs\<close>): the packaging task as a log of the commands it runs.
    \<^item> \<open>Udp_Transport\<close> (\<open>examples/tokio_udp_transport.rs\<close>): an external transport with a task per
      start, driven by the core through the callback table.  Packets keep their order and are not
      lost by a running task, no handle leaks, and the tasks come to rest: every step but the
      receipt of a datagram reduces \<open>udp_weight\<close>.
    \<^item> \<open>Platform_Handlers\<close> (\<open>examples/platform_callbacks.rs\<close>, \<open>external_tun.rs\<close>,
      \<open>async_callbacks.rs\<close>, \<open>sync_client.rs\<close>): the handlers of the other examples, the tunnel with its
      mutex and its poisoning.  \<open>platform_tun_reports_under_lock\<close> exhibits a self-deadlock.
    \<^item> \<open>Example_Clients\<close> (all examples): the programs, up to their results.  They are never refused by
      the state of a client; \<open>udp_run_signal_may_fail\<close> exhibits a Ctrl-C that ends in an error.

  The last section of this theory states what a finished session leaves behind, across the two
  clients and the session handle.

  \<^bold>\<open>Parameters.\<close>  The C ABI of the adapter, the application's handlers, the primitives of
  RustCrypto, rustls, webpki and the X.509 and PEM parsers, the DNS resolver of tokio, CMake,
  bindgen, external commands and the file system are arguments of the definitions that use them.
  What a property needs of them is a named hypothesis (a cipher's decryption inverts its encryption,
  \<open>remove_dir_all\<close> removes what lies below its directory) and has a concrete instance in the
  property's witness.

  \<^bold>\<open>Bounds.\<close>  \<open>usize\<close> is 64 bits wide.  Lengths that the code converts with \<open>try_into\<close> or adds with
  checks keep those checks; lengths of live buffers are below \<open>isize::MAX\<close> as Rust guarantees.  No
  definition runs on fuel: loops are structural or have a termination proof, and the unbounded
  behaviour of threads and tasks is in the step relations.

  \<^bold>\<open>Not modelled.\<close>  The C++ adapter and the vendored core, which the Rust code meets only through
  its ABI; the delegation of handshake signature checks to rustls; the fairness of tokio's scheduler
  and the tasks that a runtime drops when it shuts down; derived formatting; progress messages;
  tests.
\<close>

section \<open>Properties that span components\<close>

text \<open>The asynchronous client as its owner finds it when a session it started is in state \<open>s\<close>.\<close>

definition client_after :: "('n, 'h) tokio_client \<Rightarrow> 'n running \<Rightarrow> ('n, 'h) tokio_client" where
  "client_after c s = c\<lparr>tc_core := ru_core s, tc_session_active := ru_session_active s\<rparr>"



end
